(* ===== verification/Prelude.thy ===== *)
theory Prelude
  imports Main "HOL-Library.AList" "HOL-Library.List_Lexorder" "HOL-Library.Char_ord"
    "HOL-Library.Multiset"
begin

text \<open>
  Shared vocabulary of the development: the Go values the operator handles
  (slices and maps that may be nil, strings), the standard-library string
  routines the sources call, and the generic lemmas on lists and association
  lists that the component theories use.

  A Go slice or map is an \<open>option\<close>: \<open>None\<close> is nil, \<open>Some\<close> an allocated value.
  A map is an association list; reading takes the first entry of a key, writing
  goes through \<open>AList.update\<close>, so a map built by the model has one entry per key.
\<close>

named_theorems go_simps \<open>unfolding rules for the Go value operations\<close>
named_theorems lookup_simps \<open>what a lookup returns after a map operation\<close>

section \<open>Slices and maps\<close>

type_synonym 'a slice = "'a list option"
type_synonym 'v gomap = "(string \<times> 'v) list option"
type_synonym labels = "string gomap"

definition elems :: "'a list option \<Rightarrow> 'a list" where
  "elems s = (case s of None \<Rightarrow> [] | Some xs \<Rightarrow> xs)"

definition mlookup :: "'v gomap \<Rightarrow> string \<Rightarrow> 'v option" where
  "mlookup m k = map_of (elems m) k"

text \<open>\<open>m[k]\<close> of a \<open>map[string]string\<close>: the zero value for a missing key.\<close>

definition mget :: "labels \<Rightarrow> string \<Rightarrow> string" where
  "mget m k = (case mlookup m k of None \<Rightarrow> '''' | Some v \<Rightarrow> v)"

definition mput :: "string \<Rightarrow> 'v \<Rightarrow> 'v gomap \<Rightarrow> 'v gomap" where
  "mput k v m = Some (AList.update k v (elems m))"

text \<open>\<open>maps.Copy(dst, src)\<close>, also the loop \<open>for k, v := range src { dst[k] = v }\<close>.\<close>

definition mcopy :: "'v gomap \<Rightarrow> 'v gomap \<Rightarrow> 'v gomap" where
  "mcopy dst src = Some (foldr (\<lambda>(k, v) m. AList.update k v m) (elems src) (elems dst))"

text \<open>\<open>reflect.DeepEqual\<close> tells a nil map from an empty one, \<open>maps.Equal\<close> does not.\<close>

definition entries_equal :: "(string \<times> 'v) list \<Rightarrow> (string \<times> 'v) list \<Rightarrow> bool" where
  "entries_equal a b \<longleftrightarrow> list_all (\<lambda>k. map_of a k = map_of b k) (map fst a @ map fst b)"

definition maps_equal :: "'v gomap \<Rightarrow> 'v gomap \<Rightarrow> bool" where
  "maps_equal a b \<longleftrightarrow> entries_equal (elems a) (elems b)"

definition deep_equal_map :: "'v gomap \<Rightarrow> 'v gomap \<Rightarrow> bool" where
  "deep_equal_map a b \<longleftrightarrow> (a = None \<longleftrightarrow> b = None) \<and> maps_equal a b"

lemma elems_simps [simp]: "elems None = []" "elems (Some xs) = xs"
  by (simp_all add: elems_def)

lemma case_option_same [simp]: "(case x of None \<Rightarrow> None | Some v \<Rightarrow> Some v) = x"
  by (cases x) simp_all

lemma mlookup_None [simp]: "mlookup None k = None"
  by (simp add: mlookup_def)

lemma mlookup_no_elems: "elems m = [] \<Longrightarrow> mlookup m k = None"
  by (simp add: mlookup_def)

lemma mlookup_empty [simp]: "mlookup (Some []) k = None"
  by (simp add: mlookup_def)

lemma map_of_foldr_update:
  "map_of (foldr (\<lambda>(k, v) m. AList.update k v m) xs ys) = map_of ys ++ map_of xs"
proof (induction xs)
  case (Cons x xs)
  then show ?case by (cases x) (auto simp: update_conv' map_add_def fun_eq_iff)
qed simp

lemma mlookup_mput [simp, lookup_simps]:
  "mlookup (mput k v m) k' = (if k' = k then Some v else mlookup m k')"
  by (simp add: mlookup_def mput_def update_conv)

lemma mlookup_mcopy [simp, lookup_simps]:
  "mlookup (mcopy dst src) k =
     (case mlookup src k of None \<Rightarrow> mlookup dst k | Some v \<Rightarrow> Some v)"
  by (simp add: mlookup_def mcopy_def map_of_foldr_update map_add_def split: option.splits)

lemma mput_not_None [simp]: "mput k v m \<noteq> None"
  by (simp add: mput_def)

lemma mcopy_not_None [simp]: "mcopy a b \<noteq> None"
  by (simp add: mcopy_def)

lemma entries_equal_iff: "entries_equal a b \<longleftrightarrow> map_of a = map_of b"
proof
  assume eq: "entries_equal a b"
  show "map_of a = map_of b"
  proof
    fix k
    show "map_of a k = map_of b k"
    proof (cases "k \<in> set (map fst a @ map fst b)")
      case True
      with eq show ?thesis unfolding entries_equal_def list_all_iff by blast
    next
      case False
      then have "map_of a k = None" "map_of b k = None"
        by (auto simp: map_of_eq_None_iff)
      then show ?thesis by simp
    qed
  qed
qed (simp add: entries_equal_def list_all_iff)

lemma maps_equal_iff: "maps_equal a b \<longleftrightarrow> mlookup a = mlookup b"
  by (simp add: maps_equal_def entries_equal_iff mlookup_def fun_eq_iff)

lemma deep_equal_map_refl [simp]: "deep_equal_map a a"
  by (simp add: deep_equal_map_def maps_equal_iff)

lemma maps_equal_refl [simp]: "maps_equal a a"
  by (simp add: maps_equal_iff)

lemma deep_equal_map_lookup: "deep_equal_map a b \<Longrightarrow> mlookup a = mlookup b"
  by (simp add: deep_equal_map_def maps_equal_iff)

section \<open>Override interfaces\<close>

text \<open>
  What every merge routine of the operator promises (container arguments,
  environment variables, labels, resource lists): a lookup in the merged value
  sees the override first and the source second.  \<open>good\<close> holds of the keys the
  routine honours.
\<close>

locale override_merge =
  fixes look :: "'c \<Rightarrow> 'k \<Rightarrow> 'v option"
    and merge :: "'c \<Rightarrow> 'c \<Rightarrow> 'c"
    and good :: "'k \<Rightarrow> bool"
  assumes look_merge:
    "good k \<Longrightarrow> look (merge a b) k = (case look b k of None \<Rightarrow> look a k | Some v \<Rightarrow> Some v)"
begin

lemma override_wins: "good k \<Longrightarrow> look b k = Some v \<Longrightarrow> look (merge a b) k = Some v"
  by (simp add: look_merge)

lemma source_kept: "good k \<Longrightarrow> look b k = None \<Longrightarrow> look (merge a b) k = look a k"
  by (simp add: look_merge)

lemma merge_idem_look: "good k \<Longrightarrow> look (merge (merge a b) b) k = look (merge a b) k"
  by (simp add: look_merge split: option.splits)

lemma merge_assoc_look:
  "good k \<Longrightarrow> look (merge (merge a b) c) k = look (merge a (merge b c)) k"
  by (simp add: look_merge split: option.splits)

lemma merge_absorb_look:
  "good k \<Longrightarrow> look b k \<noteq> None \<Longrightarrow> look (merge a b) k = look (merge a' b) k"
  by (auto simp: look_merge split: option.splits)

text \<open>A chain of overrides: the last one that has the key decides.\<close>

lemma look_merge_chain:
  "good k \<Longrightarrow> look (foldl merge a bs) k =
     (case find (\<lambda>b. look b k \<noteq> None) (rev bs) of None \<Rightarrow> look a k | Some b \<Rightarrow> look b k)"
proof (induction bs rule: rev_induct)
  case (snoc b bs)
  then show ?case by (auto simp: look_merge split: option.splits)
qed simp

end

interpretation map_copy: override_merge mlookup mcopy "\<lambda>_. True"
  by unfold_locales simp

section \<open>Strings\<close>

text \<open>\<open>strings.Split\<close> on a one-character separator and \<open>strings.Join\<close>.\<close>

fun split_on :: "char \<Rightarrow> string \<Rightarrow> string list" where
  "split_on c [] = [[]]"
| "split_on c (x # xs) =
     (if x = c then [] # split_on c xs
      else (case split_on c xs of [] \<Rightarrow> [[x]] | p # ps \<Rightarrow> (x # p) # ps))"

fun join :: "string \<Rightarrow> string list \<Rightarrow> string" where
  "join sep [] = []"
| "join sep [s] = s"
| "join sep (s # ss) = s @ sep @ join sep ss"

text \<open>\<open>strings.Contains\<close>, \<open>strings.ToLower\<close> (ASCII) and decimal printing (\<open>%d\<close>).\<close>

fun starts_with :: "string \<Rightarrow> string \<Rightarrow> bool" where
  "starts_with [] s = True"
| "starts_with (p # ps) [] = False"
| "starts_with (p # ps) (x # xs) = (p = x \<and> starts_with ps xs)"

fun contains :: "string \<Rightarrow> string \<Rightarrow> bool" where
  "contains [] sub = (sub = [])"
| "contains (x # xs) sub = (starts_with sub (x # xs) \<or> contains xs sub)"

definition lower_char :: "char \<Rightarrow> char" where
  "lower_char c = (if of_char c \<ge> (65 :: nat) \<and> of_char c \<le> (90 :: nat)
                   then char_of (of_char c + (32 :: nat)) else c)"

definition to_lower :: "string \<Rightarrow> string" where
  "to_lower s = map lower_char s"

fun show_nat :: "nat \<Rightarrow> string" where
  "show_nat n = (if n < 10 then [char_of (48 + n)]
                 else show_nat (n div 10) @ [char_of (48 + n mod 10)])"

declare show_nat.simps [simp del]

definition show_int :: "int \<Rightarrow> string" where
  "show_int i = (if i < 0 then ''-'' @ show_nat (nat (- i)) else show_nat (nat i))"

text \<open>\<open>%q\<close> on printable ASCII text.\<close>

definition quoted :: "string \<Rightarrow> string" where
  "quoted s = CHR 0x22 # concat (map (\<lambda>c. if c = CHR 0x22 \<or> c = CHR 0x5C then [CHR 0x5C, c] else [c]) s)
     @ [CHR 0x22]"

lemma split_on_not_Nil [simp]: "split_on c s \<noteq> []"
  by (induction s) (auto split: list.splits)

lemma split_on_absent: "c \<notin> set s \<Longrightarrow> split_on c s = [s]"
  by (induction s) auto

lemma split_on_append_sep:
  "c \<notin> set k \<Longrightarrow> split_on c (k @ c # v) = k # split_on c v"
  by (induction k) auto

lemma hd_split_on_no_sep: "c \<notin> set (hd (split_on c s))"
  by (induction s) (auto split: list.splits)

lemma join_Cons_not_Nil: "ss \<noteq> [] \<Longrightarrow> join sep (s # ss) = s @ sep @ join sep ss"
  by (cases ss) auto

text \<open>Splitting and joining on the same separator gives the string back.\<close>

lemma join_split_on: "join [c] (split_on c s) = s"
proof (induction s)
  case Nil
  show ?case by simp
next
  case (Cons x s)
  obtain p ps where ps: "split_on c s = p # ps"
    by (cases "split_on c s") auto
  show ?case
  proof (cases "x = c")
    case True
    with Cons.IH ps show ?thesis by simp
  next
    case False
    with Cons.IH ps show ?thesis by (cases ps) auto
  qed
qed

section \<open>Sorting\<close>

text \<open>\<open>sort.Strings\<close>: the result depends only on the multiset of its input.\<close>

lemma sort_mset_cong: "mset xs = mset ys \<Longrightarrow> sort xs = sort (ys :: 'a :: linorder list)"
  by (metis mset_sort properties_for_sort sorted_sort)

section \<open>Lists with one entry per key\<close>

lemma map_of_filter_key:
  "map_of (filter (\<lambda>(k, v). P k) xs) k = (if P k then map_of xs k else None)"
  by (induction xs) auto

lemma distinct_map_fst_foldr_update:
  "distinct (map fst ys) \<Longrightarrow>
   distinct (map fst (foldr (\<lambda>(k, v) m. AList.update k v m) xs ys))"
  by (induction xs) (auto simp: distinct_update)

end
