(* ===== verification/Args.thy ===== *)
theory Args
  imports Prelude
begin

text \<open>
  Container arguments: \<open>pkg/controller/common/container_args.go\<close>.  An argument is
  \<open>key\<close> or \<open>key=value\<close>; every override of the operator (user overrides, log level,
  TLS flags, the unsupported overrides) goes through \<open>MergeContainerArgs\<close>.
  The Go map that collects the arguments is an association list; the order in
  which the Go runtime ranges over it is arbitrary, which the model covers by
  the lemma that the result does not depend on it.
\<close>

definition argKeyValSeparator :: char where
  "argKeyValSeparator = CHR ''=''"

fun ParseArgMap :: "(string \<times> string) list \<Rightarrow> string list \<Rightarrow> (string \<times> string) list" where
  "ParseArgMap argMap [] = argMap"
| "ParseArgMap argMap (arg # args) =
     (let splitted = split_on argKeyValSeparator arg
      in if length splitted > 0 \<and> arg \<noteq> ''''
         then ParseArgMap
                (AList.update (hd splitted) (join [argKeyValSeparator] (tl splitted)) argMap) args
         else ParseArgMap argMap args)"

text \<open>The loop body that prints one entry, and the loop over a given iteration order.\<close>

definition renderArg :: "string \<times> string \<Rightarrow> string" where
  "renderArg e = (case e of (key, val) \<Rightarrow>
     if length val > 0 then key @ [argKeyValSeparator] @ val else key)"

definition renderArgs :: "(string \<times> string) list \<Rightarrow> string list" where
  "renderArgs destArgMap = sort (map renderArg destArgMap)"

definition MergeContainerArgs :: "string list \<Rightarrow> string list \<Rightarrow> string list" where
  "MergeContainerArgs sourceArgs overrideArgs =
     (let destArgMap = ParseArgMap (ParseArgMap [] sourceArgs) overrideArgs
      in renderArgs destArgMap)"

definition StripArgsByKeys :: "string list \<Rightarrow> string list \<Rightarrow> string list" where
  "StripArgsByKeys args keys =
     (if length keys = 0 then args
      else filter (\<lambda>arg. \<not> List.member keys (hd (split_on argKeyValSeparator arg))) args)"

text \<open>A Go set is the list of its elements, without repetitions.\<close>

definition ArgKeysSet :: "string list \<Rightarrow> string list" where
  "ArgKeysSet keys = remdups keys"

subsection \<open>What an argument list says of a key\<close>

definition argKey :: "string \<Rightarrow> string" where
  "argKey arg = hd (split_on argKeyValSeparator arg)"

definition argValue :: "string \<Rightarrow> string" where
  "argValue arg = join [argKeyValSeparator] (tl (split_on argKeyValSeparator arg))"

text \<open>The last non-empty argument with the key decides, as in a command line.\<close>

fun argLookup :: "string list \<Rightarrow> string \<Rightarrow> string option" where
  "argLookup [] k = None"
| "argLookup (arg # args) k =
     (case argLookup args k of
        Some v \<Rightarrow> Some v
      | None \<Rightarrow> if arg \<noteq> '''' \<and> argKey arg = k then Some (argValue arg) else None)"

lemma argKey_no_sep: "argKeyValSeparator \<notin> set (argKey arg)"
  by (simp add: argKey_def hd_split_on_no_sep)

lemma argKey_render: "argKeyValSeparator \<notin> set k \<Longrightarrow> argKey (renderArg (k, v)) = k"
  by (simp add: argKey_def renderArg_def split_on_append_sep split_on_absent)

lemma argValue_render: "argKeyValSeparator \<notin> set k \<Longrightarrow> argValue (renderArg (k, v)) = v"
  by (simp add: argValue_def renderArg_def split_on_append_sep split_on_absent join_split_on)

lemma render_empty_iff: "renderArg (k, v) = '''' \<longleftrightarrow> k = '''' \<and> v = ''''"
  by (simp add: renderArg_def)

lemma render_argKey_argValue:
  "arg \<noteq> '''' \<Longrightarrow> renderArg (argKey arg, argValue arg) =
     (if argValue arg = '''' then argKey arg else arg)"
proof -
  have "join [argKeyValSeparator] (split_on argKeyValSeparator arg) = arg"
    by (rule join_split_on)
  moreover obtain p ps where "split_on argKeyValSeparator arg = p # ps"
    by (cases "split_on argKeyValSeparator arg") auto
  ultimately show ?thesis
    by (cases ps) (auto simp: renderArg_def argKey_def argValue_def)
qed

lemma map_of_ParseArgMap:
  "map_of (ParseArgMap m args) k =
     (case argLookup args k of None \<Rightarrow> map_of m k | Some v \<Rightarrow> Some v)"
  by (induction args arbitrary: m)
     (auto simp: Let_def update_conv' argKey_def argValue_def split: option.splits)

lemma distinct_keys_ParseArgMap:
  "distinct (map fst m) \<Longrightarrow> distinct (map fst (ParseArgMap m args))"
  by (induction args arbitrary: m) (auto simp: Let_def distinct_update)

lemma keys_ParseArgMap:
  "fst ` set (ParseArgMap m args) = fst ` set m \<union> argKey ` {a \<in> set args. a \<noteq> ''''}"
proof (induction args arbitrary: m)
  case (Cons a args)
  then show ?case by (auto simp: Let_def argKey_def dom_update)
qed simp

lemma keys_no_sep_ParseArgMap:
  "\<forall>k \<in> fst ` set m. argKeyValSeparator \<notin> set k \<Longrightarrow>
   \<forall>k \<in> fst ` set (ParseArgMap m args). argKeyValSeparator \<notin> set k"
  unfolding keys_ParseArgMap using argKey_no_sep by auto

lemma argLookup_eq_Some_iff:
  assumes "distinct (map argKey args)"
  shows "argLookup args k = Some v \<longleftrightarrow>
         (\<exists>a \<in> set args. a \<noteq> '''' \<and> argKey a = k \<and> argValue a = v)"
proof -
  have none: "argKey ` set as \<inter> {k} = {} \<Longrightarrow> argLookup as k = None" for as
    by (induction as) auto
  show ?thesis using assms
  proof (induction args)
    case (Cons a args)
    show ?case
    proof (cases "argKey a = k")
      case True
      with Cons.prems have "argLookup args k = None" by (intro none) auto
      moreover have "k \<notin> argKey ` set args"
        using True Cons.prems by auto
      ultimately show ?thesis using True by (auto simp: image_iff)
    next
      case False
      with Cons show ?thesis by (auto split: option.splits)
    qed
  qed simp
qed

text \<open>A table of arguments: keys are distinct and carry no separator.\<close>

definition argTable :: "(string \<times> string) list \<Rightarrow> bool" where
  "argTable m \<longleftrightarrow> distinct (map fst m) \<and> (\<forall>k \<in> fst ` set m. argKeyValSeparator \<notin> set k)"

lemma argTable_ParseArgMap: "argTable m \<Longrightarrow> argTable (ParseArgMap m args)"
  unfolding argTable_def
  by (intro conjI distinct_keys_ParseArgMap keys_no_sep_ParseArgMap) simp_all

lemma argTable_Nil [simp]: "argTable []"
  by (simp add: argTable_def)

lemma map_argKey_render: "argTable m \<Longrightarrow> map argKey (map renderArg m) = map fst m"
  by (auto simp: argTable_def argKey_render)

lemma distinct_keys_renderArgs: "argTable m \<Longrightarrow> distinct (map argKey (renderArgs m))"
proof -
  assume t: "argTable m"
  have "mset (map argKey (renderArgs m)) = mset (map argKey (map renderArg m))"
    by (simp add: renderArgs_def multiset.map_comp)
  also have "\<dots> = mset (map fst m)"
    by (simp only: map_argKey_render [OF t])
  finally have "mset (map argKey (renderArgs m)) = mset (map fst m)" .
  then show ?thesis
    using t unfolding argTable_def by (metis mset_eq_imp_distinct_iff)
qed

subsection \<open>Canonical form\<close>

text \<open>Two tables with the same bindings print alike: the iteration order is immaterial.\<close>

lemma renderArgs_cong:
  assumes "argTable m" "argTable m'" "map_of m = map_of m'"
  shows "renderArgs m = renderArgs m'"
proof -
  have "(k, v) \<in> set m \<longleftrightarrow> map_of m k = Some v" "(k, v) \<in> set m' \<longleftrightarrow> map_of m' k = Some v" for k v
    using assms(1,2) by (simp_all add: argTable_def)
  then have "set m = set m'" using assms(3) by auto
  moreover have "distinct m" "distinct m'"
    using assms by (auto simp: argTable_def distinct_map)
  ultimately have "mset m = mset m'"
    by (simp add: set_eq_iff_mset_eq_distinct)
  then show ?thesis
    unfolding renderArgs_def by (intro sort_mset_cong) simp
qed

lemma argLookup_renderArgs_iff:
  assumes "argTable m" "k \<noteq> '''' \<or> ('''', '''') \<notin> set m"
  shows "argLookup (renderArgs m) k = Some v \<longleftrightarrow> map_of m k = Some v"
proof -
  have "argLookup (renderArgs m) k = Some v \<longleftrightarrow>
        (\<exists>a \<in> set (renderArgs m). a \<noteq> '''' \<and> argKey a = k \<and> argValue a = v)"
    by (rule argLookup_eq_Some_iff [OF distinct_keys_renderArgs [OF assms(1)]])
  also have "\<dots> \<longleftrightarrow> (k, v) \<in> set m"
    using assms by (force simp: renderArgs_def argTable_def argKey_render argValue_render
        render_empty_iff)
  also have "\<dots> \<longleftrightarrow> map_of m k = Some v"
    using assms by (simp add: argTable_def)
  finally show ?thesis .
qed

lemma argLookup_renderArgs:
  assumes "argTable m" "k \<noteq> '''' \<or> ('''', '''') \<notin> set m"
  shows "argLookup (renderArgs m) k = map_of m k"
  using argLookup_renderArgs_iff [OF assms] by (metis not_Some_eq)

lemma argLookup_MergeContainerArgs:
  "k \<noteq> '''' \<Longrightarrow> argLookup (MergeContainerArgs src ovr) k =
     (case argLookup ovr k of None \<Rightarrow> argLookup src k | Some v \<Rightarrow> Some v)"
  by (simp add: MergeContainerArgs_def argLookup_renderArgs argTable_ParseArgMap
      map_of_ParseArgMap split: option.splits)

interpretation args: override_merge argLookup MergeContainerArgs "\<lambda>k. k \<noteq> ''''"
  by unfold_locales (rule argLookup_MergeContainerArgs)

lemma argLookup_empty_key:
  "''='' \<notin> set args \<Longrightarrow> argLookup args '''' \<noteq> Some ''''"
proof (induction args)
  case (Cons a args)
  have "a \<noteq> '''' \<Longrightarrow> argKey a = '''' \<Longrightarrow> argValue a = '''' \<Longrightarrow> a = ''=''"
    by (cases a) (auto simp: argKey_def argValue_def argKeyValSeparator_def join_split_on
        split: if_splits list.splits)
  with Cons show ?case by (auto split: option.splits)
qed simp

lemma MergeContainerArgs_eqI:
  assumes "\<And>k. (case argLookup b k of None \<Rightarrow> argLookup a k | Some v \<Rightarrow> Some v) =
               (case argLookup d k of None \<Rightarrow> argLookup c k | Some v \<Rightarrow> Some v)"
  shows "MergeContainerArgs a b = MergeContainerArgs c d"
  unfolding MergeContainerArgs_def Let_def
proof (rule renderArgs_cong)
  show "map_of (ParseArgMap (ParseArgMap [] a) b) = map_of (ParseArgMap (ParseArgMap [] c) d)"
  proof
    fix k
    show "map_of (ParseArgMap (ParseArgMap [] a) b) k = map_of (ParseArgMap (ParseArgMap [] c) d) k"
      using assms [of k] by (simp add: map_of_ParseArgMap cong: option.case_cong)
  qed
qed (simp_all add: argTable_ParseArgMap)

lemma sorted_MergeContainerArgs: "sorted (MergeContainerArgs src ovr)"
  by (simp add: MergeContainerArgs_def renderArgs_def Let_def)

lemma distinct_keys_MergeContainerArgs: "distinct (map argKey (MergeContainerArgs src ovr))"
  unfolding MergeContainerArgs_def Let_def
  by (intro distinct_keys_renderArgs argTable_ParseArgMap) simp

lemma argLookup_Merge_full:
  assumes "''='' \<notin> set src" "''='' \<notin> set ovr"
  shows "argLookup (MergeContainerArgs src ovr) k =
     (case argLookup ovr k of None \<Rightarrow> argLookup src k | Some v \<Rightarrow> Some v)"
proof -
  let ?m = "ParseArgMap (ParseArgMap [] src) ovr"
  have t: "argTable ?m" by (simp add: argTable_ParseArgMap)
  have "map_of ?m '''' \<noteq> Some ''''"
    using argLookup_empty_key [OF assms(1)] argLookup_empty_key [OF assms(2)]
    by (auto simp add: map_of_ParseArgMap split: option.splits)
  then have "('''', '''') \<notin> set ?m"
    using t by (simp add: argTable_def)
  then have "argLookup (renderArgs ?m) k = map_of ?m k"
    using t by (simp add: argLookup_renderArgs)
  then show ?thesis
    by (simp add: MergeContainerArgs_def map_of_ParseArgMap split: option.splits)
qed

subsection \<open>Stripping\<close>

lemma StripArgsByKeys_filter:
  "StripArgsByKeys args keys = filter (\<lambda>a. argKey a \<notin> set keys) args"
  by (auto simp: StripArgsByKeys_def argKey_def)

lemma argLookup_filter_key:
  "argLookup (filter (\<lambda>a. P (argKey a)) args) k = (if P k then argLookup args k else None)"
  by (induction args) (auto split: option.splits)

lemma argLookup_Strip [lookup_simps]:
  "argLookup (StripArgsByKeys args keys) k =
     (if k \<in> set keys then None else argLookup args k)"
  by (simp add: StripArgsByKeys_filter argLookup_filter_key [of "\<lambda>k. k \<notin> set keys"])

lemma set_ArgKeysSet [simp]: "set (ArgKeysSet keys) = set keys"
  by (simp add: ArgKeysSet_def)

subsection \<open>Properties\<close>

text \<open>
  C1.  Merging container arguments: the result is sorted, has at most one
  argument per key, and what it says of a key is what the override list says,
  or else what the source list says (keys are non-empty: a lone \<open>=\<close> is lost).
\<close>

theorem MergeContainerArgs_correct:
  "sorted (MergeContainerArgs src ovr) \<and>
   distinct (map argKey (MergeContainerArgs src ovr)) \<and>
   (\<forall>k. k \<noteq> '''' \<longrightarrow> argLookup (MergeContainerArgs src ovr) k =
      (case argLookup ovr k of None \<Rightarrow> argLookup src k | Some v \<Rightarrow> Some v))"
  using sorted_MergeContainerArgs distinct_keys_MergeContainerArgs args.look_merge by blast

theorem MergeContainerArgs_correct_witness:
  "argLookup (MergeContainerArgs [''--v=2'', ''--leader-elect''] [''--v=5'']) ''--v'' = Some ''5''"
proof -
  have "argLookup [''--v=5''] ''--v'' = Some ''5''" by code_simp
  then show ?thesis
    using MergeContainerArgs_correct [of "[''--v=2'', ''--leader-elect'']" "[''--v=5'']"] by simp
qed

text \<open>
  C2.  The iteration order of the Go map does not matter: any enumeration of
  the collected entries prints the list the model computes.
\<close>

theorem MergeContainerArgs_order_independent:
  assumes "mset entries = mset (ParseArgMap (ParseArgMap [] src) ovr)"
  shows "renderArgs entries = MergeContainerArgs src ovr"
  unfolding MergeContainerArgs_def Let_def renderArgs_def
  using assms by (intro sort_mset_cong) simp

theorem MergeContainerArgs_order_independent_witness:
  "renderArgs [(''--b'', ''''), (''--a'', ''1'')] = MergeContainerArgs [''--a=1''] [''--b'']"
  by (rule MergeContainerArgs_order_independent) code_simp

text \<open>
  Applying the same override twice is applying it once, unless an argument
  is the degenerate \<open>=\<close>: reconciling an already merged deployment changes nothing.
\<close>

theorem MergeContainerArgs_idempotent:
  assumes "''='' \<notin> set src" "''='' \<notin> set ovr"
  shows "MergeContainerArgs (MergeContainerArgs src ovr) ovr = MergeContainerArgs src ovr"
  by (rule MergeContainerArgs_eqI) (simp add: argLookup_Merge_full [OF assms] split: option.splits)

theorem MergeContainerArgs_idempotent_witness:
  "MergeContainerArgs (MergeContainerArgs [''--v=2''] [''--v=4'', ''--x'']) [''--v=4'', ''--x'']
   = MergeContainerArgs [''--v=2''] [''--v=4'', ''--x'']"
  by (rule MergeContainerArgs_idempotent) simp_all

end
