(* ===== verification/Recon_Errors.thy ===== *)
theory Recon_Errors
  imports Prelude
begin

text \<open>
  Errors: \<open>pkg/controller/common/errors.go\<close> and what it uses of \<open>errors\<close>,
  \<open>fmt.Errorf\<close>, \<open>apimachinery/pkg/api/errors\<close> and \<open>apimachinery/pkg/util/errors\<close>.

  A Go \<open>error\<close> is an optional \<open>goerror\<close>, \<open>None\<close> being nil.  \<open>ErrWrap p e\<close> is
  \<open>fmt.Errorf("p%w", e)\<close>, \<open>ErrAPI\<close> a \<open>StatusError\<close> of the API server with its reason
  and HTTP code, \<open>ErrReconcile\<close> the operator's \<open>*ReconcileError\<close> and
  \<open>ErrAggregate\<close> the result of \<open>utilerrors.NewAggregate\<close>, which \<open>errors.As\<close> does
  not look into.
\<close>

datatype ErrorReason = IrrecoverableError | RetryRequiredError | MultipleInstanceError

datatype goerror =
    ErrNew string
  | ErrWrap string goerror
  | ErrAPI string int string
  | ErrReconcile ErrorReason string goerror
  | ErrAggregate "goerror list"

subsection \<open>Texts\<close>

fun first_occurrences :: "string list \<Rightarrow> string list \<Rightarrow> string list" where
  "first_occurrences seen [] = []"
| "first_occurrences seen (s # ss) =
     (if List.member seen s then first_occurrences seen ss
      else s # first_occurrences (s # seen) ss)"

fun error_text :: "goerror \<Rightarrow> string" and agg_texts :: "goerror list \<Rightarrow> string list" where
  "error_text (ErrNew s) = s"
| "error_text (ErrWrap p e) = p @ error_text e"
| "error_text (ErrAPI r c m) = m"
| "error_text (ErrReconcile r m e) = m @ '': '' @ error_text e"
| "error_text (ErrAggregate es) =
     (case es of
        [] \<Rightarrow> ''''
      | [e] \<Rightarrow> error_text e
      | _ \<Rightarrow> (case first_occurrences [] (agg_texts es) of
                [m] \<Rightarrow> m
              | ms \<Rightarrow> ''['' @ join '', '' ms @ '']''))"
| "agg_texts [] = []"
| "agg_texts (e # es) =
     (case e of ErrAggregate fs \<Rightarrow> agg_texts fs | _ \<Rightarrow> [error_text e]) @ agg_texts es"

subsection \<open>Error chains\<close>

text \<open>\<open>errors.As\<close> for \<open>*ReconcileError\<close> and for \<open>APIStatus\<close>: the first match along \<open>Unwrap\<close>.\<close>

fun as_reconcile :: "goerror \<Rightarrow> (ErrorReason \<times> string \<times> goerror) option" where
  "as_reconcile (ErrReconcile r m e) = Some (r, m, e)"
| "as_reconcile (ErrWrap p e) = as_reconcile e"
| "as_reconcile _ = None"

fun as_status :: "goerror \<Rightarrow> (string \<times> int) option" where
  "as_status (ErrAPI r c m) = Some (r, c)"
| "as_status (ErrWrap p e) = as_status e"
| "as_status (ErrReconcile r m e) = as_status e"
| "as_status _ = None"

definition knownReasons :: "string list" where
  "knownReasons =
     [''Unauthorized'', ''Forbidden'', ''NotFound'', ''AlreadyExists'', ''Conflict'', ''Gone'',
      ''Invalid'', ''ServerTimeout'', ''StoreReadError'', ''Timeout'', ''TooManyRequests'',
      ''BadRequest'', ''MethodNotAllowed'', ''NotAcceptable'', ''RequestEntityTooLarge'',
      ''UnsupportedMediaType'', ''InternalError'', ''Expired'', ''ServiceUnavailable'']"

definition reasonAndCodeForError :: "goerror option \<Rightarrow> string \<times> int" where
  "reasonAndCodeForError err = (case err of
      None \<Rightarrow> ('''', 0)
    | Some e \<Rightarrow> (case as_status e of None \<Rightarrow> ('''', 0) | Some rc \<Rightarrow> rc))"

definition has_reason :: "string \<Rightarrow> int \<Rightarrow> goerror option \<Rightarrow> bool" where
  "has_reason r c err = (case reasonAndCodeForError err of (reason, code) \<Rightarrow>
      reason = r \<or> (\<not> List.member knownReasons reason \<and> code = c))"

definition IsNotFound :: "goerror option \<Rightarrow> bool" where
  "IsNotFound err = has_reason ''NotFound'' 404 err"

definition IsConflict :: "goerror option \<Rightarrow> bool" where
  "IsConflict err = has_reason ''Conflict'' 409 err"

definition IsInvalid :: "goerror option \<Rightarrow> bool" where
  "IsInvalid err = has_reason ''Invalid'' 422 err"

definition IsServiceUnavailable :: "goerror option \<Rightarrow> bool" where
  "IsServiceUnavailable err = has_reason ''ServiceUnavailable'' 503 err"

definition IsBadRequest :: "goerror option \<Rightarrow> bool" where
  "IsBadRequest err = has_reason ''BadRequest'' 400 err"

definition IsUnauthorized :: "goerror option \<Rightarrow> bool" where
  "IsUnauthorized err = has_reason ''Unauthorized'' 401 err"

definition IsForbidden :: "goerror option \<Rightarrow> bool" where
  "IsForbidden err = has_reason ''Forbidden'' 403 err"

definition IsAlreadyExists :: "goerror option \<Rightarrow> bool" where
  "IsAlreadyExists err = (fst (reasonAndCodeForError err) = ''AlreadyExists'')"

definition NewAggregate :: "goerror option list \<Rightarrow> goerror option" where
  "NewAggregate errlist =
     (let errs = List.map_filter id errlist
      in if errs = [] then None else Some (ErrAggregate errs))"

subsection \<open>Reconcile errors\<close>

text \<open>The message is the formatted one.  Every constructor maps nil to nil.\<close>

definition NewIrrecoverableError :: "goerror option \<Rightarrow> string \<Rightarrow> goerror option" where
  "NewIrrecoverableError err message =
     (case err of None \<Rightarrow> None | Some e \<Rightarrow> Some (ErrReconcile IrrecoverableError message e))"

definition NewMultipleInstanceError :: "goerror option \<Rightarrow> goerror option" where
  "NewMultipleInstanceError err =
     (case err of None \<Rightarrow> None
      | Some e \<Rightarrow> Some (ErrReconcile MultipleInstanceError (error_text e) e))"

definition NewRetryRequiredError :: "goerror option \<Rightarrow> string \<Rightarrow> goerror option" where
  "NewRetryRequiredError err message =
     (case err of None \<Rightarrow> None | Some e \<Rightarrow> Some (ErrReconcile RetryRequiredError message e))"

definition FromClientError :: "goerror option \<Rightarrow> string \<Rightarrow> goerror option" where
  "FromClientError err message =
     (if err = None then None
      else if IsUnauthorized err \<or> IsForbidden err \<or> IsInvalid err \<or> IsBadRequest err
              \<or> IsServiceUnavailable err
      then NewIrrecoverableError err message
      else NewRetryRequiredError err message)"

definition IsReason :: "ErrorReason \<Rightarrow> goerror option \<Rightarrow> bool" where
  "IsReason reason err = (case err of
      None \<Rightarrow> False
    | Some e \<Rightarrow> (case as_reconcile e of None \<Rightarrow> False | Some (r, _, _) \<Rightarrow> r = reason))"

definition IsIrrecoverableError :: "goerror option \<Rightarrow> bool" where
  "IsIrrecoverableError err = IsReason IrrecoverableError err"

definition IsRetryRequiredError :: "goerror option \<Rightarrow> bool" where
  "IsRetryRequiredError err = IsReason RetryRequiredError err"

definition IsMultipleInstanceError :: "goerror option \<Rightarrow> bool" where
  "IsMultipleInstanceError err = IsReason MultipleInstanceError err"

definition FromError :: "goerror option \<Rightarrow> string \<Rightarrow> goerror option" where
  "FromError err message =
     (if err = None then None
      else if IsIrrecoverableError err then NewIrrecoverableError err message
      else NewRetryRequiredError err message)"

lemmas error_ctor_defs = NewIrrecoverableError_def NewRetryRequiredError_def
  NewMultipleInstanceError_def FromClientError_def FromError_def

lemmas error_class_defs = IsIrrecoverableError_def IsRetryRequiredError_def
  IsMultipleInstanceError_def IsReason_def

subsection \<open>Lemmas\<close>

lemma ctor_nil [simp]:
  "NewIrrecoverableError None m = None" "NewRetryRequiredError None m = None"
  "NewMultipleInstanceError None = None" "FromClientError None m = None" "FromError None m = None"
  by (simp_all add: error_ctor_defs)

lemma ctor_nil_iff [simp]:
  "NewIrrecoverableError err m = None \<longleftrightarrow> err = None"
  "NewRetryRequiredError err m = None \<longleftrightarrow> err = None"
  "NewMultipleInstanceError err = None \<longleftrightarrow> err = None"
  "FromClientError err m = None \<longleftrightarrow> err = None"
  "FromError err m = None \<longleftrightarrow> err = None"
  by (auto simp: error_ctor_defs split: option.splits)

lemma class_nil [simp]:
  "\<not> IsIrrecoverableError None" "\<not> IsRetryRequiredError None" "\<not> IsMultipleInstanceError None"
  by (simp_all add: error_class_defs)

lemma class_wrap [simp]:
  "IsIrrecoverableError (Some (ErrWrap p e)) = IsIrrecoverableError (Some e)"
  "IsRetryRequiredError (Some (ErrWrap p e)) = IsRetryRequiredError (Some e)"
  "IsMultipleInstanceError (Some (ErrWrap p e)) = IsMultipleInstanceError (Some e)"
  by (simp_all add: error_class_defs)

lemma class_reconcile [simp]:
  "IsIrrecoverableError (Some (ErrReconcile r m e)) \<longleftrightarrow> r = IrrecoverableError"
  "IsRetryRequiredError (Some (ErrReconcile r m e)) \<longleftrightarrow> r = RetryRequiredError"
  "IsMultipleInstanceError (Some (ErrReconcile r m e)) \<longleftrightarrow> r = MultipleInstanceError"
  by (simp_all add: error_class_defs)

lemma class_aggregate [simp]:
  "\<not> IsIrrecoverableError (Some (ErrAggregate es))"
  "\<not> IsRetryRequiredError (Some (ErrAggregate es))"
  "\<not> IsMultipleInstanceError (Some (ErrAggregate es))"
  by (simp_all add: error_class_defs)

lemma has_reason_transparent [simp]:
  "has_reason r c (Some (ErrWrap p e)) = has_reason r c (Some e)"
  "has_reason r c (Some (ErrReconcile q m e)) = has_reason r c (Some e)"
  by (simp_all add: has_reason_def reasonAndCodeForError_def)

lemmas api_class_defs = IsNotFound_def IsConflict_def IsInvalid_def IsServiceUnavailable_def
  IsBadRequest_def IsUnauthorized_def IsForbidden_def

lemma has_reason_api:
  "r \<in> set knownReasons \<Longrightarrow> has_reason q c (Some (ErrAPI r k m)) \<longleftrightarrow> r = q"
  by (auto simp: has_reason_def reasonAndCodeForError_def)

lemma NewAggregate_eq_None_iff: "NewAggregate errs = None \<longleftrightarrow> (\<forall>e \<in> set errs. e = None)"
  by (induction errs) (auto simp: NewAggregate_def List.map_filter_def Let_def split: option.splits)

subsection \<open>Properties\<close>

text \<open>The client errors that a retry does not mend, by reason of the API server.\<close>

definition permanent_reasons :: "string list" where
  "permanent_reasons =
     [''Unauthorized'', ''Forbidden'', ''Invalid'', ''BadRequest'', ''ServiceUnavailable'']"

text \<open>
  C4.  \<open>FromClientError\<close> on an error the API server returned (with a reason it knows),
  wrapped any number of times: the result keeps the message and the cause, is
  irrecoverable exactly for the five permanent reasons and asks for a retry otherwise.
\<close>

theorem FromClientError_classifies:
  assumes "as_status e = Some (r, c)" "r \<in> set knownReasons"
  shows "FromClientError (Some e) m =
     Some (ErrReconcile (if r \<in> set permanent_reasons then IrrecoverableError
                         else RetryRequiredError) m e)"
  using assms
  by (simp add: error_ctor_defs api_class_defs has_reason_def reasonAndCodeForError_def
      permanent_reasons_def)

theorem FromClientError_classifies_witness:
  "FromClientError (Some (ErrWrap ''failed to get object: '' (ErrAPI ''Forbidden'' 403 ''no''))) ''m'' =
     Some (ErrReconcile IrrecoverableError ''m''
            (ErrWrap ''failed to get object: '' (ErrAPI ''Forbidden'' 403 ''no'')))"
  using FromClientError_classifies
    [of "ErrWrap ''failed to get object: '' (ErrAPI ''Forbidden'' 403 ''no'')" "''Forbidden''" 403 "''m''"]
  by (simp add: knownReasons_def permanent_reasons_def)

text \<open>
  C5.  Re-wrapping keeps the class: \<open>FromError\<close> of a non-nil error is irrecoverable
  exactly when the error was, and otherwise asks for a retry; but an aggregate hides
  the class of its members, so an irrecoverable error inside one is retried.
\<close>

theorem FromError_preserves_class:
  "IsIrrecoverableError (FromError (Some e) m) = IsIrrecoverableError (Some e) \<and>
   IsRetryRequiredError (FromError (Some e) m) = (\<not> IsIrrecoverableError (Some e)) \<and>
   IsRetryRequiredError (FromError (Some (ErrAggregate es)) m)"
  by (simp add: error_ctor_defs)

subsection \<open>Results\<close>

text \<open>
  A Go function that returns a value and an error, or panics, returns a \<open>res\<close>:
  the value, the non-nil error, or the panic message.
\<close>

datatype 'a res = Ok 'a | Err goerror | Panic string

fun bindR :: "'a res \<Rightarrow> ('a \<Rightarrow> 'b res) \<Rightarrow> 'b res" where
  "bindR (Ok a) f = f a"
| "bindR (Err e) f = Err e"
| "bindR (Panic s) f = Panic s"

text \<open>\<open>if err != nil { return fmt.Errorf("p: %w", err) }\<close> around a call.\<close>

fun wrapR :: "string \<Rightarrow> 'a res \<Rightarrow> 'a res" where
  "wrapR p (Err e) = Err (ErrWrap p e)"
| "wrapR p r = r"

fun is_ok :: "'a res \<Rightarrow> bool" where
  "is_ok (Ok a) = True"
| "is_ok _ = False"

lemma bindR_eq_Ok_iff: "bindR r f = Ok b \<longleftrightarrow> (\<exists>a. r = Ok a \<and> f a = Ok b)"
  by (cases r) auto

lemma wrapR_eq_Ok_iff [simp]: "wrapR p r = Ok a \<longleftrightarrow> r = Ok a"
  by (cases r) auto

lemma map_err_eq_Ok_iff [simp]:
  "(case r of Ok a \<Rightarrow> Ok a | Err e \<Rightarrow> Err (f e) | Panic p \<Rightarrow> Panic p) = Ok x \<longleftrightarrow> r = Ok x"
  by (cases r) auto

lemma is_ok_iff: "is_ok r \<longleftrightarrow> (\<exists>a. r = Ok a)"
  by (cases r) auto

lemma bindR_assoc: "bindR (bindR r f) g = bindR r (\<lambda>a. bindR (f a) g)"
  by (cases r) auto

end
