(* ===== verification/TLS_Profile.thy ===== *)
theory TLS_Profile
  imports Args Recon_Errors "HOL-Library.Word"
begin

text \<open>
  The cluster TLS security profile: package \<open>pkg/tlsprofile\<close>, with the tables it
  reads from the vendored \<open>openshift/api\<close> and \<open>library-go\<close> packages.  Pointers that
  may be nil are options; the \<open>APIServer\<close> object is fetched by an argument.
\<close>

section \<open>Vendored tables\<close>

record TLSProfileSpec =
  Ciphers :: "string slice"
  Groups :: "string slice"
  MinTLSVersion :: string

text \<open>Of the union members only \<open>custom\<close> has contents; the others are empty structs.\<close>

record TLSSecurityProfile =
  tsp_Type :: string
  tsp_Old :: bool
  tsp_Intermediate :: bool
  tsp_Modern :: bool
  tsp_Custom :: "TLSProfileSpec option"

record APIServer =
  TLSAdherence :: string
  TLSSecurityProfile :: "TLSSecurityProfile option"

definition VersionTLS13 :: string where "VersionTLS13 = ''VersionTLS13''"

definition builtin_groups :: "string slice" where
  "builtin_groups = Some [''X25519MLKEM768'', ''X25519'', ''secp256r1'', ''secp384r1'']"

definition TLSProfiles :: "(string \<times> TLSProfileSpec) list" where
  "TLSProfiles =
    [(''Old'', \<lparr>Ciphers = Some
        [''TLS_AES_128_GCM_SHA256'', ''TLS_AES_256_GCM_SHA384'', ''TLS_CHACHA20_POLY1305_SHA256'',
         ''ECDHE-ECDSA-AES128-GCM-SHA256'', ''ECDHE-RSA-AES128-GCM-SHA256'',
         ''ECDHE-ECDSA-AES256-GCM-SHA384'', ''ECDHE-RSA-AES256-GCM-SHA384'',
         ''ECDHE-ECDSA-CHACHA20-POLY1305'', ''ECDHE-RSA-CHACHA20-POLY1305'',
         ''ECDHE-ECDSA-AES128-SHA256'', ''ECDHE-RSA-AES128-SHA256'',
         ''ECDHE-ECDSA-AES128-SHA'', ''ECDHE-RSA-AES128-SHA'',
         ''ECDHE-ECDSA-AES256-SHA384'', ''ECDHE-RSA-AES256-SHA384'',
         ''ECDHE-ECDSA-AES256-SHA'', ''ECDHE-RSA-AES256-SHA'',
         ''AES128-GCM-SHA256'', ''AES256-GCM-SHA384'', ''AES128-SHA256'', ''AES256-SHA256'',
         ''AES128-SHA'', ''AES256-SHA'', ''DES-CBC3-SHA''],
        Groups = builtin_groups, MinTLSVersion = ''VersionTLS10''\<rparr>),
     (''Intermediate'', \<lparr>Ciphers = Some
        [''TLS_AES_128_GCM_SHA256'', ''TLS_AES_256_GCM_SHA384'', ''TLS_CHACHA20_POLY1305_SHA256'',
         ''ECDHE-ECDSA-AES128-GCM-SHA256'', ''ECDHE-RSA-AES128-GCM-SHA256'',
         ''ECDHE-ECDSA-AES256-GCM-SHA384'', ''ECDHE-RSA-AES256-GCM-SHA384'',
         ''ECDHE-ECDSA-CHACHA20-POLY1305'', ''ECDHE-RSA-CHACHA20-POLY1305''],
        Groups = builtin_groups, MinTLSVersion = ''VersionTLS12''\<rparr>),
     (''Modern'', \<lparr>Ciphers = Some
        [''TLS_AES_128_GCM_SHA256'', ''TLS_AES_256_GCM_SHA384'', ''TLS_CHACHA20_POLY1305_SHA256''],
        Groups = builtin_groups, MinTLSVersion = ''VersionTLS13''\<rparr>)]"

definition openSSLToIANACiphers :: "(string \<times> string) list" where
  "openSSLToIANACiphers =
    [(''TLS_AES_128_GCM_SHA256'', ''TLS_AES_128_GCM_SHA256''),
     (''TLS_AES_256_GCM_SHA384'', ''TLS_AES_256_GCM_SHA384''),
     (''TLS_CHACHA20_POLY1305_SHA256'', ''TLS_CHACHA20_POLY1305_SHA256''),
     (''ECDHE-ECDSA-AES128-GCM-SHA256'', ''TLS_ECDHE_ECDSA_WITH_AES_128_GCM_SHA256''),
     (''ECDHE-RSA-AES128-GCM-SHA256'', ''TLS_ECDHE_RSA_WITH_AES_128_GCM_SHA256''),
     (''ECDHE-ECDSA-AES256-GCM-SHA384'', ''TLS_ECDHE_ECDSA_WITH_AES_256_GCM_SHA384''),
     (''ECDHE-RSA-AES256-GCM-SHA384'', ''TLS_ECDHE_RSA_WITH_AES_256_GCM_SHA384''),
     (''ECDHE-ECDSA-CHACHA20-POLY1305'', ''TLS_ECDHE_ECDSA_WITH_CHACHA20_POLY1305_SHA256''),
     (''ECDHE-RSA-CHACHA20-POLY1305'', ''TLS_ECDHE_RSA_WITH_CHACHA20_POLY1305_SHA256''),
     (''ECDHE-ECDSA-AES128-SHA256'', ''TLS_ECDHE_ECDSA_WITH_AES_128_CBC_SHA256''),
     (''ECDHE-RSA-AES128-SHA256'', ''TLS_ECDHE_RSA_WITH_AES_128_CBC_SHA256''),
     (''AES128-GCM-SHA256'', ''TLS_RSA_WITH_AES_128_GCM_SHA256''),
     (''AES256-GCM-SHA384'', ''TLS_RSA_WITH_AES_256_GCM_SHA384''),
     (''AES128-SHA256'', ''TLS_RSA_WITH_AES_128_CBC_SHA256''),
     (''ECDHE-ECDSA-AES128-SHA'', ''TLS_ECDHE_ECDSA_WITH_AES_128_CBC_SHA''),
     (''ECDHE-RSA-AES128-SHA'', ''TLS_ECDHE_RSA_WITH_AES_128_CBC_SHA''),
     (''ECDHE-ECDSA-AES256-SHA'', ''TLS_ECDHE_ECDSA_WITH_AES_256_CBC_SHA''),
     (''ECDHE-RSA-AES256-SHA'', ''TLS_ECDHE_RSA_WITH_AES_256_CBC_SHA''),
     (''AES128-SHA'', ''TLS_RSA_WITH_AES_128_CBC_SHA''),
     (''AES256-SHA'', ''TLS_RSA_WITH_AES_256_CBC_SHA''),
     (''DES-CBC3-SHA'', ''TLS_RSA_WITH_3DES_EDE_CBC_SHA''),
     (''ECDHE-RSA-DES-CBC3-SHA'', ''TLS_ECDHE_RSA_WITH_3DES_EDE_CBC_SHA'')]"

text \<open>Names and identifiers of the cipher suites and versions of \<open>crypto/tls\<close>.\<close>

definition goCipherSuites :: "(string \<times> 16 word) list" where
  "goCipherSuites =
    [(''TLS_RSA_WITH_RC4_128_SHA'', 0x0005), (''TLS_RSA_WITH_3DES_EDE_CBC_SHA'', 0x000a),
     (''TLS_RSA_WITH_AES_128_CBC_SHA'', 0x002f), (''TLS_RSA_WITH_AES_256_CBC_SHA'', 0x0035),
     (''TLS_RSA_WITH_AES_128_CBC_SHA256'', 0x003c), (''TLS_RSA_WITH_AES_128_GCM_SHA256'', 0x009c),
     (''TLS_RSA_WITH_AES_256_GCM_SHA384'', 0x009d), (''TLS_ECDHE_ECDSA_WITH_RC4_128_SHA'', 0xc007),
     (''TLS_ECDHE_ECDSA_WITH_AES_128_CBC_SHA'', 0xc009),
     (''TLS_ECDHE_ECDSA_WITH_AES_256_CBC_SHA'', 0xc00a),
     (''TLS_ECDHE_RSA_WITH_RC4_128_SHA'', 0xc011),
     (''TLS_ECDHE_RSA_WITH_3DES_EDE_CBC_SHA'', 0xc012),
     (''TLS_ECDHE_RSA_WITH_AES_128_CBC_SHA'', 0xc013),
     (''TLS_ECDHE_RSA_WITH_AES_256_CBC_SHA'', 0xc014),
     (''TLS_ECDHE_ECDSA_WITH_AES_128_CBC_SHA256'', 0xc023),
     (''TLS_ECDHE_RSA_WITH_AES_128_CBC_SHA256'', 0xc027),
     (''TLS_ECDHE_RSA_WITH_AES_128_GCM_SHA256'', 0xc02f),
     (''TLS_ECDHE_ECDSA_WITH_AES_128_GCM_SHA256'', 0xc02b),
     (''TLS_ECDHE_RSA_WITH_AES_256_GCM_SHA384'', 0xc030),
     (''TLS_ECDHE_ECDSA_WITH_AES_256_GCM_SHA384'', 0xc02c),
     (''TLS_ECDHE_RSA_WITH_CHACHA20_POLY1305'', 0xcca8),
     (''TLS_ECDHE_ECDSA_WITH_CHACHA20_POLY1305'', 0xcca9),
     (''TLS_ECDHE_RSA_WITH_CHACHA20_POLY1305_SHA256'', 0xcca8),
     (''TLS_ECDHE_ECDSA_WITH_CHACHA20_POLY1305_SHA256'', 0xcca9),
     (''TLS_AES_128_GCM_SHA256'', 0x1301), (''TLS_AES_256_GCM_SHA384'', 0x1302),
     (''TLS_CHACHA20_POLY1305_SHA256'', 0x1303)]"

definition goTLSVersions :: "(string \<times> 16 word) list" where
  "goTLSVersions = [(''VersionTLS10'', 0x0301), (''VersionTLS11'', 0x0302),
                    (''VersionTLS12'', 0x0303), (''VersionTLS13'', 0x0304)]"

definition OpenSSLToIANACipherSuites :: "string list \<Rightarrow> string list" where
  "OpenSSLToIANACipherSuites ciphers = List.map_filter (map_of openSSLToIANACiphers) ciphers"

definition ShouldHonorClusterTLSProfile :: "string \<Rightarrow> bool" where
  "ShouldHonorClusterTLSProfile tlsAdherence =
     (\<not> (tlsAdherence = '''' \<or> tlsAdherence = ''LegacyAdheringComponentsOnly''))"

definition TLSVersion :: "string \<Rightarrow> 16 word res" where
  "TLSVersion versionName =
     (if length versionName = 0 then Ok 0x0303
      else case map_of goTLSVersions versionName of
             Some version \<Rightarrow> Ok version
           | None \<Rightarrow> Err (ErrNew (''unknown tls version '' @ quoted versionName)))"

definition CipherSuite :: "string \<Rightarrow> 16 word res" where
  "CipherSuite cipherName = (case map_of goCipherSuites cipherName of
      Some cipher \<Rightarrow> Ok cipher
    | None \<Rightarrow> Err (ErrNew (''unknown cipher name '' @ quoted cipherName)))"

section \<open>The package tlsprofile\<close>

subsection \<open>tlsprofile.go\<close>

text \<open>Only ever called on the three keys of \<open>TLSProfiles\<close>; another one dereferences nil.\<close>

definition cloneBuiltinProfileSpec :: "string \<Rightarrow> TLSProfileSpec res" where
  "cloneBuiltinProfileSpec profileType = (case map_of TLSProfiles profileType of
      None \<Rightarrow> Panic ''nil pointer dereference''
    | Some spec \<Rightarrow>
        Ok (spec\<lparr>Ciphers := (if elems (Ciphers spec) = [] then None else Some (elems (Ciphers spec)))\<rparr>))"

definition EffectiveSpec :: "TLSSecurityProfile option \<Rightarrow> TLSProfileSpec res" where
  "EffectiveSpec profile = (case profile of
      None \<Rightarrow> cloneBuiltinProfileSpec ''Intermediate''
    | Some p \<Rightarrow>
        if tsp_Type p = '''' then cloneBuiltinProfileSpec ''Intermediate''
        else if tsp_Type p = ''Old'' then cloneBuiltinProfileSpec ''Old''
        else if tsp_Type p = ''Intermediate'' then cloneBuiltinProfileSpec ''Intermediate''
        else if tsp_Type p = ''Modern'' then cloneBuiltinProfileSpec ''Modern''
        else if tsp_Type p = ''Custom'' then
          (case tsp_Custom p of
             None \<Rightarrow> Err (ErrNew ''custom TLS profile is missing custom settings'')
           | Some custom \<Rightarrow> Ok custom)
        else Err (ErrNew (''unrecognized TLSSecurityProfile.Type '' @ quoted (tsp_Type p))))"

definition CertManagerCipherSuiteArgKeys :: "string list" where
  "CertManagerCipherSuiteArgKeys = [''--tls-cipher-suites'', ''--metrics-tls-cipher-suites'']"

definition TrustManagerCipherSuiteArgKeys :: "string list" where
  "TrustManagerCipherSuiteArgKeys = [''--tls-cipher-suites'']"

definition joinIANACiphers :: "string list \<Rightarrow> string" where
  "joinIANACiphers openSSLNames = join '','' (OpenSSLToIANACipherSuites openSSLNames)"

definition CertManagerWebhookTLSArgs :: "TLSProfileSpec option \<Rightarrow> string list" where
  "CertManagerWebhookTLSArgs spec = (case spec of
      None \<Rightarrow> []
    | Some s \<Rightarrow>
        (let minVersion = MinTLSVersion s
         in if MinTLSVersion s = VersionTLS13
            then [''--tls-min-version='' @ minVersion, ''--metrics-tls-min-version='' @ minVersion]
            else let ciphers = joinIANACiphers (elems (Ciphers s))
                 in [''--tls-min-version='' @ minVersion, ''--tls-cipher-suites='' @ ciphers,
                     ''--metrics-tls-min-version='' @ minVersion,
                     ''--metrics-tls-cipher-suites='' @ ciphers]))"

definition CertManagerOperandMetricsTLSArgs :: "TLSProfileSpec option \<Rightarrow> string list" where
  "CertManagerOperandMetricsTLSArgs spec = (case spec of
      None \<Rightarrow> []
    | Some s \<Rightarrow>
        (let minVersion = MinTLSVersion s
         in if MinTLSVersion s = VersionTLS13
            then [''--metrics-tls-min-version='' @ minVersion]
            else let ciphers = joinIANACiphers (elems (Ciphers s))
                 in [''--metrics-tls-min-version='' @ minVersion,
                     ''--metrics-tls-cipher-suites='' @ ciphers]))"

definition TrustManagerWebhookTLSArgs :: "TLSProfileSpec option \<Rightarrow> string list" where
  "TrustManagerWebhookTLSArgs spec = (case spec of
      None \<Rightarrow> []
    | Some s \<Rightarrow>
        (let args = [''--tls-min-version='' @ MinTLSVersion s]
         in if MinTLSVersion s \<noteq> VersionTLS13
            then args @ [''--tls-cipher-suites='' @ joinIANACiphers (elems (Ciphers s))]
            else args))"

text \<open>The message has an arrow (UTF-8 \<open>E2 86 92\<close>) between the two names.\<close>

definition errNoCipherSuites :: string where
  "errNoCipherSuites = ''no cipher suites after OpenSSL'' @ [CHR 0xE2, CHR 0x86, CHR 0x92] @ ''IANA mapping''"

record HTTPServingInfo =
  hs_MinTLSVersion :: string
  hs_CipherSuites :: "string slice"
  hs_rest :: string

text \<open>The error, and the serving info after the call: it is written through a pointer.\<close>

definition ApplyToHTTPServingInfo ::
  "HTTPServingInfo option \<Rightarrow> TLSProfileSpec option \<Rightarrow> goerror option \<times> HTTPServingInfo option" where
  "ApplyToHTTPServingInfo serving spec = (case serving of
      None \<Rightarrow> (Some (ErrNew ''HTTPServingInfo is nil''), serving)
    | Some sv \<Rightarrow> (case spec of
        None \<Rightarrow> (Some (ErrNew ''TLS profile spec is nil''), serving)
      | Some s \<Rightarrow>
          (let sv = sv\<lparr>hs_MinTLSVersion := MinTLSVersion s\<rparr>;
               iana = OpenSSLToIANACipherSuites (elems (Ciphers s))
           in if MinTLSVersion s = VersionTLS13
              then (None, Some (sv\<lparr>hs_CipherSuites :=
                      (if length iana = 0 then Some [''TLS_AES_128_GCM_SHA256''] else Some iana)\<rparr>))
              else if length (elems (Ciphers s)) > 0 \<and> length iana = 0
              then (Some (ErrNew errNoCipherSuites), Some sv)
              else (None, Some (sv\<lparr>hs_CipherSuites := Some iana\<rparr>)))))"

definition istioCSRServingCurvePreferences :: "string list" where
  "istioCSRServingCurvePreferences = [''X25519'', ''CurveP256'', ''CurveP384'', ''CurveP521'']"

definition IstioCSRServingTLSArgs :: "TLSProfileSpec option \<Rightarrow> string list" where
  "IstioCSRServingTLSArgs spec = (case spec of
      None \<Rightarrow> []
    | Some s \<Rightarrow>
        (let minVersion = MinTLSVersion s;
             args = [''--serving-tls-min-version='' @ minVersion];
             args = (if MinTLSVersion s \<noteq> VersionTLS13
                     then args @ map (\<lambda>cipher. ''--serving-tls-cipher-suites='' @ cipher)
                                     (OpenSSLToIANACipherSuites (elems (Ciphers s)))
                     else args)
         in args @ map (\<lambda>curve. ''--serving-tls-curve-preferences='' @ curve)
                       istioCSRServingCurvePreferences))"

subsection \<open>cluster.go\<close>

definition APIServerClusterName :: string where
  "APIServerClusterName = ''cluster''"

datatype FetchErrorMode = FetchErrorPropagateExceptNotFound

text \<open>\<open>fetch\<close> is the result the fetch function gives, \<open>None\<close> when the function itself is nil.\<close>

definition NewRESTConfigAPIServerFetch ::
  "'cfg option \<Rightarrow> ('cfg \<Rightarrow> 'cl res) \<Rightarrow> ('cl \<Rightarrow> string \<Rightarrow> APIServer res) \<Rightarrow> APIServer res res" where
  "NewRESTConfigAPIServerFetch restConfig NewForConfig get = (case restConfig of
      None \<Rightarrow> Err (ErrNew ''rest config is nil'')
    | Some cfg \<Rightarrow> (case NewForConfig cfg of
        Err e \<Rightarrow> Err (ErrWrap ''failed to create config client: '' e)
      | Panic s \<Rightarrow> Panic s
      | Ok cl \<Rightarrow> Ok (get cl APIServerClusterName)))"

definition NewClientReaderAPIServerFetch :: "(string \<Rightarrow> APIServer res) \<Rightarrow> APIServer res" where
  "NewClientReaderAPIServerFetch get = bindR (get APIServerClusterName) Ok"

definition ResolveHonoredTLSProfile ::
  "APIServer res option \<Rightarrow> FetchErrorMode \<Rightarrow> TLSProfileSpec option res" where
  "ResolveHonoredTLSProfile fetch mode = (case fetch of
      None \<Rightarrow> Err (ErrNew ''APIServer fetch function is nil'')
    | Some r \<Rightarrow> (case r of
        Err err \<Rightarrow>
          (case mode of FetchErrorPropagateExceptNotFound \<Rightarrow>
             if IsNotFound (Some err) then Ok None
             else Err (ErrWrap ''failed to get apiserver.config.openshift.io/cluster: '' err))
      | Panic s \<Rightarrow> Panic s
      | Ok apiServer \<Rightarrow>
          if \<not> ShouldHonorClusterTLSProfile (TLSAdherence apiServer) then Ok None
          else bindR (EffectiveSpec (TLSSecurityProfile apiServer)) (\<lambda>s. Ok (Some s))))"

text \<open>\<open>equality.Semantic.DeepEqual\<close> does not tell a nil slice from an empty one.\<close>

definition spec_semantic_equal :: "TLSProfileSpec \<Rightarrow> TLSProfileSpec \<Rightarrow> bool" where
  "spec_semantic_equal a b \<longleftrightarrow> elems (Ciphers a) = elems (Ciphers b) \<and>
     elems (Groups a) = elems (Groups b) \<and> MinTLSVersion a = MinTLSVersion b"

definition option_equal :: "('a \<Rightarrow> 'a \<Rightarrow> bool) \<Rightarrow> 'a option \<Rightarrow> 'a option \<Rightarrow> bool" where
  "option_equal eq a b = (case (a, b) of
      (None, None) \<Rightarrow> True | (Some x, Some y) \<Rightarrow> eq x y | _ \<Rightarrow> False)"

definition profile_semantic_equal :: "TLSSecurityProfile \<Rightarrow> TLSSecurityProfile \<Rightarrow> bool" where
  "profile_semantic_equal a b \<longleftrightarrow> tsp_Type a = tsp_Type b \<and> tsp_Old a = tsp_Old b \<and>
     tsp_Intermediate a = tsp_Intermediate b \<and> tsp_Modern a = tsp_Modern b \<and>
     option_equal spec_semantic_equal (tsp_Custom a) (tsp_Custom b)"

definition ClusterAPIServerTLSConfigChanged :: "APIServer option \<Rightarrow> APIServer option \<Rightarrow> bool" where
  "ClusterAPIServerTLSConfigChanged old new = (case (old, new) of
      (Some o', Some n) \<Rightarrow>
        TLSAdherence o' \<noteq> TLSAdherence n \<or>
        \<not> option_equal profile_semantic_equal (TLSSecurityProfile o') (TLSSecurityProfile n)
    | (None, None) \<Rightarrow> False
    | _ \<Rightarrow> True)"

subsection \<open>serving.go and client\_config.go\<close>

definition ApplyClusterProfileToHTTPServingInfo ::
  "APIServer res res \<Rightarrow> HTTPServingInfo option \<Rightarrow> (goerror option \<times> HTTPServingInfo option) res" where
  "ApplyClusterProfileToHTTPServingInfo mkFetch serving =
     (if serving = None then Ok (Some (ErrNew ''HTTPServingInfo is nil''), serving)
      else case bindR mkFetch
                  (\<lambda>fetch. ResolveHonoredTLSProfile (Some fetch) FetchErrorPropagateExceptNotFound) of
             Err e \<Rightarrow> Ok (Some e, serving)
           | Panic s \<Rightarrow> Panic s
           | Ok None \<Rightarrow> Ok (None, serving)
           | Ok (Some effective) \<Rightarrow> Ok (ApplyToHTTPServingInfo serving (Some effective)))"

record 'pool tls_Config =
  RootCAs :: 'pool
  MinVersion :: "16 word"
  InsecureSkipVerify :: bool
  CipherSuites :: "16 word slice"

fun cipherSuiteIDs_loop :: "string list \<Rightarrow> 16 word list res" where
  "cipherSuiteIDs_loop [] = Ok []"
| "cipherSuiteIDs_loop (name # names) =
     bindR (wrapR (''cipher suite '' @ quoted name @ '': '') (CipherSuite name)) (\<lambda>id.
     bindR (cipherSuiteIDs_loop names) (\<lambda>ids. Ok (id # ids)))"

definition cipherSuiteIDsFromIANANames :: "string list \<Rightarrow> 16 word slice res" where
  "cipherSuiteIDsFromIANANames names =
     (if length names = 0 then Ok None else bindR (cipherSuiteIDs_loop names) (\<lambda>ids. Ok (Some ids)))"

definition ClientTLSConfig :: "TLSProfileSpec option \<Rightarrow> 'pool \<Rightarrow> 'pool tls_Config res" where
  "ClientTLSConfig spec rootCAs = (case spec of
      None \<Rightarrow> Err (ErrNew ''TLS profile spec is nil'')
    | Some s \<Rightarrow>
        bindR (wrapR ''min TLS version: '' (TLSVersion (MinTLSVersion s))) (\<lambda>minVer.
        let tlsConfig = \<lparr>RootCAs = rootCAs, MinVersion = minVer, InsecureSkipVerify = False,
                         CipherSuites = None\<rparr>
        in if minVer = 0x0304 then Ok tlsConfig
           else let iana = OpenSSLToIANACipherSuites (elems (Ciphers s))
                in if length (elems (Ciphers s)) > 0 \<and> length iana = 0
                   then Err (ErrNew errNoCipherSuites)
                   else bindR (cipherSuiteIDsFromIANANames iana) (\<lambda>cipherIDs.
                        Ok (tlsConfig\<lparr>CipherSuites := cipherIDs\<rparr>))))"

section \<open>Lemmas\<close>

lemma IANA_Nil [simp]: "OpenSSLToIANACipherSuites [] = []"
  by (simp add: OpenSSLToIANACipherSuites_def List.map_filter_def)

lemma IANA_Cons:
  "OpenSSLToIANACipherSuites (c # cs) =
     (case map_of openSSLToIANACiphers c of None \<Rightarrow> OpenSSLToIANACipherSuites cs
      | Some i \<Rightarrow> i # OpenSSLToIANACipherSuites cs)"
  by (simp add: OpenSSLToIANACipherSuites_def List.map_filter_def split: option.splits)

lemma IANA_eq_Nil_iff:
  "OpenSSLToIANACipherSuites cs = [] \<longleftrightarrow> (\<forall>c \<in> set cs. map_of openSSLToIANACiphers c = None)"
  by (induction cs) (auto simp: IANA_Cons split: option.splits)

lemma IANA_range: "set (OpenSSLToIANACipherSuites cs) \<subseteq> ran (map_of openSSLToIANACiphers)"
  by (induction cs) (auto simp: IANA_Cons ran_def split: option.splits)

text \<open>Every IANA name the translation can give is a cipher suite Go knows.\<close>

lemma IANA_known: "i \<in> ran (map_of openSSLToIANACiphers) \<Longrightarrow> is_ok (CipherSuite i)"
proof -
  have "list_all (\<lambda>i. map_of goCipherSuites i \<noteq> None) (map snd openSSLToIANACiphers)"
    by code_simp
  moreover assume "i \<in> ran (map_of openSSLToIANACiphers)"
  then have "i \<in> set (map snd openSSLToIANACiphers)"
    by (auto simp: ran_def dest: map_of_SomeD) (metis map_of_SomeD imageI snd_conv)
  ultimately have "map_of goCipherSuites i \<noteq> None"
    by (simp only: list_all_iff) blast
  then show ?thesis by (auto simp: CipherSuite_def)
qed

lemma cipherSuiteIDs_loop_ok:
  "(\<And>n. n \<in> set names \<Longrightarrow> is_ok (CipherSuite n)) \<Longrightarrow>
   \<exists>ids. cipherSuiteIDs_loop names = Ok ids \<and> length ids = length names"
  by (induction names) (force simp: is_ok_iff bindR_eq_Ok_iff)+

lemma cipherSuiteIDs_translated:
  "\<exists>ids. cipherSuiteIDsFromIANANames (OpenSSLToIANACipherSuites cs) = Ok ids \<and>
         length (elems ids) = length (OpenSSLToIANACipherSuites cs)"
proof -
  have "\<exists>ids. cipherSuiteIDs_loop (OpenSSLToIANACipherSuites cs) = Ok ids \<and>
              length ids = length (OpenSSLToIANACipherSuites cs)"
    using IANA_range IANA_known by (intro cipherSuiteIDs_loop_ok) blast
  then show ?thesis by (auto simp: cipherSuiteIDsFromIANANames_def)
qed

lemma TLSVersion_13: "TLSVersion v = Ok 0x0304 \<longleftrightarrow> v = VersionTLS13"
  by (auto simp: TLSVersion_def goTLSVersions_def VersionTLS13_def)

lemma cloneBuiltin_table:
  "map_of TLSProfiles t = Some s \<Longrightarrow> cloneBuiltinProfileSpec t = Ok s"
  by (auto simp: cloneBuiltinProfileSpec_def TLSProfiles_def split: if_splits)

lemma TLSProfiles_keys: "set (map fst TLSProfiles) = {''Old'', ''Intermediate'', ''Modern''}"
  by (auto simp: TLSProfiles_def)

subsection \<open>The watch predicate\<close>

definition same_settings :: "TLSProfileSpec option res \<Rightarrow> TLSProfileSpec option res \<Rightarrow> bool" where
  "same_settings a b \<longleftrightarrow> rel_res (rel_option spec_semantic_equal) a b"

lemma spec_semantic_equal_refl [simp]: "spec_semantic_equal s s"
  by (simp add: spec_semantic_equal_def)

lemma option_equal_rel: "option_equal eq a b = rel_option eq a b"
  by (cases a; cases b) (auto simp: option_equal_def)

lemma rel_res_refl: "(\<And>x. R x x) \<Longrightarrow> rel_res R a a"
  by (cases a) auto

lemma EffectiveSpec_semantic:
  assumes "option_equal profile_semantic_equal p q"
  shows "rel_res spec_semantic_equal (EffectiveSpec p) (EffectiveSpec q)"
proof (cases p)
  case None
  with assms have "q = None" by (cases q) (auto simp: option_equal_def)
  with None show ?thesis by (simp add: rel_res_refl)
next
  case (Some a)
  with assms obtain b where q: "q = Some b" and eq: "profile_semantic_equal a b"
    by (cases q) (auto simp: option_equal_def)
  have "option_equal spec_semantic_equal (tsp_Custom a) (tsp_Custom b)" "tsp_Type a = tsp_Type b"
    using eq by (auto simp: profile_semantic_equal_def)
  with Some q show ?thesis
    by (auto simp: EffectiveSpec_def option_equal_def rel_res_refl split: option.splits)
qed

lemma TLSArgs_semantic:
  assumes "rel_option spec_semantic_equal s t"
  shows "CertManagerWebhookTLSArgs s = CertManagerWebhookTLSArgs t"
    and "CertManagerOperandMetricsTLSArgs s = CertManagerOperandMetricsTLSArgs t"
    and "TrustManagerWebhookTLSArgs s = TrustManagerWebhookTLSArgs t"
    and "IstioCSRServingTLSArgs s = IstioCSRServingTLSArgs t"
proof -
  have "s = None \<and> t = None \<or> (\<exists>x y. s = Some x \<and> t = Some y \<and>
          MinTLSVersion x = MinTLSVersion y \<and> elems (Ciphers x) = elems (Ciphers y))"
    using assms by (cases s; cases t) (auto simp: spec_semantic_equal_def)
  then consider "s = None" "t = None" | x y where "s = Some x" "t = Some y"
    "MinTLSVersion x = MinTLSVersion y" "elems (Ciphers x) = elems (Ciphers y)" by blast
  note cases' = this
  show "CertManagerWebhookTLSArgs s = CertManagerWebhookTLSArgs t"
    by (cases rule: cases') (simp_all only: CertManagerWebhookTLSArgs_def option.case)
  show "CertManagerOperandMetricsTLSArgs s = CertManagerOperandMetricsTLSArgs t"
    by (cases rule: cases') (simp_all only: CertManagerOperandMetricsTLSArgs_def option.case)
  show "TrustManagerWebhookTLSArgs s = TrustManagerWebhookTLSArgs t"
    by (cases rule: cases') (simp_all only: TrustManagerWebhookTLSArgs_def option.case)
  show "IstioCSRServingTLSArgs s = IstioCSRServingTLSArgs t"
    by (cases rule: cases') (simp_all only: IstioCSRServingTLSArgs_def option.case)
qed

lemma rel_res_map_eq:
  "rel_res R a b \<Longrightarrow> (\<And>x y. R x y \<Longrightarrow> f x = f y) \<Longrightarrow> map_res f a = map_res f b"
  by (cases a; cases b) auto

lemma Resolve_semantic:
  assumes "\<not> ClusterAPIServerTLSConfigChanged (Some old) (Some new)"
  shows "rel_res (rel_option spec_semantic_equal)
           (ResolveHonoredTLSProfile (Some (Ok old)) mode) (ResolveHonoredTLSProfile (Some (Ok new)) mode)"
proof -
  have adh: "TLSAdherence old = TLSAdherence new"
    and "option_equal profile_semantic_equal (TLSSecurityProfile old) (TLSSecurityProfile new)"
    using assms by (auto simp: ClusterAPIServerTLSConfigChanged_def)
  then have "rel_res spec_semantic_equal (EffectiveSpec (TLSSecurityProfile old))
               (EffectiveSpec (TLSSecurityProfile new))"
    by (intro EffectiveSpec_semantic)
  then show ?thesis
    by (cases "EffectiveSpec (TLSSecurityProfile old)"; cases "EffectiveSpec (TLSSecurityProfile new)")
       (auto simp: ResolveHonoredTLSProfile_def adh)
qed

section \<open>Properties\<close>

text \<open>
  C9.  \<open>EffectiveSpec\<close> is total and rejects exactly a custom profile without settings and an
  unknown type; an absent profile or type means Intermediate; it never panics.
\<close>

theorem EffectiveSpec_total:
  "EffectiveSpec p =
     (case p of
        None \<Rightarrow> Ok (the (map_of TLSProfiles ''Intermediate''))
      | Some q \<Rightarrow>
          if tsp_Type q = '''' then Ok (the (map_of TLSProfiles ''Intermediate''))
          else if tsp_Type q \<in> set (map fst TLSProfiles) then Ok (the (map_of TLSProfiles (tsp_Type q)))
          else if tsp_Type q = ''Custom'' \<and> tsp_Custom q \<noteq> None then Ok (the (tsp_Custom q))
          else if tsp_Type q = ''Custom''
          then Err (ErrNew ''custom TLS profile is missing custom settings'')
          else Err (ErrNew (''unrecognized TLSSecurityProfile.Type '' @ quoted (tsp_Type q))))"
proof -
  have b: "t \<in> {''Old'', ''Intermediate'', ''Modern''} \<Longrightarrow>
           cloneBuiltinProfileSpec t = Ok (the (map_of TLSProfiles t))" for t
    using TLSProfiles_keys
    by (metis cloneBuiltin_table map_of_eq_None_iff not_None_eq option.sel set_map)
  show ?thesis
    unfolding EffectiveSpec_def TLSProfiles_keys
    by (cases p) (auto simp: b split: option.splits)
qed

text \<open>
  C10.  The watch on the cluster APIServer misses nothing: if \<open>ClusterAPIServerTLSConfigChanged\<close>
  says an update is irrelevant, every operand gets the very same TLS flags (or the same error) before
  and after it.
\<close>

theorem TLSConfigChanged_sound:
  assumes "\<not> ClusterAPIServerTLSConfigChanged (Some old) (Some new)"
    and "f \<in> {CertManagerWebhookTLSArgs, CertManagerOperandMetricsTLSArgs,
              TrustManagerWebhookTLSArgs, IstioCSRServingTLSArgs}"
  shows "map_res f (ResolveHonoredTLSProfile (Some (Ok old)) mode) =
         map_res f (ResolveHonoredTLSProfile (Some (Ok new)) mode)"
  using Resolve_semantic [OF assms(1)] by (rule rel_res_map_eq) (use assms(2) TLSArgs_semantic in blast)

definition strict_custom :: "string slice \<Rightarrow> APIServer" where
  "strict_custom cs = \<lparr>TLSAdherence = ''StrictAllComponents'', TLSSecurityProfile =
     Some \<lparr>tsp_Type = ''Custom'', tsp_Old = False, tsp_Intermediate = False, tsp_Modern = False,
           tsp_Custom = Some \<lparr>Ciphers = cs, Groups = None, MinTLSVersion = VersionTLS13\<rparr>\<rparr>\<rparr>"

theorem TLSConfigChanged_sound_witness:
  "map_res CertManagerWebhookTLSArgs
     (ResolveHonoredTLSProfile (Some (Ok (strict_custom None))) FetchErrorPropagateExceptNotFound) =
   map_res CertManagerWebhookTLSArgs
     (ResolveHonoredTLSProfile (Some (Ok (strict_custom (Some [])))) FetchErrorPropagateExceptNotFound)"
  by (rule TLSConfigChanged_sound)
     (simp_all add: strict_custom_def ClusterAPIServerTLSConfigChanged_def option_equal_def
        profile_semantic_equal_def spec_semantic_equal_def)


end
