(* ===== verification/Conditions.thy ===== *)
theory Conditions
  imports Recon_Errors
begin

text \<open>
  Status conditions and the outcome of a reconciliation:
  \<open>api/operator/v1alpha1/conditions.go\<close>, \<open>meta.go\<close>,
  \<open>pkg/controller/common/reconcile_result.go\<close> and the \<open>updateCondition\<close> methods of
  the istio-csr and trust-manager reconcilers that it calls back.

  A pointer to the status of a custom resource is the status passed in and
  returned; \<open>metav1.Now\<close> is the time argument of each call.
\<close>

record condition =
  c_type :: string
  c_status :: string
  c_ltt :: int
  c_reason :: string
  c_message :: string

record ConditionalStatus =
  Conditions :: "condition list"

definition Degraded :: string where "Degraded = ''Degraded''"
definition Ready :: string where "Ready = ''Ready''"
definition ReasonFailed :: string where "ReasonFailed = ''Failed''"
definition ReasonReady :: string where "ReasonReady = ''Ready''"
definition ReasonInProgress :: string where "ReasonInProgress = ''Progressing''"

definition ConditionTrue :: string where "ConditionTrue = ''True''"
definition ConditionFalse :: string where "ConditionFalse = ''False''"

lemmas condition_consts = Degraded_def Ready_def ReasonFailed_def ReasonReady_def
  ReasonInProgress_def ConditionTrue_def ConditionFalse_def

definition GetCondition :: "ConditionalStatus \<Rightarrow> string \<Rightarrow> condition option" where
  "GetCondition c t = find (\<lambda>cond. c_type cond = t) (Conditions c)"

text \<open>Writing through the pointer \<open>GetCondition\<close> returned: the first condition of the type.\<close>

fun update_first :: "('a \<Rightarrow> bool) \<Rightarrow> ('a \<Rightarrow> 'a) \<Rightarrow> 'a list \<Rightarrow> 'a list" where
  "update_first P f [] = []"
| "update_first P f (x # xs) = (if P x then f x # xs else x # update_first P f xs)"

definition SetCondition ::
  "ConditionalStatus \<Rightarrow> int \<Rightarrow> string \<Rightarrow> string \<Rightarrow> string \<Rightarrow> string \<Rightarrow> bool \<times> ConditionalStatus" where
  "SetCondition c now t cs reason msg = (case GetCondition c t of
      None \<Rightarrow>
        (True, c\<lparr>Conditions := Conditions c @
           [\<lparr>c_type = t, c_status = cs, c_ltt = now, c_reason = reason, c_message = msg\<rparr>]\<rparr>)
    | Some condition \<Rightarrow>
        if c_status condition \<noteq> cs \<or> c_reason condition \<noteq> reason
        then (True, c\<lparr>Conditions := update_first (\<lambda>x. c_type x = t)
               (\<lambda>x. x\<lparr>c_status := cs, c_ltt := now, c_reason := reason, c_message := msg\<rparr>)
               (Conditions c)\<rparr>)
        else (False, c))"

text \<open>
  \<open>HandleReconcileResult\<close>: the status after the call, the effect state of the
  callback, the requeue delay (0 for none) and the error.  \<open>now1\<close> and \<open>now2\<close> are
  the times of the two \<open>SetCondition\<close> calls.
\<close>

type_synonym 'w status_fn = "goerror option \<Rightarrow> ConditionalStatus \<Rightarrow> 'w \<Rightarrow> goerror option \<times> 'w"

definition HandleReconcileResult ::
  "int \<Rightarrow> int \<Rightarrow> ConditionalStatus \<Rightarrow> goerror option \<Rightarrow> 'w status_fn \<Rightarrow> int \<Rightarrow> 'w
     \<Rightarrow> (int \<times> goerror option) \<times> ConditionalStatus \<times> 'w" where
  "HandleReconcileResult now1 now2 status reconcileErr updateConditionFn requeueDuration w =
    (case reconcileErr of
       Some e \<Rightarrow>
         if IsIrrecoverableError reconcileErr then
           (let (degradedChanged, status) = SetCondition status now1 Degraded ConditionTrue ReasonFailed
                  (''reconciliation failed with irrecoverable error not retrying: '' @ error_text e);
                (readyChanged, status) = SetCondition status now2 Ready ConditionFalse ReasonFailed '''';
                (errUpdate, w) = (if degradedChanged \<or> readyChanged
                                  then updateConditionFn None status w else (None, w))
            in ((0, errUpdate), status, w))
         else
           (let (degradedChanged, status) = SetCondition status now1 Degraded ConditionFalse ReasonReady '''';
                (readyChanged, status) = SetCondition status now2 Ready ConditionFalse ReasonInProgress
                  (''reconciliation failed, retrying: '' @ error_text e);
                (errUpdate, w) = (if degradedChanged \<or> readyChanged
                                  then updateConditionFn reconcileErr status w else (None, w))
            in if errUpdate \<noteq> None then ((0, errUpdate), status, w)
               else ((requeueDuration, None), status, w))
     | None \<Rightarrow>
         (let (degradedChanged, status) = SetCondition status now1 Degraded ConditionFalse ReasonReady '''';
              (readyChanged, status) = SetCondition status now2 Ready ConditionTrue ReasonReady
                ''reconciliation successful'';
              (errUpdate, w) = (if degradedChanged \<or> readyChanged
                                then updateConditionFn None status w else (None, w))
          in ((0, errUpdate), status, w)))"

text \<open>
  \<open>Reconciler.updateCondition\<close> of both controllers, over the controller's
  \<open>updateStatus\<close>; \<open>what\<close> is the text before the error in its message.
\<close>

definition updateCondition ::
  "string \<Rightarrow> (ConditionalStatus \<Rightarrow> 'w \<Rightarrow> goerror option \<times> 'w) \<Rightarrow> 'w status_fn" where
  "updateCondition what updateStatus prependErr status w =
     (case updateStatus status w of
        (Some err, w') \<Rightarrow>
          (let errUpdate = ErrWrap what err
           in (if prependErr \<noteq> None then NewAggregate [prependErr, Some errUpdate]
               else Some errUpdate, w'))
      | (None, w') \<Rightarrow> (prependErr, w'))"

subsection \<open>Setting one condition\<close>

definition distinct_types :: "ConditionalStatus \<Rightarrow> bool" where
  "distinct_types c \<longleftrightarrow> distinct (map c_type (Conditions c))"

lemma map_update_first:
  "(\<And>x. g (f x) = g x) \<Longrightarrow> map g (update_first P f xs) = map g xs"
  by (induction xs) auto

lemma find_update_first_same:
  "(\<And>x. P (f x) = P x) \<Longrightarrow> find P (update_first P f xs) = map_option f (find P xs)"
  by (induction xs) auto

lemma find_update_first_other:
  "(\<And>x. P x \<Longrightarrow> \<not> Q x) \<Longrightarrow> (\<And>x. Q (f x) = Q x) \<Longrightarrow>
   find Q (update_first P f xs) = find Q xs"
  by (induction xs) auto

lemma find_append: "find P (xs @ ys) = (case find P xs of None \<Rightarrow> find P ys | Some x \<Rightarrow> Some x)"
  by (induction xs) auto

lemma find_None_type: "find (\<lambda>x. c_type x = t) xs = None \<longleftrightarrow> t \<notin> c_type ` set xs"
  by (induction xs) auto

lemma GetCondition_SetCondition:
  "GetCondition (snd (SetCondition c now t cs r m)) t' =
     (if t' = t then
        (case GetCondition c t of
           None \<Rightarrow> Some \<lparr>c_type = t, c_status = cs, c_ltt = now, c_reason = r, c_message = m\<rparr>
         | Some x \<Rightarrow>
             if c_status x \<noteq> cs \<or> c_reason x \<noteq> r
             then Some (x\<lparr>c_status := cs, c_ltt := now, c_reason := r, c_message := m\<rparr>)
             else Some x)
      else GetCondition c t')"
proof (cases "GetCondition c t")
  case None
  then show ?thesis
    by (auto simp: SetCondition_def GetCondition_def find_append split: option.splits)
next
  case (Some x)
  have "find (\<lambda>x. c_type x = t') (update_first (\<lambda>x. c_type x = t)
          (\<lambda>x. x\<lparr>c_status := cs, c_ltt := now, c_reason := r, c_message := m\<rparr>) (Conditions c))
        = find (\<lambda>x. c_type x = t') (Conditions c)" if "t' \<noteq> t"
    using that by (intro find_update_first_other) auto
  with Some show ?thesis
    by (auto simp: SetCondition_def GetCondition_def find_update_first_same)
qed

lemma SetCondition_distinct: "distinct_types c \<Longrightarrow> distinct_types (snd (SetCondition c now t cs r m))"
  by (auto simp: distinct_types_def SetCondition_def GetCondition_def find_None_type
      map_update_first split: option.splits)

lemma SetCondition_status_reason:
  "\<exists>x. GetCondition (snd (SetCondition c now t cs r m)) t = Some x \<and> c_status x = cs \<and> c_reason x = r"
  by (auto simp: GetCondition_SetCondition split: option.splits)

lemma SetCondition_unchanged: "\<not> fst (SetCondition c now t cs r m) \<Longrightarrow> snd (SetCondition c now t cs r m) = c"
  by (auto simp: SetCondition_def split: option.splits if_splits)

text \<open>What the type-\<open>t\<close> condition says, if there is one: its status and reason.\<close>

definition says :: "ConditionalStatus \<Rightarrow> string \<Rightarrow> (string \<times> string) option" where
  "says c t = map_option (\<lambda>x. (c_status x, c_reason x)) (GetCondition c t)"

lemma says_SetCondition [simp]:
  "says (snd (SetCondition c now t cs r m)) t' = (if t' = t then Some (cs, r) else says c t')"
  by (auto simp: says_def GetCondition_SetCondition split: option.splits)

lemma fst_SetCondition: "fst (SetCondition c now t cs r m) \<longleftrightarrow> says c t \<noteq> Some (cs, r)"
  by (auto simp: says_def SetCondition_def split: option.splits)

lemma SetCondition_noop: "says c t = Some (cs, r) \<Longrightarrow> SetCondition c now t cs r m = (False, c)"
  using fst_SetCondition [of c now t cs r m] SetCondition_unchanged [of c now t cs r m]
  by (simp add: prod_eq_iff)

subsection \<open>The outcome of a reconciliation\<close>

text \<open>The conditions that describe an outcome, per class of error.\<close>

definition outcome_degraded :: "goerror option \<Rightarrow> string \<times> string" where
  "outcome_degraded err = (if IsIrrecoverableError err then (ConditionTrue, ReasonFailed)
                           else (ConditionFalse, ReasonReady))"

definition outcome_ready :: "goerror option \<Rightarrow> string \<times> string" where
  "outcome_ready err = (if err = None then (ConditionTrue, ReasonReady)
                        else if IsIrrecoverableError err then (ConditionFalse, ReasonFailed)
                        else (ConditionFalse, ReasonInProgress))"

definition settled :: "goerror option \<Rightarrow> ConditionalStatus \<Rightarrow> bool" where
  "settled err c \<longleftrightarrow> says c Degraded = Some (outcome_degraded err) \<and> says c Ready = Some (outcome_ready err)"

definition handled_status :: "int \<Rightarrow> int \<Rightarrow> ConditionalStatus \<Rightarrow> goerror option \<Rightarrow> ConditionalStatus" where
  "handled_status n1 n2 c err =
     (let c' = snd (SetCondition c n1 Degraded (fst (outcome_degraded err)) (snd (outcome_degraded err))
                 (if IsIrrecoverableError err
                  then ''reconciliation failed with irrecoverable error not retrying: '' @ error_text (the err)
                  else ''''))
      in snd (SetCondition c' n2 Ready (fst (outcome_ready err)) (snd (outcome_ready err))
                 (if err = None then ''reconciliation successful''
                  else if IsIrrecoverableError err then ''''
                  else ''reconciliation failed, retrying: '' @ error_text (the err))))"

lemma Degraded_neq_Ready [simp]: "Degraded \<noteq> Ready" "Ready \<noteq> Degraded"
  by (simp_all add: Degraded_def Ready_def)

lemma settled_handled_status: "settled err (handled_status n1 n2 c err)"
  by (simp add: settled_def handled_status_def Let_def)

lemma handled_status_frame:
  "t \<noteq> Degraded \<Longrightarrow> t \<noteq> Ready \<Longrightarrow>
   GetCondition (handled_status n1 n2 c err) t = GetCondition c t"
  by (simp add: handled_status_def Let_def GetCondition_SetCondition)

lemma handled_status_distinct: "distinct_types c \<Longrightarrow> distinct_types (handled_status n1 n2 c err)"
  by (simp add: handled_status_def Let_def SetCondition_distinct)

text \<open>
  The handler in closed form: it calls the callback once, with the new status,
  unless the status was settled already.
\<close>

lemma HandleReconcileResult_eq:
  "HandleReconcileResult n1 n2 c err upd dur w =
     (let c' = handled_status n1 n2 c err;
          (e, w') = (if settled err c then (None, w)
                     else upd (if IsIrrecoverableError err then None else err) c' w)
      in ((if err \<noteq> None \<and> \<not> IsIrrecoverableError err \<and> e = None then dur else 0, e), c', w'))"
  by (cases err)
     (auto simp: HandleReconcileResult_def handled_status_def outcome_degraded_def outcome_ready_def
        settled_def fst_SetCondition Let_def case_prod_beta)

lemma handled_status_settled: "settled err c \<Longrightarrow> handled_status n1 n2 c err = c"
  by (simp add: handled_status_def settled_def Let_def SetCondition_noop)

text \<open>
  The contract of the callback both reconcilers pass: it reports the error it was
  given when the status was written, and some error when it was not.
\<close>

locale status_writer =
  fixes upd :: "'w status_fn"
    and written :: "ConditionalStatus \<Rightarrow> 'w \<Rightarrow> bool"
  assumes upd_written: "written c w \<Longrightarrow> fst (upd e c w) = e"
    and upd_failed: "\<not> written c w \<Longrightarrow> fst (upd e c w) \<noteq> None"
begin

lemma success_result:
  "fst (HandleReconcileResult n1 n2 c None upd dur w) =
     (0, if settled None c then None else fst (upd None (handled_status n1 n2 c None) w))"
  by (simp add: HandleReconcileResult_eq Let_def case_prod_beta)

lemma no_requeue_without_error:
  "fst (fst (HandleReconcileResult n1 n2 c None upd dur w)) = 0"
  by (simp add: success_result)

lemma irrecoverable_not_retried:
  "IsIrrecoverableError err \<Longrightarrow> written (handled_status n1 n2 c err) w \<Longrightarrow>
   fst (HandleReconcileResult n1 n2 c err upd dur w) = (0, None)"
  by (auto simp: HandleReconcileResult_eq Let_def case_prod_beta upd_written)

lemma retried:
  assumes "err \<noteq> None" "\<not> IsIrrecoverableError err" "dur > 0"
  shows "fst (HandleReconcileResult n1 n2 c err upd dur w) \<noteq> (0, None)"
  using assms upd_failed [of "handled_status n1 n2 c err" w err]
    upd_written [of "handled_status n1 n2 c err" w err]
  by (auto simp: HandleReconcileResult_eq Let_def case_prod_beta)

lemma first_retry_returns_error:
  assumes "\<not> IsIrrecoverableError (Some e)" "\<not> settled (Some e) c"
    "written (handled_status n1 n2 c (Some e)) w"
  shows "fst (HandleReconcileResult n1 n2 c (Some e) upd dur w) = (0, Some e)"
  using assms by (simp add: HandleReconcileResult_eq Let_def case_prod_beta upd_written)

end

interpretation cond: status_writer "updateCondition what updateStatus" "\<lambda>c w. fst (updateStatus c w) = None"
  by unfold_locales
     (auto simp: updateCondition_def NewAggregate_def List.map_filter_def Let_def split: prod.splits option.splits)

subsection \<open>Properties\<close>

text \<open>
  C6.  \<open>SetCondition\<close>: afterwards the condition of the type has the given status and
  reason, every other condition is as it was, the types stay distinct, and it
  reports a change exactly when there was no such condition with that status and reason.
\<close>

theorem SetCondition_correct:
  assumes "distinct_types c"
  shows "says (snd (SetCondition c now t cs r m)) t = Some (cs, r) \<and>
         (\<forall>t'. t' \<noteq> t \<longrightarrow> GetCondition (snd (SetCondition c now t cs r m)) t' = GetCondition c t') \<and>
         distinct_types (snd (SetCondition c now t cs r m)) \<and>
         (fst (SetCondition c now t cs r m) \<longleftrightarrow> says c t \<noteq> Some (cs, r))"
  using assms by (simp add: GetCondition_SetCondition SetCondition_distinct fst_SetCondition)

theorem SetCondition_correct_witness:
  "says (snd (SetCondition \<lparr>Conditions = []\<rparr> 7 Ready ConditionTrue ReasonReady ''ok'')) Ready =
     Some (ConditionTrue, ReasonReady)"
  using SetCondition_correct [of "\<lparr>Conditions = []\<rparr>" 7 Ready ConditionTrue ReasonReady "''ok''"]
  by (simp add: distinct_types_def)

text \<open>
  C7.  The reported conditions match the outcome of the reconciliation: Degraded
  and Ready say what the class of the error prescribes, all other conditions are
  untouched, types stay distinct; and handling the same outcome again writes nothing.
\<close>

theorem HandleReconcileResult_conditions:
  assumes "distinct_types c"
    and "HandleReconcileResult n1 n2 c err upd dur w = (res, c', w')"
  shows "says c' Degraded = Some (outcome_degraded err) \<and> says c' Ready = Some (outcome_ready err) \<and>
         distinct_types c' \<and>
         (\<forall>t. t \<noteq> Degraded \<and> t \<noteq> Ready \<longrightarrow> GetCondition c' t = GetCondition c t) \<and>
         snd (HandleReconcileResult n1' n2' c' err upd dur w') = (c', w')"
proof -
  have c': "c' = handled_status n1 n2 c err"
    using assms(2) by (simp add: HandleReconcileResult_eq Let_def case_prod_beta)
  have st: "settled err c'"
    unfolding c' by (rule settled_handled_status)
  then have "snd (HandleReconcileResult n1' n2' c' err upd dur w') = (c', w')"
    by (simp add: HandleReconcileResult_eq handled_status_settled)
  moreover have "distinct_types c'"
    unfolding c' by (rule handled_status_distinct [OF assms(1)])
  moreover have "\<forall>t. t \<noteq> Degraded \<and> t \<noteq> Ready \<longrightarrow> GetCondition c' t = GetCondition c t"
    unfolding c' by (simp add: handled_status_frame)
  ultimately show ?thesis using st by (simp add: settled_def)
qed

theorem HandleReconcileResult_conditions_witness:
  "says (fst (snd (HandleReconcileResult 1 2 \<lparr>Conditions = []\<rparr> (Some (ErrNew ''e''))
       (\<lambda>e c w. (e, c # w)) 30 []))) Ready = Some (ConditionFalse, ReasonInProgress)"
  using HandleReconcileResult_conditions
    [of "\<lparr>Conditions = []\<rparr>" 1 2 "Some (ErrNew ''e'')" "\<lambda>e c w. (e, c # w)" 30 "[]"
      "fst (HandleReconcileResult 1 2 \<lparr>Conditions = []\<rparr> (Some (ErrNew ''e'')) (\<lambda>e c w. (e, c # w)) 30 [])"
      "fst (snd (HandleReconcileResult 1 2 \<lparr>Conditions = []\<rparr> (Some (ErrNew ''e'')) (\<lambda>e c w. (e, c # w)) 30 []))"
      "snd (snd (HandleReconcileResult 1 2 \<lparr>Conditions = []\<rparr> (Some (ErrNew ''e'')) (\<lambda>e c w. (e, c # w)) 30 []))"
      1 2]
  by (simp add: distinct_types_def outcome_ready_def error_class_defs)

text \<open>
  C8.  What the reconcilers make of it with their own \<open>updateCondition\<close>: an
  irrecoverable error is not retried once the status is written; any other error is
  retried, by requeue or by returning an error; and when a recoverable error changes
  the conditions and the status is written, the reconcile error itself is returned
  (not the requeue the comment at \<open>reconcile_result.go:56\<close> announces).
\<close>

theorem HandleReconcileResult_retry_policy:
  fixes c w what updateStatus n1 n2 dur
  defines "handle \<equiv> \<lambda>err. fst (HandleReconcileResult n1 n2 c err (updateCondition what updateStatus) dur w)"
    and "ok \<equiv> \<lambda>err. fst (updateStatus (handled_status n1 n2 c err) w) = None"
  shows "(IsIrrecoverableError err \<and> ok err \<longrightarrow> handle err = (0, None)) \<and>
         (err \<noteq> None \<and> \<not> IsIrrecoverableError err \<and> dur > 0 \<longrightarrow> handle err \<noteq> (0, None)) \<and>
         (\<not> IsIrrecoverableError (Some e) \<and> \<not> settled (Some e) c \<and> ok (Some e) \<longrightarrow>
            handle (Some e) = (0, Some e)) \<and>
         (\<not> IsIrrecoverableError (Some e) \<and> settled (Some e) c \<longrightarrow> handle (Some e) = (dur, None))"
  unfolding handle_def ok_def
  by (simp add: cond.irrecoverable_not_retried cond.retried cond.first_retry_returns_error)
     (simp add: HandleReconcileResult_eq Let_def)

theorem HandleReconcileResult_retry_policy_witness:
  "fst (HandleReconcileResult 1 2 \<lparr>Conditions = []\<rparr> (Some (ErrNew ''e''))
      (updateCondition ''x: '' (\<lambda>c w. (None, c # w))) 30 []) = (0, Some (ErrNew ''e''))"
  using HandleReconcileResult_retry_policy
    [where c = "\<lparr>Conditions = []\<rparr>" and e = "ErrNew ''e''" and w = "[]" and dur = 30
       and updateStatus = "\<lambda>c w. (None, c # w)" and what = "''x: ''" and ?n1.0 = 1 and ?n2.0 = 2]
  by (simp add: error_class_defs settled_def says_def GetCondition_def)

end
