(* ===== verification/K8s_Objects.thy ===== *)
theory K8s_Objects
  imports Recon_Errors
begin

text \<open>
  The Kubernetes objects the operator builds, compares and applies, with the fields it
  reads or writes.  A field whose Go type is a map of strings is a \<open>gomap\<close>, a slice an
  optional list, a pointer an option.  Structures the operator only copies and compares
  as a whole (security context, affinity terms, network policy rules, policy rules) are
  values of type \<open>opaque\<close>, their serialised form; what remains of a structure
  goes into a \<open>rest\<close> field of that type.
\<close>

type_synonym opaque = string

section \<open>Metadata\<close>

record ObjectMeta =
  om_Name :: string
  om_GenerateName :: string
  om_Namespace :: string
  om_Labels :: labels
  om_Annotations :: labels
  om_Finalizers :: "string list"
  om_UID :: string
  om_ResourceVersion :: string
  om_Generation :: int
  om_CreationTimestamp :: int
  om_DeletionTimestamp :: "int option"

definition empty_meta :: ObjectMeta where
  "empty_meta = \<lparr>om_Name = '''', om_GenerateName = '''', om_Namespace = '''', om_Labels = None,
     om_Annotations = None, om_Finalizers = [], om_UID = '''', om_ResourceVersion = '''',
     om_Generation = 0, om_CreationTimestamp = 0, om_DeletionTimestamp = None\<rparr>"

record LabelSelectorRequirement =
  lsr_Key :: string
  lsr_Operator :: string
  lsr_Values :: "string slice"

record LabelSelector =
  ls_MatchLabels :: labels
  ls_MatchExpressions :: "LabelSelectorRequirement slice"

section \<open>Pods and deployments\<close>

record quantity =
  q_Nanos :: int
  q_String :: string

definition quantity_IsZero :: "quantity \<Rightarrow> bool" where
  "quantity_IsZero q \<longleftrightarrow> q_Nanos q = 0"

record EnvVar =
  ev_Name :: string
  ev_Value :: string
  ev_ValueFrom :: "opaque option"

datatype IntOrString = IntVal int | StrVal string

record ContainerPort =
  cp_Name :: string
  cp_ContainerPort :: int
  cp_Protocol :: string

record HTTPGetAction =
  hg_Path :: string
  hg_Port :: IntOrString
  hg_rest :: opaque

record Probe =
  pr_HTTPGet :: "HTTPGetAction option"
  pr_InitialDelaySeconds :: int
  pr_PeriodSeconds :: int
  pr_rest :: opaque

record VolumeMount =
  vm_Name :: string
  vm_ReadOnly :: bool
  vm_MountPath :: string
  vm_SubPath :: string

record KeyToPath =
  kp_Key :: string
  kp_Path :: string
  kp_Mode :: "int option"

datatype VolumeProjection =
    ServiceAccountToken string "int option" string
  | OtherProjection opaque

datatype VolumeSource =
    ConfigMapVolume string "KeyToPath slice" "int option"
  | SecretVolume string "KeyToPath slice" "int option"
  | ProjectedVolume "VolumeProjection slice" "int option"
  | OtherVolume opaque

record Volume =
  vol_Name :: string
  vol_Source :: VolumeSource

record ResourceRequirements =
  rr_Limits :: "quantity gomap"
  rr_Requests :: "quantity gomap"
  rr_Claims :: "opaque slice"

record Toleration =
  tol_Key :: string
  tol_Operator :: string
  tol_Value :: string
  tol_Effect :: string
  tol_TolerationSeconds :: "int option"

record NodeAffinity =
  na_Required :: "opaque option"
  na_Preferred :: "opaque slice"

record PodAffinityTerm =
  pat_LabelSelector :: "LabelSelector option"
  pat_Namespaces :: "string slice"
  pat_TopologyKey :: string
  pat_NamespaceSelector :: "opaque option"
  pat_MatchLabelKeys :: "string slice"
  pat_MismatchLabelKeys :: "string slice"

record WeightedPodAffinityTerm =
  wt_Weight :: int
  wt_PodAffinityTerm :: PodAffinityTerm

text \<open>\<open>PodAffinity\<close> and \<open>PodAntiAffinity\<close> have the same two fields.\<close>

record PodAffinity =
  pa_Required :: "PodAffinityTerm slice"
  pa_Preferred :: "WeightedPodAffinityTerm slice"

record Affinity =
  af_NodeAffinity :: "NodeAffinity option"
  af_PodAffinity :: "PodAffinity option"
  af_PodAntiAffinity :: "PodAffinity option"

record Container =
  ct_Name :: string
  ct_Image :: string
  ct_ImagePullPolicy :: string
  ct_Args :: "string slice"
  ct_Env :: "EnvVar slice"
  ct_Ports :: "ContainerPort slice"
  ct_Resources :: ResourceRequirements
  ct_VolumeMounts :: "VolumeMount slice"
  ct_ReadinessProbe :: "Probe option"
  ct_SecurityContext :: "opaque option"
  ct_rest :: opaque

record PodSpec =
  ps_Volumes :: "Volume slice"
  ps_Containers :: "Container slice"
  ps_ServiceAccountName :: string
  ps_NodeSelector :: labels
  ps_Affinity :: "Affinity option"
  ps_Tolerations :: "Toleration slice"
  ps_rest :: opaque

record PodTemplate =
  pt_Labels :: labels
  pt_Annotations :: labels
  pt_Spec :: PodSpec

record Deployment =
  dep_Meta :: ObjectMeta
  dep_Replicas :: "int option"
  dep_Selector :: "LabelSelector option"
  dep_Template :: PodTemplate
  dep_rest :: opaque

type_synonym ResourceList = "quantity gomap"

subsection \<open>Access paths\<close>

abbreviation dep_Name :: "Deployment \<Rightarrow> string" where
  "dep_Name d \<equiv> om_Name (dep_Meta d)"

abbreviation dep_Namespace :: "Deployment \<Rightarrow> string" where
  "dep_Namespace d \<equiv> om_Namespace (dep_Meta d)"

abbreviation dep_Pod :: "Deployment \<Rightarrow> PodSpec" where
  "dep_Pod d \<equiv> pt_Spec (dep_Template d)"

definition containers :: "Deployment \<Rightarrow> Container list" where
  "containers d = elems (ps_Containers (dep_Pod d))"

definition upd_pod :: "(PodSpec \<Rightarrow> PodSpec) \<Rightarrow> Deployment \<Rightarrow> Deployment" where
  "upd_pod f d = d\<lparr>dep_Template := (dep_Template d)\<lparr>pt_Spec := f (dep_Pod d)\<rparr>\<rparr>"

definition upd_containers :: "(Container list \<Rightarrow> Container list) \<Rightarrow> Deployment \<Rightarrow> Deployment" where
  "upd_containers f d = upd_pod (\<lambda>p. p\<lparr>ps_Containers := map_option f (ps_Containers p)\<rparr>) d"

definition upd_volumes :: "(Volume list \<Rightarrow> Volume list) \<Rightarrow> Deployment \<Rightarrow> Deployment" where
  "upd_volumes f d = upd_pod (\<lambda>p. p\<lparr>ps_Volumes := Some (f (elems (ps_Volumes p)))\<rparr>) d"

text \<open>Writing through \<open>Containers[0]\<close>: out of range is a run-time panic.\<close>

definition index_panic :: string where
  "index_panic = ''runtime error: index out of range [0] with length 0''"

definition upd_container0 :: "(Container \<Rightarrow> Container) \<Rightarrow> Deployment \<Rightarrow> Deployment res" where
  "upd_container0 f d = (case containers d of
      [] \<Rightarrow> Panic index_panic
    | _ # _ \<Rightarrow> Ok (upd_containers (\<lambda>cs. f (hd cs) # tl cs) d))"

lemma containers_upd_containers [simp]:
  "f [] = [] \<Longrightarrow> containers (upd_containers f d) = f (containers d)"
  by (cases "ps_Containers (dep_Pod d)") (simp_all add: containers_def upd_containers_def upd_pod_def)

lemma containers_upd_cons [simp]:
  "containers d = c # cs \<Longrightarrow> containers (upd_containers f d) = f (c # cs)"
  by (cases "ps_Containers (dep_Pod d)") (simp_all add: containers_def upd_containers_def upd_pod_def)

lemma containers_upd_volumes [simp]: "containers (upd_volumes f d) = containers d"
  by (simp add: containers_def upd_volumes_def upd_pod_def)

lemma volumes_upd_volumes [simp]:
  "elems (ps_Volumes (dep_Pod (upd_volumes f d))) = f (elems (ps_Volumes (dep_Pod d)))"
  by (simp add: upd_volumes_def upd_pod_def)

lemma volumes_upd_containers [simp]:
  "ps_Volumes (dep_Pod (upd_containers f d)) = ps_Volumes (dep_Pod d)"
  by (simp add: upd_containers_def upd_pod_def)

lemma upd_meta [simp]:
  "dep_Meta (upd_pod g d) = dep_Meta d" "dep_Meta (upd_containers f d) = dep_Meta d"
  "dep_Meta (upd_volumes h d) = dep_Meta d"
  by (simp_all add: upd_containers_def upd_volumes_def upd_pod_def)

lemma upd_container0_Ok:
  "containers d = c # cs \<Longrightarrow>
   \<exists>d'. upd_container0 f d = Ok d' \<and> containers d' = f c # cs \<and> dep_Meta d' = dep_Meta d"
  by (simp add: upd_container0_def)

lemma upd_container0_eq_Ok_iff:
  "upd_container0 f d = Ok d' \<longleftrightarrow>
   containers d \<noteq> [] \<and> d' = upd_containers (\<lambda>cs. f (hd cs) # tl cs) d"
  by (auto simp: upd_container0_def split: list.splits)

subsection \<open>Equality of Go values\<close>

definition resources_equal :: "ResourceRequirements \<Rightarrow> ResourceRequirements \<Rightarrow> bool" where
  "resources_equal a b \<longleftrightarrow> deep_equal_map (rr_Limits a) (rr_Limits b) \<and>
     deep_equal_map (rr_Requests a) (rr_Requests b) \<and> rr_Claims a = rr_Claims b"

definition selector_equal :: "LabelSelector option \<Rightarrow> LabelSelector option \<Rightarrow> bool" where
  "selector_equal a b = (case (a, b) of
      (None, None) \<Rightarrow> True
    | (Some x, Some y) \<Rightarrow> deep_equal_map (ls_MatchLabels x) (ls_MatchLabels y) \<and>
                          ls_MatchExpressions x = ls_MatchExpressions y
    | _ \<Rightarrow> False)"

definition slice_equal :: "('a \<Rightarrow> 'a \<Rightarrow> bool) \<Rightarrow> 'a slice \<Rightarrow> 'a slice \<Rightarrow> bool" where
  "slice_equal eq a b \<longleftrightarrow> (a = None \<longleftrightarrow> b = None) \<and> list_all2 eq (elems a) (elems b)"

definition ptr_equal :: "('a \<Rightarrow> 'a \<Rightarrow> bool) \<Rightarrow> 'a option \<Rightarrow> 'a option \<Rightarrow> bool" where
  "ptr_equal eq a b = (case (a, b) of (None, None) \<Rightarrow> True | (Some x, Some y) \<Rightarrow> eq x y | _ \<Rightarrow> False)"

definition term_equal :: "PodAffinityTerm \<Rightarrow> PodAffinityTerm \<Rightarrow> bool" where
  "term_equal a b \<longleftrightarrow> selector_equal (pat_LabelSelector a) (pat_LabelSelector b) \<and>
     a\<lparr>pat_LabelSelector := None\<rparr> = b\<lparr>pat_LabelSelector := None\<rparr>"

definition pod_affinity_equal :: "PodAffinity \<Rightarrow> PodAffinity \<Rightarrow> bool" where
  "pod_affinity_equal a b \<longleftrightarrow> slice_equal term_equal (pa_Required a) (pa_Required b) \<and>
     slice_equal (\<lambda>x y. wt_Weight x = wt_Weight y \<and> term_equal (wt_PodAffinityTerm x) (wt_PodAffinityTerm y))
       (pa_Preferred a) (pa_Preferred b)"

definition affinity_equal :: "Affinity \<Rightarrow> Affinity \<Rightarrow> bool" where
  "affinity_equal a b \<longleftrightarrow> af_NodeAffinity a = af_NodeAffinity b \<and>
     ptr_equal pod_affinity_equal (af_PodAffinity a) (af_PodAffinity b) \<and>
     ptr_equal pod_affinity_equal (af_PodAntiAffinity a) (af_PodAntiAffinity b)"

lemma resources_equal_refl [simp]: "resources_equal a a"
  by (simp add: resources_equal_def)

lemma selector_equal_refl [simp]: "selector_equal a a"
  by (cases a) (simp_all add: selector_equal_def)

lemma slice_equal_refl: "(\<And>x. eq x x) \<Longrightarrow> slice_equal eq a a"
  by (simp add: slice_equal_def list_all2_refl)

lemma ptr_equal_refl: "(\<And>x. eq x x) \<Longrightarrow> ptr_equal eq a a"
  by (cases a) (simp_all add: ptr_equal_def)

lemma affinity_equal_refl [simp]: "affinity_equal a a"
  by (simp add: affinity_equal_def pod_affinity_equal_def term_equal_def ptr_equal_refl slice_equal_refl)

end
