(* ===== verification/Go_Strconv.thy ===== *)
theory Go_Strconv
  imports Prelude Complex_Main
begin

text \<open>
  The two conversions of Go's \<open>strconv\<close> that the operator calls:
  \<open>Atoi\<close> (a 64-bit \<open>int\<close>) and \<open>ParseFloat(s, 32)\<close>.  Both return an error as \<open>None\<close>: the
  operator only tests whether there is one.  A \<open>float32\<close> is a rational number, an
  infinity or a NaN; conversion rounds to the nearest representable value, ties to even.
\<close>

subsection \<open>Atoi\<close>

definition digit_val :: "char \<Rightarrow> int option" where
  "digit_val c = (let n = of_char c in if 48 \<le> n \<and> n \<le> (57 :: int) then Some (n - 48) else None)"

fun digits_val :: "int \<Rightarrow> string \<Rightarrow> int option" where
  "digits_val acc [] = Some acc"
| "digits_val acc (c # cs) =
     (case digit_val c of None \<Rightarrow> None | Some d \<Rightarrow> digits_val (10 * acc + d) cs)"

definition int_max :: int where "int_max = 2 ^ 63 - 1"

definition Atoi :: "string \<Rightarrow> int option" where
  "Atoi s =
     (let (neg, ds) = (case s of [] \<Rightarrow> (False, [])
                       | c # cs \<Rightarrow> if c = CHR ''-'' then (True, cs)
                                  else if c = CHR ''+'' then (False, cs) else (False, s))
      in if ds = [] then None
         else case digits_val 0 ds of
                None \<Rightarrow> None
              | Some n \<Rightarrow> if neg then (if n \<le> int_max + 1 then Some (- n) else None)
                          else (if n \<le> int_max then Some n else None))"

subsection \<open>Single precision\<close>

datatype float32 = Fin rat | Infty bool | NaN

fun f32_less :: "float32 \<Rightarrow> float32 \<Rightarrow> bool" where
  "f32_less (Fin a) (Fin b) = (a < b)"
| "f32_less (Fin a) (Infty neg) = (\<not> neg)"
| "f32_less (Infty neg) (Fin b) = neg"
| "f32_less (Infty n1) (Infty n2) = (n1 \<and> \<not> n2)"
| "f32_less _ _ = False"

text \<open>Comparison with zero, as in \<open>val <= 0\<close>; false for NaN.\<close>

fun f32_le_zero :: "float32 \<Rightarrow> bool" where
  "f32_le_zero (Fin a) = (a \<le> 0)"
| "f32_le_zero (Infty neg) = neg"
| "f32_le_zero NaN = False"

definition pow2 :: "int \<Rightarrow> rat" where
  "pow2 e = (if 0 \<le> e then 2 ^ nat e else 1 / 2 ^ nat (- e))"

definition round_half_even :: "rat \<Rightarrow> int" where
  "round_half_even q =
     (let f = floor q; r = q - of_int f
      in if r < 1 / 2 then f else if r > 1 / 2 then f + 1 else if even f then f else f + 1)"

text \<open>
  The exponent of the last place of the mantissa: the least \<open>e\<close> from \<open>-149\<close> up with
  \<open>q < 2 ^ (24 + e)\<close>; 104 is the exponent of the largest finite values.
\<close>

fun ulp_exp :: "nat \<Rightarrow> int \<Rightarrow> rat \<Rightarrow> int" where
  "ulp_exp 0 e q = e"
| "ulp_exp (Suc n) e q = (if q < pow2 (24 + e) then e else ulp_exp n (e + 1) q)"

text \<open>A non-negative rational rounded to single precision; \<open>None\<close> on overflow.\<close>

definition round32 :: "rat \<Rightarrow> rat option" where
  "round32 q =
     (let e = ulp_exp 253 (-149) q; v = of_int (round_half_even (q / pow2 e)) * pow2 e
      in if v \<ge> pow2 128 then None else Some v)"

text \<open>\<open>float32(n)\<close> of an \<open>int\<close>; 64-bit values cannot overflow.\<close>

definition f32_of_int :: "int \<Rightarrow> float32" where
  "f32_of_int n = (case round32 (of_int \<bar>n\<bar>) of
      None \<Rightarrow> Infty (n < 0) | Some v \<Rightarrow> Fin (if n < 0 then - v else v))"

subsection \<open>ParseFloat\<close>

definition hex_val :: "char \<Rightarrow> int option" where
  "hex_val c = (case digit_val c of
      Some d \<Rightarrow> Some d
    | None \<Rightarrow> (let n = of_char (lower_char c) in if 97 \<le> n \<and> n \<le> (102 :: int) then Some (n - 87) else None))"

text \<open>
  The mantissa loop of \<open>readFloat\<close>: accumulated digits, number of digits after the
  dot, whether a dot, a digit or an underscore was seen, and the rest of the input.
\<close>

fun read_mantissa :: "bool \<Rightarrow> string \<Rightarrow> int \<Rightarrow> nat \<Rightarrow> bool \<Rightarrow> bool \<Rightarrow> bool
    \<Rightarrow> int \<times> nat \<times> bool \<times> bool \<times> bool \<times> string" where
  "read_mantissa hex [] m k dot dig und = (m, k, dot, dig, und, [])"
| "read_mantissa hex (c # cs) m k dot dig und =
     (if c = CHR ''_'' then read_mantissa hex cs m k dot dig True
      else if c = CHR ''.'' then
        (if dot then (m, k, dot, dig, und, c # cs) else read_mantissa hex cs m k True dig und)
      else case (if hex then hex_val c else digit_val c) of
             Some d \<Rightarrow> read_mantissa hex cs ((if hex then 16 else 10) * m + d)
                         (if dot then k + 1 else k) dot True und
           | None \<Rightarrow> (m, k, dot, dig, und, c # cs))"

fun read_exp :: "string \<Rightarrow> int \<Rightarrow> bool \<Rightarrow> int \<times> bool \<times> string" where
  "read_exp [] e und = (e, und, [])"
| "read_exp (c # cs) e und =
     (if c = CHR ''_'' then read_exp cs e True
      else case digit_val c of
             Some d \<Rightarrow> read_exp cs (if e < 10000 then 10 * e + d else e) und
           | None \<Rightarrow> (e, und, c # cs))"

text \<open>\<open>underscoreOK\<close>: an underscore stands between digits (a base prefix counts as one).\<close>

fun underscore_scan :: "bool \<Rightarrow> char \<Rightarrow> string \<Rightarrow> bool" where
  "underscore_scan hex st [] = (st \<noteq> CHR ''_'')"
| "underscore_scan hex st (c # cs) =
     (if digit_val c \<noteq> None \<or> (hex \<and> hex_val c \<noteq> None) then underscore_scan hex (CHR ''0'') cs
      else if c = CHR ''_'' then (st = CHR ''0'' \<and> underscore_scan hex (CHR ''_'') cs)
      else st \<noteq> CHR ''_'' \<and> underscore_scan hex (CHR ''!'') cs)"

definition base_prefix :: "string \<Rightarrow> bool" where
  "base_prefix s = (case s of
      a # b # _ \<Rightarrow> a = CHR ''0'' \<and> (lower_char b = CHR ''b'' \<or> lower_char b = CHR ''o'' \<or> lower_char b = CHR ''x'')
    | _ \<Rightarrow> False)"

definition strip_sign :: "string \<Rightarrow> bool \<times> string" where
  "strip_sign s = (case s of [] \<Rightarrow> (False, [])
     | c # cs \<Rightarrow> if c = CHR ''-'' then (True, cs) else if c = CHR ''+'' then (False, cs) else (False, s))"

definition underscore_ok :: "string \<Rightarrow> bool" where
  "underscore_ok s =
     (let t = snd (strip_sign s)
      in if base_prefix t
         then underscore_scan (lower_char (t ! 1) = CHR ''x'') (CHR ''0'') (drop 2 t)
         else underscore_scan False (CHR ''^'') t)"

definition rat_pow :: "rat \<Rightarrow> int \<Rightarrow> rat" where
  "rat_pow b e = (if 0 \<le> e then b ^ nat e else 1 / b ^ nat (- e))"

text \<open>\<open>readFloat\<close>: sign and value, when the whole text is a number.\<close>

definition readFloat :: "string \<Rightarrow> (bool \<times> rat) option" where
  "readFloat s =
     (let (neg, t) = strip_sign s;
          hex = (length t > 2 \<and> hd t = CHR ''0'' \<and> lower_char (t ! 1) = CHR ''x'');
          (m, k, dot, dig, und, rest) =
            read_mantissa hex (if hex then drop 2 t else t) 0 0 False False False;
          scale = (\<lambda>e. if hex then of_int m * rat_pow 2 (e - 4 * int k)
                       else of_int m * rat_pow 10 (e - int k))
      in if \<not> dig then None
         else case rest of
           [] \<Rightarrow> if hex \<or> (und \<and> \<not> underscore_ok s) then None else Some (neg, scale 0)
         | c # cs \<Rightarrow>
             if lower_char c \<noteq> (if hex then CHR ''p'' else CHR ''e'') then None
             else let (eneg, es) = strip_sign cs
                  in if es = [] \<or> digit_val (hd es) = None then None
                     else let (e, und', rest') = read_exp es 0 und
                          in if rest' \<noteq> [] \<or> (und' \<and> \<not> underscore_ok s) then None
                             else Some (neg, scale (if eneg then - e else e)))"

text \<open>\<open>special\<close>: \<open>inf\<close>, \<open>infinity\<close> (with an optional sign) and \<open>nan\<close>, in any case.\<close>

definition special_float :: "string \<Rightarrow> float32 option" where
  "special_float s =
     (let (neg, t) = strip_sign s
      in if to_lower t = ''inf'' \<or> to_lower t = ''infinity'' then Some (Infty neg)
         else if to_lower s = ''nan'' then Some NaN else None)"

definition ParseFloat32 :: "string \<Rightarrow> float32 option" where
  "ParseFloat32 s = (case special_float s of
      Some f \<Rightarrow> Some f
    | None \<Rightarrow> (case readFloat s of
        None \<Rightarrow> None
      | Some (neg, q) \<Rightarrow> (case round32 q of
            None \<Rightarrow> None
          | Some v \<Rightarrow> Some (Fin (if neg then - v else v)))))"

subsection \<open>Lemmas\<close>

lemma digit_val_range: "digit_val c = Some d \<Longrightarrow> 0 \<le> d \<and> d \<le> 9"
  by (auto simp: digit_val_def Let_def split: if_splits)

lemma digits_val_ge: "digits_val acc ds = Some n \<Longrightarrow> 0 \<le> acc \<Longrightarrow> acc \<le> n"
proof (induction ds arbitrary: acc)
  case (Cons c cs)
  then obtain d where d: "digit_val c = Some d" "digits_val (10 * acc + d) cs = Some n"
    by (auto split: option.splits)
  with digit_val_range have "0 \<le> d" by blast
  with Cons.IH [of "10 * acc + d"] d Cons.prems show ?case by simp
qed simp

lemma Atoi_range: "Atoi s = Some n \<Longrightarrow> - (int_max + 1) \<le> n \<and> n \<le> int_max"
  by (auto simp: Atoi_def Let_def int_max_def simp del: digits_val.simps
      split: list.splits if_splits option.splits dest: digits_val_ge)

lemma f32_less_irrefl [simp]: "\<not> f32_less a a"
  by (cases a) auto

end
