(* ===== verification/CM_Overrides.thy ===== *)
theory CM_Overrides
  imports Args K8s_Objects Go_Strconv
begin

text \<open>
  User overrides for the three cert-manager deployments:
  \<open>api/operator/v1alpha1/certmanager_types.go\<close>,
  \<open>pkg/controller/certmanager/deployment_helper.go\<close>, \<open>deployment_overrides.go\<close>,
  \<open>related_images.go\<close> and \<open>deployment_log_level.go\<close>.

  A deployment hook takes the operator spec and the deployment and returns the changed
  deployment, an error or a panic: the deployment controller of library-go throws the
  deployment away when a hook fails.  The informer's lister is the result of
  its \<open>Get("cluster")\<close>; the process environment is a lookup function.
\<close>

section \<open>API types\<close>

record CertManagerResourceRequirements =
  cmr_Limits :: ResourceList
  cmr_Requests :: ResourceList

record CertManagerScheduling =
  sch_NodeSelector :: labels
  sch_Tolerations :: "Toleration slice"

record DeploymentConfig =
  OverrideArgs :: "string slice"
  OverrideEnv :: "EnvVar slice"
  OverrideLabels :: labels
  OverrideResources :: CertManagerResourceRequirements
  OverrideReplicas :: "int option"
  OverrideScheduling :: CertManagerScheduling

record UserNetworkPolicy =
  unp_Name :: string
  unp_ComponentName :: string
  unp_Egress :: "opaque slice"

record OperatorSpec =
  os_ManagementState :: string
  os_LogLevel :: string
  os_UnsupportedConfigOverrides :: string
  os_rest :: opaque

record CertManagerSpec =
  cms_OperatorSpec :: OperatorSpec
  ControllerConfig :: "DeploymentConfig option"
  WebhookConfig :: "DeploymentConfig option"
  CAInjectorConfig :: "DeploymentConfig option"
  DefaultNetworkPolicy :: string
  NetworkPolicies :: "UserNetworkPolicy slice"

record CertManager =
  cm_Meta :: ObjectMeta
  cm_Spec :: CertManagerSpec
  cm_Status :: opaque

type_synonym hook = "OperatorSpec \<Rightarrow> Deployment \<Rightarrow> Deployment res"
type_synonym environ = "string \<Rightarrow> string option"

definition certmanagerControllerDeployment :: string where
  "certmanagerControllerDeployment = ''cert-manager''"
definition certmanagerWebhookDeployment :: string where
  "certmanagerWebhookDeployment = ''cert-manager-webhook''"
definition certmanagerCAinjectorDeployment :: string where
  "certmanagerCAinjectorDeployment = ''cert-manager-cainjector''"

lemmas deployment_names = certmanagerControllerDeployment_def certmanagerWebhookDeployment_def
  certmanagerCAinjectorDeployment_def

definition Getenv :: "environ \<Rightarrow> string \<Rightarrow> string" where
  "Getenv getenv name = (case getenv name of None \<Rightarrow> '''' | Some v \<Rightarrow> v)"

section \<open>deployment\_helper.go\<close>

subsection \<open>Environment variables\<close>

fun parseEnvMap :: "(string \<times> EnvVar) list \<Rightarrow> EnvVar list \<Rightarrow> (string \<times> EnvVar) list" where
  "parseEnvMap envMap [] = envMap"
| "parseEnvMap envMap (env # envs) = parseEnvMap (AList.update (ev_Name env) env envMap) envs"

definition mergeContainerEnvs :: "EnvVar list \<Rightarrow> EnvVar list \<Rightarrow> EnvVar list" where
  "mergeContainerEnvs sourceEnvs overrideEnvs =
     (let destEnvsMap = parseEnvMap (parseEnvMap [] sourceEnvs) overrideEnvs;
          keys = sort (map fst destEnvsMap)
      in map (\<lambda>k. the (map_of destEnvsMap k)) keys)"

subsection \<open>Resources\<close>

definition mergeContainerResourceList :: "ResourceList \<Rightarrow> ResourceList \<Rightarrow> ResourceList" where
  "mergeContainerResourceList sourceResourceList overrideResourceList =
     (if overrideResourceList = None then sourceResourceList
      else fold (\<lambda>resource lst.
             case mlookup overrideResourceList resource of
               None \<Rightarrow> lst
             | Some quantity \<Rightarrow> if quantity_IsZero quantity then lst else mput resource quantity lst)
           [''cpu'', ''memory'']
           (case sourceResourceList of None \<Rightarrow> Some [] | Some l \<Rightarrow> Some l))"

definition mergeContainerResources ::
  "ResourceRequirements \<Rightarrow> CertManagerResourceRequirements \<Rightarrow> ResourceRequirements" where
  "mergeContainerResources sourceResources overrideResources =
     sourceResources\<lparr>
       rr_Limits := mergeContainerResourceList (rr_Limits sourceResources) (cmr_Limits overrideResources),
       rr_Requests := mergeContainerResourceList (rr_Requests sourceResources) (cmr_Requests overrideResources)\<rparr>"

subsection \<open>Scheduling\<close>

text \<open>\<open>labels.Merge\<close>: a fresh map, the second argument on top.\<close>

definition labels_Merge :: "labels \<Rightarrow> labels \<Rightarrow> labels" where
  "labels_Merge labels1 labels2 = mcopy (mcopy (Some []) labels1) labels2"

text \<open>\<open>isSuperset\<close> and \<open>MergeTolerations\<close> of \<open>k8s.io/kubernetes/pkg/util/tolerations\<close>.\<close>

definition isSuperset :: "Toleration \<Rightarrow> Toleration \<Rightarrow> bool" where
  "isSuperset ss t =
     (if t = ss then True
      else if tol_Key t \<noteq> tol_Key ss \<and> (tol_Key ss \<noteq> '''' \<or> tol_Operator ss \<noteq> ''Exists'') then False
      else if tol_Effect t \<noteq> tol_Effect ss \<and> tol_Effect ss \<noteq> '''' then False
      else if tol_Effect ss = ''NoExecute'' \<and>
              (case tol_TolerationSeconds ss of
                 None \<Rightarrow> False
               | Some n \<Rightarrow> (case tol_TolerationSeconds t of None \<Rightarrow> True | Some m \<Rightarrow> m > n)) then False
      else if tol_Operator ss = ''Equal'' \<or> tol_Operator ss = ''''
           then tol_Operator t = ''Equal'' \<and> tol_Value t = tol_Value ss
      else tol_Operator ss = ''Exists'')"

fun mergeTolerations_loop :: "Toleration list \<Rightarrow> Toleration list \<Rightarrow> Toleration list" where
  "mergeTolerations_loop merged [] = merged"
| "mergeTolerations_loop merged (t # later) =
     (if list_ex (\<lambda>t2. isSuperset t2 t) merged \<or> list_ex (\<lambda>t2. t2 \<noteq> t \<and> isSuperset t2 t) later
      then mergeTolerations_loop merged later
      else mergeTolerations_loop (merged @ [t]) later)"

definition MergeTolerations :: "Toleration list \<Rightarrow> Toleration list \<Rightarrow> Toleration slice" where
  "MergeTolerations first second =
     (let merged = mergeTolerations_loop [] (first @ second)
      in if merged = [] then None else Some merged)"

definition mergePodScheduling ::
  "CertManagerScheduling \<Rightarrow> CertManagerScheduling \<Rightarrow> CertManagerScheduling" where
  "mergePodScheduling sourceScheduling overrideScheduling =
     \<lparr>sch_NodeSelector = labels_Merge (sch_NodeSelector sourceScheduling) (sch_NodeSelector overrideScheduling),
      sch_Tolerations = MergeTolerations (elems (sch_Tolerations sourceScheduling))
                          (elems (sch_Tolerations overrideScheduling))\<rparr>"

subsection \<open>Selecting the configuration of a deployment\<close>

text \<open>
  The switch on the deployment name that the six \<open>getOverride...For\<close> functions share:
  the configuration of the component, if any, for a known name.
\<close>

definition errGetCertmanager :: "goerror \<Rightarrow> goerror" where
  "errGetCertmanager err = ErrWrap (''failed to get certmanager '' @ quoted ''cluster'' @ '' due to '') err"

definition errUnsupportedDeployment :: "string \<Rightarrow> goerror" where
  "errUnsupportedDeployment deploymentName =
     ErrNew (''unsupported deployment name '' @ quoted deploymentName @ '' provided'')"

definition configFor :: "CertManager res \<Rightarrow> string \<Rightarrow> DeploymentConfig option res" where
  "configFor lister deploymentName = (case lister of
      Err err \<Rightarrow> Err (errGetCertmanager err)
    | Panic s \<Rightarrow> Panic s
    | Ok certmanager \<Rightarrow>
        if deploymentName = certmanagerControllerDeployment then Ok (ControllerConfig (cm_Spec certmanager))
        else if deploymentName = certmanagerWebhookDeployment then Ok (WebhookConfig (cm_Spec certmanager))
        else if deploymentName = certmanagerCAinjectorDeployment then Ok (CAInjectorConfig (cm_Spec certmanager))
        else Err (errUnsupportedDeployment deploymentName))"

definition overrideFor :: "(DeploymentConfig \<Rightarrow> 'a) \<Rightarrow> 'a \<Rightarrow> CertManager res \<Rightarrow> string \<Rightarrow> 'a res" where
  "overrideFor field zero lister deploymentName =
     bindR (configFor lister deploymentName) (\<lambda>cfg.
       case cfg of None \<Rightarrow> Ok zero | Some c \<Rightarrow> Ok (field c))"

definition getOverrideArgsFor :: "CertManager res \<Rightarrow> string \<Rightarrow> string slice res" where
  "getOverrideArgsFor = overrideFor OverrideArgs None"

definition getOverrideEnvFor :: "CertManager res \<Rightarrow> string \<Rightarrow> EnvVar slice res" where
  "getOverrideEnvFor = overrideFor OverrideEnv None"

definition getOverridePodLabelsFor :: "CertManager res \<Rightarrow> string \<Rightarrow> labels res" where
  "getOverridePodLabelsFor = overrideFor OverrideLabels None"

definition getOverrideReplicasFor :: "CertManager res \<Rightarrow> string \<Rightarrow> int option res" where
  "getOverrideReplicasFor = overrideFor OverrideReplicas None"

definition getOverrideResourcesFor :: "CertManager res \<Rightarrow> string \<Rightarrow> CertManagerResourceRequirements res" where
  "getOverrideResourcesFor = overrideFor OverrideResources \<lparr>cmr_Limits = None, cmr_Requests = None\<rparr>"

definition getOverrideSchedulingFor :: "CertManager res \<Rightarrow> string \<Rightarrow> CertManagerScheduling res" where
  "getOverrideSchedulingFor = overrideFor OverrideScheduling \<lparr>sch_NodeSelector = None, sch_Tolerations = None\<rparr>"

section \<open>related\_images.go\<close>

definition imageEnvMap :: "(string \<times> string) list" where
  "imageEnvMap =
    [(''quay.io/jetstack/cert-manager-controller'', ''RELATED_IMAGE_CERT_MANAGER_CONTROLLER''),
     (''quay.io/jetstack/cert-manager-webhook'', ''RELATED_IMAGE_CERT_MANAGER_WEBHOOK''),
     (''quay.io/jetstack/cert-manager-cainjector'', ''RELATED_IMAGE_CERT_MANAGER_CA_INJECTOR''),
     (''quay.io/jetstack/cert-manager-acmesolver'', ''RELATED_IMAGE_CERT_MANAGER_ACMESOLVER'')]"

text \<open>The loop over the map, in a given iteration order.\<close>

fun certManagerImage_loop :: "(string \<times> string) list \<Rightarrow> environ \<Rightarrow> string \<Rightarrow> string" where
  "certManagerImage_loop [] getenv defaultImage = defaultImage"
| "certManagerImage_loop ((img, env) # rest) getenv defaultImage =
     (if contains defaultImage img \<and> Getenv getenv env \<noteq> '''' then Getenv getenv env
      else certManagerImage_loop rest getenv defaultImage)"

definition certManagerImage :: "environ \<Rightarrow> string \<Rightarrow> string" where
  "certManagerImage getenv defaultImage = certManagerImage_loop imageEnvMap getenv defaultImage"

section \<open>deployment\_overrides.go and deployment\_log\_level.go\<close>

definition trustedCAVolumeName :: string where "trustedCAVolumeName = ''trusted-ca''"
definition trustedCAPath :: string where
  "trustedCAPath = ''/etc/pki/tls/certs/cert-manager-tls-ca-bundle.crt''"
definition defaultCABundleKey :: string where "defaultCABundleKey = ''ca-bundle.crt''"
definition boundSATokenVolumeName :: string where "boundSATokenVolumeName = ''bound-sa-token''"
definition boundSATokenDir :: string where
  "boundSATokenDir = ''/var/run/secrets/openshift/serviceaccount''"
definition boundSAAudience :: string where "boundSAAudience = ''openshift''"
definition boundSAPath :: string where "boundSAPath = ''token''"
definition boundSAExpirySec :: int where "boundSAExpirySec = 3600"
definition upstreamACMESolverImage :: string where
  "upstreamACMESolverImage = ''quay.io/jetstack/cert-manager-acmesolver''"

text \<open>Merging arguments into a container, as every hook does it.\<close>

definition merge_args :: "string list \<Rightarrow> Container \<Rightarrow> Container" where
  "merge_args extra c = c\<lparr>ct_Args := Some (MergeContainerArgs (elems (ct_Args c)) extra)\<rparr>"

definition withOperandImageOverrideHook :: "environ \<Rightarrow> hook" where
  "withOperandImageOverrideHook getenv operatorSpec deployment =
     (let deployment = upd_containers
            (map (\<lambda>c. c\<lparr>ct_Image := certManagerImage getenv (ct_Image c)\<rparr>)) deployment
      in if length (containers deployment) = 1 \<and> dep_Name deployment = certmanagerControllerDeployment
         then upd_container0 (merge_args
                [''--acme-http01-solver-image='' @ certManagerImage getenv upstreamACMESolverImage]) deployment
         else Ok deployment)"

definition logLevels :: "(string \<times> string) list" where
  "logLevels = [(''Normal'', ''--v=2''), (''Debug'', ''--v=4''), (''Trace'', ''--v=6''), (''TraceAll'', ''--v=8'')]"

definition withLogLevel :: hook where
  "withLogLevel operatorSpec deployment =
     (let verbosityArg = mget (Some logLevels) (os_LogLevel operatorSpec)
      in if verbosityArg = '''' then Ok deployment
         else upd_container0 (merge_args [verbosityArg]) deployment)"

definition withContainerArgsOverrideHook ::
  "'i \<Rightarrow> string \<Rightarrow> ('i \<Rightarrow> string \<Rightarrow> string slice res) \<Rightarrow> hook" where
  "withContainerArgsOverrideHook informer deploymentName fn operatorSpec deployment =
     bindR (fn informer deploymentName) (\<lambda>overrideArgs.
       if overrideArgs \<noteq> None \<and> length (elems overrideArgs) > 0 \<and>
          length (containers deployment) = 1 \<and> dep_Name deployment = deploymentName
       then upd_container0 (\<lambda>c.
              let c = merge_args (elems overrideArgs) c
              in c\<lparr>ct_Args := Some (sort (elems (ct_Args c)))\<rparr>) deployment
       else Ok deployment)"

definition withContainerEnvOverrideHook ::
  "'i \<Rightarrow> string \<Rightarrow> ('i \<Rightarrow> string \<Rightarrow> EnvVar slice res) \<Rightarrow> hook" where
  "withContainerEnvOverrideHook informer deploymentName fn operatorSpec deployment =
     bindR (fn informer deploymentName) (\<lambda>overrideEnv.
       if overrideEnv \<noteq> None \<and> length (elems overrideEnv) > 0 \<and>
          length (containers deployment) = 1 \<and> dep_Name deployment = deploymentName
       then upd_container0 (\<lambda>c. c\<lparr>ct_Env := Some (mergeContainerEnvs (elems (ct_Env c)) (elems overrideEnv))\<rparr>)
              deployment
       else Ok deployment)"

definition withContainerResourcesOverrideHook ::
  "'i \<Rightarrow> string \<Rightarrow> ('i \<Rightarrow> string \<Rightarrow> CertManagerResourceRequirements res) \<Rightarrow> hook" where
  "withContainerResourcesOverrideHook informer deploymentName fn operatorSpec deployment =
     bindR (fn informer deploymentName) (\<lambda>overrideResources.
       if length (containers deployment) = 1 \<and> dep_Name deployment = deploymentName
       then upd_container0
              (\<lambda>c. c\<lparr>ct_Resources := mergeContainerResources (ct_Resources c) overrideResources\<rparr>) deployment
       else Ok deployment)"

definition withDeploymentReplicasOverrideHook ::
  "'i \<Rightarrow> string \<Rightarrow> ('i \<Rightarrow> string \<Rightarrow> int option res) \<Rightarrow> hook" where
  "withDeploymentReplicasOverrideHook informer deploymentName fn operatorSpec deployment =
     bindR (fn informer deploymentName) (\<lambda>overrideReplicas.
       if overrideReplicas \<noteq> None \<and> dep_Name deployment = deploymentName
       then Ok (deployment\<lparr>dep_Replicas := overrideReplicas\<rparr>)
       else Ok deployment)"

definition withPodSchedulingOverrideHook ::
  "'i \<Rightarrow> string \<Rightarrow> ('i \<Rightarrow> string \<Rightarrow> CertManagerScheduling res) \<Rightarrow> hook" where
  "withPodSchedulingOverrideHook informer deploymentName fn operatorSpec deployment =
     bindR (fn informer deploymentName) (\<lambda>overrideScheduling.
       if dep_Name deployment = deploymentName
       then (let mergedScheduling = mergePodScheduling
                   \<lparr>sch_NodeSelector = ps_NodeSelector (dep_Pod deployment),
                    sch_Tolerations = ps_Tolerations (dep_Pod deployment)\<rparr> overrideScheduling
             in Ok (upd_pod (\<lambda>p. p\<lparr>ps_NodeSelector := sch_NodeSelector mergedScheduling,
                                   ps_Tolerations := sch_Tolerations mergedScheduling\<rparr>) deployment))
       else Ok deployment)"

text \<open>\<open>ReadProxyVarsFromEnv\<close> of operator-lib: upper- and lower-case variants of what is set.\<close>

definition ReadProxyVarsFromEnv :: "environ \<Rightarrow> EnvVar list" where
  "ReadProxyVarsFromEnv getenv = concat (map (\<lambda>s.
     case getenv s of
       None \<Rightarrow> []
     | Some value \<Rightarrow> [\<lparr>ev_Name = s, ev_Value = value, ev_ValueFrom = None\<rparr>,
                       \<lparr>ev_Name = to_lower s, ev_Value = value, ev_ValueFrom = None\<rparr>])
     [''HTTP_PROXY'', ''HTTPS_PROXY'', ''NO_PROXY''])"

definition withProxyEnv :: "environ \<Rightarrow> hook" where
  "withProxyEnv getenv operatorSpec deployment =
     upd_container0 (\<lambda>c. c\<lparr>ct_Env := Some (mergeContainerEnvs (elems (ct_Env c)) (ReadProxyVarsFromEnv getenv))\<rparr>)
       deployment"

definition append_mount :: "VolumeMount \<Rightarrow> Container \<Rightarrow> Container" where
  "append_mount m c = c\<lparr>ct_VolumeMounts := Some (elems (ct_VolumeMounts c) @ [m])\<rparr>"

definition trustedCAVolume :: "string \<Rightarrow> Volume" where
  "trustedCAVolume name = \<lparr>vol_Name = trustedCAVolumeName, vol_Source = ConfigMapVolume name None None\<rparr>"

definition trustedCAMount :: VolumeMount where
  "trustedCAMount = \<lparr>vm_Name = trustedCAVolumeName, vm_ReadOnly = False,
     vm_MountPath = trustedCAPath, vm_SubPath = defaultCABundleKey\<rparr>"

definition withCAConfigMap :: "(string \<Rightarrow> unit res) \<Rightarrow> string \<Rightarrow> hook" where
  "withCAConfigMap getConfigMap trustedCAConfigmapName operatorSpec deployment =
     (if length trustedCAConfigmapName = 0 then Ok deployment
      else case getConfigMap trustedCAConfigmapName of
        Panic s \<Rightarrow> Panic s
      | Err err \<Rightarrow>
          if IsNotFound (Some err)
          then Err (ErrWrap (''(Retrying) trusted CA config map '' @ quoted trustedCAConfigmapName
                      @ '' doesn'' @ [CHR 0x27] @ ''t exist due to '') err)
          else Err err
      | Ok _ \<Rightarrow>
          Ok (upd_containers (map (append_mount trustedCAMount))
                (upd_volumes (\<lambda>vs. vs @ [trustedCAVolume trustedCAConfigmapName]) deployment)))"

definition withPodLabelsOverrideHook :: "'i \<Rightarrow> string \<Rightarrow> ('i \<Rightarrow> string \<Rightarrow> labels res) \<Rightarrow> hook" where
  "withPodLabelsOverrideHook informer deploymentName fn operatorSpec deployment =
     bindR (fn informer deploymentName) (\<lambda>overrideLabels.
       if overrideLabels \<noteq> None \<and> length (elems overrideLabels) > 0 \<and> dep_Name deployment = deploymentName
       then Ok (deployment\<lparr>dep_Template := (dep_Template deployment)\<lparr>
              pt_Labels := labels_Merge (pt_Labels (dep_Template deployment)) overrideLabels\<rparr>\<rparr>)
       else Ok deployment)"

definition boundSATokenVolume :: Volume where
  "boundSATokenVolume = \<lparr>vol_Name = boundSATokenVolumeName, vol_Source = ProjectedVolume
     (Some [ServiceAccountToken boundSAAudience (Some boundSAExpirySec) boundSAPath]) (Some 420)\<rparr>"

definition boundSATokenMount :: VolumeMount where
  "boundSATokenMount = \<lparr>vm_Name = boundSATokenVolumeName, vm_ReadOnly = True,
     vm_MountPath = boundSATokenDir, vm_SubPath = ''''\<rparr>"

definition withSABoundToken :: hook where
  "withSABoundToken operatorSpec deployment =
     upd_container0 (append_mount boundSATokenMount)
       (upd_volumes (\<lambda>vs. vs @ [boundSATokenVolume]) deployment)"

section \<open>Lemmas\<close>

subsection \<open>Environment variables\<close>

definition envLookup :: "EnvVar list \<Rightarrow> string \<Rightarrow> EnvVar option" where
  "envLookup envs k = find (\<lambda>e. ev_Name e = k) (rev envs)"

lemma envLookup_Nil [simp]: "envLookup [] k = None"
  by (simp add: envLookup_def)

lemma find_snoc: "find P (xs @ [x]) = (case find P xs of None \<Rightarrow> if P x then Some x else None | Some y \<Rightarrow> Some y)"
  by (induction xs) auto

lemma envLookup_Cons:
  "envLookup (e # es) k =
     (case envLookup es k of None \<Rightarrow> if ev_Name e = k then Some e else None | Some x \<Rightarrow> Some x)"
  by (simp add: envLookup_def find_snoc)

lemma map_of_parseEnvMap:
  "map_of (parseEnvMap m envs) k = (case envLookup envs k of None \<Rightarrow> map_of m k | Some e \<Rightarrow> Some e)"
  by (induction envs arbitrary: m) (auto simp: envLookup_Cons update_conv' split: option.splits)

lemma distinct_parseEnvMap: "distinct (map fst m) \<Longrightarrow> distinct (map fst (parseEnvMap m envs))"
  by (induction envs arbitrary: m) (simp_all add: distinct_update)

text \<open>Each entry is filed under its own name.\<close>

lemma parseEnvMap_names:
  assumes "distinct (map fst m)" "\<And>k e. map_of m k = Some e \<Longrightarrow> ev_Name e = k"
  shows "map_of (parseEnvMap m envs) k = Some e \<Longrightarrow> ev_Name e = k"
  using assms
proof (induction envs arbitrary: m)
  case (Cons a envs)
  show ?case
    by (rule Cons.IH [of "AList.update (ev_Name a) a m"])
       (use Cons.prems in \<open>auto simp: update_conv' distinct_update split: if_splits\<close>)
qed simp

lemma envLookup_distinct:
  assumes "distinct (map ev_Name es)"
  shows "envLookup es k = Some e \<longleftrightarrow> e \<in> set es \<and> ev_Name e = k"
  using assms
proof (induction es)
  case (Cons a es)
  have "envLookup es (ev_Name a) = None"
    using Cons.prems by (auto simp: envLookup_def find_None_iff image_iff)
  with Cons show ?case by (auto simp: envLookup_Cons split: option.splits)
qed simp

lemma merged_env_names:
  assumes "map_of (parseEnvMap (parseEnvMap [] src) ovr) k = Some e"
  shows "ev_Name e = k"
proof -
  have d: "distinct (map fst (parseEnvMap [] src))" by (rule distinct_parseEnvMap) simp
  have "map_of (parseEnvMap [] src) k' = Some e' \<Longrightarrow> ev_Name e' = k'" for k' e'
    by (rule parseEnvMap_names [of "[]"]) simp_all
  from parseEnvMap_names [OF d this] assms show ?thesis by blast
qed

lemma mergeContainerEnvs_names:
  "map ev_Name (mergeContainerEnvs src ovr) = sort (map fst (parseEnvMap (parseEnvMap [] src) ovr))"
proof -
  let ?m = "parseEnvMap (parseEnvMap [] src) ovr"
  have "ev_Name (the (map_of ?m k)) = k" if "k \<in> set (map fst ?m)" for k
  proof -
    from that obtain e where "map_of ?m k = Some e"
      by (metis map_of_eq_None_iff not_None_eq set_map)
    with merged_env_names show ?thesis by simp
  qed
  then have "map (\<lambda>k. ev_Name (the (map_of ?m k))) (sort (map fst ?m)) = sort (map fst ?m)"
    by (intro map_idI) auto
  then show ?thesis by (simp add: mergeContainerEnvs_def Let_def o_def)
qed

lemma sorted_mergeContainerEnvs: "sorted (map ev_Name (mergeContainerEnvs src ovr))"
  by (simp add: mergeContainerEnvs_names)

lemma distinct_mergeContainerEnvs: "distinct (map ev_Name (mergeContainerEnvs src ovr))"
  by (simp add: mergeContainerEnvs_names distinct_parseEnvMap)

lemma envLookup_mergeContainerEnvs:
  "envLookup (mergeContainerEnvs src ovr) k =
     (case envLookup ovr k of None \<Rightarrow> envLookup src k | Some e \<Rightarrow> Some e)"
proof -
  let ?m = "parseEnvMap (parseEnvMap [] src) ovr"
  have look: "map_of ?m k = (case envLookup ovr k of None \<Rightarrow> envLookup src k | Some e \<Rightarrow> Some e)"
    by (simp add: map_of_parseEnvMap cong: option.case_cong)
  have dom: "k \<in> set (map fst ?m) \<longleftrightarrow> map_of ?m k \<noteq> None" for k
    by (simp add: map_of_eq_None_iff)
  have "envLookup (mergeContainerEnvs src ovr) k = Some e \<longleftrightarrow> map_of ?m k = Some e" for e
  proof -
    have "envLookup (mergeContainerEnvs src ovr) k = Some e \<longleftrightarrow>
          (\<exists>k' \<in> set (map fst ?m). e = the (map_of ?m k')) \<and> ev_Name e = k"
      unfolding envLookup_distinct [OF distinct_mergeContainerEnvs]
      by (auto simp: mergeContainerEnvs_def Let_def)
    also have "\<dots> \<longleftrightarrow> map_of ?m k = Some e"
      using dom merged_env_names by (metis option.collapse option.sel option.distinct(1))
    finally show ?thesis .
  qed
  with look show ?thesis by (metis not_Some_eq)
qed

interpretation envs: override_merge envLookup mergeContainerEnvs "\<lambda>_. True"
  by unfold_locales (rule envLookup_mergeContainerEnvs)

interpretation labels: override_merge mlookup labels_Merge "\<lambda>_. True"
  by unfold_locales (simp add: labels_Merge_def mlookup_def [of "Some []"] split: option.splits)

subsection \<open>Resources\<close>

lemma mlookup_mergeContainerResourceList:
  "mlookup (mergeContainerResourceList src ovr) r =
     (case mlookup ovr r of
        Some q \<Rightarrow> if (r = ''cpu'' \<or> r = ''memory'') \<and> \<not> quantity_IsZero q then Some q else mlookup src r
      | None \<Rightarrow> mlookup src r)"
  by (cases src; cases "mlookup ovr ''cpu''"; cases "mlookup ovr ''memory''")
     (auto simp: mergeContainerResourceList_def mlookup_def [of "Some []"] split: option.splits)

subsection \<open>Tolerations\<close>

lemma isSuperset_refl [simp]: "isSuperset t t"
  by (simp add: isSuperset_def)

text \<open>The four conditions of a proper superset.\<close>

definition seconds_within :: "Toleration \<Rightarrow> Toleration \<Rightarrow> bool" where
  "seconds_within ss t \<longleftrightarrow> (case tol_TolerationSeconds ss of
      None \<Rightarrow> True
    | Some n \<Rightarrow> (case tol_TolerationSeconds t of None \<Rightarrow> False | Some m \<Rightarrow> m \<le> n))"

lemma seconds_within_trans: "seconds_within a b \<Longrightarrow> seconds_within b c \<Longrightarrow> seconds_within a c"
  by (auto simp: seconds_within_def split: option.splits)

lemma early_returns:
  "(if A then True else if B then False else if C then False else if D then False else E) \<longleftrightarrow>
   A \<or> (\<not> B \<and> \<not> C \<and> \<not> D \<and> E)"
  by simp

lemma isSuperset_iff:
  "isSuperset ss t \<longleftrightarrow> t = ss \<or>
     (tol_Key t = tol_Key ss \<or> tol_Key ss = '''' \<and> tol_Operator ss = ''Exists'') \<and>
     (tol_Effect t = tol_Effect ss \<or> tol_Effect ss = '''') \<and>
     (tol_Effect ss \<noteq> ''NoExecute'' \<or> seconds_within ss t) \<and>
     (if tol_Operator ss = ''Equal'' \<or> tol_Operator ss = ''''
      then tol_Operator t = ''Equal'' \<and> tol_Value t = tol_Value ss else tol_Operator ss = ''Exists'')"
proof -
  have "(case tol_TolerationSeconds ss of None \<Rightarrow> False
         | Some n \<Rightarrow> (case tol_TolerationSeconds t of None \<Rightarrow> True | Some m \<Rightarrow> m > n)) \<longleftrightarrow>
        \<not> seconds_within ss t"
    by (auto simp: seconds_within_def split: option.splits)
  then show ?thesis
    unfolding isSuperset_def early_returns by (simp only: de_Morgan_conj de_Morgan_disj not_not)
qed

text \<open>The operator and key conditions compose, for any three operators told apart.\<close>

lemma superset_chain:
  assumes "ex \<noteq> eq" "ex \<noteq> em"
    and "kb = ka \<or> ka = z \<and> oa = ex" "kc = kb \<or> kb = z \<and> ob = ex"
    and "if oa = eq \<or> oa = em then ob = eq \<and> vb = va else oa = ex"
    and "if ob = eq \<or> ob = em then oc = eq \<and> vc = vb else ob = ex"
  shows "(kc = ka \<or> ka = z \<and> oa = ex) \<and> (if oa = eq \<or> oa = em then oc = eq \<and> vc = va else oa = ex)"
  using assms by (auto split: if_splits)

lemma isSuperset_trans:
  assumes ab: "isSuperset a b" and bc: "isSuperset b c"
  shows "isSuperset a c"
proof (cases "b = a \<or> c = b")
  case True
  with ab bc show ?thesis by auto
next
  case False
  then have "b \<noteq> a" "c \<noteq> b" by blast+
  note b = ab [unfolded isSuperset_iff, simplified \<open>b \<noteq> a\<close> simp_thms]
    and c = bc [unfolded isSuperset_iff, simplified \<open>c \<noteq> b\<close> simp_thms]
  have "''Exists'' \<noteq> ''Equal''" "''Exists'' \<noteq> ''''" by simp_all
  from superset_chain [OF this b [THEN conjunct1] c [THEN conjunct1]
      b [THEN conjunct2, THEN conjunct2, THEN conjunct2] c [THEN conjunct2, THEN conjunct2, THEN conjunct2]]
  have "(tol_Key c = tol_Key a \<or> tol_Key a = '''' \<and> tol_Operator a = ''Exists'') \<and>
        (if tol_Operator a = ''Equal'' \<or> tol_Operator a = ''''
         then tol_Operator c = ''Equal'' \<and> tol_Value c = tol_Value a else tol_Operator a = ''Exists'')" .
  moreover have "tol_Effect c = tol_Effect a \<or> tol_Effect a = ''''"
    using b [THEN conjunct2, THEN conjunct1] c [THEN conjunct2, THEN conjunct1] by auto
  moreover have "tol_Effect a \<noteq> ''NoExecute'' \<or> seconds_within a c"
    using b [THEN conjunct2, THEN conjunct1] b [THEN conjunct2, THEN conjunct2, THEN conjunct1]
      c [THEN conjunct2, THEN conjunct2, THEN conjunct1] seconds_within_trans [of a b c] by auto
  ultimately show ?thesis unfolding isSuperset_iff by blast
qed

lemma mergeTolerations_loop_mono: "set merged \<subseteq> set (mergeTolerations_loop merged ts)"
proof (induction ts arbitrary: merged)
  case (Cons a ts)
  from Cons.IH [of merged] Cons.IH [of "merged @ [a]"] show ?case by auto
qed simp

lemma mergeTolerations_loop_subset: "set (mergeTolerations_loop merged ts) \<subseteq> set merged \<union> set ts"
proof (induction ts arbitrary: merged)
  case (Cons a ts)
  from Cons.IH [of merged] Cons.IH [of "merged @ [a]"] show ?case by auto
qed simp

lemma mergeTolerations_loop_covers:
  "t \<in> set ts \<Longrightarrow> \<exists>m \<in> set (mergeTolerations_loop merged ts). isSuperset m t"
proof (induction ts arbitrary: merged t)
  case (Cons u later)
  let ?step = "\<lambda>m. mergeTolerations_loop m later"
  show ?case
  proof (cases "t \<in> set later")
    case True
    with Cons.IH show ?thesis by simp
  next
    case False
    with Cons.prems have t: "t = u" by simp
    show ?thesis
    proof (cases "list_ex (\<lambda>t2. isSuperset t2 u) merged")
      case True
      with t show ?thesis
        using mergeTolerations_loop_mono [of merged later] by (auto simp: list_ex_iff)
    next
      case no_merged: False
      show ?thesis
      proof (cases "list_ex (\<lambda>t2. t2 \<noteq> u \<and> isSuperset t2 u) later")
        case True
        then obtain t2 where "t2 \<in> set later" "isSuperset t2 u" by (auto simp: list_ex_iff)
        with Cons.IH [of t2 merged] True t show ?thesis
          by (auto intro: isSuperset_trans)
      next
        case False
        with no_merged t show ?thesis
          using mergeTolerations_loop_mono [of "merged @ [u]" later]
          by (auto intro!: bexI [of _ u])
      qed
    qed
  qed
qed simp

lemma elems_MergeTolerations: "elems (MergeTolerations a b) = mergeTolerations_loop [] (a @ b)"
  by (simp add: MergeTolerations_def Let_def)

subsection \<open>Images\<close>

lemma certManagerImage_loop_unset:
  "(\<And>img env. (img, env) \<in> set order \<Longrightarrow> contains d img \<Longrightarrow> Getenv getenv env = '''') \<Longrightarrow>
   certManagerImage_loop order getenv d = d"
  by (induction order) (auto, blast+)

text \<open>When the image names one upstream image only, the iteration order does not matter.\<close>

lemma certManagerImage_loop_unique:
  assumes "(img, env) \<in> set order" "contains d img" "Getenv getenv env \<noteq> ''''"
    and "\<And>img' env'. (img', env') \<in> set order \<Longrightarrow> contains d img' \<Longrightarrow> env' = env"
  shows "certManagerImage_loop order getenv d = Getenv getenv env"
  using assms
proof (induction order)
  case (Cons p order)
  obtain i e where p: "p = (i, e)" by (cases p)
  show ?case
  proof (cases "contains d i \<and> Getenv getenv e \<noteq> ''''")
    case True
    with Cons.prems(4) [of i e] p show ?thesis by simp
  next
    case False
    with Cons.prems(1-3) p have "(img, env) \<in> set order" by auto
    moreover have "\<And>i' e'. (i', e') \<in> set order \<Longrightarrow> contains d i' \<Longrightarrow> e' = env"
      using Cons.prems(4) by auto
    ultimately have "certManagerImage_loop order getenv d = Getenv getenv env"
      by (intro Cons.IH Cons.prems(2,3)) auto
    with False p show ?thesis by auto
  qed
qed simp

section \<open>Properties\<close>

text \<open>
  C16.  Merging environment variables: the result is sorted by name with one variable per name, and
  a name's variable (value or reference) comes from the override list, else from the source list.
\<close>

theorem mergeContainerEnvs_correct:
  "sorted (map ev_Name (mergeContainerEnvs src ovr)) \<and> distinct (map ev_Name (mergeContainerEnvs src ovr)) \<and>
   envLookup (mergeContainerEnvs src ovr) k =
     (case envLookup ovr k of None \<Rightarrow> envLookup src k | Some e \<Rightarrow> Some e)"
  using sorted_mergeContainerEnvs distinct_mergeContainerEnvs envs.look_merge by blast

text \<open>
  C17.  Merging scheduling constraints: a node selector entry comes from the override, else from the
  manifest; every toleration of either list is covered by a toleration of the result, which holds
  only tolerations of the two lists.
\<close>

theorem mergePodScheduling_correct:
  fixes src ovr
  defines "m \<equiv> mergePodScheduling src ovr"
  shows "mlookup (sch_NodeSelector m) k =
           (case mlookup (sch_NodeSelector ovr) k of None \<Rightarrow> mlookup (sch_NodeSelector src) k | Some v \<Rightarrow> Some v) \<and>
         list_all (\<lambda>t. list_ex (\<lambda>u. isSuperset u t) (elems (sch_Tolerations m)))
           (elems (sch_Tolerations src) @ elems (sch_Tolerations ovr)) \<and>
         set (elems (sch_Tolerations m)) \<subseteq> set (elems (sch_Tolerations src)) \<union> set (elems (sch_Tolerations ovr))"
  using labels.look_merge [where k = k and a = "sch_NodeSelector src" and b = "sch_NodeSelector ovr"] mergeTolerations_loop_covers
    mergeTolerations_loop_subset [of "[]" "elems (sch_Tolerations src) @ elems (sch_Tolerations ovr)"]
  by (auto simp: m_def mergePodScheduling_def elems_MergeTolerations list_all_iff list_ex_iff)

text \<open>
  C18.  Merging resources changes cpu and memory only, and only to a non-zero quantity of the override;
  claims are kept.
\<close>

theorem mergeContainerResources_correct:
  fixes src ovr
  defines "m \<equiv> mergeContainerResources src ovr"
    and "pickq \<equiv> \<lambda>s ov r. case mlookup ov r of
           Some q \<Rightarrow> if (r = ''cpu'' \<or> r = ''memory'') \<and> \<not> quantity_IsZero q then Some q else mlookup s r
         | None \<Rightarrow> mlookup s r"
  shows "mlookup (rr_Limits m) r = pickq (rr_Limits src) (cmr_Limits ovr) r \<and>
         mlookup (rr_Requests m) r = pickq (rr_Requests src) (cmr_Requests ovr) r \<and>
         rr_Claims m = rr_Claims src"
  by (simp add: m_def pickq_def mergeContainerResources_def mlookup_mergeContainerResourceList)

end
