(* ===== verification/Validation.thy ===== *)
theory Validation
  imports K8s_Objects
begin

text \<open>
  Validation of user configuration: \<open>pkg/controller/common/validation.go\<close> and
  \<open>core_validation_helpers.go\<close>.  The validators of \<open>k8s.io/kubernetes\<close> and
  \<open>k8s.io/apimachinery\<close> that these call are the fields of an argument of type
  \<open>core_validators\<close>; each returns the list of its field errors.
\<close>

section \<open>Field errors\<close>

datatype field_error =
    FieldInvalid string string string
  | FieldRequired string string
  | FieldForbidden string string
  | FieldOther string

text \<open>The bad value of \<open>FieldInvalid\<close> is given as it is printed.\<close>

fun field_text :: "field_error \<Rightarrow> string" where
  "field_text (FieldInvalid p v d) = p @ '': Invalid value: '' @ v @ '': '' @ d"
| "field_text (FieldRequired p d) = p @ '': Required value: '' @ d"
| "field_text (FieldForbidden p d) = p @ '': Forbidden: '' @ d"
| "field_text (FieldOther s) = s"

type_synonym path = string

definition Child :: "path \<Rightarrow> string \<Rightarrow> path" where
  "Child p name = p @ ''.'' @ name"

definition Index :: "path \<Rightarrow> nat \<Rightarrow> path" where
  "Index p i = p @ ''['' @ show_nat i @ '']''"

fun dedup_fields :: "string list \<Rightarrow> field_error list \<Rightarrow> field_error list" where
  "dedup_fields seen [] = []"
| "dedup_fields seen (e # es) =
     (if List.member seen (field_text e) then dedup_fields seen es
      else e # dedup_fields (field_text e # seen) es)"

definition ToAggregate :: "field_error list \<Rightarrow> goerror option" where
  "ToAggregate errs =
     (if errs = [] then None
      else NewAggregate (map (\<lambda>e. Some (ErrNew (field_text e))) (dedup_fields [] errs)))"

lemma ToAggregate_eq_None_iff [simp]: "ToAggregate errs = None \<longleftrightarrow> errs = []"
  by (cases errs) (auto simp: ToAggregate_def NewAggregate_eq_None_iff)

section \<open>core\_validation\_helpers.go\<close>

record core_validators =
  ValidateNodeSelector :: "opaque \<Rightarrow> path \<Rightarrow> field_error list"
  ValidatePreferredSchedulingTerms :: "opaque list \<Rightarrow> path \<Rightarrow> field_error list"
  ValidatePodAffinityTermSelector :: "PodAffinityTerm \<Rightarrow> bool \<Rightarrow> path \<Rightarrow> field_error list"
  ValidateNamespaceName :: "string \<Rightarrow> string list"
  ValidateLabelName :: "string \<Rightarrow> path \<Rightarrow> field_error list"
  ValidateLabels :: "labels \<Rightarrow> path \<Rightarrow> field_error list"
  ValidateAnnotations :: "labels \<Rightarrow> path \<Rightarrow> field_error list"
  ValidateTolerations :: "Toleration list \<Rightarrow> path \<Rightarrow> field_error list"
  ValidateContainerResourceRequirements :: "ResourceRequirements \<Rightarrow> path \<Rightarrow> field_error list"

definition enumerate_from0 :: "'a list \<Rightarrow> (nat \<times> 'a) list" where
  "enumerate_from0 xs = zip [0 ..< length xs] xs"

definition validateLabelKeys ::
  "core_validators \<Rightarrow> path \<Rightarrow> string list \<Rightarrow> LabelSelector option \<Rightarrow> field_error list" where
  "validateLabelKeys cv fldPath labelKeys labelSelector =
     (if length labelKeys = 0 then []
      else if labelSelector = None
      then [FieldForbidden fldPath ''must not be specified when labelSelector is not set'']
      else concat (map (\<lambda>(i, key). ValidateLabelName cv key (Index fldPath i)) (enumerate_from0 labelKeys)))"

text \<open>\<open>labelKeysMap[key] = i\<close> in a loop: the last index of a repeated key.\<close>

definition last_index :: "string list \<Rightarrow> string \<Rightarrow> nat option" where
  "last_index ks k = map_of (rev (map (\<lambda>(i, x). (x, i)) (enumerate_from0 ks))) k"

fun matchExpressions_loop ::
  "path \<Rightarrow> string list \<Rightarrow> string list \<Rightarrow> LabelSelectorRequirement list \<Rightarrow> field_error list" where
  "matchExpressions_loop fldPath matchLabelKeys selectorKeys [] = []"
| "matchExpressions_loop fldPath matchLabelKeys selectorKeys (e # es) =
     (let key = lsr_Key e
      in (case last_index matchLabelKeys key of
            Some i \<Rightarrow> if List.member selectorKeys key
                      then [FieldInvalid (Index fldPath i) (quoted key)
                              ''exists in both matchLabelKeys and labelSelector'']
                      else []
          | None \<Rightarrow> [])
         @ matchExpressions_loop fldPath matchLabelKeys (key # selectorKeys) es)"

definition validateMatchLabelKeysAndMismatchLabelKeys ::
  "core_validators \<Rightarrow> path \<Rightarrow> string list \<Rightarrow> string list \<Rightarrow> LabelSelector option \<Rightarrow> field_error list" where
  "validateMatchLabelKeysAndMismatchLabelKeys cv fldPath matchLabelKeys mismatchLabelKeys labelSelector =
     validateLabelKeys cv (Child fldPath ''matchLabelKeys'') matchLabelKeys labelSelector
     @ validateLabelKeys cv (Child fldPath ''mismatchLabelKeys'') mismatchLabelKeys labelSelector
     @ (case labelSelector of
          None \<Rightarrow> []
        | Some sel \<Rightarrow> matchExpressions_loop fldPath matchLabelKeys
                        (map fst (elems (ls_MatchLabels sel))) (elems (ls_MatchExpressions sel)))
     @ concat (map (\<lambda>(i, k).
         if List.member mismatchLabelKeys k
         then [FieldInvalid (Index (Child fldPath ''matchLabelKeys'') i) (quoted k)
                 ''exists in both matchLabelKeys and mismatchLabelKeys'']
         else []) (enumerate_from0 matchLabelKeys))"

definition validatePodAffinityTerm ::
  "core_validators \<Rightarrow> PodAffinityTerm \<Rightarrow> bool \<Rightarrow> path \<Rightarrow> field_error list" where
  "validatePodAffinityTerm cv podAffinityTerm allowInvalid fldPath =
     ValidatePodAffinityTermSelector cv podAffinityTerm allowInvalid fldPath
     @ concat (map (\<lambda>name. map (\<lambda>msg. FieldInvalid (Child fldPath ''namespace'') (quoted name) msg)
                                (ValidateNamespaceName cv name)) (elems (pat_Namespaces podAffinityTerm)))
     @ validateMatchLabelKeysAndMismatchLabelKeys cv fldPath (elems (pat_MatchLabelKeys podAffinityTerm))
         (elems (pat_MismatchLabelKeys podAffinityTerm)) (pat_LabelSelector podAffinityTerm)
     @ (if length (pat_TopologyKey podAffinityTerm) = 0
        then [FieldRequired (Child fldPath ''topologyKey'') ''can not be empty''] else [])
     @ ValidateLabelName cv (pat_TopologyKey podAffinityTerm) (Child fldPath ''topologyKey'')"

definition validatePodAffinityTerms ::
  "core_validators \<Rightarrow> PodAffinityTerm list \<Rightarrow> bool \<Rightarrow> path \<Rightarrow> field_error list" where
  "validatePodAffinityTerms cv podAffinityTerms allowInvalid fldPath =
     concat (map (\<lambda>(i, t). validatePodAffinityTerm cv t allowInvalid (Index fldPath i))
                 (enumerate_from0 podAffinityTerms))"

definition validateWeightedPodAffinityTerms ::
  "core_validators \<Rightarrow> WeightedPodAffinityTerm list \<Rightarrow> bool \<Rightarrow> path \<Rightarrow> field_error list" where
  "validateWeightedPodAffinityTerms cv weightedPodAffinityTerms allowInvalid fldPath =
     concat (map (\<lambda>(j, t).
       (if wt_Weight t \<le> 0 \<or> wt_Weight t > 100
        then [FieldInvalid (Child (Index fldPath j) ''weight'') (show_int (wt_Weight t))
                ''must be in the range 1-100''] else [])
       @ validatePodAffinityTerm cv (wt_PodAffinityTerm t) allowInvalid
           (Child (Index fldPath j) ''podAffinityTerm'')) (enumerate_from0 weightedPodAffinityTerms))"

definition validatePodAffinity ::
  "core_validators \<Rightarrow> PodAffinity \<Rightarrow> bool \<Rightarrow> path \<Rightarrow> field_error list" where
  "validatePodAffinity cv podAffinity allowInvalid fldPath =
     (case pa_Required podAffinity of
        None \<Rightarrow> []
      | Some ts \<Rightarrow> validatePodAffinityTerms cv ts allowInvalid
                     (Child fldPath ''requiredDuringSchedulingIgnoredDuringExecution''))
     @ (case pa_Preferred podAffinity of
          None \<Rightarrow> []
        | Some ts \<Rightarrow> validateWeightedPodAffinityTerms cv ts allowInvalid
                       (Child fldPath ''preferredDuringSchedulingIgnoredDuringExecution''))"

text \<open>The same code again on the anti-affinity structure.\<close>

definition validatePodAntiAffinity ::
  "core_validators \<Rightarrow> PodAffinity \<Rightarrow> bool \<Rightarrow> path \<Rightarrow> field_error list" where
  "validatePodAntiAffinity cv podAntiAffinity allowInvalid fldPath =
     (case pa_Required podAntiAffinity of
        None \<Rightarrow> []
      | Some ts \<Rightarrow> validatePodAffinityTerms cv ts allowInvalid
                     (Child fldPath ''requiredDuringSchedulingIgnoredDuringExecution''))
     @ (case pa_Preferred podAntiAffinity of
          None \<Rightarrow> []
        | Some ts \<Rightarrow> validateWeightedPodAffinityTerms cv ts allowInvalid
                       (Child fldPath ''preferredDuringSchedulingIgnoredDuringExecution''))"

definition validateNodeAffinity :: "core_validators \<Rightarrow> NodeAffinity \<Rightarrow> path \<Rightarrow> field_error list" where
  "validateNodeAffinity cv na fldPath =
     (case na_Required na of
        None \<Rightarrow> []
      | Some sel \<Rightarrow> ValidateNodeSelector cv sel (Child fldPath ''requiredDuringSchedulingIgnoredDuringExecution''))
     @ (if length (elems (na_Preferred na)) > 0
        then ValidatePreferredSchedulingTerms cv (elems (na_Preferred na))
               (Child fldPath ''preferredDuringSchedulingIgnoredDuringExecution'')
        else [])"

text \<open>\<open>opts\<close> is always the zero \<open>PodValidationOptions\<close>: no invalid label values allowed.\<close>

definition validateAffinity :: "core_validators \<Rightarrow> Affinity option \<Rightarrow> path \<Rightarrow> field_error list" where
  "validateAffinity cv affinity fldPath = (case affinity of
      None \<Rightarrow> []
    | Some a \<Rightarrow>
        (case af_NodeAffinity a of
           None \<Rightarrow> [] | Some na \<Rightarrow> validateNodeAffinity cv na (Child fldPath ''nodeAffinity''))
        @ (case af_PodAffinity a of
             None \<Rightarrow> [] | Some pa \<Rightarrow> validatePodAffinity cv pa False (Child fldPath ''podAffinity''))
        @ (case af_PodAntiAffinity a of
             None \<Rightarrow> [] | Some pa \<Rightarrow> validatePodAntiAffinity cv pa False (Child fldPath ''podAntiAffinity'')))"

section \<open>validation.go\<close>

definition ValidateNodeSelectorConfig :: "core_validators \<Rightarrow> labels \<Rightarrow> path \<Rightarrow> goerror option" where
  "ValidateNodeSelectorConfig cv nodeSelector fldPath =
     ToAggregate (ValidateLabels cv nodeSelector (Child fldPath ''nodeSelector''))"

definition ValidateTolerationsConfig :: "core_validators \<Rightarrow> Toleration list \<Rightarrow> path \<Rightarrow> goerror option" where
  "ValidateTolerationsConfig cv tolerations fldPath =
     ToAggregate (ValidateTolerations cv tolerations (Child fldPath ''tolerations''))"

definition ValidateResourceRequirements ::
  "core_validators \<Rightarrow> ResourceRequirements \<Rightarrow> path \<Rightarrow> goerror option" where
  "ValidateResourceRequirements cv requirements fldPath =
     ToAggregate (ValidateContainerResourceRequirements cv requirements (Child fldPath ''resources''))"

definition ValidateAffinityRules :: "core_validators \<Rightarrow> Affinity option \<Rightarrow> path \<Rightarrow> goerror option" where
  "ValidateAffinityRules cv affinity fldPath =
     ToAggregate (validateAffinity cv affinity (Child fldPath ''affinity''))"

definition ValidateLabelsConfig :: "core_validators \<Rightarrow> labels \<Rightarrow> path \<Rightarrow> goerror option" where
  "ValidateLabelsConfig cv lbls fldPath = ToAggregate (ValidateLabels cv lbls (Child fldPath ''labels''))"

definition ValidateAnnotationsConfig :: "core_validators \<Rightarrow> labels \<Rightarrow> path \<Rightarrow> goerror option" where
  "ValidateAnnotationsConfig cv annotations fldPath =
     ToAggregate (ValidateAnnotations cv annotations (Child fldPath ''annotations''))"

section \<open>Lemmas\<close>

lemma set_enumerate [simp]: "set (map snd (enumerate_from0 xs)) = set xs"
  by (simp add: enumerate_from0_def)

lemma snd_enumerate: "snd ` set (enumerate_from0 xs) = set xs"
  using set_enumerate [of xs] by simp

lemma enumerate_all: "(\<forall>p \<in> set (enumerate_from0 xs). P (snd p)) \<longleftrightarrow> (\<forall>x \<in> set xs. P x)"
  by (metis (no_types, opaque_lifting) imageE imageI snd_enumerate)

lemma last_index_None: "last_index ks k = None \<longleftrightarrow> k \<notin> set ks"
proof -
  have "fst ` set (map (\<lambda>(i, x). (x, i)) (enumerate_from0 ks)) = set ks"
    using snd_enumerate [of ks] by (force simp: image_image case_prod_beta)
  then show ?thesis by (simp add: last_index_def map_of_eq_None_iff)
qed

text \<open>
  The repeated-key check: a key of \<open>matchLabelKeys\<close> is reported when it stands a second
  time among the keys of the label selector.
\<close>

lemma matchExpressions_loop_Nil_iff:
  "matchExpressions_loop p mks seen es = [] \<longleftrightarrow>
     (\<forall>i < length es. lsr_Key (es ! i) \<in> set mks \<longrightarrow>
        lsr_Key (es ! i) \<notin> set seen \<union> (lsr_Key ` set (take i es)))"
proof (induction es arbitrary: seen)
  case (Cons e es)
  have head: "(case last_index mks (lsr_Key e) of
         Some i \<Rightarrow> if List.member seen (lsr_Key e) then [FieldInvalid (Index p i) (quoted (lsr_Key e)) d] else []
       | None \<Rightarrow> []) = [] \<longleftrightarrow> (lsr_Key e \<in> set mks \<longrightarrow> lsr_Key e \<notin> set seen)" for d
    using last_index_None [of mks "lsr_Key e"] by (auto split: option.splits)
  show ?case
    by (simp add: Let_def head Cons.IH all_conj_distrib All_less_Suc2 conj_commute)
       (auto simp: image_iff)
qed simp

text \<open>What a term that passes has: the checks the helpers make themselves.\<close>

definition term_ok :: "PodAffinityTerm \<Rightarrow> bool" where
  "term_ok t \<longleftrightarrow> pat_TopologyKey t \<noteq> '''' \<and>
     set (elems (pat_MatchLabelKeys t)) \<inter> set (elems (pat_MismatchLabelKeys t)) = {} \<and>
     (elems (pat_MatchLabelKeys t) \<noteq> [] \<or> elems (pat_MismatchLabelKeys t) \<noteq> [] \<longrightarrow>
        pat_LabelSelector t \<noteq> None)"

definition affinity_terms :: "PodAffinity option \<Rightarrow> PodAffinityTerm list" where
  "affinity_terms pa = (case pa of None \<Rightarrow> []
     | Some p \<Rightarrow> elems (pa_Required p) @ map wt_PodAffinityTerm (elems (pa_Preferred p)))"

definition affinity_weights :: "PodAffinity option \<Rightarrow> int list" where
  "affinity_weights pa = (case pa of None \<Rightarrow> [] | Some p \<Rightarrow> map wt_Weight (elems (pa_Preferred p)))"

lemma validateLabelKeys_Nil:
  "validateLabelKeys cv p ks sel = [] \<Longrightarrow> ks \<noteq> [] \<Longrightarrow> sel \<noteq> None"
  by (cases sel) (auto simp: validateLabelKeys_def)

lemma mismatch_check_Nil:
  "(\<forall>q \<in> set (enumerate_from0 ks). (case q of (i, k) \<Rightarrow> if k \<in> set mis then [f i k] else []) = []) \<longleftrightarrow>
   set ks \<inter> set mis = {}"
proof -
  have "(case q of (i, k) \<Rightarrow> if k \<in> set mis then [f i k] else []) = [] \<longleftrightarrow> snd q \<notin> set mis" for q
    by (cases q) simp
  then show ?thesis by (auto simp: enumerate_all [of ks "\<lambda>x. x \<notin> set mis"])
qed

lemma validatePodAffinityTerm_ok: "validatePodAffinityTerm cv t b p = [] \<Longrightarrow> term_ok t"
  using validateLabelKeys_Nil
  by (auto simp: validatePodAffinityTerm_def term_ok_def mismatch_check_Nil
      validateMatchLabelKeysAndMismatchLabelKeys_def split: if_splits)

lemma validatePodAffinityTerms_ok:
  "validatePodAffinityTerms cv ts b p = [] \<Longrightarrow> t \<in> set ts \<Longrightarrow> term_ok t"
proof -
  assume *: "validatePodAffinityTerms cv ts b p = []" "t \<in> set ts"
  then obtain i where "(i, t) \<in> set (enumerate_from0 ts)"
    using snd_enumerate [of ts] by force
  with * have "validatePodAffinityTerm cv t b (Index p i) = []"
    by (auto simp: validatePodAffinityTerms_def)
  then show ?thesis by (rule validatePodAffinityTerm_ok)
qed

lemma validateWeighted_ok:
  assumes "validateWeightedPodAffinityTerms cv ts b p = []" "t \<in> set ts"
  shows "1 \<le> wt_Weight t \<and> wt_Weight t \<le> 100 \<and> term_ok (wt_PodAffinityTerm t)"
proof -
  obtain i where i: "(i, t) \<in> set (enumerate_from0 ts)"
    using snd_enumerate [of ts] assms(2) by force
  with assms(1) have "validatePodAffinityTerm cv (wt_PodAffinityTerm t) b
        (Child (Index p i) ''podAffinityTerm'') = []"
    and w: "\<not> (wt_Weight t \<le> 0 \<or> wt_Weight t > 100)"
    by (auto simp: validateWeightedPodAffinityTerms_def split: if_splits)
  then show ?thesis using validatePodAffinityTerm_ok by force
qed

lemma validatePodAffinity_ok:
  assumes "validatePodAffinity cv pa b p = []"
  shows "(\<forall>t \<in> set (affinity_terms (Some pa)). term_ok t) \<and>
         (\<forall>w \<in> set (affinity_weights (Some pa)). 1 \<le> w \<and> w \<le> 100)"
  using assms validatePodAffinityTerms_ok validateWeighted_ok
  by (fastforce simp: validatePodAffinity_def affinity_terms_def affinity_weights_def elems_def
      split: option.splits)

lemma validatePodAntiAffinity_eq: "validatePodAntiAffinity = validatePodAffinity"
  by (simp add: fun_eq_iff validatePodAntiAffinity_def validatePodAffinity_def)

section \<open>Properties\<close>

text \<open>
  C12.  An affinity that \<open>ValidateAffinityRules\<close> accepts has preference weights between
  1 and 100, and each pod (anti-)affinity term names a topology key, does not list a key as both
  match and mismatch key, and has a label selector when it lists any such key.
\<close>

theorem ValidateAffinityRules_sound:
  assumes "ValidateAffinityRules cv (Some a) p = None"
  shows "(\<forall>w \<in> set (affinity_weights (af_PodAffinity a) @ affinity_weights (af_PodAntiAffinity a)).
            1 \<le> w \<and> w \<le> 100) \<and>
         (\<forall>t \<in> set (affinity_terms (af_PodAffinity a) @ affinity_terms (af_PodAntiAffinity a)). term_ok t)"
proof -
  have none: "affinity_weights None = []" "affinity_terms None = []"
    by (simp_all add: affinity_weights_def affinity_terms_def)
  from assms show ?thesis
    using validatePodAffinity_ok
    by (cases "af_PodAffinity a"; cases "af_PodAntiAffinity a")
       (force simp: ValidateAffinityRules_def validateAffinity_def validatePodAntiAffinity_eq none)+
qed

definition permissive :: core_validators where
  "permissive = \<lparr>ValidateNodeSelector = \<lambda>_ _. [], ValidatePreferredSchedulingTerms = \<lambda>_ _. [],
     ValidatePodAffinityTermSelector = \<lambda>_ _ _. [], ValidateNamespaceName = \<lambda>_. [],
     ValidateLabelName = \<lambda>_ _. [], ValidateLabels = \<lambda>_ _. [], ValidateAnnotations = \<lambda>_ _. [],
     ValidateTolerations = \<lambda>_ _. [], ValidateContainerResourceRequirements = \<lambda>_ _. []\<rparr>"

text \<open>A term whose match key \<open>app\<close> also stands in an expression of its label selector.\<close>

definition overlapping_term :: PodAffinityTerm where
  "overlapping_term = \<lparr>pat_LabelSelector = Some \<lparr>ls_MatchLabels = None, ls_MatchExpressions =
       Some [\<lparr>lsr_Key = ''app'', lsr_Operator = ''Exists'', lsr_Values = None\<rparr>]\<rparr>,
     pat_Namespaces = None, pat_TopologyKey = ''kubernetes.io/hostname'', pat_NamespaceSelector = None,
     pat_MatchLabelKeys = Some [''app''], pat_MismatchLabelKeys = None\<rparr>"

definition overlapping_affinity :: Affinity where
  "overlapping_affinity = \<lparr>af_NodeAffinity = None,
     af_PodAffinity = Some \<lparr>pa_Required = None, pa_Preferred =
       Some [\<lparr>wt_Weight = 100, wt_PodAffinityTerm = overlapping_term\<rparr>]\<rparr>,
     af_PodAntiAffinity = None\<rparr>"

lemma overlapping_affinity_accepted: "ValidateAffinityRules permissive (Some overlapping_affinity) p = None"
  by (simp add: ValidateAffinityRules_def validateAffinity_def overlapping_affinity_def
      validatePodAffinity_def validateWeightedPodAffinityTerms_def enumerate_from0_def
      validatePodAffinityTerm_def overlapping_term_def permissive_def
      validateMatchLabelKeysAndMismatchLabelKeys_def validateLabelKeys_def Let_def split: option.splits)

theorem ValidateAffinityRules_sound_witness:
  "term_ok overlapping_term \<and> affinity_weights (af_PodAffinity overlapping_affinity) = [100]"
  using ValidateAffinityRules_sound [OF overlapping_affinity_accepted]
  by (simp add: overlapping_affinity_def affinity_terms_def affinity_weights_def)

end
