(* ===== verification/CM_Validation.thy ===== *)
theory CM_Validation
  imports CM_Overrides Validation
begin

text \<open>
  The validating deployment hooks:
  \<open>pkg/controller/certmanager/deployment_overrides_validation.go\<close>.  They look at the
  \<open>CertManager\<close> configuration, never at the deployment, which they return as it came.
  A loop over a Go map that stops at the first bad entry runs over the entries in list order;
  only the text of the error depends on it.
\<close>

definition argConcurrentWorkers :: string where "argConcurrentWorkers = ''--concurrent-workers''"
definition argKubeAPIQPS :: string where "argKubeAPIQPS = ''--kube-api-qps''"
definition argKubeAPIBurst :: string where "argKubeAPIBurst = ''--kube-api-burst''"
definition argMaxConcurrentChallenges :: string where
  "argMaxConcurrentChallenges = ''--max-concurrent-challenges''"

definition supportedCertManagerArgs :: "string list" where
  "supportedCertManagerArgs =
     [''--acme-http01-solver-nameservers'', ''--acme-http01-solver-resource-limits-cpu'',
      ''--acme-http01-solver-resource-limits-memory'', ''--acme-http01-solver-resource-request-cpu'',
      ''--acme-http01-solver-resource-request-memory'', ''--dns01-recursive-nameservers'',
      ''--dns01-recursive-nameservers-only'', ''--v'', ''-V'', ''--metrics-listen-address'',
      ''--issuer-ambient-credentials'', ''--enable-certificate-owner-ref'',
      ''--certificate-request-minimum-backoff-duration'', argConcurrentWorkers, argKubeAPIQPS,
      argKubeAPIBurst, argMaxConcurrentChallenges]"

definition supportedCertManagerWebhookArgs :: "string list" where
  "supportedCertManagerWebhookArgs = [''--v'', ''-V'']"

definition supportedCertManageCainjectorArgs :: "string list" where
  "supportedCertManageCainjectorArgs = [''--v'', ''-V'']"

fun validateArgs :: "(string \<times> string) list \<Rightarrow> string list \<Rightarrow> goerror option" where
  "validateArgs [] supportedArgs = None"
| "validateArgs ((k, v) # argMap) supportedArgs =
     (if \<not> List.member supportedArgs k
      then Some (ErrNew (''validation failed due to unsupported arg '' @ quoted k @ ''='' @ quoted v))
      else validateArgs argMap supportedArgs)"

text \<open>The loop over the integer arguments: an error, or the parsed values.\<close>

fun positiveInts_loop ::
  "(string \<times> string) list \<Rightarrow> string list \<Rightarrow> (string \<times> int) list \<Rightarrow> (string \<times> int) list res" where
  "positiveInts_loop argMap [] parsedInts = Ok parsedInts"
| "positiveInts_loop argMap (arg # rest) parsedInts =
     (case map_of argMap arg of
        None \<Rightarrow> positiveInts_loop argMap rest parsedInts
      | Some valStr \<Rightarrow> (case Atoi valStr of
          None \<Rightarrow> Err (ErrNew (''validation failed: '' @ arg @ '' value must be a positive integer, got ''
                     @ quoted valStr))
        | Some val \<Rightarrow>
            if val \<le> 0
            then Err (ErrNew (''validation failed: '' @ arg @ '' must be greater than 0, got '' @ show_int val))
            else positiveInts_loop argMap rest (AList.update arg val parsedInts)))"

text \<open>\<open>fmt_v\<close> prints a float (\<open>%v\<close>) for the messages.\<close>

definition validatePerformanceArgs :: "(float32 \<Rightarrow> string) \<Rightarrow> (string \<times> string) list \<Rightarrow> goerror option" where
  "validatePerformanceArgs fmt_v argMap =
     (case positiveInts_loop argMap
             [argConcurrentWorkers, argMaxConcurrentChallenges, argKubeAPIBurst] [] of
        Err e \<Rightarrow> Some e
      | Panic s \<Rightarrow> Some (ErrNew s)
      | Ok parsedInts \<Rightarrow>
          (case map_of argMap argKubeAPIQPS of
             None \<Rightarrow> None
           | Some qpsStr \<Rightarrow> (case ParseFloat32 qpsStr of
               None \<Rightarrow> Some (ErrNew (''validation failed: '' @ argKubeAPIQPS @ '' value must be numeric, got ''
                          @ quoted qpsStr))
             | Some qps \<Rightarrow>
                 if f32_le_zero qps
                 then Some (ErrNew (''validation failed: '' @ argKubeAPIQPS @ '' must be greater than 0, got ''
                        @ fmt_v qps))
                 else (case map_of parsedInts argKubeAPIBurst of
                   None \<Rightarrow> None
                 | Some burst \<Rightarrow>
                     if f32_less (f32_of_int burst) qps
                     then Some (ErrNew (''validation failed: --kube-api-burst ('' @ show_int burst
                            @ '') must be >= --kube-api-qps ('' @ fmt_v qps @ '')''))
                     else None))))"

definition keep :: "Deployment \<Rightarrow> goerror option \<Rightarrow> Deployment res" where
  "keep deployment err = (case err of None \<Rightarrow> Ok deployment | Some e \<Rightarrow> Err e)"

definition withContainerArgsValidateHook :: "(float32 \<Rightarrow> string) \<Rightarrow> CertManager res \<Rightarrow> string \<Rightarrow> hook" where
  "withContainerArgsValidateHook fmt_v lister deploymentName operatorSpec deployment =
     bindR (configFor lister deploymentName) (\<lambda>config. case config of
       None \<Rightarrow> Ok deployment
     | Some cfg \<Rightarrow>
         (let argMap = ParseArgMap [] (elems (OverrideArgs cfg))
          in if deploymentName = certmanagerControllerDeployment then
               (case validateArgs argMap supportedCertManagerArgs of
                  Some err \<Rightarrow> Err err
                | None \<Rightarrow> keep deployment (validatePerformanceArgs fmt_v argMap))
             else if deploymentName = certmanagerWebhookDeployment then
               keep deployment (validateArgs argMap supportedCertManagerWebhookArgs)
             else keep deployment (validateArgs argMap supportedCertManageCainjectorArgs)))"

text \<open>\<open>fmt_env\<close> prints an \<open>EnvVar\<close> structure (\<open>%q\<close>) for the message.\<close>

fun validateEnv :: "(EnvVar \<Rightarrow> string) \<Rightarrow> (string \<times> EnvVar) list \<Rightarrow> string list \<Rightarrow> goerror option" where
  "validateEnv fmt_env [] supportedEnv = None"
| "validateEnv fmt_env ((k, v) # envMap) supportedEnv =
     (if \<not> List.member supportedEnv k
      then Some (ErrNew (''validation failed due to unsupported arg '' @ quoted k @ ''='' @ fmt_env v))
      else validateEnv fmt_env envMap supportedEnv)"

definition supportedCertManagerEnv :: "string list" where
  "supportedCertManagerEnv = [''HTTP_PROXY'', ''HTTPS_PROXY'', ''NO_PROXY'']"

definition withContainerEnvValidateHook :: "(EnvVar \<Rightarrow> string) \<Rightarrow> CertManager res \<Rightarrow> string \<Rightarrow> hook" where
  "withContainerEnvValidateHook fmt_env lister deploymentName operatorSpec deployment =
     bindR (configFor lister deploymentName) (\<lambda>config. case config of
       None \<Rightarrow> Ok deployment
     | Some cfg \<Rightarrow>
         keep deployment (validateEnv fmt_env (parseEnvMap [] (elems (OverrideEnv cfg)))
           (if deploymentName = certmanagerControllerDeployment then supportedCertManagerEnv else [])))"

fun validateLabels_loop :: "(string \<times> string) list \<Rightarrow> string list \<Rightarrow> goerror option" where
  "validateLabels_loop [] supportedLabelKeys = None"
| "validateLabels_loop ((k, v) # lbls) supportedLabelKeys =
     (if \<not> List.member supportedLabelKeys k
      then Some (ErrNew (''validation failed due to unsupported label '' @ quoted k @ ''='' @ quoted v))
      else validateLabels_loop lbls supportedLabelKeys)"

definition supportedCertManagerLabelKeys :: "string list" where
  "supportedCertManagerLabelKeys = [''azure.workload.identity/use'']"

definition withPodLabelsValidateHook :: "CertManager res \<Rightarrow> string \<Rightarrow> hook" where
  "withPodLabelsValidateHook lister deploymentName operatorSpec deployment =
     bindR (configFor lister deploymentName) (\<lambda>config. case config of
       None \<Rightarrow> Ok deployment
     | Some cfg \<Rightarrow>
         keep deployment (validateLabels_loop (elems (OverrideLabels cfg))
           (if deploymentName = certmanagerControllerDeployment then supportedCertManagerLabelKeys else [])))"

text \<open>The errors for one of the two lists, one per unsupported resource.\<close>

fun unsupportedResources :: "string list \<Rightarrow> string \<Rightarrow> (string \<times> quantity) list \<Rightarrow> goerror option list" where
  "unsupportedResources supportedResourceNames what [] = []"
| "unsupportedResources supportedResourceNames what ((k, v) # rest) =
     (if \<not> List.member supportedResourceNames k
      then [Some (ErrNew (''validation failed due to unsupported resource '' @ what @ '' ''
              @ quoted k @ ''='' @ q_String v))] else [])
     @ unsupportedResources supportedResourceNames what rest"

definition validateResources :: "CertManagerResourceRequirements \<Rightarrow> string list \<Rightarrow> goerror option" where
  "validateResources resources supportedResourceNames =
     NewAggregate (unsupportedResources supportedResourceNames ''limits'' (elems (cmr_Limits resources))
       @ unsupportedResources supportedResourceNames ''requests'' (elems (cmr_Requests resources)))"

definition withContainerResourcesValidateHook :: "CertManager res \<Rightarrow> string \<Rightarrow> hook" where
  "withContainerResourcesValidateHook lister deploymentName operatorSpec deployment =
     bindR (configFor lister deploymentName) (\<lambda>config. case config of
       None \<Rightarrow> Ok deployment
     | Some cfg \<Rightarrow> keep deployment (validateResources (OverrideResources cfg) [''cpu'', ''memory'']))"

definition validateScheduling :: "core_validators \<Rightarrow> CertManagerScheduling \<Rightarrow> path \<Rightarrow> goerror option" where
  "validateScheduling cv scheduling fldPath =
     ToAggregate (ValidateLabels cv (sch_NodeSelector scheduling) (Child fldPath ''nodeSelector'')
       @ ValidateTolerations cv (elems (sch_Tolerations scheduling)) (Child fldPath ''tolerations''))"

definition withPodSchedulingValidateHook :: "core_validators \<Rightarrow> CertManager res \<Rightarrow> string \<Rightarrow> hook" where
  "withPodSchedulingValidateHook cv lister deploymentName operatorSpec deployment =
     bindR (configFor lister deploymentName) (\<lambda>config. case config of
       None \<Rightarrow> Ok deployment
     | Some cfg \<Rightarrow>
         keep deployment (validateScheduling cv (OverrideScheduling cfg)
           (if deploymentName = certmanagerControllerDeployment then ''spec.controllerConfig.overrideScheduling''
            else if deploymentName = certmanagerWebhookDeployment then ''spec.webhookConfig.overrideScheduling''
            else ''spec.cainjectorConfig.overrideScheduling'')))"

section \<open>Lemmas\<close>

lemma keep_eq_Ok_iff [simp]: "keep d err = Ok d' \<longleftrightarrow> err = None \<and> d' = d"
  by (auto simp: keep_def split: option.splits)

lemma validateArgs_None_iff: "validateArgs m okkeys = None \<longleftrightarrow> fst ` set m \<subseteq> set okkeys"
  by (induction m okkeys rule: validateArgs.induct) auto

lemma validateEnv_None_iff: "validateEnv fm m okkeys = None \<longleftrightarrow> fst ` set m \<subseteq> set okkeys"
  by (induction fm m okkeys rule: validateEnv.induct) auto

lemma validateLabels_None_iff: "validateLabels_loop m okkeys = None \<longleftrightarrow> fst ` set m \<subseteq> set okkeys"
  by (induction m okkeys rule: validateLabels_loop.induct) auto

lemma fst_parseEnvMap: "fst ` set (parseEnvMap m envs) = fst ` set m \<union> ev_Name ` set envs"
  by (induction envs arbitrary: m) (auto simp: dom_update)

lemma unsupportedResources_None:
  "(\<forall>e \<in> set (unsupportedResources okkeys what l). e = None) \<longleftrightarrow> fst ` set l \<subseteq> set okkeys"
  by (induction okkeys what l rule: unsupportedResources.induct) auto

lemma validateResources_None_iff:
  "validateResources r okkeys = None \<longleftrightarrow>
   fst ` set (elems (cmr_Limits r)) \<subseteq> set okkeys \<and> fst ` set (elems (cmr_Requests r)) \<subseteq> set okkeys"
  by (simp add: validateResources_def NewAggregate_eq_None_iff ball_Un unsupportedResources_None)

text \<open>What the integer loop checks and parses.\<close>

definition positive_int :: "string \<Rightarrow> bool" where
  "positive_int s \<longleftrightarrow> (\<exists>n. Atoi s = Some n \<and> n > 0)"

lemma positiveInts_loop_Ok:
  "positiveInts_loop m as acc = Ok out \<Longrightarrow> distinct as \<Longrightarrow>
   (\<forall>a \<in> set as. \<forall>s. map_of m a = Some s \<longrightarrow> positive_int s) \<and>
   (\<forall>a. map_of out a = (if a \<in> set as \<and> map_of m a \<noteq> None then Atoi (the (map_of m a)) else map_of acc a))"
proof (induction as arbitrary: acc)
  case (Cons a as)
  show ?case
  proof (cases "map_of m a")
    case None
    with Cons show ?thesis by auto
  next
    case (Some s)
    with Cons.prems obtain n where n: "Atoi s = Some n" "n > 0"
      "positiveInts_loop m as (AList.update a n acc) = Ok out"
      by (auto split: option.splits if_splits)
    with Cons.IH [OF n(3)] Cons.prems Some show ?thesis
      by (auto simp: positive_int_def update_conv')
  qed
qed simp

lemma positiveInts_loop_complete:
  "(\<And>a s. a \<in> set as \<Longrightarrow> map_of m a = Some s \<Longrightarrow> positive_int s) \<Longrightarrow>
   \<exists>out. positiveInts_loop m as acc = Ok out"
proof (induction as arbitrary: acc)
  case (Cons a as)
  have rest: "\<exists>out. positiveInts_loop m as acc' = Ok out" for acc'
    by (rule Cons.IH) (rule Cons.prems, simp_all)
  show ?case
  proof (cases "map_of m a")
    case None
    with rest show ?thesis by simp
  next
    case (Some s)
    then obtain n where "Atoi s = Some n" "n > 0"
      using Cons.prems [of a s] by (auto simp: positive_int_def)
    with Some rest show ?thesis by simp
  qed
qed simp

lemma positiveInts_loop_no_Panic: "positiveInts_loop m as acc \<noteq> Panic s"
  by (induction as arbitrary: acc) (auto split: option.splits)

section \<open>Properties\<close>

text \<open>
  C19.  The performance arguments that pass: worker count, challenge count and burst, where given, are
  positive integers of 64 bits; the QPS, where given, is a number that is not at most zero; and a given
  burst is not below a given QPS, compared in single precision.
\<close>

theorem validatePerformanceArgs_correct:
  "validatePerformanceArgs fm m = None \<longleftrightarrow>
     (\<forall>a \<in> {argConcurrentWorkers, argMaxConcurrentChallenges, argKubeAPIBurst}.
        \<forall>s. map_of m a = Some s \<longrightarrow> (\<exists>n. Atoi s = Some n \<and> 0 < n)) \<and>
     (\<forall>s. map_of m argKubeAPIQPS = Some s \<longrightarrow>
        (\<exists>q. ParseFloat32 s = Some q \<and> \<not> f32_le_zero q \<and>
             (\<forall>b n. map_of m argKubeAPIBurst = Some b \<and> Atoi b = Some n \<longrightarrow> \<not> f32_less (f32_of_int n) q)))"
proof -
  let ?args = "[argConcurrentWorkers, argMaxConcurrentChallenges, argKubeAPIBurst]"
  have dist: "distinct ?args"
    by (simp add: argConcurrentWorkers_def argMaxConcurrentChallenges_def argKubeAPIBurst_def)
  show ?thesis
  proof (cases "positiveInts_loop m ?args []")
    case (Ok ints)
    have pos: "\<forall>a \<in> set ?args. \<forall>s. map_of m a = Some s \<longrightarrow> positive_int s"
      and burst: "map_of ints argKubeAPIBurst =
        (if map_of m argKubeAPIBurst \<noteq> None then Atoi (the (map_of m argKubeAPIBurst)) else None)"
      using positiveInts_loop_Ok [OF Ok dist] by auto
    have ints: "\<forall>a \<in> {argConcurrentWorkers, argMaxConcurrentChallenges, argKubeAPIBurst}.
        \<forall>s. map_of m a = Some s \<longrightarrow> (\<exists>n. Atoi s = Some n \<and> 0 < n)"
      using pos by (simp add: positive_int_def)
    have le: "(\<forall>b n. map_of m argKubeAPIBurst = Some b \<and> Atoi b = Some n \<longrightarrow> \<not> f32_less (f32_of_int n) q) \<longleftrightarrow>
        (case map_of ints argKubeAPIBurst of None \<Rightarrow> True | Some n \<Rightarrow> \<not> f32_less (f32_of_int n) q)" for q
      using burst by (cases "map_of m argKubeAPIBurst") (auto split: option.splits)
    have "validatePerformanceArgs fm m = None \<longleftrightarrow>
        (\<forall>s. map_of m argKubeAPIQPS = Some s \<longrightarrow> (\<exists>q. ParseFloat32 s = Some q \<and> \<not> f32_le_zero q \<and>
          (case map_of ints argKubeAPIBurst of None \<Rightarrow> True | Some n \<Rightarrow> \<not> f32_less (f32_of_int n) q)))"
      by (simp add: validatePerformanceArgs_def Ok del: positiveInts_loop.simps split: option.splits)
    then show ?thesis unfolding le using ints by blast
  next
    case (Err e)
    then have "\<not> (\<forall>a \<in> set ?args. \<forall>s. map_of m a = Some s \<longrightarrow> positive_int s)"
      using positiveInts_loop_complete [of ?args m "[]"] by fastforce
    with Err show ?thesis
      by (auto simp: validatePerformanceArgs_def positive_int_def simp del: positiveInts_loop.simps)
  next
    case (Panic s)
    then show ?thesis using positiveInts_loop_no_Panic by blast
  qed
qed

theorem validatePerformanceArgs_correct_witness:
  "validatePerformanceArgs (\<lambda>_. '''') [(argConcurrentWorkers, ''10''), (argKubeAPIBurst, ''50'')] = None"
proof -
  have "Atoi ''50'' = Some 50" "Atoi ''10'' = Some 10" by code_simp+
  then show ?thesis
    by (simp add: validatePerformanceArgs_correct argConcurrentWorkers_def argMaxConcurrentChallenges_def
        argKubeAPIBurst_def argKubeAPIQPS_def)
qed

text \<open>
  C20.  The check that the QPS is positive has a gap: NaN is neither at most zero nor above any burst,
  so \<open>--kube-api-qps=NaN\<close> passes with every valid burst.
\<close>

theorem validatePerformanceArgs_accepts_NaN:
  assumes "Atoi burst = Some n" "0 < n"
  shows "validatePerformanceArgs fm [(argKubeAPIQPS, ''NaN''), (argKubeAPIBurst, burst)] = None"
proof -
  have "ParseFloat32 ''NaN'' = Some NaN" by code_simp
  with assms show ?thesis
    by (simp add: validatePerformanceArgs_def argConcurrentWorkers_def argMaxConcurrentChallenges_def
        argKubeAPIBurst_def argKubeAPIQPS_def)
qed

theorem validatePerformanceArgs_accepts_NaN_witness:
  "validatePerformanceArgs (\<lambda>_. '''') [(argKubeAPIQPS, ''NaN''), (argKubeAPIBurst, ''50'')] = None"
  by (rule validatePerformanceArgs_accepts_NaN [where n = 50]) code_simp+

end
