(* ===== verification/CM_Pipeline.thy ===== *)
theory CM_Pipeline
  imports CM_Validation TLS_Profile
begin

text \<open>
  From the static manifest to the deployment that is applied: the hook list of
  \<open>pkg/controller/certmanager/generic_deployment_controller.go\<close> and the hooks of
  \<open>deployment_metrics_tls.go\<close>, \<open>deployment_unsupported_overrides.go\<close>, \<open>credentials_request.go\<close>
  and \<open>pkg/controller/common/tls_profile_hook.go\<close>.

  What the hooks read from the cluster and the process is one argument of type
  \<open>cm_env\<close>: the results of the listers' \<open>Get\<close>, the environment, the JSON decoder of the
  raw unsupported overrides, and the Kubernetes validators.
\<close>

section \<open>API types\<close>

record UnsupportedConfigOverrides =
  uco_Controller :: "string slice"
  uco_Webhook :: "string slice"
  uco_CAInjector :: "string slice"

text \<open>\<open>PlatformStatus.Type\<close> of the Infrastructure object; \<open>None\<close> when the status is unset.\<close>

record cm_env =
  env_Getenv :: environ
  env_CertManager :: "CertManager res"
  env_ConfigMap :: "string \<Rightarrow> unit res"
  env_Secret :: "string \<Rightarrow> unit res"
  env_Infrastructure :: "string option res"
  env_APIServer :: "APIServer res"
  env_Unmarshal :: "string \<Rightarrow> UnsupportedConfigOverrides res"
  env_Validators :: core_validators
  env_FmtFloat :: "float32 \<Rightarrow> string"
  env_FmtEnv :: "EnvVar \<Rightarrow> string"

section \<open>deployment\_metrics\_tls.go\<close>

definition metricsDynamicServingCASecretName :: string where
  "metricsDynamicServingCASecretName = ''cert-manager-metrics-ca''"

definition operandMetricsTLSArgs :: "string \<Rightarrow> string list option" where
  "operandMetricsTLSArgs deploymentName =
     (let args = (\<lambda>dnsNames. Some
            [''--metrics-dynamic-serving-ca-secret-namespace=$(POD_NAMESPACE)'',
             ''--metrics-dynamic-serving-ca-secret-name='' @ metricsDynamicServingCASecretName,
             ''--metrics-dynamic-serving-dns-names='' @ dnsNames])
      in if deploymentName = certmanagerControllerDeployment
         then args ''cert-manager,cert-manager.$(POD_NAMESPACE),cert-manager.$(POD_NAMESPACE).svc''
         else if deploymentName = certmanagerWebhookDeployment
         then args ''cert-manager-webhook,cert-manager-webhook.$(POD_NAMESPACE),cert-manager-webhook.$(POD_NAMESPACE).svc''
         else if deploymentName = certmanagerCAinjectorDeployment
         then args ''cert-manager-cainjector,cert-manager-cainjector.$(POD_NAMESPACE),cert-manager-cainjector.$(POD_NAMESPACE).svc''
         else None)"

definition errContainerCount :: "string \<Rightarrow> Deployment \<Rightarrow> goerror" where
  "errContainerCount what deployment =
     ErrNew (''deployment '' @ dep_Namespace deployment @ ''/'' @ dep_Name deployment
       @ '': expected 1 container for '' @ what @ '' hook, got '' @ show_nat (length (containers deployment)))"

definition withOperandMetricsTLS :: hook where
  "withOperandMetricsTLS operatorSpec deployment =
     (if length (containers deployment) \<noteq> 1 then Err (errContainerCount ''metrics TLS'' deployment)
      else case operandMetricsTLSArgs (dep_Name deployment) of
             None \<Rightarrow> Ok deployment
           | Some extra \<Rightarrow>
               bindR (upd_container0 (merge_args extra) deployment) (\<lambda>deployment.
               Ok (deployment\<lparr>dep_Template := (dep_Template deployment)\<lparr>pt_Annotations :=
                     mput ''prometheus.io/scheme'' ''https''
                       (pt_Annotations (dep_Template deployment))\<rparr>\<rparr>)))"

section \<open>deployment\_unsupported\_overrides.go\<close>

text \<open>One guarded merge into the first container.\<close>

definition mergeIf :: "bool \<Rightarrow> string list \<Rightarrow> Deployment \<Rightarrow> Deployment res" where
  "mergeIf guard args deployment =
     (if guard then upd_container0 (merge_args args) deployment else Ok deployment)"

definition unsupportedConfigOverrides ::
  "Deployment \<Rightarrow> UnsupportedConfigOverrides option \<Rightarrow> Deployment res" where
  "unsupportedConfigOverrides deployment overrides = (case overrides of
      None \<Rightarrow> Ok deployment
    | Some u \<Rightarrow>
        bindR (mergeIf (length (elems (uco_Webhook u)) > 0 \<and> dep_Name deployment = certmanagerWebhookDeployment)
                 (elems (uco_Webhook u)) deployment) (\<lambda>deployment.
        bindR (mergeIf (length (elems (uco_CAInjector u)) > 0 \<and> dep_Name deployment = certmanagerCAinjectorDeployment)
                 (elems (uco_CAInjector u)) deployment) (\<lambda>deployment.
        mergeIf (length (elems (uco_Controller u)) > 0 \<and> dep_Name deployment = certmanagerControllerDeployment)
          (elems (uco_Controller u)) deployment)))"

definition withUnsupportedArgsOverrideHook :: "(string \<Rightarrow> UnsupportedConfigOverrides res) \<Rightarrow> hook" where
  "withUnsupportedArgsOverrideHook unmarshal operatorSpec deployment =
     (let cfg = \<lparr>uco_Controller = None, uco_Webhook = None, uco_CAInjector = None\<rparr>
      in bindR (if length (os_UnsupportedConfigOverrides operatorSpec) \<noteq> 0
                then unmarshal (os_UnsupportedConfigOverrides operatorSpec) else Ok cfg) (\<lambda>cfg.
         unsupportedConfigOverrides deployment (Some cfg)))"

section \<open>credentials\_request.go\<close>

definition cloudCredentialsVolumeName :: string where "cloudCredentialsVolumeName = ''cloud-credentials''"

definition awsVolume :: "string \<Rightarrow> Volume" where
  "awsVolume secretName = \<lparr>vol_Name = cloudCredentialsVolumeName, vol_Source = SecretVolume secretName None None\<rparr>"

definition gcpVolume :: "string \<Rightarrow> Volume" where
  "gcpVolume secretName = \<lparr>vol_Name = cloudCredentialsVolumeName, vol_Source = SecretVolume secretName
     (Some [\<lparr>kp_Key = ''service_account.json'', kp_Path = ''application_default_credentials.json'',
             kp_Mode = None\<rparr>]) None\<rparr>"

definition cloudMount :: "string \<Rightarrow> VolumeMount" where
  "cloudMount dir = \<lparr>vm_Name = cloudCredentialsVolumeName, vm_ReadOnly = False, vm_MountPath = dir, vm_SubPath = ''''\<rparr>"

definition awsEnvVar :: EnvVar where
  "awsEnvVar = \<lparr>ev_Name = ''AWS_SDK_LOAD_CONFIG'', ev_Value = ''1'', ev_ValueFrom = None\<rparr>"

text \<open>The switch on the platform and the patch it selects.\<close>

definition mountCredentials :: "string \<Rightarrow> string \<Rightarrow> Deployment \<Rightarrow> Deployment res" where
  "mountCredentials platform secretName deployment =
     (if platform = ''AWS'' then
        upd_container0 (\<lambda>c. let c = append_mount (cloudMount ''/.aws'') c
                            in c\<lparr>ct_Env := Some (elems (ct_Env c) @ [awsEnvVar])\<rparr>)
          (upd_volumes (\<lambda>vs. vs @ [awsVolume secretName]) deployment)
      else if platform = ''GCP'' then
        upd_container0 (append_mount (cloudMount ''/.config/gcloud''))
          (upd_volumes (\<lambda>vs. vs @ [gcpVolume secretName]) deployment)
      else Err (ErrNew (''unsupported cloud provider '' @ quoted platform
             @ '' for mounting cloud credentials secret'')))"

definition withCloudCredentials ::
  "(string \<Rightarrow> unit res) \<Rightarrow> string option res \<Rightarrow> string \<Rightarrow> string \<Rightarrow> hook" where
  "withCloudCredentials getSecret infra deploymentName secretName operatorSpec deployment =
     (if deploymentName \<noteq> certmanagerControllerDeployment then Ok deployment
      else if length secretName = 0 then Ok deployment
      else case getSecret secretName of
        Panic s \<Rightarrow> Panic s
      | Err err \<Rightarrow>
          if IsNotFound (Some err)
          then Err (ErrWrap (''(Retrying) cloud secret '' @ quoted secretName @ '' doesn'' @ [CHR 0x27]
                      @ ''t exist due to '') err)
          else Err err
      | Ok _ \<Rightarrow>
          bindR infra (\<lambda>platformStatus. case platformStatus of
            None \<Rightarrow> Panic ''nil pointer dereference''
          | Some platform \<Rightarrow> mountCredentials platform secretName deployment))"

section \<open>tls\_profile\_hook.go\<close>

definition WithClusterTLSProfileFromAPIServer :: "APIServer res \<Rightarrow> hook" where
  "WithClusterTLSProfileFromAPIServer getAPIServer operatorSpec deployment =
     (if length (containers deployment) \<noteq> 1 then Err (errContainerCount ''TLS profile'' deployment)
      else bindR (wrapR ''failed to get apiserver.config.openshift.io/cluster: '' getAPIServer) (\<lambda>apiServer.
        if \<not> ShouldHonorClusterTLSProfile (TLSAdherence apiServer) then Ok deployment
        else bindR (EffectiveSpec (TLSSecurityProfile apiServer)) (\<lambda>effective.
          let extra =
                (if dep_Name deployment = certmanagerWebhookDeployment
                 then Some (CertManagerWebhookTLSArgs (Some effective))
                 else if dep_Name deployment = certmanagerControllerDeployment \<or>
                         dep_Name deployment = certmanagerCAinjectorDeployment
                 then Some (CertManagerOperandMetricsTLSArgs (Some effective))
                 else None)
          in case extra of
               None \<Rightarrow> Ok deployment
             | Some extra \<Rightarrow>
                 upd_container0 (\<lambda>c.
                   let sourceArgs = (if MinTLSVersion effective = VersionTLS13
                         then StripArgsByKeys (elems (ct_Args c)) (ArgKeysSet CertManagerCipherSuiteArgKeys)
                         else elems (ct_Args c))
                   in c\<lparr>ct_Args := Some (MergeContainerArgs sourceArgs extra)\<rparr>) deployment)))"

section \<open>generic\_deployment\_controller.go\<close>

text \<open>The hooks in the order in which the controller is given them.\<close>

definition deploymentHooks :: "cm_env \<Rightarrow> bool \<Rightarrow> string \<Rightarrow> string \<Rightarrow> string \<Rightarrow> hook list" where
  "deploymentHooks env infraApplicable deploymentName trustedCAConfigmapName cloudCredentialsSecretName =
    [withOperandImageOverrideHook (env_Getenv env),
     withLogLevel,
     withPodLabelsOverrideHook (env_CertManager env) deploymentName getOverridePodLabelsFor,
     withPodLabelsValidateHook (env_CertManager env) deploymentName,
     withContainerArgsOverrideHook (env_CertManager env) deploymentName getOverrideArgsFor,
     withContainerArgsValidateHook (env_FmtFloat env) (env_CertManager env) deploymentName,
     withProxyEnv (env_Getenv env),
     withContainerEnvOverrideHook (env_CertManager env) deploymentName getOverrideEnvFor,
     withContainerEnvValidateHook (env_FmtEnv env) (env_CertManager env) deploymentName,
     withDeploymentReplicasOverrideHook (env_CertManager env) deploymentName getOverrideReplicasFor,
     withContainerResourcesOverrideHook (env_CertManager env) deploymentName getOverrideResourcesFor,
     withContainerResourcesValidateHook (env_CertManager env) deploymentName,
     withPodSchedulingOverrideHook (env_CertManager env) deploymentName getOverrideSchedulingFor,
     withPodSchedulingValidateHook (env_Validators env) (env_CertManager env) deploymentName,
     withCAConfigMap (env_ConfigMap env) trustedCAConfigmapName,
     withSABoundToken]
    @ (if infraApplicable then
         [withCloudCredentials (env_Secret env) (env_Infrastructure env) deploymentName cloudCredentialsSecretName,
          WithClusterTLSProfileFromAPIServer (env_APIServer env)]
       else [])
    @ [withOperandMetricsTLS,
       withUnsupportedArgsOverrideHook (env_Unmarshal env)]"

text \<open>The loop of library-go's deployment controller that runs them; the index is in the error.\<close>

definition hookIndex :: "nat \<Rightarrow> string" where
  "hookIndex i = ''error running hook function (index='' @ show_nat i @ ''): ''"

fun runHooks :: "nat \<Rightarrow> hook list \<Rightarrow> hook" where
  "runHooks i [] opSpec required = Ok required"
| "runHooks i (h # hs) opSpec required =
     bindR (wrapR (hookIndex i) (h opSpec required)) (runHooks (i + 1) hs opSpec)"

definition requiredDeployment :: "cm_env \<Rightarrow> bool \<Rightarrow> string \<Rightarrow> string \<Rightarrow> hook" where
  "requiredDeployment env infraApplicable trustedCAConfigmapName cloudCredentialsSecretName opSpec manifest =
     runHooks 0 (deploymentHooks env infraApplicable (dep_Name manifest) trustedCAConfigmapName
       cloudCredentialsSecretName) opSpec manifest"

section \<open>What the hooks keep\<close>

text \<open>
  Every hook keeps what identifies the deployment: its metadata, its selector, the number
  and names of its containers, service account and affinity.  The contract composes along the list.
\<close>

definition same_identity :: "Deployment \<Rightarrow> Deployment \<Rightarrow> bool" where
  "same_identity d d' \<longleftrightarrow> dep_Meta d' = dep_Meta d \<and> dep_Selector d' = dep_Selector d \<and>
     map ct_Name (containers d') = map ct_Name (containers d) \<and>
     ps_ServiceAccountName (dep_Pod d') = ps_ServiceAccountName (dep_Pod d) \<and>
     ps_Affinity (dep_Pod d') = ps_Affinity (dep_Pod d)"

lemma same_identity_refl [simp]: "same_identity d d"
  by (simp add: same_identity_def)

lemma same_identity_trans: "same_identity a b \<Longrightarrow> same_identity b c \<Longrightarrow> same_identity a c"
  by (simp add: same_identity_def)

lemma same_identity_upd_volumes [simp]: "same_identity d (upd_volumes f d)"
  by (simp add: same_identity_def) (simp add: upd_volumes_def upd_pod_def)

lemma same_identity_upd_containers:
  "(\<And>cs. map ct_Name (f cs) = map ct_Name cs) \<Longrightarrow> same_identity d (upd_containers f d)"
  by (cases "ps_Containers (dep_Pod d)")
     (simp_all add: same_identity_def containers_def upd_containers_def upd_pod_def)

lemma same_identity_upd_container0:
  assumes "upd_container0 f d = Ok d'" "\<And>c. ct_Name (f c) = ct_Name c"
  shows "same_identity d d'"
proof -
  have "containers d \<noteq> []" and d': "d' = upd_containers (\<lambda>cs. f (hd cs) # tl cs) d"
    using assms(1) by (auto simp: upd_container0_eq_Ok_iff)
  then show ?thesis
    using assms(2) by (cases "ps_Containers (dep_Pod d)")
      (auto simp: same_identity_def containers_def upd_containers_def upd_pod_def neq_Nil_conv)
qed

lemma same_identity_mount:
  "upd_container0 f (upd_volumes g d) = Ok d' \<Longrightarrow> (\<And>c. ct_Name (f c) = ct_Name c) \<Longrightarrow> same_identity d d'"
  by (rule same_identity_trans [OF same_identity_upd_volumes]) (rule same_identity_upd_container0)

lemma same_identity_cond:
  "(if b then upd_container0 f d else Ok d) = Ok d' \<Longrightarrow> (\<And>c. ct_Name (f c) = ct_Name c) \<Longrightarrow> same_identity d d'"
  by (cases b) (auto elim!: same_identity_upd_container0)

lemma same_identity_upd_pod:
  "(\<And>p. ps_Containers (f p) = ps_Containers p) \<Longrightarrow> (\<And>p. ps_ServiceAccountName (f p) = ps_ServiceAccountName p) \<Longrightarrow>
   (\<And>p. ps_Affinity (f p) = ps_Affinity p) \<Longrightarrow> same_identity d (upd_pod f d)"
  by (simp add: same_identity_def containers_def upd_pod_def)

lemma same_identity_other [simp]:
  "same_identity d (d\<lparr>dep_Replicas := r\<rparr>)"
  "same_identity d (d\<lparr>dep_Template := (dep_Template d)\<lparr>pt_Labels := l\<rparr>\<rparr>)"
  "same_identity d (d\<lparr>dep_Template := (dep_Template d)\<lparr>pt_Annotations := l\<rparr>\<rparr>)"
  by (simp_all add: same_identity_def containers_def)

lemma ct_Name_simps [simp]:
  "ct_Name (merge_args extra c) = ct_Name c" "ct_Name (append_mount m c) = ct_Name c"
  by (simp_all add: merge_args_def append_mount_def)

lemmas hook_result_simps = bindR_eq_Ok_iff Let_def

locale preserving_hook =
  fixes h :: hook
  assumes keeps: "h spec d = Ok d' \<Longrightarrow> same_identity d d'"
begin

lemma keeps_meta: "h spec d = Ok d' \<Longrightarrow> dep_Meta d' = dep_Meta d"
  using keeps by (simp add: same_identity_def)

lemma keeps_length: "h spec d = Ok d' \<Longrightarrow> length (containers d') = length (containers d)"
  using keeps [of spec d d'] by (auto simp: same_identity_def dest: arg_cong [where f = length])

end

lemma preserving_runHooks:
  "(\<And>h. h \<in> set hs \<Longrightarrow> preserving_hook h) \<Longrightarrow> preserving_hook (runHooks i hs)"
proof (induction hs arbitrary: i)
  case Nil
  show ?case by unfold_locales simp
next
  case (Cons h hs)
  then have "preserving_hook h" and "preserving_hook (runHooks (i + 1) hs)" by simp_all
  show ?case
  proof
    fix spec d d'
    assume "runHooks i (h # hs) spec d = Ok d'"
    then obtain d1 where "h spec d = Ok d1" "runHooks (i + 1) hs spec d1 = Ok d'"
      by (auto simp: bindR_eq_Ok_iff)
    then show "same_identity d d'"
      using preserving_hook.keeps [OF \<open>preserving_hook h\<close>]
        preserving_hook.keeps [OF \<open>preserving_hook (runHooks (i + 1) hs)\<close>] same_identity_trans by blast
  qed
qed

interpretation imageHook: preserving_hook "withOperandImageOverrideHook getenv"
proof
  fix spec d d'
  assume a: "withOperandImageOverrideHook getenv spec d = Ok d'"
  let ?d = "upd_containers (map (\<lambda>c. c\<lparr>ct_Image := certManagerImage getenv (ct_Image c)\<rparr>)) d"
  have "same_identity d ?d" by (rule same_identity_upd_containers) simp
  moreover have "same_identity ?d d'"
    using a by (auto simp: withOperandImageOverrideHook_def Let_def split: if_splits
        intro: same_identity_upd_container0)
  ultimately show "same_identity d d'" by (rule same_identity_trans)
qed

interpretation logLevelHook: preserving_hook withLogLevel
  by unfold_locales
     (auto simp: withLogLevel_def Let_def split: if_splits intro: same_identity_upd_container0)

interpretation labelsHook: preserving_hook "withPodLabelsOverrideHook i n fn"
  by unfold_locales (auto simp: withPodLabelsOverrideHook_def hook_result_simps split: if_splits)

interpretation argsHook: preserving_hook "withContainerArgsOverrideHook i n fn"
  by unfold_locales
     (auto simp: withContainerArgsOverrideHook_def hook_result_simps split: if_splits
        elim!: same_identity_upd_container0)

interpretation envHook: preserving_hook "withContainerEnvOverrideHook i n fn"
  by unfold_locales
     (auto simp: withContainerEnvOverrideHook_def hook_result_simps split: if_splits
        elim!: same_identity_upd_container0)

interpretation resourcesHook: preserving_hook "withContainerResourcesOverrideHook i n fn"
  by unfold_locales
     (auto simp: withContainerResourcesOverrideHook_def hook_result_simps split: if_splits
        elim!: same_identity_upd_container0)

interpretation replicasHook: preserving_hook "withDeploymentReplicasOverrideHook i n fn"
  by unfold_locales (auto simp: withDeploymentReplicasOverrideHook_def hook_result_simps split: if_splits)

interpretation schedulingHook: preserving_hook "withPodSchedulingOverrideHook i n fn"
  by unfold_locales
     (auto simp: withPodSchedulingOverrideHook_def hook_result_simps split: if_splits
        intro!: same_identity_upd_pod)

interpretation proxyHook: preserving_hook "withProxyEnv getenv"
  by unfold_locales (auto simp: withProxyEnv_def elim!: same_identity_upd_container0)

interpretation caHook: preserving_hook "withCAConfigMap cm name"
proof
  fix spec d d'
  assume a: "withCAConfigMap cm name spec d = Ok d'"
  have "same_identity (upd_volumes f d) (upd_containers (map (append_mount m)) (upd_volumes f d))" for f m
    by (rule same_identity_upd_containers) simp
  then have "same_identity d (upd_containers (map (append_mount m)) (upd_volumes f d))" for f m
    by (rule same_identity_trans [OF same_identity_upd_volumes])
  with a show "same_identity d d'"
    by (auto simp: withCAConfigMap_def split: if_splits res.splits)
qed

interpretation saTokenHook: preserving_hook withSABoundToken
  by unfold_locales (auto simp: withSABoundToken_def elim!: same_identity_mount)

lemma same_identity_mountCredentials: "mountCredentials p name d = Ok d' \<Longrightarrow> same_identity d d'"
  by (auto simp: mountCredentials_def Let_def split: if_splits elim!: same_identity_mount)

interpretation cloudHook: preserving_hook "withCloudCredentials sec infra n name"
  by unfold_locales
     (auto simp: withCloudCredentials_def bindR_eq_Ok_iff split: if_splits res.splits option.splits
        intro: same_identity_mountCredentials)

interpretation tlsHook: preserving_hook "WithClusterTLSProfileFromAPIServer api"
  by unfold_locales
     (auto simp: WithClusterTLSProfileFromAPIServer_def bindR_eq_Ok_iff Let_def split: if_splits
        elim!: same_identity_upd_container0)

interpretation metricsHook: preserving_hook withOperandMetricsTLS
  by unfold_locales
     (auto simp: withOperandMetricsTLS_def bindR_eq_Ok_iff split: if_splits option.splits
        intro: same_identity_trans [OF same_identity_upd_container0])

lemma same_identity_mergeIf: "mergeIf b l d = Ok d' \<Longrightarrow> same_identity d d'"
  unfolding mergeIf_def by (erule same_identity_cond) simp

interpretation unsupportedHook: preserving_hook "withUnsupportedArgsOverrideHook um"
  by unfold_locales
     (auto simp: withUnsupportedArgsOverrideHook_def unsupportedConfigOverrides_def bindR_eq_Ok_iff
        dest!: same_identity_mergeIf intro: same_identity_trans)

text \<open>The validating hooks return the deployment they were given.\<close>

lemma validating_hooks_keep:
  "withPodLabelsValidateHook l n spec d = Ok d' \<Longrightarrow> d' = d"
  "withContainerArgsValidateHook fm l n spec d = Ok d' \<Longrightarrow> d' = d"
  "withContainerEnvValidateHook fe l n spec d = Ok d' \<Longrightarrow> d' = d"
  "withContainerResourcesValidateHook l n spec d = Ok d' \<Longrightarrow> d' = d"
  "withPodSchedulingValidateHook cv l n spec d = Ok d' \<Longrightarrow> d' = d"
  by (auto simp: withPodLabelsValidateHook_def withContainerArgsValidateHook_def
      withContainerEnvValidateHook_def withContainerResourcesValidateHook_def
      withPodSchedulingValidateHook_def bindR_eq_Ok_iff Let_def split: option.splits if_splits)

interpretation labelsValidate: preserving_hook "withPodLabelsValidateHook l n"
  by unfold_locales (auto dest: validating_hooks_keep)

interpretation argsValidate: preserving_hook "withContainerArgsValidateHook fm l n"
  by unfold_locales (auto dest: validating_hooks_keep)

interpretation envValidate: preserving_hook "withContainerEnvValidateHook fe l n"
  by unfold_locales (auto dest: validating_hooks_keep)

interpretation resourcesValidate: preserving_hook "withContainerResourcesValidateHook l n"
  by unfold_locales (auto dest: validating_hooks_keep)

interpretation schedulingValidate: preserving_hook "withPodSchedulingValidateHook cv l n"
  by unfold_locales (auto dest: validating_hooks_keep)

section \<open>What the hooks do to the arguments\<close>

definition args0 :: "Deployment \<Rightarrow> string list" where
  "args0 d = elems (ct_Args (hd (containers d)))"

lemma args0_upd_container0:
  assumes "upd_container0 f d = Ok d'" "\<And>c. elems (ct_Args (f c)) = g (elems (ct_Args c))"
  shows "args0 d' = g (args0 d)"
proof -
  from assms(1) obtain c cs where "containers d = c # cs" and "d' = upd_containers (\<lambda>cs. f (hd cs) # tl cs) d"
    by (auto simp: upd_container0_eq_Ok_iff neq_Nil_conv)
  then show ?thesis using assms(2) by (simp add: args0_def)
qed

lemma args0_upd_volumes [simp]: "args0 (upd_volumes f d) = args0 d"
  by (simp add: args0_def)

lemma args0_upd_map:
  "(\<And>c. ct_Args (f c) = ct_Args c) \<Longrightarrow> containers d \<noteq> [] \<Longrightarrow> args0 (upd_containers (map f) d) = args0 d"
  by (auto simp: args0_def neq_Nil_conv)

lemma args0_other [simp]:
  "args0 (d\<lparr>dep_Replicas := r\<rparr>) = args0 d"
  "args0 (d\<lparr>dep_Template := (dep_Template d)\<lparr>pt_Labels := l\<rparr>\<rparr>) = args0 d"
  "args0 (d\<lparr>dep_Template := (dep_Template d)\<lparr>pt_Annotations := l\<rparr>\<rparr>) = args0 d"
  by (simp_all add: args0_def containers_def)

lemma args0_upd_pod: "(\<And>p. ps_Containers (f p) = ps_Containers p) \<Longrightarrow> args0 (upd_pod f d) = args0 d"
  by (simp add: args0_def containers_def upd_pod_def)

lemma args0_merge: "upd_container0 (merge_args l) d = Ok d' \<Longrightarrow> args0 d' = MergeContainerArgs (args0 d) l"
  by (erule args0_upd_container0) (simp add: merge_args_def)

lemma args0_same:
  "upd_container0 f d = Ok d' \<Longrightarrow> (\<And>c. ct_Args (f c) = ct_Args c) \<Longrightarrow> args0 d' = args0 d"
  by (erule args0_upd_container0 [where g = "\<lambda>x. x"]) simp

lemma args0_mergeIf: "mergeIf b l d = Ok d' \<Longrightarrow> args0 d' = (if b then MergeContainerArgs (args0 d) l else args0 d)"
  by (auto simp: mergeIf_def args0_merge split: if_splits)

text \<open>A hook that acts on the arguments of the single container by a function of them.\<close>

locale arg_hook = preserving_hook h for h +
  fixes F :: "OperatorSpec \<Rightarrow> string \<Rightarrow> string list \<Rightarrow> string list"
  assumes acts: "length (containers d) = 1 \<Longrightarrow> h spec d = Ok d' \<Longrightarrow> args0 d' = F spec (dep_Name d) (args0 d)"
begin

lemma acts_single:
  assumes "length (containers d) = 1" "h spec d = Ok d'"
  shows "length (containers d') = 1 \<and> dep_Name d' = dep_Name d \<and> args0 d' = F spec (dep_Name d) (args0 d)"
  using assms keeps_length keeps_meta acts by simp

end

fun runActions :: "(OperatorSpec \<Rightarrow> string \<Rightarrow> string list \<Rightarrow> string list) list
    \<Rightarrow> OperatorSpec \<Rightarrow> string \<Rightarrow> string list \<Rightarrow> string list" where
  "runActions [] spec name args = args"
| "runActions (F # Fs) spec name args = runActions Fs spec name (F spec name args)"

lemma runHooks_acts:
  assumes "list_all2 arg_hook hs Fs" "length (containers d) = 1" "runHooks i hs spec d = Ok d'"
  shows "args0 d' = runActions Fs spec (dep_Name d) (args0 d)"
  using assms
proof (induction hs Fs arbitrary: i d rule: list_all2_induct)
  case (Cons h hs F Fs)
  then obtain d1 where d1: "h spec d = Ok d1" "runHooks (i + 1) hs spec d1 = Ok d'"
    by (auto simp: bindR_eq_Ok_iff)
  from arg_hook.acts_single [OF Cons.hyps(1) Cons.prems(1) d1(1)]
  have "length (containers d1) = 1" "dep_Name d1 = dep_Name d" "args0 d1 = F spec (dep_Name d) (args0 d)" by auto
  with Cons.IH [OF this(1) d1(2)] show ?case by simp
qed simp

abbreviation noArgs :: "OperatorSpec \<Rightarrow> string \<Rightarrow> string list \<Rightarrow> string list" where
  "noArgs \<equiv> \<lambda>spec name args. args"

definition solverLayer :: "environ \<Rightarrow> string \<Rightarrow> string list" where
  "solverLayer getenv name = (if name = certmanagerControllerDeployment
     then [''--acme-http01-solver-image='' @ certManagerImage getenv upstreamACMESolverImage] else [])"

definition logLayer :: "OperatorSpec \<Rightarrow> string list" where
  "logLayer spec = (let v = mget (Some logLevels) (os_LogLevel spec) in if v = '''' then [] else [v])"

text \<open>Merging an empty layer still normalises the list, so a layer that is absent is not merged at all.\<close>

definition mergeLayer :: "string list \<Rightarrow> string list \<Rightarrow> string list" where
  "mergeLayer args layer = (if layer = [] then args else MergeContainerArgs args layer)"

interpretation imageArgs: arg_hook "withOperandImageOverrideHook getenv"
  "\<lambda>spec name args. mergeLayer args (solverLayer getenv name)"
proof
  fix spec d d'
  assume one: "length (containers d) = 1" and h: "withOperandImageOverrideHook getenv spec d = Ok d'"
  let ?d = "upd_containers (map (\<lambda>c. c\<lparr>ct_Image := certManagerImage getenv (ct_Image c)\<rparr>)) d"
  have "args0 ?d = args0 d" by (rule args0_upd_map) (use one in auto)
  with h one show "args0 d' = mergeLayer (args0 d) (solverLayer getenv (dep_Name d))"
    by (auto simp: withOperandImageOverrideHook_def Let_def solverLayer_def mergeLayer_def
        dest!: args0_merge split: if_splits)
qed

interpretation logArgs: arg_hook withLogLevel "\<lambda>spec name args. mergeLayer args (logLayer spec)"
  by unfold_locales
     (auto simp: withLogLevel_def Let_def logLayer_def mergeLayer_def dest!: args0_merge split: if_splits)

interpretation labelsArgs: arg_hook "withPodLabelsOverrideHook i n fn" noArgs
  by unfold_locales (auto simp: withPodLabelsOverrideHook_def bindR_eq_Ok_iff split: if_splits)

interpretation labelsValidateArgs: arg_hook "withPodLabelsValidateHook l n" noArgs
  by unfold_locales (auto dest: validating_hooks_keep)

definition userLayer :: "('i \<Rightarrow> string \<Rightarrow> string slice res) \<Rightarrow> 'i \<Rightarrow> string \<Rightarrow> string list" where
  "userLayer fn i n = (case fn i n of Ok a \<Rightarrow> elems a | _ \<Rightarrow> [])"

lemma sort_sorted: "sorted xs \<Longrightarrow> sort xs = xs"
  by (rule sorted_sort_id)

interpretation userArgs: arg_hook "withContainerArgsOverrideHook i n fn"
  "\<lambda>spec name args. if name = n then mergeLayer args (userLayer fn i n) else args"
proof
  fix spec d d'
  assume one: "length (containers d) = 1" and h: "withContainerArgsOverrideHook i n fn spec d = Ok d'"
  then obtain a where a: "fn i n = Ok a"
    by (auto simp: withContainerArgsOverrideHook_def bindR_eq_Ok_iff)
  show "args0 d' = (if dep_Name d = n then mergeLayer (args0 d) (userLayer fn i n) else args0 d)"
  proof (cases "a \<noteq> None \<and> elems a \<noteq> [] \<and> dep_Name d = n")
    case True
    with h one a have "upd_container0 (\<lambda>c. let c = merge_args (elems a) c
              in c\<lparr>ct_Args := Some (sort (elems (ct_Args c)))\<rparr>) d = Ok d'"
      by (auto simp: withContainerArgsOverrideHook_def split: if_splits)
    then have "args0 d' = MergeContainerArgs (args0 d) (elems a)"
      by (rule args0_upd_container0) (simp add: Let_def merge_args_def sort_sorted sorted_MergeContainerArgs)
    with True a show ?thesis by (simp add: mergeLayer_def userLayer_def)
  next
    case False
    with h one a show ?thesis
      by (cases a) (auto simp: withContainerArgsOverrideHook_def mergeLayer_def userLayer_def split: if_splits)
  qed
qed

interpretation argsValidateArgs: arg_hook "withContainerArgsValidateHook fm l n" noArgs
  by unfold_locales (auto dest: validating_hooks_keep)

interpretation proxyArgs: arg_hook "withProxyEnv getenv" noArgs
  by unfold_locales (auto simp: withProxyEnv_def dest: args0_same)

interpretation envArgs: arg_hook "withContainerEnvOverrideHook i n fn" noArgs
  by unfold_locales
     (auto simp: withContainerEnvOverrideHook_def bindR_eq_Ok_iff split: if_splits dest: args0_same)

interpretation envValidateArgs: arg_hook "withContainerEnvValidateHook fe l n" noArgs
  by unfold_locales (auto dest: validating_hooks_keep)

interpretation replicasArgs: arg_hook "withDeploymentReplicasOverrideHook i n fn" noArgs
  by unfold_locales (auto simp: withDeploymentReplicasOverrideHook_def bindR_eq_Ok_iff split: if_splits)

interpretation resourcesArgs: arg_hook "withContainerResourcesOverrideHook i n fn" noArgs
  by unfold_locales
     (auto simp: withContainerResourcesOverrideHook_def bindR_eq_Ok_iff split: if_splits dest: args0_same)

interpretation resourcesValidateArgs: arg_hook "withContainerResourcesValidateHook l n" noArgs
  by unfold_locales (auto dest: validating_hooks_keep)

interpretation schedulingArgs: arg_hook "withPodSchedulingOverrideHook i n fn" noArgs
  by unfold_locales
     (auto simp: withPodSchedulingOverrideHook_def bindR_eq_Ok_iff Let_def args0_upd_pod split: if_splits)

interpretation schedulingValidateArgs: arg_hook "withPodSchedulingValidateHook cv l n" noArgs
  by unfold_locales (auto dest: validating_hooks_keep)

interpretation caArgs: arg_hook "withCAConfigMap cm name" noArgs
proof
  fix spec d d'
  assume one: "length (containers d) = 1" and h: "withCAConfigMap cm name spec d = Ok d'"
  have "args0 (upd_containers (map (append_mount m)) (upd_volumes f d)) = args0 (upd_volumes f d)" for m f
    by (rule args0_upd_map) (use one in \<open>auto simp: append_mount_def\<close>)
  with h show "args0 d' = args0 d"
    by (auto simp: withCAConfigMap_def split: if_splits res.splits)
qed

interpretation saTokenArgs: arg_hook withSABoundToken noArgs
  by unfold_locales (auto simp: withSABoundToken_def append_mount_def dest: args0_same)

lemma args0_mountCredentials: "mountCredentials p name d = Ok d' \<Longrightarrow> args0 d' = args0 d"
  by (auto simp: mountCredentials_def append_mount_def Let_def split: if_splits dest: args0_same)

interpretation cloudArgs: arg_hook "withCloudCredentials sec infra n name" noArgs
  by unfold_locales
     (auto simp: withCloudCredentials_def bindR_eq_Ok_iff split: if_splits res.splits option.splits
        intro: args0_mountCredentials)

definition metricsLayer :: "string \<Rightarrow> string list" where
  "metricsLayer name = (case operandMetricsTLSArgs name of None \<Rightarrow> [] | Some l \<Rightarrow> l)"

lemma operandMetricsTLSArgs_not_Nil: "operandMetricsTLSArgs name = Some l \<Longrightarrow> l \<noteq> []"
  by (auto simp: operandMetricsTLSArgs_def Let_def split: if_splits)

interpretation metricsArgs: arg_hook withOperandMetricsTLS
  "\<lambda>spec name args. mergeLayer args (metricsLayer name)"
  by unfold_locales
     (auto simp: withOperandMetricsTLS_def bindR_eq_Ok_iff metricsLayer_def mergeLayer_def
        dest: args0_merge operandMetricsTLSArgs_not_Nil split: option.splits)

end
