(* ===== verification/CM_Properties.thy ===== *)
theory CM_Properties
  imports CM_Pipeline
begin

text \<open>
  What the hook pipeline of a cert-manager deployment guarantees: which source decides each
  argument of the container, that user overrides passed validation, what is mounted, and what
  is never touched.
\<close>

section \<open>The last two layers of arguments\<close>

text \<open>The cluster TLS profile: whether cipher flags are stripped, and the flags it adds.\<close>

definition tlsPlan :: "APIServer res \<Rightarrow> string \<Rightarrow> (bool \<times> string list) option" where
  "tlsPlan api name = (case api of
      Ok a \<Rightarrow>
        if ShouldHonorClusterTLSProfile (TLSAdherence a) then
          (case EffectiveSpec (TLSSecurityProfile a) of
             Ok s \<Rightarrow>
               if name = certmanagerWebhookDeployment
               then Some (MinTLSVersion s = VersionTLS13, CertManagerWebhookTLSArgs (Some s))
               else if name = certmanagerControllerDeployment \<or> name = certmanagerCAinjectorDeployment
               then Some (MinTLSVersion s = VersionTLS13, CertManagerOperandMetricsTLSArgs (Some s))
               else None
           | _ \<Rightarrow> None)
        else None
    | _ \<Rightarrow> None)"

definition applyTLSPlan :: "(bool \<times> string list) option \<Rightarrow> string list \<Rightarrow> string list" where
  "applyTLSPlan plan args = (case plan of
      None \<Rightarrow> args
    | Some (strip, extra) \<Rightarrow>
        MergeContainerArgs (if strip then StripArgsByKeys args (ArgKeysSet CertManagerCipherSuiteArgKeys)
                            else args) extra)"

interpretation tlsArgs: arg_hook "WithClusterTLSProfileFromAPIServer api"
  "\<lambda>spec name args. applyTLSPlan (tlsPlan api name) args"
proof
  fix spec d d'
  assume one: "length (containers d) = 1" and h: "WithClusterTLSProfileFromAPIServer api spec d = Ok d'"
  then obtain a where a: "api = Ok a"
    by (cases api) (auto simp: WithClusterTLSProfileFromAPIServer_def)
  show "args0 d' = applyTLSPlan (tlsPlan api (dep_Name d)) (args0 d)"
  proof (cases "ShouldHonorClusterTLSProfile (TLSAdherence a)")
    case False
    with one h a show ?thesis
      by (simp add: WithClusterTLSProfileFromAPIServer_def tlsPlan_def applyTLSPlan_def)
  next
    case honour: True
    with one h a obtain s where s: "EffectiveSpec (TLSSecurityProfile a) = Ok s"
      by (auto simp: WithClusterTLSProfileFromAPIServer_def bindR_eq_Ok_iff)
    let ?upd = "\<lambda>extra c. c\<lparr>ct_Args := Some (MergeContainerArgs
        (if MinTLSVersion s = VersionTLS13
         then StripArgsByKeys (elems (ct_Args c)) (ArgKeysSet CertManagerCipherSuiteArgKeys)
         else elems (ct_Args c)) extra)\<rparr>"
    have upd: "upd_container0 (?upd extra) d = Ok d' \<Longrightarrow>
        args0 d' = applyTLSPlan (Some (MinTLSVersion s = VersionTLS13, extra)) (args0 d)" for extra
      by (erule args0_upd_container0) (simp add: applyTLSPlan_def)
    show ?thesis
    proof (cases "tlsPlan api (dep_Name d)")
      case None
      with one h a honour s show ?thesis
        by (auto simp: WithClusterTLSProfileFromAPIServer_def tlsPlan_def applyTLSPlan_def split: if_splits)
    next
      case (Some plan)
      with one h a honour s have "upd_container0 (?upd (snd plan)) d = Ok d'"
        "fst plan = (MinTLSVersion s = VersionTLS13)"
        by (auto simp: WithClusterTLSProfileFromAPIServer_def tlsPlan_def Let_def split: if_splits)
      with upd Some show ?thesis by (cases plan) simp
    qed
  qed
qed

definition unsupportedLayer ::
  "(string \<Rightarrow> UnsupportedConfigOverrides res) \<Rightarrow> OperatorSpec \<Rightarrow> string \<Rightarrow> string list" where
  "unsupportedLayer um spec name =
     (if os_UnsupportedConfigOverrides spec = '''' then []
      else case um (os_UnsupportedConfigOverrides spec) of
             Ok u \<Rightarrow>
               if name = certmanagerWebhookDeployment then elems (uco_Webhook u)
               else if name = certmanagerCAinjectorDeployment then elems (uco_CAInjector u)
               else if name = certmanagerControllerDeployment then elems (uco_Controller u)
               else []
           | _ \<Rightarrow> [])"

lemma deployment_names_distinct [simp]:
  "certmanagerWebhookDeployment \<noteq> certmanagerCAinjectorDeployment"
  "certmanagerWebhookDeployment \<noteq> certmanagerControllerDeployment"
  "certmanagerCAinjectorDeployment \<noteq> certmanagerControllerDeployment"
  "certmanagerCAinjectorDeployment \<noteq> certmanagerWebhookDeployment"
  "certmanagerControllerDeployment \<noteq> certmanagerWebhookDeployment"
  "certmanagerControllerDeployment \<noteq> certmanagerCAinjectorDeployment"
  by (simp_all add: deployment_names)

lemma dep_Name_mergeIf: "mergeIf b l d = Ok d' \<Longrightarrow> dep_Name d' = dep_Name d"
  using same_identity_mergeIf [of b l d d'] by (simp add: same_identity_def)

lemma unsupportedConfigOverrides_args:
  assumes "unsupportedConfigOverrides d (Some u) = Ok d'"
  shows "args0 d' = mergeLayer (args0 d)
     (if dep_Name d = certmanagerWebhookDeployment then elems (uco_Webhook u)
      else if dep_Name d = certmanagerCAinjectorDeployment then elems (uco_CAInjector u)
      else if dep_Name d = certmanagerControllerDeployment then elems (uco_Controller u) else [])"
proof -
  from assms obtain d1 d2 where
    d1: "mergeIf (length (elems (uco_Webhook u)) > 0 \<and> dep_Name d = certmanagerWebhookDeployment)
           (elems (uco_Webhook u)) d = Ok d1" and
    d2: "mergeIf (length (elems (uco_CAInjector u)) > 0 \<and> dep_Name d1 = certmanagerCAinjectorDeployment)
           (elems (uco_CAInjector u)) d1 = Ok d2" and
    d3: "mergeIf (length (elems (uco_Controller u)) > 0 \<and> dep_Name d2 = certmanagerControllerDeployment)
           (elems (uco_Controller u)) d2 = Ok d'"
    unfolding unsupportedConfigOverrides_def option.case bindR_eq_Ok_iff by blast
  show ?thesis
    using args0_mergeIf [OF d1] args0_mergeIf [OF d2] args0_mergeIf [OF d3]
      dep_Name_mergeIf [OF d1] dep_Name_mergeIf [OF d2]
    by (simp add: mergeLayer_def)
qed

interpretation unsupportedArgs: arg_hook "withUnsupportedArgsOverrideHook um"
  "\<lambda>spec name args. mergeLayer args (unsupportedLayer um spec name)"
proof
  fix spec d d'
  assume h: "withUnsupportedArgsOverrideHook um spec d = Ok d'"
  show "args0 d' = mergeLayer (args0 d) (unsupportedLayer um spec (dep_Name d))"
  proof (cases "os_UnsupportedConfigOverrides spec = ''''")
    case True
    with h have "args0 d' = mergeLayer (args0 d) []"
      by (auto simp: withUnsupportedArgsOverrideHook_def dest!: unsupportedConfigOverrides_args split: if_splits)
    with True show ?thesis by (simp add: unsupportedLayer_def)
  next
    case False
    with h obtain u where "um (os_UnsupportedConfigOverrides spec) = Ok u"
      "unsupportedConfigOverrides d (Some u) = Ok d'"
      by (auto simp: withUnsupportedArgsOverrideHook_def bindR_eq_Ok_iff)
    with False show ?thesis by (simp add: unsupportedLayer_def unsupportedConfigOverrides_args)
  qed
qed

section \<open>Precedence of the sources of arguments\<close>

text \<open>The first list that has the key decides.\<close>

fun pick :: "string list list \<Rightarrow> string \<Rightarrow> string option" where
  "pick [] k = None"
| "pick (l # ls) k = (case argLookup l k of Some v \<Rightarrow> Some v | None \<Rightarrow> pick ls k)"

lemma argLookup_mergeLayer:
  "k \<noteq> '''' \<Longrightarrow> argLookup (mergeLayer args layer) k =
     (case argLookup layer k of Some v \<Rightarrow> Some v | None \<Rightarrow> argLookup args k)"
  by (simp add: mergeLayer_def args.look_merge split: option.splits)

lemma argLookup_applyTLSPlan:
  "k \<noteq> '''' \<Longrightarrow> argLookup (applyTLSPlan plan args) k =
     (case plan of None \<Rightarrow> argLookup args k
      | Some (strip, extra) \<Rightarrow> (case argLookup extra k of
           Some v \<Rightarrow> Some v
         | None \<Rightarrow> if strip \<and> k \<in> set CertManagerCipherSuiteArgKeys then None else argLookup args k))"
  by (auto simp: applyTLSPlan_def args.look_merge argLookup_Strip split: option.splits)

definition hookActions :: "cm_env \<Rightarrow> bool \<Rightarrow> string
    \<Rightarrow> (OperatorSpec \<Rightarrow> string \<Rightarrow> string list \<Rightarrow> string list) list" where
  "hookActions env infra n =
    [\<lambda>spec name args. mergeLayer args (solverLayer (env_Getenv env) name),
     \<lambda>spec name args. mergeLayer args (logLayer spec), noArgs, noArgs,
     \<lambda>spec name args. if name = n
        then mergeLayer args (userLayer getOverrideArgsFor (env_CertManager env) n) else args,
     noArgs, noArgs, noArgs, noArgs, noArgs, noArgs, noArgs, noArgs, noArgs, noArgs, noArgs]
    @ (if infra then [noArgs, \<lambda>spec name args. applyTLSPlan (tlsPlan (env_APIServer env) name) args] else [])
    @ [\<lambda>spec name args. mergeLayer args (metricsLayer name),
       \<lambda>spec name args. mergeLayer args (unsupportedLayer (env_Unmarshal env) spec name)]"

lemma deploymentHooks_act: "list_all2 arg_hook (deploymentHooks env infra n ca cloud) (hookActions env infra n)"
  unfolding deploymentHooks_def hookActions_def
  by (auto intro!: list_all2_appendI
      simp: imageArgs.arg_hook_axioms logArgs.arg_hook_axioms labelsArgs.arg_hook_axioms
        labelsValidateArgs.arg_hook_axioms userArgs.arg_hook_axioms argsValidateArgs.arg_hook_axioms
        proxyArgs.arg_hook_axioms envArgs.arg_hook_axioms envValidateArgs.arg_hook_axioms
        replicasArgs.arg_hook_axioms resourcesArgs.arg_hook_axioms resourcesValidateArgs.arg_hook_axioms
        schedulingArgs.arg_hook_axioms schedulingValidateArgs.arg_hook_axioms caArgs.arg_hook_axioms
        saTokenArgs.arg_hook_axioms cloudArgs.arg_hook_axioms tlsArgs.arg_hook_axioms
        metricsArgs.arg_hook_axioms unsupportedArgs.arg_hook_axioms)

lemma pipeline_args:
  assumes "length (containers manifest) = 1"
    and "requiredDeployment env infra ca cloud spec manifest = Ok d"
  shows "args0 d = runActions (hookActions env infra (dep_Name manifest)) spec (dep_Name manifest) (args0 manifest)"
  using runHooks_acts [OF deploymentHooks_act assms(1) assms(2) [unfolded requiredDeployment_def]] .

definition pipelineTLSPlan :: "cm_env \<Rightarrow> bool \<Rightarrow> string \<Rightarrow> (bool \<times> string list) option" where
  "pipelineTLSPlan env infra name = (if infra then tlsPlan (env_APIServer env) name else None)"

definition strips :: "(bool \<times> string list) option \<Rightarrow> bool" where
  "strips plan = (case plan of None \<Rightarrow> False | Some (strip, extra) \<Rightarrow> strip)"

text \<open>
  C13.  Which source decides an argument of a cert-manager container: the unsupported (break-glass)
  overrides first, then the metrics TLS flags, then the cluster TLS profile; below those the user's
  overrides, the log level, the solver image, and last the static manifest -- except that
  under a TLS 1.3 profile the cipher flags of these lower sources are dropped.
\<close>

theorem pipeline_argument_precedence:
  assumes "length (containers manifest) = 1"
    and "requiredDeployment env infra ca cloud spec manifest = Ok d"
    and "k \<noteq> ''''"
  shows "argLookup (args0 d) k =
    (let name = dep_Name manifest;
         plan = pipelineTLSPlan env infra name;
         upper = [unsupportedLayer (env_Unmarshal env) spec name, metricsLayer name,
                  (case plan of None \<Rightarrow> [] | Some p \<Rightarrow> snd p)];
         lower = [userLayer getOverrideArgsFor (env_CertManager env) name, logLayer spec,
                  solverLayer (env_Getenv env) name, args0 manifest]
     in case pick upper k of
          Some v \<Rightarrow> Some v
        | None \<Rightarrow> if strips plan \<and> k \<in> set CertManagerCipherSuiteArgKeys
                   then None else pick lower k)"
  using assms(3) pipeline_args [OF assms(1,2)]
  by (cases infra; cases "tlsPlan (env_APIServer env) (dep_Name manifest)")
     (auto simp: hookActions_def argLookup_mergeLayer argLookup_applyTLSPlan pipelineTLSPlan_def strips_def Let_def
        split: option.splits prod.splits)

subsection \<open>A concrete run\<close>

definition demo_container :: Container where
  "demo_container = \<lparr>ct_Name = ''cert-manager-webhook'', ct_Image = ''quay.io/jetstack/cert-manager-webhook:v1'',
     ct_ImagePullPolicy = ''IfNotPresent'', ct_Args = Some [''--v=2'', ''--tls-cipher-suites=A''],
     ct_Env = None, ct_Ports = None,
     ct_Resources = \<lparr>rr_Limits = None, rr_Requests = None, rr_Claims = None\<rparr>, ct_VolumeMounts = None,
     ct_ReadinessProbe = None, ct_SecurityContext = None, ct_rest = ''''\<rparr>"

definition demo_manifest :: Deployment where
  "demo_manifest = \<lparr>dep_Meta = empty_meta\<lparr>om_Name := ''cert-manager-webhook''\<rparr>, dep_Replicas = Some 1,
     dep_Selector = None, dep_Template = \<lparr>pt_Labels = None, pt_Annotations = None,
       pt_Spec = \<lparr>ps_Volumes = None, ps_Containers = Some [demo_container], ps_ServiceAccountName = ''sa'',
         ps_NodeSelector = None, ps_Affinity = None, ps_Tolerations = None, ps_rest = ''''\<rparr>\<rparr>, dep_rest = ''''\<rparr>"

definition demo_config :: DeploymentConfig where
  "demo_config = \<lparr>OverrideArgs = Some [''--v=5''], OverrideEnv = None, OverrideLabels = None,
     OverrideResources = \<lparr>cmr_Limits = None, cmr_Requests = None\<rparr>, OverrideReplicas = Some 2,
     OverrideScheduling = \<lparr>sch_NodeSelector = None, sch_Tolerations = None\<rparr>\<rparr>"

definition demo_spec :: OperatorSpec where
  "demo_spec = \<lparr>os_ManagementState = ''Managed'', os_LogLevel = ''Normal'',
     os_UnsupportedConfigOverrides = '''', os_rest = ''''\<rparr>"

definition demo_certmanager :: CertManager where
  "demo_certmanager = \<lparr>cm_Meta = empty_meta\<lparr>om_Name := ''cluster''\<rparr>,
     cm_Spec = \<lparr>cms_OperatorSpec = demo_spec, ControllerConfig = None, WebhookConfig = Some demo_config,
       CAInjectorConfig = None, DefaultNetworkPolicy = '''', NetworkPolicies = None\<rparr>, cm_Status = ''''\<rparr>"

definition demo_env :: cm_env where
  "demo_env = \<lparr>env_Getenv = \<lambda>_. None, env_CertManager = Ok demo_certmanager, env_ConfigMap = \<lambda>_. Ok (),
     env_Secret = \<lambda>_. Ok (), env_Infrastructure = Ok (Some ''AWS''), env_APIServer = Ok (strict_custom None),
     env_Unmarshal = \<lambda>_. Err (ErrNew ''unused''), env_Validators = permissive,
     env_FmtFloat = \<lambda>_. '''', env_FmtEnv = \<lambda>_. ''''\<rparr>"

abbreviation demo_run :: "Deployment res" where
  "demo_run \<equiv> requiredDeployment demo_env True '''' '''' demo_spec demo_manifest"

lemma demo_run_ok: "\<exists>d. demo_run = Ok d"
proof -
  have "is_ok demo_run" by code_simp
  then show ?thesis by (simp add: is_ok_iff)
qed

theorem pipeline_argument_precedence_witness:
  "case demo_run of
     Ok d \<Rightarrow> argLookup (args0 d) ''--tls-cipher-suites'' = None \<and> argLookup (args0 d) ''--v'' = Some ''5''
   | _ \<Rightarrow> False"
proof -
  obtain d where d: "demo_run = Ok d" using demo_run_ok by blast
  have one: "length (containers demo_manifest) = 1" by code_simp
  have "argLookup (args0 d) ''--tls-cipher-suites'' = None"
    by (subst pipeline_argument_precedence [OF one d]) (simp, code_simp)
  moreover have "argLookup (args0 d) ''--v'' = Some ''5''"
    by (subst pipeline_argument_precedence [OF one d]) (simp, code_simp)
  ultimately show ?thesis using d by simp
qed

section \<open>Validation and frame\<close>

lemma runHooks_member:
  "runHooks i hs spec d = Ok d' \<Longrightarrow> h \<in> set hs \<Longrightarrow> \<exists>d1 d2. h spec d1 = Ok d2"
  by (induction hs arbitrary: i d) (auto simp: bindR_eq_Ok_iff)

lemma pipeline_validates:
  assumes "requiredDeployment env infra ca cloud spec manifest = Ok d"
  shows "\<exists>a b. withContainerArgsValidateHook (env_FmtFloat env) (env_CertManager env) (dep_Name manifest) spec a = Ok b"
    and "\<exists>a b. withContainerEnvValidateHook (env_FmtEnv env) (env_CertManager env) (dep_Name manifest) spec a = Ok b"
    and "\<exists>a b. withPodLabelsValidateHook (env_CertManager env) (dep_Name manifest) spec a = Ok b"
    and "\<exists>a b. withContainerResourcesValidateHook (env_CertManager env) (dep_Name manifest) spec a = Ok b"
  by (rule runHooks_member [OF assms [unfolded requiredDeployment_def]], simp add: deploymentHooks_def)+

definition supportedArgs :: "string \<Rightarrow> string list" where
  "supportedArgs name = (if name = certmanagerControllerDeployment then supportedCertManagerArgs
     else if name = certmanagerWebhookDeployment then supportedCertManagerWebhookArgs
     else supportedCertManageCainjectorArgs)"

lemma keys_ParseArgMap_Nil: "fst ` set (ParseArgMap [] args) = argKey ` {a \<in> set args. a \<noteq> ''''}"
  by (simp add: keys_ParseArgMap)

lemma argsValidate_sound:
  assumes "withContainerArgsValidateHook fm l n spec d = Ok d'" "configFor l n = Ok (Some cfg)"
  shows "argKey ` {a \<in> set (elems (OverrideArgs cfg)). a \<noteq> ''''} \<subseteq> set (supportedArgs n)"
  using assms
  by (auto simp: withContainerArgsValidateHook_def Let_def supportedArgs_def validateArgs_None_iff
      keys_ParseArgMap_Nil [symmetric] split: if_splits option.splits)

text \<open>
  C14.  User overrides reach a deployment only if they are supported: when the pipeline succeeds, every
  argument key, environment variable, pod label and resource name of the component's configuration is on the
  operator's list for that component.
\<close>

theorem pipeline_only_supported_overrides:
  assumes "requiredDeployment env infra ca cloud spec manifest = Ok d"
    and "configFor (env_CertManager env) (dep_Name manifest) = Ok (Some cfg)"
  shows "argKey ` {a \<in> set (elems (OverrideArgs cfg)). a \<noteq> ''''} \<subseteq> set (supportedArgs (dep_Name manifest)) \<and>
         ev_Name ` set (elems (OverrideEnv cfg)) \<subseteq>
           (if dep_Name manifest = certmanagerControllerDeployment then set supportedCertManagerEnv else {}) \<and>
         fst ` set (elems (OverrideLabels cfg)) \<subseteq>
           (if dep_Name manifest = certmanagerControllerDeployment then set supportedCertManagerLabelKeys else {}) \<and>
         fst ` set (elems (cmr_Limits (OverrideResources cfg))) \<subseteq> {''cpu'', ''memory''} \<and>
         fst ` set (elems (cmr_Requests (OverrideResources cfg))) \<subseteq> {''cpu'', ''memory''}"
proof -
  note ok = pipeline_validates [OF assms(1)]
  have "argKey ` {a \<in> set (elems (OverrideArgs cfg)). a \<noteq> ''''} \<subseteq> set (supportedArgs (dep_Name manifest))"
    using ok(1) argsValidate_sound [OF _ assms(2)] by blast
  moreover have "ev_Name ` set (elems (OverrideEnv cfg)) \<subseteq>
      (if dep_Name manifest = certmanagerControllerDeployment then set supportedCertManagerEnv else {})"
    using ok(2) assms(2)
    by (auto simp: withContainerEnvValidateHook_def validateEnv_None_iff fst_parseEnvMap split: if_splits)
  moreover have "fst ` set (elems (OverrideLabels cfg)) \<subseteq>
      (if dep_Name manifest = certmanagerControllerDeployment then set supportedCertManagerLabelKeys else {})"
    using ok(3) assms(2) by (auto simp: withPodLabelsValidateHook_def validateLabels_None_iff split: if_splits)
  moreover have "validateResources (OverrideResources cfg) [''cpu'', ''memory''] = None"
    using ok(4) assms(2) by (auto simp: withContainerResourcesValidateHook_def)
  ultimately show ?thesis by (simp add: validateResources_None_iff)
qed

theorem pipeline_only_supported_overrides_witness:
  "argKey ` {a \<in> set (elems (OverrideArgs demo_config)). a \<noteq> ''''} \<subseteq> set supportedCertManagerWebhookArgs"
proof -
  obtain d where d: "demo_run = Ok d" using demo_run_ok by blast
  have "configFor (env_CertManager demo_env) (dep_Name demo_manifest) = Ok (Some demo_config)"
    by (simp add: demo_env_def demo_manifest_def configFor_def deployment_names demo_certmanager_def)
  from pipeline_only_supported_overrides [OF d this] show ?thesis
    by (simp add: supportedArgs_def demo_manifest_def deployment_names)
qed

lemma preserving_deploymentHooks: "h \<in> set (deploymentHooks env infra n ca cloud) \<Longrightarrow> preserving_hook h"
  by (auto simp: deploymentHooks_def imageHook.preserving_hook_axioms logLevelHook.preserving_hook_axioms
      labelsHook.preserving_hook_axioms labelsValidate.preserving_hook_axioms argsHook.preserving_hook_axioms
      argsValidate.preserving_hook_axioms proxyHook.preserving_hook_axioms envHook.preserving_hook_axioms
      envValidate.preserving_hook_axioms replicasHook.preserving_hook_axioms
      resourcesHook.preserving_hook_axioms resourcesValidate.preserving_hook_axioms
      schedulingHook.preserving_hook_axioms schedulingValidate.preserving_hook_axioms
      caHook.preserving_hook_axioms saTokenHook.preserving_hook_axioms cloudHook.preserving_hook_axioms
      tlsHook.preserving_hook_axioms metricsHook.preserving_hook_axioms
      unsupportedHook.preserving_hook_axioms split: if_splits)

text \<open>
  C15.  No hook touches what identifies the deployment: metadata, selector, the number and names of the
  containers, service account and affinity are those of the static manifest.
\<close>

theorem pipeline_keeps_identity:
  assumes "requiredDeployment env infra ca cloud spec manifest = Ok d"
  shows "dep_Meta d = dep_Meta manifest \<and> dep_Selector d = dep_Selector manifest \<and>
         map ct_Name (containers d) = map ct_Name (containers manifest) \<and>
         ps_ServiceAccountName (dep_Pod d) = ps_ServiceAccountName (dep_Pod manifest) \<and>
         ps_Affinity (dep_Pod d) = ps_Affinity (dep_Pod manifest)"
proof -
  have "preserving_hook (runHooks 0 (deploymentHooks env infra (dep_Name manifest) ca cloud))"
    using preserving_deploymentHooks by (rule preserving_runHooks)
  from preserving_hook.keeps [OF this assms [unfolded requiredDeployment_def]]
  show ?thesis by (simp add: same_identity_def)
qed

theorem pipeline_keeps_identity_witness:
  "case demo_run of Ok d \<Rightarrow> dep_Meta d = dep_Meta demo_manifest | _ \<Rightarrow> False"
proof -
  obtain d where d: "demo_run = Ok d" using demo_run_ok by blast
  with pipeline_keeps_identity [OF d] show ?thesis by simp
qed

end
