(* ===== verification/Effects.thy ===== *)
theory Effects
  imports Recon_Errors
begin

text \<open>
  Sequencing of calls with effects.  A Go function that talks to the cluster maps the
  state before the call to its result and the state after it; the state stays
  changed when the function returns an error or panics.
\<close>

type_synonym ('s, 'a) eff = "'s \<Rightarrow> 'a res \<times> 's"

definition returnM :: "'a \<Rightarrow> ('s, 'a) eff" where
  "returnM a s = (Ok a, s)"

definition failM :: "goerror \<Rightarrow> ('s, 'a) eff" where
  "failM e s = (Err e, s)"

definition panicM :: "string \<Rightarrow> ('s, 'a) eff" where
  "panicM m s = (Panic m, s)"

definition liftM :: "'a res \<Rightarrow> ('s, 'a) eff" where
  "liftM r s = (r, s)"

definition bindM :: "('s, 'a) eff \<Rightarrow> ('a \<Rightarrow> ('s, 'b) eff) \<Rightarrow> ('s, 'b) eff" where
  "bindM m f s = (case m s of
      (Ok a, s') \<Rightarrow> f a s'
    | (Err e, s') \<Rightarrow> (Err e, s')
    | (Panic p, s') \<Rightarrow> (Panic p, s'))"

text \<open>\<open>x, err := m\<close>: the error becomes a value the caller looks at.\<close>

definition attemptM :: "('s, 'a) eff \<Rightarrow> ('s, 'a res) eff" where
  "attemptM m s = (case m s of
      (Panic p, s') \<Rightarrow> (Panic p, s')
    | (r, s') \<Rightarrow> (Ok r, s'))"

text \<open>\<open>if err := m; err != nil { return f(err) }\<close>.\<close>

definition onErrM :: "(goerror \<Rightarrow> goerror) \<Rightarrow> ('s, 'a) eff \<Rightarrow> ('s, 'a) eff" where
  "onErrM f m s = (case m s of (Err e, s') \<Rightarrow> (Err (f e), s') | r \<Rightarrow> r)"

definition wrapM :: "string \<Rightarrow> ('s, 'a) eff \<Rightarrow> ('s, 'a) eff" where
  "wrapM p = onErrM (ErrWrap p)"

text \<open>The reconcile-error constructors applied to a non-nil error.\<close>

definition clientErr :: "string \<Rightarrow> goerror \<Rightarrow> goerror" where
  "clientErr m e = the (FromClientError (Some e) m)"

definition genericErr :: "string \<Rightarrow> goerror \<Rightarrow> goerror" where
  "genericErr m e = the (FromError (Some e) m)"

definition irrecoverable :: "string \<Rightarrow> goerror \<Rightarrow> goerror" where
  "irrecoverable m e = the (NewIrrecoverableError (Some e) m)"

definition whenM :: "bool \<Rightarrow> ('s, unit) eff \<Rightarrow> ('s, unit) eff" where
  "whenM b m = (if b then m else returnM ())"

fun forM :: "'a list \<Rightarrow> ('a \<Rightarrow> ('s, unit) eff) \<Rightarrow> ('s, unit) eff" where
  "forM [] f = returnM ()"
| "forM (x # xs) f = bindM (f x) (\<lambda>_. forM xs f)"

definition seqM :: "('s, unit) eff \<Rightarrow> ('s, 'a) eff \<Rightarrow> ('s, 'a) eff" where
  "seqM m k = bindM m (\<lambda>_. k)"

section \<open>Cluster and events\<close>

text \<open>
  What a controller can affect: the cluster behind its client and the events it records.
  Controllers extend this state with the custom resource they hold in memory.
\<close>

record event =
  evt_Type :: string
  evt_Reason :: string
  evt_Message :: string

record 'c world =
  w_cluster :: 'c
  w_events :: "event list"

definition onCluster :: "('c, 'a) eff \<Rightarrow> (('c, 'x) world_scheme, 'a) eff" where
  "onCluster m w = (case m (w_cluster w) of (r, c) \<Rightarrow> (r, w\<lparr>w_cluster := c\<rparr>))"

definition Eventf :: "string \<Rightarrow> string \<Rightarrow> string \<Rightarrow> (('c, 'x) world_scheme, unit) eff" where
  "Eventf type reason message w =
     (Ok (), w\<lparr>w_events := w_events w @ [\<lparr>evt_Type = type, evt_Reason = reason, evt_Message = message\<rparr>]\<rparr>)"

lemma onCluster_eq_iff:
  "onCluster m w = (r, w') \<longleftrightarrow> (\<exists>c. m (w_cluster w) = (r, c) \<and> w' = w\<lparr>w_cluster := c\<rparr>)"
  by (auto simp: onCluster_def split: prod.splits)

lemma Eventf_cluster [simp]: "w_cluster (snd (Eventf t r m w)) = w_cluster w"
  by (simp add: Eventf_def)

section \<open>Laws\<close>

lemmas eff_defs = returnM_def failM_def panicM_def liftM_def bindM_def attemptM_def onErrM_def wrapM_def
  whenM_def seqM_def

lemma bindM_returnM [simp]: "bindM (returnM a) f = f a"
  by (simp add: fun_eq_iff eff_defs)

lemma bindM_right [simp]: "bindM m returnM = m"
  by (auto simp: fun_eq_iff eff_defs split: prod.splits res.splits)

lemma bindM_assoc: "bindM (bindM m f) g = bindM m (\<lambda>a. bindM (f a) g)"
  by (auto simp: fun_eq_iff eff_defs split: prod.splits res.splits)

lemma bindM_failM [simp]: "bindM (failM e) f = failM e"
  by (simp add: fun_eq_iff eff_defs)

lemma bindM_eq_Ok_iff: "bindM m f s = (Ok b, s'') \<longleftrightarrow> (\<exists>a s'. m s = (Ok a, s') \<and> f a s' = (Ok b, s''))"
  by (auto simp: bindM_def split: prod.splits res.splits)

lemma wrapM_eq_Ok_iff [simp]: "wrapM p m s = (Ok a, s') \<longleftrightarrow> m s = (Ok a, s')"
  by (auto simp: eff_defs split: prod.splits res.splits)

lemma onErrM_eq_Ok_iff [simp]: "onErrM f m s = (Ok a, s') \<longleftrightarrow> m s = (Ok a, s')"
  by (auto simp: eff_defs split: prod.splits res.splits)

lemma returnM_eq_iff [simp]: "returnM a s = (r, s') \<longleftrightarrow> r = Ok a \<and> s' = s"
  by (auto simp: returnM_def)

lemma failM_eq_iff [simp]: "failM e s = (r, s') \<longleftrightarrow> r = Err e \<and> s' = s"
  by (auto simp: failM_def)

lemma liftM_eq_iff [simp]: "liftM r s = (r', s') \<longleftrightarrow> r = r' \<and> s' = s"
  by (auto simp: liftM_def)

text \<open>An invariant of the state that a computation keeps, whatever its result.\<close>

definition keepsM :: "('s \<Rightarrow> bool) \<Rightarrow> ('s, 'a) eff \<Rightarrow> bool" where
  "keepsM I m \<longleftrightarrow> (\<forall>s. I s \<longrightarrow> I (snd (m s)))"

named_theorems keeps_intro \<open>closure of invariants under the effect combinators\<close>

lemma keepsM_return [keeps_intro]: "keepsM I (returnM a)"
  by (simp add: keepsM_def eff_defs)

lemma keepsM_fail [keeps_intro]: "keepsM I (failM e)"
  by (simp add: keepsM_def eff_defs)

lemma keepsM_panic [keeps_intro]: "keepsM I (panicM e)"
  by (simp add: keepsM_def eff_defs)

lemma keepsM_lift [keeps_intro]: "keepsM I (liftM e)"
  by (simp add: keepsM_def eff_defs)

lemma keepsM_bind [keeps_intro]: "keepsM I m \<Longrightarrow> (\<And>a. keepsM I (f a)) \<Longrightarrow> keepsM I (bindM m f)"
  by (auto simp: keepsM_def bindM_def split: prod.splits res.splits)

lemma keepsM_attempt [keeps_intro]: "keepsM I m \<Longrightarrow> keepsM I (attemptM m)"
  by (auto simp: keepsM_def attemptM_def split: prod.splits res.splits)

lemma keepsM_onErr [keeps_intro]: "keepsM I m \<Longrightarrow> keepsM I (onErrM f m)"
  by (auto simp: keepsM_def onErrM_def split: prod.splits res.splits)

lemma keepsM_wrap [keeps_intro]: "keepsM I m \<Longrightarrow> keepsM I (wrapM p m)"
  unfolding wrapM_def by (rule keepsM_onErr)

lemma keepsM_when [keeps_intro]: "keepsM I m \<Longrightarrow> keepsM I (whenM b m)"
  by (simp add: whenM_def keepsM_return)

lemma keepsM_seq [keeps_intro]: "keepsM I m \<Longrightarrow> keepsM I k \<Longrightarrow> keepsM I (seqM m k)"
  by (simp add: seqM_def keepsM_bind)

lemma keepsM_for [keeps_intro]: "(\<And>x. x \<in> set xs \<Longrightarrow> keepsM I (f x)) \<Longrightarrow> keepsM I (forM xs f)"
  by (induction xs) (auto intro: keepsM_return keepsM_bind)

text \<open>
  The same with a fact about the value returned, which the continuation may use.
\<close>

definition givesM :: "('s \<Rightarrow> bool) \<Rightarrow> ('a \<Rightarrow> bool) \<Rightarrow> ('s, 'a) eff \<Rightarrow> bool" where
  "givesM I Q m \<longleftrightarrow> (\<forall>s. I s \<longrightarrow> I (snd (m s)) \<and> (\<forall>a. fst (m s) = Ok a \<longrightarrow> Q a))"

lemma givesM_keeps: "givesM I Q m \<Longrightarrow> keepsM I m"
  by (auto simp: givesM_def keepsM_def)

lemma keepsM_bind_gives: "givesM I Q m \<Longrightarrow> (\<And>a. Q a \<Longrightarrow> keepsM I (f a)) \<Longrightarrow> keepsM I (bindM m f)"
  by (fastforce simp: givesM_def keepsM_def bindM_def split: prod.splits res.splits)

lemma givesM_lift: "(\<And>a. r = Ok a \<Longrightarrow> Q a) \<Longrightarrow> givesM I Q (liftM r)"
  by (simp add: givesM_def liftM_def)

lemma givesM_onErr: "givesM I Q m \<Longrightarrow> givesM I Q (onErrM f m)"
  by (fastforce simp: givesM_def onErrM_def split: prod.splits res.splits)

lemma givesM_wrap: "givesM I Q m \<Longrightarrow> givesM I Q (wrapM p m)"
  unfolding wrapM_def by (rule givesM_onErr)

lemma givesM_attempt: "givesM I Q m \<Longrightarrow> givesM I (\<lambda>r. \<forall>a. r = Ok a \<longrightarrow> Q a) (attemptM m)"
  by (fastforce simp: givesM_def attemptM_def split: prod.splits res.splits)

lemma givesM_any: "keepsM I m \<Longrightarrow> givesM I (\<lambda>_. True) m"
  by (simp add: givesM_def keepsM_def)

text \<open>A loop that succeeds ran its body successfully on every element.\<close>

lemma forM_eq_Ok_Cons:
  "forM (x # xs) f s = (Ok (), s'') \<longleftrightarrow> (\<exists>s'. f x s = (Ok (), s') \<and> forM xs f s' = (Ok (), s''))"
  by (auto simp: bindM_eq_Ok_iff)

end
