(* ===== verification/Operator_Startup.thy ===== *)
theory Operator_Startup
  imports Effects TLS_Profile
begin

text \<open>
  Operator start-up: feature gates (\<open>api/operator/v1alpha1/features.go\<close>,
  \<open>pkg/features/features.go\<close>), API discovery (\<open>pkg/operator/utils/apidiscovery.go\<close>), the
  retried gate set-up of \<open>pkg/operator/starter.go\<close> and the cache configuration and TLS
  resolution of \<open>pkg/operator/setup_manager.go\<close>.
\<close>

section \<open>API discovery\<close>

text \<open>\<open>resources\<close> is what the discovery client answers for the group and version.\<close>

definition Discover :: "string \<Rightarrow> string list res \<Rightarrow> bool res" where
  "Discover resource resources = (case resources of
      Err err \<Rightarrow> if IsNotFound (Some err) then Ok False
                 else Err (ErrWrap ''failed to discover resources: '' err)
    | Panic s \<Rightarrow> Panic s
    | Ok names \<Rightarrow> Ok (List.member names resource))"

definition InitInformerIfAvailable :: "bool res \<Rightarrow> (unit \<Rightarrow> 'i) \<Rightarrow> 'i option res" where
  "InitInformerIfAvailable discover informerInitFunc =
     bindR discover (\<lambda>discovered. Ok (if discovered then Some (informerInitFunc ()) else None))"

definition Applicable :: "'i option \<Rightarrow> bool" where
  "Applicable informerFactory \<longleftrightarrow> informerFactory \<noteq> None"

section \<open>Feature gates\<close>

definition FeatureIstioCSR :: string where "FeatureIstioCSR = ''IstioCSR''"
definition FeatureTrustManager :: string where "FeatureTrustManager = ''TrustManager''"

text \<open>The defaults of \<open>OperatorFeatureGates\<close>; a gate state maps known features to on or off.\<close>

type_synonym gates = "(string \<times> bool) list"

definition OperatorFeatureGates :: gates where
  "OperatorFeatureGates = [(FeatureIstioCSR, True), (FeatureTrustManager, False)]"

text \<open>
  \<open>parse\<close> is \<open>MutableFeatureGate.Set\<close> of component-base: the assignments in a flag value, or
  its complaint.
\<close>

definition SetupWithFlagValue :: "(string \<Rightarrow> gates res) \<Rightarrow> string \<Rightarrow> gates \<Rightarrow> gates res" where
  "SetupWithFlagValue parse flagValue gates =
     (if flagValue = '''' then Ok gates
      else bindR (parse flagValue) (\<lambda>sets. Ok (foldl (\<lambda>g (k, v). AList.update k v g) gates sets)))"

definition gate_enabled :: "gates \<Rightarrow> string \<Rightarrow> bool" where
  "gate_enabled gates f = (map_of gates f = Some True)"

datatype gate_error = ErrFeatureGateDiscovery goerror | ErrFeatureGateClusterGet goerror

record FeatureGateState =
  apiPresent :: bool
  isPreviewEnabled :: bool
  stateErr :: "gate_error option"

definition allowedPreviewFeatureSets :: "string list" where
  "allowedPreviewFeatureSets =
     [''CustomNoUpgrade'', ''DevPreviewNoUpgrade'', ''TechPreviewNoUpgrade'', ''OKD'']"

definition readClusterPreviewFeatureGate :: "string res \<Rightarrow> bool res" where
  "readClusterPreviewFeatureGate featureSet = bindR featureSet (\<lambda>fs. Ok (List.member allowedPreviewFeatureSets fs))"

text \<open>The answers of one attempt: the served resources and \<open>spec.featureSet\<close> of the cluster gate.\<close>

record gate_answers =
  ans_resources :: "string list res"
  ans_featureSet :: "string res"

definition NewFeatureGateState :: "gate_answers \<Rightarrow> FeatureGateState res" where
  "NewFeatureGateState ans =
     (let t = \<lparr>apiPresent = False, isPreviewEnabled = False, stateErr = None\<rparr>
      in case Discover ''featuregates'' (ans_resources ans) of
           Err err \<Rightarrow> Ok (t\<lparr>stateErr := Some (ErrFeatureGateDiscovery err)\<rparr>)
         | Panic s \<Rightarrow> Panic s
         | Ok exists \<Rightarrow>
             if \<not> exists then Ok (t\<lparr>apiPresent := False\<rparr>)
             else (let t = t\<lparr>apiPresent := True\<rparr>
                   in case readClusterPreviewFeatureGate (ans_featureSet ans) of
                        Err err \<Rightarrow> Ok (t\<lparr>stateErr := Some (ErrFeatureGateClusterGet err), isPreviewEnabled := False\<rparr>)
                      | Panic s \<Rightarrow> Panic s
                      | Ok allowed \<Rightarrow> Ok (t\<lparr>isPreviewEnabled := allowed\<rparr>)))"

definition IsIstioCSRFeatureGateEnabled :: "gates \<Rightarrow> bool" where
  "IsIstioCSRFeatureGateEnabled gates = gate_enabled gates FeatureIstioCSR"

definition IsTrustManagerFeatureGateEnabled :: "FeatureGateState option \<Rightarrow> gates \<Rightarrow> bool" where
  "IsTrustManagerFeatureGateEnabled f gates = gate_enabled gates FeatureTrustManager"

definition gate_Err :: "FeatureGateState option \<Rightarrow> gate_error option" where
  "gate_Err f = (case f of None \<Rightarrow> None | Some t \<Rightarrow> stateErr t)"

definition passesClusterPreviewGating :: "FeatureGateState \<Rightarrow> bool" where
  "passesClusterPreviewGating f =
     (if stateErr f \<noteq> None then False
      else if apiPresent f then isPreviewEnabled f
      else True)"

text \<open>
  The retry loop of \<open>setupFeatureGates\<close>.  \<open>answers i\<close> are the cluster's answers at attempt
  \<open>i\<close>; \<open>cancelled i\<close> tells whether the context ends while waiting after attempt \<open>i\<close>.
\<close>

definition maxFeatureGateAttempts :: nat where "maxFeatureGateAttempts = 3"

function gate_loop ::
  "(nat \<Rightarrow> gate_answers) \<Rightarrow> (nat \<Rightarrow> goerror option) \<Rightarrow> nat \<Rightarrow> FeatureGateState res" where
  "gate_loop answers cancelled attempt =
     bindR (NewFeatureGateState (answers attempt)) (\<lambda>featureStatus.
       if gate_Err (Some featureStatus) = None then Ok featureStatus
       else if attempt \<ge> maxFeatureGateAttempts then Ok featureStatus
       else case cancelled attempt of
              Some ctxErr \<Rightarrow> Err (ErrWrap ''context cancelled: '' ctxErr)
            | None \<Rightarrow> gate_loop answers cancelled (attempt + 1))"
  by pat_completeness auto
termination
  by (relation "measure (\<lambda>(_, _, attempt). maxFeatureGateAttempts - attempt)")
     (auto simp: maxFeatureGateAttempts_def)

declare gate_loop.simps [simp del]

definition setupFeatureGates ::
  "(string \<Rightarrow> gates res) \<Rightarrow> string \<Rightarrow> (nat \<Rightarrow> gate_answers) \<Rightarrow> (nat \<Rightarrow> goerror option) \<Rightarrow> gates
     \<Rightarrow> (gates \<times> FeatureGateState) res" where
  "setupFeatureGates parse unsupportedAddonFeatures answers cancelled gates =
     bindR (wrapR ''failed to parse addon features: '' (SetupWithFlagValue parse unsupportedAddonFeatures gates)) (\<lambda>gates.
     bindR (gate_loop answers cancelled 1) (\<lambda>featureStatus. Ok (gates, featureStatus)))"

text \<open>The tail of \<open>RunOperator\<close>: which operand controllers the manager is created with.\<close>

record ControllerConfig =
  EnableIstioCSR :: bool
  EnableTrustManager :: bool

definition enabledControllers :: "gates \<Rightarrow> FeatureGateState \<Rightarrow> ControllerConfig option" where
  "enabledControllers gates featureStatus =
     (let istioCSREnabled = IsIstioCSRFeatureGateEnabled gates;
          trustManagerEnabled = IsTrustManagerFeatureGateEnabled (Some featureStatus) gates
      in if istioCSREnabled \<or> trustManagerEnabled
         then Some \<lparr>EnableIstioCSR = istioCSREnabled, EnableTrustManager = trustManagerEnabled\<rparr>
         else None)"

section \<open>TLS configuration of the istio-csr controller\<close>

record TLSConfig =
  tc_Adherence :: string
  tc_Spec :: "TLSProfileSpec option"
  tc_Honor :: bool

definition no_TLSConfig :: TLSConfig where
  "no_TLSConfig = \<lparr>tc_Adherence = '''', tc_Spec = None, tc_Honor = False\<rparr>"

definition resolveIstioCSRTLSConfig :: "APIServer res \<Rightarrow> TLSConfig res" where
  "resolveIstioCSRTLSConfig reader = (case reader of
      Err err \<Rightarrow> if IsNotFound (Some err) then Ok no_TLSConfig
                 else Err (ErrWrap ''failed to get apiserver.config.openshift.io/cluster: '' err)
    | Panic s \<Rightarrow> Panic s
    | Ok apiServer \<Rightarrow>
        (let adherence = TLSAdherence apiServer
         in if \<not> ShouldHonorClusterTLSProfile adherence
            then Ok (no_TLSConfig\<lparr>tc_Adherence := adherence, tc_Honor := False\<rparr>)
            else bindR (wrapR ''failed to resolve effective TLS profile: ''
                          (EffectiveSpec (TLSSecurityProfile apiServer))) (\<lambda>spec.
                 Ok \<lparr>tc_Adherence = adherence, tc_Spec = Some spec, tc_Honor = True\<rparr>)))"

section \<open>Cache configuration\<close>

text \<open>
  A cache entry per Go type (its name); its selector lists the accepted values of the managed-resource
  label, \<open>None\<close> meaning no label filter.  \<open>newRequirement\<close> is \<open>labels.NewRequirement\<close>, which
  may reject the values.
\<close>

definition ManagedResourceLabelKey :: string where "ManagedResourceLabelKey = ''app''"

type_synonym cache_list = "(string \<times> string list option) list"
type_synonym requirement_fn = "string \<Rightarrow> string \<Rightarrow> string list \<Rightarrow> goerror option"

definition istioCSRLabelValue :: string where "istioCSRLabelValue = ''cert-manager-istio-csr''"
definition trustManagerLabelValue :: string where "trustManagerLabelValue = ''cert-manager-trust-manager''"

definition istioCSRManagedResources :: "string list" where
  "istioCSRManagedResources = [''Certificate'', ''Deployment'', ''ClusterRole'', ''ClusterRoleBinding'', ''Role'',
     ''RoleBinding'', ''Service'', ''ServiceAccount'', ''NetworkPolicy'']"

definition trustManagerManagedResources :: "string list" where
  "trustManagerManagedResources = [''Certificate'', ''Deployment'', ''ClusterRole'', ''ClusterRoleBinding'', ''Role'',
     ''RoleBinding'', ''Service'', ''ServiceAccount'', ''ValidatingWebhookConfiguration'']"

definition findExistingCacheEntry :: "cache_list \<Rightarrow> string \<Rightarrow> string list option option" where
  "findExistingCacheEntry objectList target = map_of objectList target"

fun addControllerCacheConfig ::
  "requirement_fn \<Rightarrow> cache_list \<Rightarrow> string \<Rightarrow> string list \<Rightarrow> cache_list res" where
  "addControllerCacheConfig newReq objectList labelValue [] = Ok objectList"
| "addControllerCacheConfig newReq objectList labelValue (res # resources) =
     (case findExistingCacheEntry objectList res of
        Some existing \<Rightarrow>
          (let existingValues = sort (remdups (elems existing));
               mergedValues = existingValues @ [labelValue]
           in case newReq ManagedResourceLabelKey ''in'' mergedValues of
                Some err \<Rightarrow> Err (ErrWrap ''failed to create merged label requirement: '' err)
              | None \<Rightarrow> addControllerCacheConfig newReq
                          (AList.update res (Some mergedValues) objectList) labelValue resources)
      | None \<Rightarrow>
          (case newReq ManagedResourceLabelKey ''='' [labelValue] of
             Some err \<Rightarrow> Err (ErrWrap ''failed to create label requirement: '' err)
           | None \<Rightarrow> addControllerCacheConfig newReq
                       (AList.update res (Some [labelValue]) objectList) labelValue resources))"

definition buildCacheObjectList :: "requirement_fn \<Rightarrow> ControllerConfig \<Rightarrow> cache_list res" where
  "buildCacheObjectList newReq config =
     bindR (if EnableIstioCSR config
            then bindR (wrapR ''failed to configure IstioCSR cache: ''
                   (addControllerCacheConfig newReq [] istioCSRLabelValue istioCSRManagedResources)) (\<lambda>l.
                 Ok (AList.update ''IstioCSR'' None l))
            else Ok []) (\<lambda>objectList.
     if EnableTrustManager config
     then bindR (wrapR ''failed to configure TrustManager cache: ''
            (addControllerCacheConfig newReq objectList trustManagerLabelValue trustManagerManagedResources)) (\<lambda>l.
          Ok (AList.update ''TrustManager'' None l))
     else Ok objectList)"

text \<open>Whether the manager's cache holds an object of a type with a given managed-resource label.\<close>

definition cached :: "cache_list \<Rightarrow> string \<Rightarrow> string option \<Rightarrow> bool" where
  "cached objectList type label = (case map_of objectList type of
      None \<Rightarrow> True
    | Some None \<Rightarrow> True
    | Some (Some values) \<Rightarrow> (case label of None \<Rightarrow> False | Some v \<Rightarrow> v \<in> set values))"

section \<open>Lemmas\<close>

lemma gate_loop_attempts:
  assumes "\<And>i. \<exists>t. NewFeatureGateState (answers i) = Ok t" "\<And>i. cancelled i = None"
  shows "\<exists>t. gate_loop answers cancelled n = Ok t"
proof (induction "maxFeatureGateAttempts - n" arbitrary: n)
  case 0
  then show ?case
    using assms(1) [of n] by (subst gate_loop.simps) auto
next
  case (Suc k)
  then have "\<exists>t. gate_loop answers cancelled (n + 1) = Ok t" by simp
  with assms(1) [of n] assms(2) [of n] show ?case
    by (subst gate_loop.simps) auto
qed

lemma addControllerCacheConfig_lookup:
  assumes "addControllerCacheConfig newReq l v rs = Ok l'" "distinct rs"
  shows "map_of l' r = (if r \<in> set rs then
            Some (Some (case map_of l r of None \<Rightarrow> [v] | Some ex \<Rightarrow> sort (remdups (elems ex)) @ [v]))
          else map_of l r)"
  using assms
proof (induction rs arbitrary: l)
  case (Cons x rs)
  show ?case
  proof (cases "map_of l x")
    case None
    with Cons show ?thesis
      by (auto simp: findExistingCacheEntry_def update_conv' split: option.splits)
  next
    case (Some ex)
    with Cons show ?thesis
      by (auto simp: findExistingCacheEntry_def update_conv' Let_def split: option.splits)
  qed
qed simp

lemma addControllerCacheConfig_total:
  "(\<And>k opr vs. newReq k opr vs = None) \<Longrightarrow> \<exists>l'. addControllerCacheConfig newReq l v rs = Ok l'"
  by (induction rs arbitrary: l) (auto simp: Let_def split: option.splits)

lemma gate_loop_result:
  assumes "\<And>i. NewFeatureGateState (answers i) = Ok (st i)" "\<And>i. cancelled i = None"
  shows "gate_loop answers cancelled 1 =
     Ok (st (if stateErr (st 1) = None then 1 else if stateErr (st 2) = None then 2 else 3))"
  by (simp add: gate_loop.simps [of answers cancelled 1] gate_loop.simps [of answers cancelled 2]
      gate_loop.simps [of answers cancelled "Suc (Suc (Suc 0))"] gate_loop.simps [of answers cancelled "Suc (Suc 0)"]
      gate_loop.simps [of answers cancelled "Suc 0"] assms gate_Err_def maxFeatureGateAttempts_def
      numeral_2_eq_2 numeral_3_eq_3)

text \<open>The label values under which an object of a type belongs to an enabled controller.\<close>

definition managed_by :: "ControllerConfig \<Rightarrow> string \<Rightarrow> string list" where
  "managed_by config type =
     (if EnableIstioCSR config \<and> type \<in> set istioCSRManagedResources then [istioCSRLabelValue] else []) @
     (if EnableTrustManager config \<and> type \<in> set trustManagerManagedResources then [trustManagerLabelValue] else [])"

lemma managed_lists:
  "distinct istioCSRManagedResources" "distinct trustManagerManagedResources"
  "''IstioCSR'' \<notin> set istioCSRManagedResources" "''IstioCSR'' \<notin> set trustManagerManagedResources"
  "''TrustManager'' \<notin> set istioCSRManagedResources" "''TrustManager'' \<notin> set trustManagerManagedResources"
  by (simp_all add: istioCSRManagedResources_def trustManagerManagedResources_def)

lemma buildCacheObjectList_lookup:
  assumes "buildCacheObjectList newReq config = Ok l"
  shows "map_of l type =
     (if type = ''IstioCSR'' \<and> EnableIstioCSR config \<or> type = ''TrustManager'' \<and> EnableTrustManager config
      then Some None
      else if managed_by config type = [] then None else Some (Some (managed_by config type)))"
  using assms
  by (cases "EnableIstioCSR config"; cases "EnableTrustManager config")
     (auto simp: buildCacheObjectList_def bindR_eq_Ok_iff update_conv' managed_by_def managed_lists
      dest!: addControllerCacheConfig_lookup [where r = type, OF _ managed_lists(1)]
        addControllerCacheConfig_lookup [where r = type, OF _ managed_lists(2)])

lemma buildCacheObjectList_total:
  assumes "\<And>k opr vs. newReq k opr vs = None"
  shows "\<exists>l. buildCacheObjectList newReq config = Ok l"
proof -
  obtain l1 where l1: "addControllerCacheConfig newReq [] istioCSRLabelValue istioCSRManagedResources = Ok l1"
    using addControllerCacheConfig_total [of newReq, OF assms] by blast
  have "\<exists>l'. addControllerCacheConfig newReq l trustManagerLabelValue trustManagerManagedResources = Ok l'" for l
    by (rule addControllerCacheConfig_total [of newReq, OF assms])
  then obtain l2 where
    "addControllerCacheConfig newReq l trustManagerLabelValue trustManagerManagedResources = Ok (l2 l)" for l
    by metis
  with l1 show ?thesis by (simp add: buildCacheObjectList_def)
qed

section \<open>Properties\<close>

text \<open>
  C21.  With a valid addon flag and no cancellation, gate set-up always returns: with the
  state of the first attempt that has no error, the third attempt's state when the first two
  failed, and never an error of the cluster.  Which operand controllers start depends on
  the flag and not on the cluster's answers.
\<close>

theorem setupFeatureGates_returns:
  assumes "SetupWithFlagValue parse flag gates = Ok gates'"
    and "\<And>i. NewFeatureGateState (answers i) = Ok (st i)" and "\<And>i. cancelled i = None"
  shows "setupFeatureGates parse flag answers cancelled gates =
       Ok (gates', st (if stateErr (st 1) = None then 1 else if stateErr (st 2) = None then 2 else 3)) \<and>
     enabledControllers gates' s =
       (if map_of gates' ''IstioCSR'' = Some True \<or> map_of gates' ''TrustManager'' = Some True
        then Some \<lparr>EnableIstioCSR = (map_of gates' ''IstioCSR'' = Some True),
                   EnableTrustManager = (map_of gates' ''TrustManager'' = Some True)\<rparr>
        else None)"
  unfolding setupFeatureGates_def using assms(1) gate_loop_result [OF assms(2,3)]
  by (simp add: enabledControllers_def IsIstioCSRFeatureGateEnabled_def IsTrustManagerFeatureGateEnabled_def
      gate_enabled_def FeatureIstioCSR_def FeatureTrustManager_def)

definition flaky_answers :: "nat \<Rightarrow> gate_answers" where
  "flaky_answers i = \<lparr>ans_resources = (if i = 1 then Err (ErrNew ''timeout'') else Ok [''featuregates'']),
     ans_featureSet = Ok ''TechPreviewNoUpgrade''\<rparr>"

lemma flaky_state:
  "NewFeatureGateState (flaky_answers i) =
     Ok (if i = 1 then \<lparr>apiPresent = False, isPreviewEnabled = False,
           stateErr = Some (ErrFeatureGateDiscovery (ErrWrap ''failed to discover resources: '' (ErrNew ''timeout'')))\<rparr>
         else \<lparr>apiPresent = True, isPreviewEnabled = True, stateErr = None\<rparr>)"
  by (simp add: NewFeatureGateState_def Discover_def flaky_answers_def readClusterPreviewFeatureGate_def
      allowedPreviewFeatureSets_def IsNotFound_def has_reason_def reasonAndCodeForError_def knownReasons_def)

theorem setupFeatureGates_returns_witness:
  "setupFeatureGates (\<lambda>_. Ok [(''TrustManager'', True)]) ''TrustManager=true'' flaky_answers (\<lambda>_. None)
     OperatorFeatureGates =
   Ok ([(''IstioCSR'', True), (''TrustManager'', True)],
       \<lparr>apiPresent = True, isPreviewEnabled = True, stateErr = None\<rparr>)"
  using setupFeatureGates_returns [OF _ flaky_state refl, where parse = "\<lambda>_. Ok [(''TrustManager'', True)]"
      and flag = "''TrustManager=true''" and gates = OperatorFeatureGates
      and gates' = "[(''IstioCSR'', True), (''TrustManager'', True)]"]
  by (simp add: SetupWithFlagValue_def OperatorFeatureGates_def FeatureIstioCSR_def FeatureTrustManager_def)

text \<open>
  C22.  The cache configuration is built and its filters are exact: an object of a type
  that enabled controllers manage is cached just when it carries the label value of one of
  them, whichever of the two controllers share the type; objects of every other type (the custom
  resources, issuers, config maps) are never filtered.
\<close>

theorem buildCacheObjectList_exact:
  assumes "\<And>k opr vs. newReq k opr vs = None"
  shows "\<exists>l. buildCacheObjectList newReq config = Ok l \<and>
     (\<forall>type label. cached l type label \<longleftrightarrow>
        managed_by config type = [] \<or> label \<in> Some ` set (managed_by config type))"
proof -
  obtain l where l: "buildCacheObjectList newReq config = Ok l"
    using buildCacheObjectList_total [of newReq, OF assms] by blast
  have "cached l type label \<longleftrightarrow> managed_by config type = [] \<or> label \<in> Some ` set (managed_by config type)"
    for type label
    unfolding cached_def buildCacheObjectList_lookup [OF l, of type]
    by (auto simp: managed_by_def managed_lists split: option.splits)
  with l show ?thesis by blast
qed

theorem buildCacheObjectList_exact_witness:
  "\<exists>l. buildCacheObjectList (\<lambda>_ _ _. None) \<lparr>EnableIstioCSR = True, EnableTrustManager = True\<rparr> = Ok l \<and>
     (\<forall>type label. cached l type label \<longleftrightarrow>
        managed_by \<lparr>EnableIstioCSR = True, EnableTrustManager = True\<rparr> type = [] \<or>
        label \<in> Some ` set (managed_by \<lparr>EnableIstioCSR = True, EnableTrustManager = True\<rparr> type))"
  by (rule buildCacheObjectList_exact) simp

end
