(* ===== verification/K8s_Resources.thy ===== *)
theory K8s_Resources
  imports K8s_Objects Conditions TLS_Profile CM_Overrides
begin

text \<open>
  The API objects the operand controllers read and write beside deployments, the
  \<open>IstioCSR\<close> and \<open>TrustManager\<close> custom resources (\<open>istiocsr_types.go\<close>, \<open>trustmanager_types.go\<close> and
  \<open>meta.go\<close> of \<open>api/operator/v1alpha1\<close>) and the union \<open>obj\<close> of all kinds that stands for \<open>client.Object\<close>, with
  the metadata helpers of \<open>pkg/controller/common/utils.go\<close>.
\<close>

section \<open>Core, RBAC and networking objects\<close>

record ServicePort =
  sp_Name :: string
  sp_Port :: int
  sp_rest :: opaque

record Service =
  svc_Meta :: ObjectMeta
  svc_Type :: string
  svc_Ports :: "ServicePort slice"
  svc_Selector :: labels
  svc_rest :: opaque

record ServiceAccount =
  sa_Meta :: ObjectMeta
  sa_Automount :: "bool option"
  sa_rest :: opaque

record PolicyRule =
  rule_Verbs :: "string slice"
  rule_APIGroups :: "string slice"
  rule_Resources :: "string slice"
  rule_ResourceNames :: "string slice"
  rule_NonResourceURLs :: "string slice"

text \<open>\<open>Role\<close> and \<open>ClusterRole\<close>.\<close>

record RbacRole =
  role_Meta :: ObjectMeta
  role_Rules :: "PolicyRule slice"
  role_rest :: opaque

record RoleRef =
  ref_APIGroup :: string
  ref_Kind :: string
  ref_Name :: string

record Subject =
  sub_Kind :: string
  sub_APIGroup :: string
  sub_Name :: string
  sub_Namespace :: string

text \<open>\<open>RoleBinding\<close> and \<open>ClusterRoleBinding\<close>.\<close>

record RbacBinding =
  rb_Meta :: ObjectMeta
  rb_RoleRef :: RoleRef
  rb_Subjects :: "Subject slice"

record ConfigMap =
  cmap_Meta :: ObjectMeta
  cmap_Data :: labels
  cmap_rest :: opaque

record Secret =
  sec_Meta :: ObjectMeta
  sec_Data :: labels
  sec_rest :: opaque

record NetworkPolicy =
  np_Meta :: ObjectMeta
  np_PodSelector :: LabelSelector
  np_Ingress :: "opaque slice"
  np_Egress :: "opaque slice"
  np_PolicyTypes :: "string slice"

text \<open>The admission webhook's configuration; of a rule its scope apart from the rest.\<close>

record WebhookRule =
  wr_Scope :: "string option"
  wr_rest :: opaque

record ServiceReference =
  sr_Namespace :: string
  sr_Name :: string
  sr_Path :: "string option"
  sr_Port :: "int option"

record ValidatingWebhook =
  wh_Name :: string
  wh_Service :: "ServiceReference option"
  wh_Rules :: "WebhookRule slice"
  wh_FailurePolicy :: "string option"
  wh_SideEffects :: "string option"
  wh_TimeoutSeconds :: "int option"
  wh_AdmissionReviewVersions :: "string slice"
  wh_rest :: opaque

record ValidatingWebhookConfiguration =
  vwc_Meta :: ObjectMeta
  vwc_Webhooks :: "ValidatingWebhook slice"

section \<open>cert-manager objects\<close>

record IssuerReference =
  ir_Name :: string
  ir_Kind :: string
  ir_Group :: string

record CertificatePrivateKey =
  pk_RotationPolicy :: string
  pk_Encoding :: string
  pk_Algorithm :: string
  pk_Size :: int

text \<open>Durations are nanoseconds.\<close>

record CertificateSpec =
  cs_CommonName :: string
  cs_Duration :: "int option"
  cs_RenewBefore :: "int option"
  cs_DNSNames :: "string slice"
  cs_URIs :: "string slice"
  cs_SecretName :: string
  cs_IssuerRef :: IssuerReference
  cs_PrivateKey :: "CertificatePrivateKey option"
  cs_RevisionHistoryLimit :: "int option"
  cs_SecretTemplate :: "opaque option"
  cs_rest :: opaque

record Certificate =
  cert_Meta :: ObjectMeta
  cert_Spec :: CertificateSpec

text \<open>
  \<open>Issuer\<close> and \<open>ClusterIssuer\<close>; of a CA issuer the name of its secret, and as \<open>iss_rest\<close> the other
  issuer types of the specification.
\<close>

record Issuer =
  iss_Meta :: ObjectMeta
  iss_ACME :: "opaque option"
  iss_CA :: "string option"
  iss_rest :: opaque

section \<open>The IstioCSR resource\<close>

record ConfigMapReference =
  cmr_Name :: string
  cmr_Namespace :: string
  cmr_Key :: string

record CertManagerConfig =
  IssuerRef :: IssuerReference
  IstioCACertificate :: "ConfigMapReference option"

record IstiodTLSConfig =
  CommonName :: string
  TrustDomain :: string
  CertificateDNSNames :: "string slice"
  CertificateDuration :: "int option"
  CertificateRenewBefore :: "int option"
  PrivateKeySize :: int
  PrivateKeyAlgorithm :: string
  MaxCertificateDuration :: "int option"

record ServerConfig =
  ClusterID :: string
  server_Port :: int

record IstioConfig =
  Revisions :: "string slice"
  istio_Namespace :: string

record IstioCSRConfig =
  LogLevel :: int
  LogFormat :: string
  IstioDataPlaneNamespaceSelector :: string
  CertManager :: CertManagerConfig
  IstiodTLSConfig :: IstiodTLSConfig
  Server :: "ServerConfig option"
  Istio :: IstioConfig
  ic_Resources :: ResourceRequirements
  ic_Affinity :: "Affinity option"
  ic_Tolerations :: "Toleration slice"
  ic_NodeSelector :: labels

text \<open>Of the controller configuration the labels.\<close>

record IstioCSRSpec =
  IstioCSRConfig :: IstioCSRConfig
  ControllerLabels :: "labels option"

record IstioCSRStatus =
  ics_Conditional :: ConditionalStatus
  IstioCSRImage :: string
  IstioCSRGRPCEndpoint :: string
  ics_ServiceAccount :: string
  ics_ClusterRole :: string
  ics_ClusterRoleBinding :: string

record IstioCSR =
  ic_Meta :: ObjectMeta
  ic_Spec :: IstioCSRSpec
  ic_Status :: IstioCSRStatus

section \<open>The TrustManager resource\<close>

record SecretTargetsConfig =
  st_Policy :: string
  AuthorizedSecrets :: "string slice"

record DefaultCAPackageConfig =
  ca_Policy :: string

record TrustManagerConfig =
  tm_LogLevel :: int
  tm_LogFormat :: string
  tm_TrustNamespace :: string
  SecretTargets :: SecretTargetsConfig
  FilterExpiredCertificates :: string
  DefaultCAPackage :: DefaultCAPackageConfig
  tm_Resources :: ResourceRequirements
  tm_Affinity :: "Affinity option"
  tm_Tolerations :: "Toleration slice"
  tm_NodeSelector :: labels

record TrustManagerControllerConfig =
  cc_Labels :: labels
  cc_Annotations :: labels

record TrustManagerSpec =
  TrustManagerConfig :: TrustManagerConfig
  ControllerConfig :: TrustManagerControllerConfig

record TrustManagerStatus =
  tms_Conditional :: ConditionalStatus
  TrustManagerImage :: string
  tms_TrustNamespace :: string
  SecretTargetsPolicy :: string
  DefaultCAPackagePolicy :: string
  FilterExpiredCertificatesPolicy :: string

record TrustManager =
  tm_Meta :: ObjectMeta
  tm_Spec :: TrustManagerSpec
  tm_Status :: TrustManagerStatus

section \<open>Zero values\<close>

definition zero_IssuerReference :: IssuerReference where
  "zero_IssuerReference = \<lparr>ir_Name = '''', ir_Kind = '''', ir_Group = ''''\<rparr>"

definition zero_CertManagerConfig :: CertManagerConfig where
  "zero_CertManagerConfig = \<lparr>IssuerRef = zero_IssuerReference, IstioCACertificate = None\<rparr>"

definition zero_IstiodTLSConfig :: IstiodTLSConfig where
  "zero_IstiodTLSConfig = \<lparr>CommonName = '''', TrustDomain = '''', CertificateDNSNames = None,
     CertificateDuration = None, CertificateRenewBefore = None, PrivateKeySize = 0, PrivateKeyAlgorithm = '''',
     MaxCertificateDuration = None\<rparr>"

definition zero_IstioConfig :: IstioConfig where
  "zero_IstioConfig = \<lparr>Revisions = None, istio_Namespace = ''''\<rparr>"

definition zero_Resources :: ResourceRequirements where
  "zero_Resources = \<lparr>rr_Limits = None, rr_Requests = None, rr_Claims = None\<rparr>"

definition zero_IstioCSRConfig :: IstioCSRConfig where
  "zero_IstioCSRConfig = \<lparr>LogLevel = 0, LogFormat = '''', IstioDataPlaneNamespaceSelector = '''',
     CertManager = zero_CertManagerConfig, IstiodTLSConfig = zero_IstiodTLSConfig, Server = None,
     Istio = zero_IstioConfig, ic_Resources = zero_Resources, ic_Affinity = None, ic_Tolerations = None,
     ic_NodeSelector = None\<rparr>"

definition zero_IstioCSRStatus :: IstioCSRStatus where
  "zero_IstioCSRStatus = \<lparr>ics_Conditional = \<lparr>Conditions = []\<rparr>, IstioCSRImage = '''', IstioCSRGRPCEndpoint = '''',
     ics_ServiceAccount = '''', ics_ClusterRole = '''', ics_ClusterRoleBinding = ''''\<rparr>"

definition zero_TrustManagerConfig :: TrustManagerConfig where
  "zero_TrustManagerConfig = \<lparr>tm_LogLevel = 0, tm_LogFormat = '''', tm_TrustNamespace = '''',
     SecretTargets = \<lparr>st_Policy = '''', AuthorizedSecrets = None\<rparr>, FilterExpiredCertificates = '''',
     DefaultCAPackage = \<lparr>ca_Policy = ''''\<rparr>, tm_Resources = zero_Resources, tm_Affinity = None,
     tm_Tolerations = None, tm_NodeSelector = None\<rparr>"

section \<open>Objects of any kind\<close>

text \<open>Of a namespace only its existence matters; of the cluster's \<open>APIServer\<close> the TLS settings.\<close>

datatype obj =
    ODeployment Deployment
  | OService Service
  | OServiceAccount ServiceAccount
  | OClusterRole RbacRole
  | ORole RbacRole
  | OClusterRoleBinding RbacBinding
  | ORoleBinding RbacBinding
  | OCertificate Certificate
  | OIssuer Issuer
  | OClusterIssuer Issuer
  | OConfigMap ConfigMap
  | OSecret Secret
  | ONetworkPolicy NetworkPolicy
  | OIstioCSR IstioCSR
  | OTrustManager TrustManager
  | OValidatingWebhookConfiguration ValidatingWebhookConfiguration
  | ONamespace ObjectMeta
  | OAPIServer ObjectMeta APIServer
  | OCertManager CertManager
  | OConsoleYAMLSample ObjectMeta opaque
  | OConsoleQuickStart ObjectMeta opaque

datatype kind = KDeployment | KService | KServiceAccount | KClusterRole | KRole | KClusterRoleBinding
  | KRoleBinding | KCertificate | KIssuer | KClusterIssuer | KConfigMap | KSecret | KNetworkPolicy | KIstioCSR
  | KTrustManager | KValidatingWebhookConfiguration | KNamespace | KAPIServer
  | KCertManager | KConsoleYAMLSample | KConsoleQuickStart

fun kind_of :: "obj \<Rightarrow> kind" where
  "kind_of (ODeployment x) = KDeployment"
| "kind_of (OService x) = KService"
| "kind_of (OServiceAccount x) = KServiceAccount"
| "kind_of (OClusterRole x) = KClusterRole"
| "kind_of (ORole x) = KRole"
| "kind_of (OClusterRoleBinding x) = KClusterRoleBinding"
| "kind_of (ORoleBinding x) = KRoleBinding"
| "kind_of (OCertificate x) = KCertificate"
| "kind_of (OIssuer x) = KIssuer"
| "kind_of (OClusterIssuer x) = KClusterIssuer"
| "kind_of (OConfigMap x) = KConfigMap"
| "kind_of (OSecret x) = KSecret"
| "kind_of (ONetworkPolicy x) = KNetworkPolicy"
| "kind_of (OIstioCSR x) = KIstioCSR"
| "kind_of (OTrustManager x) = KTrustManager"
| "kind_of (OValidatingWebhookConfiguration x) = KValidatingWebhookConfiguration"
| "kind_of (ONamespace m) = KNamespace"
| "kind_of (OAPIServer m x) = KAPIServer"
| "kind_of (OCertManager x) = KCertManager"
| "kind_of (OConsoleYAMLSample m x) = KConsoleYAMLSample"
| "kind_of (OConsoleQuickStart m x) = KConsoleQuickStart"

fun meta_of :: "obj \<Rightarrow> ObjectMeta" where
  "meta_of (ODeployment x) = dep_Meta x"
| "meta_of (OService x) = svc_Meta x"
| "meta_of (OServiceAccount x) = sa_Meta x"
| "meta_of (OClusterRole x) = role_Meta x"
| "meta_of (ORole x) = role_Meta x"
| "meta_of (OClusterRoleBinding x) = rb_Meta x"
| "meta_of (ORoleBinding x) = rb_Meta x"
| "meta_of (OCertificate x) = cert_Meta x"
| "meta_of (OIssuer x) = iss_Meta x"
| "meta_of (OClusterIssuer x) = iss_Meta x"
| "meta_of (OConfigMap x) = cmap_Meta x"
| "meta_of (OSecret x) = sec_Meta x"
| "meta_of (ONetworkPolicy x) = np_Meta x"
| "meta_of (OIstioCSR x) = ic_Meta x"
| "meta_of (OTrustManager x) = tm_Meta x"
| "meta_of (OValidatingWebhookConfiguration x) = vwc_Meta x"
| "meta_of (ONamespace m) = m"
| "meta_of (OAPIServer m x) = m"
| "meta_of (OCertManager x) = cm_Meta x"
| "meta_of (OConsoleYAMLSample m x) = m"
| "meta_of (OConsoleQuickStart m x) = m"

fun upd_meta :: "(ObjectMeta \<Rightarrow> ObjectMeta) \<Rightarrow> obj \<Rightarrow> obj" where
  "upd_meta f (ODeployment x) = ODeployment (x\<lparr>dep_Meta := f (dep_Meta x)\<rparr>)"
| "upd_meta f (OService x) = OService (x\<lparr>svc_Meta := f (svc_Meta x)\<rparr>)"
| "upd_meta f (OServiceAccount x) = OServiceAccount (x\<lparr>sa_Meta := f (sa_Meta x)\<rparr>)"
| "upd_meta f (OClusterRole x) = OClusterRole (x\<lparr>role_Meta := f (role_Meta x)\<rparr>)"
| "upd_meta f (ORole x) = ORole (x\<lparr>role_Meta := f (role_Meta x)\<rparr>)"
| "upd_meta f (OClusterRoleBinding x) = OClusterRoleBinding (x\<lparr>rb_Meta := f (rb_Meta x)\<rparr>)"
| "upd_meta f (ORoleBinding x) = ORoleBinding (x\<lparr>rb_Meta := f (rb_Meta x)\<rparr>)"
| "upd_meta f (OCertificate x) = OCertificate (x\<lparr>cert_Meta := f (cert_Meta x)\<rparr>)"
| "upd_meta f (OIssuer x) = OIssuer (x\<lparr>iss_Meta := f (iss_Meta x)\<rparr>)"
| "upd_meta f (OClusterIssuer x) = OClusterIssuer (x\<lparr>iss_Meta := f (iss_Meta x)\<rparr>)"
| "upd_meta f (OConfigMap x) = OConfigMap (x\<lparr>cmap_Meta := f (cmap_Meta x)\<rparr>)"
| "upd_meta f (OSecret x) = OSecret (x\<lparr>sec_Meta := f (sec_Meta x)\<rparr>)"
| "upd_meta f (ONetworkPolicy x) = ONetworkPolicy (x\<lparr>np_Meta := f (np_Meta x)\<rparr>)"
| "upd_meta f (OIstioCSR x) = OIstioCSR (x\<lparr>ic_Meta := f (ic_Meta x)\<rparr>)"
| "upd_meta f (OTrustManager x) = OTrustManager (x\<lparr>tm_Meta := f (tm_Meta x)\<rparr>)"
| "upd_meta f (OValidatingWebhookConfiguration x) = OValidatingWebhookConfiguration (x\<lparr>vwc_Meta := f (vwc_Meta x)\<rparr>)"
| "upd_meta f (ONamespace m) = ONamespace (f m)"
| "upd_meta f (OAPIServer m x) = OAPIServer (f m) x"
| "upd_meta f (OCertManager x) = OCertManager (x\<lparr>cm_Meta := f (cm_Meta x)\<rparr>)"
| "upd_meta f (OConsoleYAMLSample m x) = OConsoleYAMLSample (f m) x"
| "upd_meta f (OConsoleQuickStart m x) = OConsoleQuickStart (f m) x"

lemma meta_of_upd_meta [simp]: "meta_of (upd_meta f x) = f (meta_of x)"
  by (cases x) simp_all

lemma kind_of_upd_meta [simp]: "kind_of (upd_meta f x) = kind_of x"
  by (cases x) simp_all

lemma upd_meta_upd_meta [simp]: "upd_meta f (upd_meta g x) = upd_meta (f \<circ> g) x"
  by (cases x) simp_all

type_synonym key = "string \<times> string"

text \<open>\<open>client.ObjectKeyFromObject\<close>: namespace and name, and how they print.\<close>

definition ObjectKeyFromObject :: "obj \<Rightarrow> key" where
  "ObjectKeyFromObject x = (om_Namespace (meta_of x), om_Name (meta_of x))"

definition show_key :: "key \<Rightarrow> string" where
  "show_key k = fst k @ ''/'' @ snd k"

section \<open>utils.go\<close>

definition UpdateName :: "string \<Rightarrow> obj \<Rightarrow> obj" where
  "UpdateName name = upd_meta (\<lambda>m. m\<lparr>om_Name := name\<rparr>)"

definition UpdateNamespace :: "string \<Rightarrow> obj \<Rightarrow> obj" where
  "UpdateNamespace newNamespace = upd_meta (\<lambda>m. m\<lparr>om_Namespace := newNamespace\<rparr>)"

definition UpdateResourceLabels :: "labels \<Rightarrow> obj \<Rightarrow> obj" where
  "UpdateResourceLabels lbls = upd_meta (\<lambda>m. m\<lparr>om_Labels := lbls\<rparr>)"

definition ObjectMetadataModified :: "obj \<Rightarrow> obj \<Rightarrow> bool" where
  "ObjectMetadataModified desired fetched \<longleftrightarrow>
     \<not> deep_equal_map (om_Labels (meta_of desired)) (om_Labels (meta_of fetched))"

definition ContainsAnnotation :: "obj \<Rightarrow> string \<Rightarrow> bool" where
  "ContainsAnnotation x annotation \<longleftrightarrow> mlookup (om_Annotations (meta_of x)) annotation \<noteq> None"

definition AddAnnotation :: "obj \<Rightarrow> string \<Rightarrow> string \<Rightarrow> bool \<times> obj" where
  "AddAnnotation x annotation value =
     (if ContainsAnnotation x annotation then (False, x)
      else (True, upd_meta (\<lambda>m. m\<lparr>om_Annotations := mput annotation value (om_Annotations m)\<rparr>) x))"

text \<open>
  \<open>decode\<close> is \<open>runtime.Decode\<close> of the bytes; a failure or an object of another kind panics.
\<close>

definition DecodeObjBytes :: "kind \<Rightarrow> obj res \<Rightarrow> obj res" where
  "DecodeObjBytes k decoded = (case decoded of
      Ok x \<Rightarrow> if kind_of x = k then Ok x else Panic ''failed to convert decoded object''
    | Err e \<Rightarrow> Panic (''failed to decode object bytes: '' @ error_text e)
    | Panic s \<Rightarrow> Panic s)"

text \<open>\<open>controllerutil\<close>: the finalizers of an object.\<close>

definition ContainsFinalizer :: "obj \<Rightarrow> string \<Rightarrow> bool" where
  "ContainsFinalizer x f \<longleftrightarrow> List.member (om_Finalizers (meta_of x)) f"

definition AddFinalizer :: "string \<Rightarrow> obj \<Rightarrow> obj" where
  "AddFinalizer f x = (if ContainsFinalizer x f then x
     else upd_meta (\<lambda>m. m\<lparr>om_Finalizers := om_Finalizers m @ [f]\<rparr>) x)"

definition RemoveFinalizer :: "string \<Rightarrow> obj \<Rightarrow> obj" where
  "RemoveFinalizer f = upd_meta (\<lambda>m. m\<lparr>om_Finalizers := removeAll f (om_Finalizers m)\<rparr>)"

lemma DecodeObjBytes_eq_Ok_iff: "DecodeObjBytes k d = Ok x \<longleftrightarrow> d = Ok x \<and> kind_of x = k"
  by (auto simp: DecodeObjBytes_def split: res.splits)

lemma AddAnnotation_contains:
  "ContainsAnnotation (snd (AddAnnotation x a v)) a \<and>
   (fst (AddAnnotation x a v) \<longleftrightarrow> \<not> ContainsAnnotation x a) \<and>
   (b \<noteq> a \<longrightarrow> ContainsAnnotation (snd (AddAnnotation x a v)) b = ContainsAnnotation x b)"
  by (simp add: AddAnnotation_def ContainsAnnotation_def)

lemma finalizer_laws:
  "ContainsFinalizer (AddFinalizer f x) f" "\<not> ContainsFinalizer (RemoveFinalizer f x) f"
  "g \<noteq> f \<Longrightarrow> ContainsFinalizer (AddFinalizer f x) g = ContainsFinalizer x g"
  "g \<noteq> f \<Longrightarrow> ContainsFinalizer (RemoveFinalizer f x) g = ContainsFinalizer x g"
  by (auto simp: ContainsFinalizer_def AddFinalizer_def RemoveFinalizer_def)

end
