(* ===== verification/Client.thy ===== *)
theory Client
  imports Effects K8s_Resources
begin

text \<open>
  The controller client of \<open>pkg/controller/common/client.go\<close> over the API server.  The
  calls of controller-runtime's client are the record \<open>api\<close>, a parameter of everything
  that follows: any function of the cluster's state, which it may change and which may also be
  changed by others during a call.  A write returns the object as the server stored it, which Go writes
  back through the pointer.

  The locale \<open>api_server\<close> states what an API server promises to a single writer; the
  in-memory server at the end, with any schedule of failing calls, has these properties.
\<close>

record 'c api =
  api_Get :: "kind \<Rightarrow> key \<Rightarrow> ('c, obj) eff"
  api_List :: "kind \<Rightarrow> labels \<Rightarrow> ('c, obj list) eff"
  api_Create :: "obj \<Rightarrow> ('c, obj) eff"
  api_Update :: "obj \<Rightarrow> ('c, obj) eff"
  api_StatusUpdate :: "obj \<Rightarrow> ('c, obj) eff"
  api_Delete :: "obj \<Rightarrow> ('c, unit) eff"
  api_Patch :: "obj \<Rightarrow> opaque \<Rightarrow> ('c, obj) eff"

section \<open>client.go\<close>

definition about :: "string \<Rightarrow> key \<Rightarrow> string" where
  "about what key = what @ quoted (show_key key) @ '': ''"

definition clGet :: "'c api \<Rightarrow> kind \<Rightarrow> key \<Rightarrow> ('c, obj) eff" where
  "clGet api k key = wrapM (about ''failed to get object '' key) (api_Get api k key)"

definition clList :: "'c api \<Rightarrow> kind \<Rightarrow> labels \<Rightarrow> ('c, obj list) eff" where
  "clList api k selector = wrapM ''failed to list objects: '' (api_List api k selector)"

definition clCreate :: "'c api \<Rightarrow> obj \<Rightarrow> ('c, obj) eff" where
  "clCreate api x = wrapM (about ''failed to create object '' (ObjectKeyFromObject x)) (api_Create api x)"

definition clDelete :: "'c api \<Rightarrow> obj \<Rightarrow> ('c, unit) eff" where
  "clDelete api x = wrapM (about ''failed to delete object '' (ObjectKeyFromObject x)) (api_Delete api x)"

definition clUpdate :: "'c api \<Rightarrow> obj \<Rightarrow> ('c, obj) eff" where
  "clUpdate api x = wrapM (about ''failed to update object '' (ObjectKeyFromObject x)) (api_Update api x)"

text \<open>
  \<open>retry.RetryOnConflict\<close> with its number of steps: the call is repeated while it fails with a
  conflict, and the last conflict is returned.  \<open>retry.DefaultRetry\<close> has five steps.
\<close>

fun RetryOnConflict :: "nat \<Rightarrow> ('c, 'a) eff \<Rightarrow> ('c, 'a) eff" where
  "RetryOnConflict 0 fn = fn"
| "RetryOnConflict (Suc n) fn = (\<lambda>s. case fn s of
      (Err e, s') \<Rightarrow> if IsConflict (Some e) \<and> n > 0 then RetryOnConflict n fn s' else (Err e, s')
    | r \<Rightarrow> r)"

definition DefaultRetry :: nat where "DefaultRetry = 5"

definition set_rv :: "string \<Rightarrow> obj \<Rightarrow> obj" where
  "set_rv rv = upd_meta (\<lambda>m. m\<lparr>om_ResourceVersion := rv\<rparr>)"

definition updateOnce :: "'c api \<Rightarrow> obj \<Rightarrow> ('c, obj) eff" where
  "updateOnce api x =
     (let key = ObjectKeyFromObject x
      in bindM (wrapM (''failed to fetch latest '' @ quoted (show_key key) @ '' for update: '')
                 (api_Get api (kind_of x) key)) (\<lambda>current.
         wrapM (''failed to update '' @ quoted (show_key key) @ '' resource: '')
           (api_Update api (set_rv (om_ResourceVersion (meta_of current)) x))))"

definition UpdateWithRetry :: "'c api \<Rightarrow> obj \<Rightarrow> ('c, obj) eff" where
  "UpdateWithRetry api x = RetryOnConflict DefaultRetry (updateOnce api x)"

definition clStatusUpdate :: "'c api \<Rightarrow> obj \<Rightarrow> ('c, obj) eff" where
  "clStatusUpdate api x =
     wrapM (about ''failed to update status for object '' (ObjectKeyFromObject x)) (api_StatusUpdate api x)"

definition clPatch :: "'c api \<Rightarrow> obj \<Rightarrow> opaque \<Rightarrow> ('c, obj) eff" where
  "clPatch api x patch = wrapM (about ''failed to patch object '' (ObjectKeyFromObject x)) (api_Patch api x patch)"

text \<open>\<open>Exists\<close>: the object when it is there; only a not-found answer means it is not.\<close>

definition clExists :: "'c api \<Rightarrow> kind \<Rightarrow> key \<Rightarrow> ('c, obj option) eff" where
  "clExists api k key = bindM (attemptM (api_Get api k key)) (\<lambda>r. case r of
      Ok x \<Rightarrow> returnM (Some x)
    | Err err \<Rightarrow> if IsNotFound (Some err) then returnM None else failM err
    | Panic p \<Rightarrow> panicM p)"

section \<open>Retrying\<close>

text \<open>Running an effect repeatedly as long as it fails with a conflict.\<close>

fun conflicts :: "nat \<Rightarrow> ('c, 'a) eff \<Rightarrow> 'c \<Rightarrow> 'c option" where
  "conflicts 0 fn s = Some s"
| "conflicts (Suc n) fn s = (case fn s of
      (Err e, s') \<Rightarrow> if IsConflict (Some e) then conflicts n fn s' else None
    | _ \<Rightarrow> None)"

lemma RetryOnConflict_Suc:
  "RetryOnConflict (Suc n) fn s = (case fn s of
      (Err e, s') \<Rightarrow> if IsConflict (Some e) \<and> n > 0 then RetryOnConflict n fn s' else (Err e, s')
    | r \<Rightarrow> r)"
  by simp

declare RetryOnConflict.simps [simp del]

lemma RetryOnConflict_spec:
  "n > 0 \<Longrightarrow> \<exists>k s'. k < n \<and> conflicts k fn s = Some s' \<and> RetryOnConflict n fn s = fn s' \<and>
     (Suc k < n \<longrightarrow> conflicts (Suc k) fn s = None)"
proof (induction n arbitrary: s)
  case (Suc n)
  show ?case
  proof (cases "\<exists>e s'. fn s = (Err e, s') \<and> IsConflict (Some e) \<and> n > 0")
    case True
    then obtain e s' where e: "fn s = (Err e, s')" "IsConflict (Some e)" "n > 0" by blast
    with Suc.IH [of s'] obtain k t where
      "k < n" "conflicts k fn s' = Some t" "RetryOnConflict n fn s' = fn t"
      "Suc k < n \<longrightarrow> conflicts (Suc k) fn s' = None" by auto
    with e show ?thesis
      by (intro exI [of _ "Suc k"] exI [of _ t]) (auto simp: RetryOnConflict_Suc)
  next
    case False
    then show ?thesis
      by (intro exI [of _ 0] exI [of _ s]) (auto simp: RetryOnConflict_Suc split: prod.splits res.splits)
  qed
qed simp

lemma keepsM_retry [keeps_intro]: "keepsM I fn \<Longrightarrow> keepsM I (RetryOnConflict n fn)"
proof (induction n)
  case 0
  then show ?case by (simp add: RetryOnConflict.simps)
next
  case (Suc n)
  then show ?case
    by (fastforce simp: keepsM_def RetryOnConflict_Suc split: prod.splits res.splits)
qed

section \<open>What an API server promises\<close>

text \<open>The server's own metadata: two objects that differ only there have the same content.\<close>

definition plain_meta :: "ObjectMeta \<Rightarrow> ObjectMeta" where
  "plain_meta m = m\<lparr>om_Name := '''', om_GenerateName := '''', om_UID := '''', om_ResourceVersion := '''',
     om_Generation := 0, om_CreationTimestamp := 0\<rparr>"

definition same_content :: "obj \<Rightarrow> obj \<Rightarrow> bool" where
  "same_content a b \<longleftrightarrow> upd_meta plain_meta a = upd_meta plain_meta b"

text \<open>The status subresource: an update keeps the stored status, a status update changes only it.\<close>

fun keep_status :: "obj \<Rightarrow> obj \<Rightarrow> obj" where
  "keep_status (OIstioCSR old) x = (case x of OIstioCSR new \<Rightarrow> OIstioCSR (new\<lparr>ic_Status := ic_Status old\<rparr>) | _ \<Rightarrow> x)"
| "keep_status (OTrustManager old) x = (case x of OTrustManager new \<Rightarrow> OTrustManager (new\<lparr>tm_Status := tm_Status old\<rparr>) | _ \<Rightarrow> x)"
| "keep_status (OCertManager old) x = (case x of OCertManager new \<Rightarrow> OCertManager (new\<lparr>cm_Status := cm_Status old\<rparr>) | _ \<Rightarrow> x)"
| "keep_status old x = x"

fun only_status :: "obj \<Rightarrow> obj \<Rightarrow> obj" where
  "only_status (OIstioCSR old) x = (case x of OIstioCSR new \<Rightarrow> OIstioCSR (old\<lparr>ic_Status := ic_Status new\<rparr>) | _ \<Rightarrow> OIstioCSR old)"
| "only_status (OTrustManager old) x = (case x of OTrustManager new \<Rightarrow> OTrustManager (old\<lparr>tm_Status := tm_Status new\<rparr>) | _ \<Rightarrow> OTrustManager old)"
| "only_status (OCertManager old) x = (case x of OCertManager new \<Rightarrow> OCertManager (old\<lparr>cm_Status := cm_Status new\<rparr>) | _ \<Rightarrow> OCertManager old)"
| "only_status old x = old"

lemma keep_status_upd_meta: "keep_status x (upd_meta f x) = upd_meta f x"
  by (cases x) (simp_all add: IstioCSR.equality TrustManager.equality CertManager.equality)

text \<open>An object marked for deletion goes away with its last finalizer.\<close>

definition released :: "obj \<Rightarrow> bool" where
  "released x \<longleftrightarrow> om_DeletionTimestamp (meta_of x) \<noteq> None \<and> om_Finalizers (meta_of x) = []"

locale api_server =
  fixes api :: "'c api" and stored :: "'c \<Rightarrow> kind \<Rightarrow> key \<Rightarrow> obj option"
  assumes get_Ok: "api_Get api k key s = (Ok x, s') \<Longrightarrow> stored s k key = Some x"
    and get_NotFound: "api_Get api k key s = (Err e, s') \<Longrightarrow> IsNotFound (Some e) \<Longrightarrow> stored s k key = None"
    and get_keeps: "stored (snd (api_Get api k key s)) = stored s"
    and stored_kind: "stored s k key = Some x \<Longrightarrow> kind_of x = k \<and> ObjectKeyFromObject x = key"
    and create_Ok: "api_Create api x s = (Ok y, s') \<Longrightarrow>
      same_content x y \<and> stored s (kind_of x) (ObjectKeyFromObject y) = None \<and>
      (om_Name (meta_of x) \<noteq> '''' \<longrightarrow> ObjectKeyFromObject y = ObjectKeyFromObject x) \<and>
      stored s' = (stored s)(kind_of x := (stored s (kind_of x))(ObjectKeyFromObject y \<mapsto> y))"
    and create_Err: "api_Create api x s = (Err e, s') \<Longrightarrow> stored s' = stored s"
    and update_result: "api_Update api x s = (Ok y, s') \<Longrightarrow>
      \<exists>old. stored s (kind_of x) (ObjectKeyFromObject x) = Some old \<and> same_content (keep_status old x) y \<and>
        ObjectKeyFromObject y = ObjectKeyFromObject x \<and>
        stored s' = (stored s)(kind_of x := (stored s (kind_of x))(ObjectKeyFromObject x :=
          (if released x then None else Some y)))"
    and update_Err: "api_Update api x s = (Err e, s') \<Longrightarrow> stored s' = stored s"
    and status_Ok: "api_StatusUpdate api x s = (Ok y, s') \<Longrightarrow>
      \<exists>old. stored s (kind_of x) (ObjectKeyFromObject x) = Some old \<and> same_content (only_status old x) y \<and>
        stored s' = (stored s)(kind_of x := (stored s (kind_of x))(ObjectKeyFromObject x \<mapsto> y))"
    and status_other: "k \<noteq> kind_of x \<Longrightarrow> stored (snd (api_StatusUpdate api x s)) k = stored s k"
    and create_other: "k \<noteq> kind_of x \<Longrightarrow> stored (snd (api_Create api x s)) k = stored s k"
    and update_other: "k \<noteq> kind_of x \<Longrightarrow> stored (snd (api_Update api x s)) k = stored s k"
    and delete_other: "k \<noteq> kind_of x \<Longrightarrow> stored (snd (api_Delete api x s)) k = stored s k"
    and list_keeps: "stored (snd (api_List api k selector s)) = stored s"
begin

lemma exists_cases:
  assumes "clExists api k key s = (r, s')"
  shows "stored s' = stored s \<and> (case r of Ok found \<Rightarrow> stored s k key = found | _ \<Rightarrow> True)"
proof -
  obtain g t where g: "api_Get api k key s = (g, t)" by fastforce
  have "stored t = stored s" using get_keeps [of k key s] g by simp
  with assms g show ?thesis
    by (cases g) (auto simp: clExists_def eff_defs split: if_splits dest: get_Ok get_NotFound)
qed

lemma updateOnce_result:
  assumes "updateOnce api x s = (Ok y, s')"
  shows "\<exists>old. stored s (kind_of x) (ObjectKeyFromObject x) = Some old \<and> same_content (keep_status old x) y \<and>
     ObjectKeyFromObject y = ObjectKeyFromObject x \<and>
     stored s' = (stored s)(kind_of x := (stored s (kind_of x))(ObjectKeyFromObject x :=
       (if released x then None else Some y)))"
proof -
  obtain cur t where cur: "api_Get api (kind_of x) (ObjectKeyFromObject x) s = (Ok cur, t)"
    and upd: "api_Update api (set_rv (om_ResourceVersion (meta_of cur)) x) t = (Ok y, s')"
    using assms(1) by (auto simp: updateOnce_def Let_def bindM_eq_Ok_iff)
  have "stored t = stored s" using get_keeps [of _ _ s] cur by (metis snd_conv)
  moreover have "same_content (keep_status old (set_rv rv x)) y = same_content (keep_status old x) y" for old rv
    by (cases x; cases old) (simp_all add: same_content_def set_rv_def plain_meta_def)
  moreover have "released (set_rv rv x) = released x" for rv by (simp add: released_def set_rv_def)
  ultimately show ?thesis
    using update_result [OF upd] by (simp add: ObjectKeyFromObject_def set_rv_def)
qed

lemma updateOnce_Err: "updateOnce api x s = (Err e, s') \<Longrightarrow> stored s' = stored s"
  using get_keeps [of "kind_of x" "ObjectKeyFromObject x" s]
  by (auto simp: updateOnce_def Let_def eff_defs split: prod.splits res.splits dest: update_Err)

lemma conflicts_stored: "conflicts n (updateOnce api x) s = Some s' \<Longrightarrow> stored s' = stored s"
  by (induction n arbitrary: s) (auto split: prod.splits res.splits if_splits dest: updateOnce_Err)

text \<open>A retried update that succeeds wrote the object once, on the state it started from.\<close>

lemma UpdateWithRetry_result:
  assumes "UpdateWithRetry api x s = (Ok y, s')"
  shows "\<exists>old. stored s (kind_of x) (ObjectKeyFromObject x) = Some old \<and> same_content (keep_status old x) y \<and>
     ObjectKeyFromObject y = ObjectKeyFromObject x \<and>
     stored s' = (stored s)(kind_of x := (stored s (kind_of x))(ObjectKeyFromObject x :=
       (if released x then None else Some y)))"
proof -
  obtain k t where "conflicts k (updateOnce api x) s = Some t" "updateOnce api x t = (Ok y, s')"
    using RetryOnConflict_spec [of DefaultRetry "updateOnce api x" s] assms(1)
    by (auto simp: UpdateWithRetry_def DefaultRetry_def)
  with conflicts_stored [of k x s t] updateOnce_result [of x t y s'] show ?thesis by simp
qed

lemma UpdateWithRetry_Ok:
  assumes "UpdateWithRetry api x s = (Ok y, s')" and live: "om_DeletionTimestamp (meta_of x) = None"
  shows "\<exists>old. stored s (kind_of x) (ObjectKeyFromObject x) = Some old \<and> same_content (keep_status old x) y \<and>
     ObjectKeyFromObject y = ObjectKeyFromObject x \<and>
     stored s' = (stored s)(kind_of x := (stored s (kind_of x))(ObjectKeyFromObject x \<mapsto> y))"
  using UpdateWithRetry_result [OF assms(1)] live by (simp add: released_def)

end

text \<open>
  A server whose lists hold each matching object once.  Reads through an informer cache lag behind; a
  list stands for the contents the cache has at that moment.
\<close>

definition label_match :: "labels \<Rightarrow> obj \<Rightarrow> bool" where
  "label_match selector x \<longleftrightarrow>
     list_all (\<lambda>(l, v). mlookup (om_Labels (meta_of x)) l = Some v) (elems selector)"

locale api_listing = api_server +
  assumes list_Ok: "api_List api k selector s = (Ok xs, s') \<Longrightarrow>
    distinct xs \<and>
    (\<forall>x. x \<in> set xs \<longleftrightarrow> stored s k (ObjectKeyFromObject x) = Some x \<and> label_match selector x)"
begin

lemma listed_iff:
  "api_List api k None s = (Ok xs, s') \<Longrightarrow> x \<in> set xs \<longleftrightarrow> stored s k (ObjectKeyFromObject x) = Some x"
  using list_Ok by (auto simp: label_match_def)

end

text \<open>
  Server-side apply with forced ownership.  Afterwards every field the applied object sets has its value:
  labels, annotations and the data of a config map are merged entry by entry, rules and subjects, names and
  arguments are replaced, containers and webhooks are found by name.  What the applied object leaves out may
  have been set by others or by the server.
\<close>

definition applyPatch :: opaque where
  "applyPatch = ''application/apply-patch+yaml force=true fieldManager=trust-manager-controller''"

definition map_within :: "labels \<Rightarrow> labels \<Rightarrow> bool" where
  "map_within a b \<longleftrightarrow> list_all (\<lambda>k. mlookup b k = mlookup a k) (map fst (elems a))"

definition set_as :: "'a option \<Rightarrow> 'a option \<Rightarrow> bool" where
  "set_as a b \<longleftrightarrow> a = None \<or> b = a"

definition set_string :: "string \<Rightarrow> string \<Rightarrow> bool" where
  "set_string a b \<longleftrightarrow> a = '''' \<or> b = a"

definition applied_container :: "Container \<Rightarrow> Container \<Rightarrow> bool" where
  "applied_container c d \<longleftrightarrow> ct_Name d = ct_Name c \<and> set_string (ct_Image c) (ct_Image d) \<and>
     set_as (ct_Args c) (ct_Args d)"

definition applied_deployment :: "Deployment \<Rightarrow> Deployment \<Rightarrow> bool" where
  "applied_deployment x y \<longleftrightarrow> set_as (dep_Replicas x) (dep_Replicas y) \<and>
     map_within (pt_Labels (dep_Template x)) (pt_Labels (dep_Template y)) \<and>
     map_within (pt_Annotations (dep_Template x)) (pt_Annotations (dep_Template y)) \<and>
     set_string (ps_ServiceAccountName (dep_Pod x)) (ps_ServiceAccountName (dep_Pod y)) \<and>
     list_all (\<lambda>c. list_ex (applied_container c) (containers y)) (containers x)"

definition applied_certificate :: "CertificateSpec \<Rightarrow> CertificateSpec \<Rightarrow> bool" where
  "applied_certificate x y \<longleftrightarrow> set_string (cs_CommonName x) (cs_CommonName y) \<and>
     set_as (cs_DNSNames x) (cs_DNSNames y) \<and> set_string (cs_SecretName x) (cs_SecretName y) \<and>
     set_string (ir_Name (cs_IssuerRef x)) (ir_Name (cs_IssuerRef y))"

definition applied_spec :: "obj \<Rightarrow> obj \<Rightarrow> bool" where
  "applied_spec a b = (case (a, b) of
      (OClusterRole x, OClusterRole y) \<Rightarrow> set_as (role_Rules x) (role_Rules y)
    | (ORole x, ORole y) \<Rightarrow> set_as (role_Rules x) (role_Rules y)
    | (OClusterRoleBinding x, OClusterRoleBinding y) \<Rightarrow>
        rb_RoleRef y = rb_RoleRef x \<and> set_as (rb_Subjects x) (rb_Subjects y)
    | (ORoleBinding x, ORoleBinding y) \<Rightarrow>
        rb_RoleRef y = rb_RoleRef x \<and> set_as (rb_Subjects x) (rb_Subjects y)
    | (OConfigMap x, OConfigMap y) \<Rightarrow> map_within (cmap_Data x) (cmap_Data y)
    | (OService x, OService y) \<Rightarrow> set_string (svc_Type x) (svc_Type y) \<and> set_as (svc_Selector x) (svc_Selector y)
    | (OServiceAccount x, OServiceAccount y) \<Rightarrow> set_as (sa_Automount x) (sa_Automount y)
    | (OCertificate x, OCertificate y) \<Rightarrow> applied_certificate (cert_Spec x) (cert_Spec y)
    | (ODeployment x, ODeployment y) \<Rightarrow> applied_deployment x y
    | (OValidatingWebhookConfiguration x, OValidatingWebhookConfiguration y) \<Rightarrow>
        list_all (\<lambda>w. list_ex (\<lambda>v. wh_Name v = wh_Name w) (elems (vwc_Webhooks y))) (elems (vwc_Webhooks x))
    | _ \<Rightarrow> kind_of b = kind_of a)"

definition applied :: "obj \<Rightarrow> obj \<Rightarrow> bool" where
  "applied x y \<longleftrightarrow> ObjectKeyFromObject y = ObjectKeyFromObject x \<and> kind_of y = kind_of x \<and>
     map_within (om_Labels (meta_of x)) (om_Labels (meta_of y)) \<and>
     map_within (om_Annotations (meta_of x)) (om_Annotations (meta_of y)) \<and> applied_spec x y"

locale api_apply = api_server +
  assumes apply_Ok: "api_Patch api x applyPatch s = (Ok y, s') \<Longrightarrow>
      applied x y \<and> stored s' = (stored s)(kind_of x := (stored s (kind_of x))(ObjectKeyFromObject x \<mapsto> y))"
    and apply_not_Ok: "api_Patch api x applyPatch s = (r, s') \<Longrightarrow> \<not> is_ok r \<Longrightarrow> stored s' = stored s"
begin

lemma apply_other: "(k, key) \<noteq> (kind_of x, ObjectKeyFromObject x) \<Longrightarrow>
  stored (snd (api_Patch api x applyPatch s)) k key = stored s k key"
proof -
  assume other: "(k, key) \<noteq> (kind_of x, ObjectKeyFromObject x)"
  obtain r s' where r: "api_Patch api x applyPatch s = (r, s')" by fastforce
  show ?thesis
  proof (cases "is_ok r")
    case True
    then obtain y where "r = Ok y" by (auto simp: is_ok_iff)
    with apply_Ok r other show ?thesis by auto
  next
    case False
    with apply_not_Ok [OF r] r show ?thesis by simp
  qed
qed

end

section \<open>An in-memory API server\<close>

text \<open>
  Objects with resource versions, generated names, optimistic concurrency, deletion through
  finalizers and the status subresource.  \<open>st_faults\<close> is the schedule of the calls that fail; a
  call fails before it changes anything.
\<close>

datatype fault = FaultConflict | FaultForbidden | FaultTimeout | FaultInternal

fun fault_error :: "fault \<Rightarrow> goerror" where
  "fault_error FaultConflict = ErrAPI ''Conflict'' 409 ''conflict''"
| "fault_error FaultForbidden = ErrAPI ''Forbidden'' 403 ''forbidden''"
| "fault_error FaultTimeout = ErrAPI ''Timeout'' 504 ''timeout''"
| "fault_error FaultInternal = ErrAPI ''InternalError'' 500 ''internal error''"

record store =
  st_objs :: "((kind \<times> key) \<times> obj) list"
  st_count :: nat
  st_faults :: "fault option list"

definition empty_store :: store where
  "empty_store = \<lparr>st_objs = [], st_count = 0, st_faults = []\<rparr>"

definition objs_in :: "store \<Rightarrow> kind \<Rightarrow> key \<Rightarrow> obj option" where
  "objs_in s k key = (case map_of (st_objs s) (k, key) of
      None \<Rightarrow> None
    | Some x \<Rightarrow> if kind_of x = k \<and> ObjectKeyFromObject x = key then Some x else None)"

definition served :: "(store \<Rightarrow> 'a res \<times> store) \<Rightarrow> (store, 'a) eff" where
  "served call s = (case st_faults s of
      [] \<Rightarrow> call s
    | None # fs \<Rightarrow> call (s\<lparr>st_faults := fs\<rparr>)
    | Some f # fs \<Rightarrow> (Err (fault_error f), s\<lparr>st_faults := fs\<rparr>))"

definition errNotFound :: goerror where "errNotFound = ErrAPI ''NotFound'' 404 ''not found''"

definition put_obj :: "obj \<Rightarrow> store \<Rightarrow> store" where
  "put_obj x s = s\<lparr>st_objs := AList.update (kind_of x, ObjectKeyFromObject x) x (st_objs s),
     st_count := st_count s + 1\<rparr>"

definition drop_obj :: "obj \<Rightarrow> store \<Rightarrow> store" where
  "drop_obj x s = s\<lparr>st_objs := AList.delete (kind_of x, ObjectKeyFromObject x) (st_objs s),
     st_count := st_count s + 1\<rparr>"

definition stamp :: "nat \<Rightarrow> ObjectMeta \<Rightarrow> ObjectMeta \<Rightarrow> ObjectMeta" where
  "stamp n old m = m\<lparr>om_ResourceVersion := show_nat n, om_UID := om_UID old,
     om_Generation := om_Generation old + 1, om_CreationTimestamp := om_CreationTimestamp old\<rparr>"

definition store_Get :: "kind \<Rightarrow> key \<Rightarrow> (store, obj) eff" where
  "store_Get k key = served (\<lambda>s. case objs_in s k key of None \<Rightarrow> (Err errNotFound, s) | Some x \<Rightarrow> (Ok x, s))"

definition store_List :: "kind \<Rightarrow> labels \<Rightarrow> (store, obj list) eff" where
  "store_List k selector = served (\<lambda>s.
     (Ok (remdups (filter (\<lambda>x. objs_in s k (ObjectKeyFromObject x) = Some x \<and> label_match selector x)
            (map snd (st_objs s)))), s))"

definition created :: "nat \<Rightarrow> obj \<Rightarrow> obj" where
  "created n x = upd_meta (\<lambda>m. stamp n (m\<lparr>om_UID := ''uid-'' @ show_nat n, om_Generation := 0,
     om_CreationTimestamp := int n\<rparr>)
     (m\<lparr>om_Name := if om_Name m = '''' then om_GenerateName m @ show_nat n else om_Name m\<rparr>)) x"

definition store_Create :: "obj \<Rightarrow> (store, obj) eff" where
  "store_Create x = served (\<lambda>s.
     let y = created (st_count s) x
     in if om_Name (meta_of x) = '''' \<and> om_GenerateName (meta_of x) = ''''
        then (Err (ErrAPI ''Invalid'' 422 ''name required''), s)
        else if objs_in s (kind_of x) (ObjectKeyFromObject y) \<noteq> None
        then (Err (ErrAPI ''AlreadyExists'' 409 ''already exists''), s)
        else (Ok y, put_obj y s))"

definition store_Update :: "obj \<Rightarrow> (store, obj) eff" where
  "store_Update x = served (\<lambda>s. case objs_in s (kind_of x) (ObjectKeyFromObject x) of
      None \<Rightarrow> (Err errNotFound, s)
    | Some old \<Rightarrow>
        if om_ResourceVersion (meta_of x) \<noteq> '''' \<and> om_ResourceVersion (meta_of x) \<noteq> om_ResourceVersion (meta_of old)
        then (Err (fault_error FaultConflict), s)
        else let y = upd_meta (stamp (st_count s) (meta_of old)) (keep_status old x)
             in if om_DeletionTimestamp (meta_of x) \<noteq> None \<and> om_Finalizers (meta_of x) = []
                then (Ok y, drop_obj y s) else (Ok y, put_obj y s))"

definition store_StatusUpdate :: "obj \<Rightarrow> (store, obj) eff" where
  "store_StatusUpdate x = served (\<lambda>s. case objs_in s (kind_of x) (ObjectKeyFromObject x) of
      None \<Rightarrow> (Err errNotFound, s)
    | Some old \<Rightarrow>
        if om_ResourceVersion (meta_of x) \<noteq> '''' \<and> om_ResourceVersion (meta_of x) \<noteq> om_ResourceVersion (meta_of old)
        then (Err (fault_error FaultConflict), s)
        else let y = set_rv (show_nat (st_count s)) (only_status old x) in (Ok y, put_obj y s))"

definition store_Delete :: "obj \<Rightarrow> (store, unit) eff" where
  "store_Delete x = served (\<lambda>s. case objs_in s (kind_of x) (ObjectKeyFromObject x) of
      None \<Rightarrow> (Err errNotFound, s)
    | Some old \<Rightarrow>
        if om_Finalizers (meta_of old) = [] then (Ok (), drop_obj old s)
        else (Ok (), put_obj (upd_meta (\<lambda>m. m\<lparr>om_DeletionTimestamp := Some (int (st_count s))\<rparr>) old) s))"

definition applied_over :: "nat \<Rightarrow> obj \<Rightarrow> obj \<Rightarrow> obj" where
  "applied_over n old x = upd_meta (\<lambda>m. stamp n (meta_of old) (m\<lparr>
     om_Labels := mcopy (om_Labels (meta_of old)) (om_Labels m),
     om_Annotations := mcopy (om_Annotations (meta_of old)) (om_Annotations m),
     om_Finalizers := om_Finalizers (meta_of old), om_DeletionTimestamp := om_DeletionTimestamp (meta_of old)\<rparr>))
     (keep_status old x)"

definition store_Patch :: "obj \<Rightarrow> opaque \<Rightarrow> (store, obj) eff" where
  "store_Patch x patch = served (\<lambda>s.
     if patch \<noteq> applyPatch then (Err (ErrAPI ''UnsupportedMediaType'' 415 ''patch''), s)
     else if om_Name (meta_of x) = '''' then (Err (ErrAPI ''Invalid'' 422 ''name required''), s)
     else let y = (case objs_in s (kind_of x) (ObjectKeyFromObject x) of
                     None \<Rightarrow> created (st_count s) x
                   | Some old \<Rightarrow> applied_over (st_count s) old x)
          in (Ok y, put_obj y s))"

definition store_api :: "store api" where
  "store_api = \<lparr>api_Get = store_Get, api_List = store_List, api_Create = store_Create, api_Update = store_Update,
     api_StatusUpdate = store_StatusUpdate, api_Delete = store_Delete, api_Patch = store_Patch\<rparr>"

lemma stored_faults [simp]: "objs_in (s\<lparr>st_faults := fs\<rparr>) = objs_in s"
  by (simp add: objs_in_def fun_eq_iff)

lemma stored_put_obj:
  "objs_in (put_obj y s) = (objs_in s)(kind_of y := (objs_in s (kind_of y))(ObjectKeyFromObject y \<mapsto> y))"
  by (auto simp: objs_in_def put_obj_def update_conv' fun_eq_iff split: option.splits)

lemma stored_kind_key: "objs_in s k key = Some x \<Longrightarrow> kind_of x = k \<and> ObjectKeyFromObject x = key"
  by (auto simp: objs_in_def split: option.splits if_splits)

lemma fault_not_NotFound: "\<not> IsNotFound (Some (fault_error f))"
  by (cases f) (simp_all add: IsNotFound_def has_reason_def reasonAndCodeForError_def knownReasons_def)

lemma served_cases:
  "served call s = (r, s') \<Longrightarrow>
   (\<exists>f. r = Err (fault_error f) \<and> objs_in s' = objs_in s) \<or> (\<exists>t. objs_in t = objs_in s \<and> call t = (r, s'))"
  by (auto simp: served_def split: list.splits option.splits)

lemma stamp_plain [simp]: "plain_meta (stamp n old m) = plain_meta m"
  by (simp add: plain_meta_def stamp_def)

lemma keep_status_meta [simp]: "kind_of (keep_status old x) = kind_of x" "meta_of (keep_status old x) = meta_of x"
  by (cases old; cases x; simp)+

lemma ObjectKey_stamp [simp]: "ObjectKeyFromObject (upd_meta (stamp n old) x) = ObjectKeyFromObject x"
  by (simp add: ObjectKeyFromObject_def stamp_def)

lemma ObjectKey_keep_status [simp]: "ObjectKeyFromObject (keep_status old x) = ObjectKeyFromObject x"
  by (simp add: ObjectKeyFromObject_def)

lemma plain_meta_name [simp]: "plain_meta (m\<lparr>om_Name := n\<rparr>) = plain_meta m"
  by (simp add: plain_meta_def)

lemma created_same [simp]: "same_content x (created n x)" "kind_of (created n x) = kind_of x"
  by (simp_all add: same_content_def created_def comp_def)

lemma created_key: "om_Name (meta_of x) \<noteq> '''' \<Longrightarrow> ObjectKeyFromObject (created n x) = ObjectKeyFromObject x"
  by (simp add: created_def ObjectKeyFromObject_def stamp_def)

lemma store_Create_Ok:
  assumes "store_Create x s = (Ok y, s')"
  shows "same_content x y \<and> objs_in s (kind_of x) (ObjectKeyFromObject y) = None \<and>
      (om_Name (meta_of x) \<noteq> '''' \<longrightarrow> ObjectKeyFromObject y = ObjectKeyFromObject x) \<and>
      objs_in s' = (objs_in s)(kind_of x := (objs_in s (kind_of x))(ObjectKeyFromObject y \<mapsto> y))"
  using served_cases [OF assms [unfolded store_Create_def]]
  by (auto simp: Let_def stored_put_obj created_key created_same split: if_splits)

lemma store_Create_Err: "store_Create x s = (Err e, s') \<Longrightarrow> objs_in s' = objs_in s"
  unfolding store_Create_def by (drule served_cases) (auto simp: Let_def split: if_splits)

lemma stored_drop_obj:
  "objs_in (drop_obj y s) = (objs_in s)(kind_of y := (objs_in s (kind_of y))(ObjectKeyFromObject y := None))"
  by (auto simp: objs_in_def drop_obj_def delete_conv' fun_eq_iff split: option.splits)

lemma store_Update_result:
  assumes "store_Update x s = (Ok y, s')"
  shows "\<exists>old. objs_in s (kind_of x) (ObjectKeyFromObject x) = Some old \<and> same_content (keep_status old x) y \<and>
        ObjectKeyFromObject y = ObjectKeyFromObject x \<and>
        objs_in s' = (objs_in s)(kind_of x := (objs_in s (kind_of x))(ObjectKeyFromObject x :=
          (if released x then None else Some y)))"
proof -
  from served_cases [OF assms(1) [unfolded store_Update_def]] obtain t old where
    t: "objs_in t = objs_in s" "objs_in t (kind_of x) (ObjectKeyFromObject x) = Some old"
    and y: "y = upd_meta (stamp (st_count t) (meta_of old)) (keep_status old x)"
      "s' = (if released x then drop_obj y t else put_obj y t)"
    by (auto simp: Let_def released_def split: option.splits if_split_asm)
  have "ObjectKeyFromObject y = ObjectKeyFromObject x" "kind_of y = kind_of x" "same_content (keep_status old x) y"
    by (simp_all add: y(1) same_content_def comp_def)
  with t y(2) show ?thesis by (auto simp: stored_put_obj stored_drop_obj)
qed

lemma store_Update_Err: "store_Update x s = (Err e, s') \<Longrightarrow> objs_in s' = objs_in s"
  unfolding store_Update_def by (drule served_cases) (auto simp: Let_def split: if_splits option.splits)

lemma store_Get_keeps: "objs_in (snd (store_Get k key s)) = objs_in s"
proof -
  obtain r s' where r: "store_Get k key s = (r, s')" by fastforce
  from served_cases [OF this [unfolded store_Get_def]] show ?thesis
    unfolding r by (auto split: option.splits)
qed

lemma store_Get_Ok: "store_Get k key s = (Ok x, s') \<Longrightarrow> objs_in s k key = Some x"
  unfolding store_Get_def by (drule served_cases) (auto split: option.splits)

lemma store_Get_NotFound:
  "store_Get k key s = (Err e, s') \<Longrightarrow> IsNotFound (Some e) \<Longrightarrow> objs_in s k key = None"
  unfolding store_Get_def by (drule served_cases) (auto simp: fault_not_NotFound split: option.splits)

lemma only_status_meta [simp]: "kind_of (only_status old x) = kind_of old" "meta_of (only_status old x) = meta_of old"
  by (cases old; cases x; simp)+

lemma plain_meta_rv [simp]: "plain_meta (m\<lparr>om_ResourceVersion := rv\<rparr>) = plain_meta m"
  by (simp add: plain_meta_def)

lemma store_StatusUpdate_Ok:
  assumes "store_StatusUpdate x s = (Ok y, s')"
  shows "\<exists>old. objs_in s (kind_of x) (ObjectKeyFromObject x) = Some old \<and> same_content (only_status old x) y \<and>
        objs_in s' = (objs_in s)(kind_of x := (objs_in s (kind_of x))(ObjectKeyFromObject x \<mapsto> y))"
proof -
  have key: "ObjectKeyFromObject (set_rv rv (only_status old x)) = ObjectKeyFromObject old"
    "kind_of (set_rv rv (only_status old x)) = kind_of old" for rv old
    by (simp_all add: ObjectKeyFromObject_def set_rv_def)
  have same: "same_content (only_status old x) (set_rv rv (only_status old x))" for rv old
    by (simp add: same_content_def set_rv_def comp_def)
  from served_cases [OF assms [unfolded store_StatusUpdate_def]] obtain t old where
    t: "objs_in t = objs_in s" "objs_in t (kind_of x) (ObjectKeyFromObject x) = Some old"
    and y: "y = set_rv (show_nat (st_count t)) (only_status old x)" "s' = put_obj y t"
    by (auto simp: Let_def split: if_splits option.splits)
  with stored_kind_key [OF t(2)] show ?thesis
    by (auto simp: stored_put_obj key same)
qed

lemma put_obj_other: "k \<noteq> kind_of y \<Longrightarrow> objs_in (put_obj y s) k = objs_in s k"
  by (simp add: stored_put_obj)

text \<open>A served call changes no object of another kind if the call itself does not.\<close>

lemma served_other:
  assumes "\<And>t. objs_in (snd (call t)) k = objs_in t k"
  shows "objs_in (snd (served call s)) k = objs_in s k"
proof -
  have "objs_in (snd (call (s\<lparr>st_faults := fs\<rparr>))) k = objs_in s k" for fs by (simp add: assms)
  then show ?thesis by (auto simp: served_def assms split: list.splits option.splits)
qed

lemma store_Create_other: "k \<noteq> kind_of x \<Longrightarrow> objs_in (snd (store_Create x s)) k = objs_in s k"
  unfolding store_Create_def by (rule served_other) (auto simp: Let_def put_obj_other created_key)

lemma store_Update_other: "k \<noteq> kind_of x \<Longrightarrow> objs_in (snd (store_Update x s)) k = objs_in s k"
  unfolding store_Update_def
  by (rule served_other) (auto simp: Let_def put_obj_other stored_drop_obj split: option.splits)

lemma store_StatusUpdate_other: "k \<noteq> kind_of x \<Longrightarrow> objs_in (snd (store_StatusUpdate x s)) k = objs_in s k"
  unfolding store_StatusUpdate_def
  by (rule served_other) (auto simp: Let_def put_obj_other set_rv_def split: option.splits dest: stored_kind_key)

lemma store_Delete_other: "k \<noteq> kind_of x \<Longrightarrow> objs_in (snd (store_Delete x s)) k = objs_in s k"
  unfolding store_Delete_def
  by (rule served_other)
     (auto simp: put_obj_other stored_drop_obj split: option.splits dest: stored_kind_key)

lemma store_List_keeps: "objs_in (snd (store_List k selector s)) = objs_in s"
  unfolding store_List_def fun_eq_iff [of "objs_in _"] by (intro allI served_other) simp

interpretation mem: api_server store_api objs_in
proof unfold_locales
qed (simp_all add: store_api_def store_Get_Ok store_Get_NotFound store_Get_keeps store_Create_Ok store_Create_Err
    store_Update_result store_Update_Err stored_kind_key store_StatusUpdate_Ok store_StatusUpdate_other
    store_Create_other store_Update_other store_Delete_other store_List_keeps
    del: fun_upd_apply)

lemma store_List_Ok:
  assumes "store_List k selector s = (Ok xs, s')"
  shows "distinct xs \<and>
    (\<forall>x. x \<in> set xs \<longleftrightarrow> objs_in s k (ObjectKeyFromObject x) = Some x \<and> label_match selector x)"
proof -
  have mem: "x \<in> snd ` set (st_objs t)" if "objs_in t k key = Some x" for x key t
    using that by (auto simp: objs_in_def split: option.splits if_splits dest!: map_of_SomeD intro: rev_image_eqI)
  from assms show ?thesis
    by (cases "st_faults s"; cases "hd (st_faults s)") (auto simp: store_List_def served_def intro: mem)
qed

interpretation mem_list: api_listing store_api objs_in
  by unfold_locales (simp add: store_api_def store_List_Ok)

lemma map_within_mcopy [simp]: "map_within a (mcopy b a)"
proof -
  have "\<exists>v. mlookup a k = Some v" if "k \<in> fst ` set (elems a)" for k
    using that by (cases a) (auto simp: mlookup_def dest: weak_map_of_SomeI)
  then show ?thesis by (fastforce simp: map_within_def list_all_iff)
qed

lemma map_within_refl [simp]: "map_within a a"
  by (simp add: map_within_def list_all_iff)

lemma set_as_refl [simp]: "set_as a a"
  by (simp add: set_as_def)

lemma set_string_refl [simp]: "set_string a a"
  by (simp add: set_string_def)

lemma applied_over_meta [simp]:
  "kind_of (applied_over n old x) = kind_of x" "ObjectKeyFromObject (applied_over n old x) = ObjectKeyFromObject x"
  by (simp_all add: applied_over_def ObjectKeyFromObject_def stamp_def)

lemma applied_spec_upd: "applied_spec x (upd_meta f (keep_status old x))"
  by (cases x; cases old)
     (auto simp: applied_spec_def applied_deployment_def applied_certificate_def applied_container_def containers_def list_all_iff
       list_ex_iff)

lemma applied_spec_upd_meta: "applied_spec x (upd_meta f x)"
  using applied_spec_upd [of x f x] by (cases x) (simp_all add: IstioCSR.equality TrustManager.equality CertManager.equality)

lemma applied_over_applied: "applied x (applied_over n old x)"
  by (simp add: applied_def) (simp add: applied_over_def applied_spec_upd stamp_def)

lemma created_applied: "om_Name (meta_of x) \<noteq> '''' \<Longrightarrow> applied x (created n x)"
  by (simp add: applied_def created_key created_same(2)) (simp add: created_def applied_spec_upd_meta stamp_def)

lemma store_Patch_Ok:
  assumes "store_Patch x applyPatch s = (Ok y, s')"
  shows "applied x y \<and> objs_in s' = (objs_in s)(kind_of x := (objs_in s (kind_of x))(ObjectKeyFromObject x \<mapsto> y))"
  using served_cases [OF assms [unfolded store_Patch_def]]
  by (auto simp: Let_def stored_put_obj applied_over_applied created_applied created_key
      split: if_splits option.splits)

lemma store_Patch_not_Ok: "store_Patch x applyPatch s = (r, s') \<Longrightarrow> \<not> is_ok r \<Longrightarrow> objs_in s' = objs_in s"
  unfolding store_Patch_def by (drule served_cases) (auto simp: Let_def split: if_splits)

interpretation mem_apply: api_apply store_api objs_in
  by unfold_locales (simp_all add: store_api_def store_Patch_Ok store_Patch_not_Ok del: fun_upd_apply)

text \<open>Reading when no fault is scheduled.\<close>

lemma errNotFound_NotFound [simp]: "IsNotFound (Some errNotFound)"
  by code_simp

lemma served_calm: "st_faults s = [] \<Longrightarrow> served call s = call s"
  by (simp add: served_def)

lemma get_calm: "st_faults s = [] \<Longrightarrow> objs_in s k key = Some x \<Longrightarrow> api_Get store_api k key s = (Ok x, s)"
  by (simp add: store_api_def store_Get_def served_calm)

lemma exists_calm: "st_faults s = [] \<Longrightarrow> clExists store_api k key s = (Ok (objs_in s k key), s)"
  by (auto simp: clExists_def store_api_def store_Get_def served_calm eff_defs split: option.splits)

section \<open>Properties\<close>

text \<open>
  C23.  A retried update ends after at most five attempts: its result is that of the first attempt
  which does not fail with a conflict, or of the fifth; every attempt reads the object again and
  carries the version it read.
\<close>

theorem UpdateWithRetry_bounded:
  "\<exists>k s'. k < 5 \<and> conflicts k (updateOnce api x) s = Some s' \<and>
     UpdateWithRetry api x s = updateOnce api x s' \<and>
     (k = 4 \<or> conflicts (Suc k) (updateOnce api x) s = None)"
proof -
  obtain k s' where "k < 5" "conflicts k (updateOnce api x) s = Some s'"
    "RetryOnConflict 5 (updateOnce api x) s = updateOnce api x s'"
    "Suc k < 5 \<longrightarrow> conflicts (Suc k) (updateOnce api x) s = None"
    using RetryOnConflict_spec [of 5 "updateOnce api x" s] by auto
  then show ?thesis
    by (intro exI [of _ k] exI [of _ s']) (auto simp: UpdateWithRetry_def DefaultRetry_def)
qed

end
