(* ===== verification/IC_Objects.thy ===== *)
theory IC_Objects
  imports Client
begin

text \<open>
  Drift detection and the create-or-update routine of the istio-csr controller:
  \<open>hasObjectChanged\<close> and the comparisons of \<open>pkg/controller/istiocsr/utils.go\<close>, and the
  body its \<open>createOrApply\<close> functions share.
\<close>

section \<open>Comparing with the live object\<close>

definition nil_deref :: string where
  "nil_deref = ''runtime error: invalid memory address or nil pointer dereference''"

definition deref :: "'a option \<Rightarrow> 'a res" where
  "deref p = (case p of None \<Rightarrow> Panic nil_deref | Some x \<Rightarrow> Ok x)"

definition index0 :: "'a list \<Rightarrow> 'a res" where
  "index0 xs = (case xs of [] \<Rightarrow> Panic index_panic | x # _ \<Rightarrow> Ok x)"

definition ports_unmatched :: "Container \<Rightarrow> Container \<Rightarrow> bool" where
  "ports_unmatched desiredContainer fetchedContainer \<longleftrightarrow>
     list_ex (\<lambda>fetchedPort. \<not> list_ex (\<lambda>desiredPort. cp_ContainerPort fetchedPort = cp_ContainerPort desiredPort)
                (elems (ct_Ports desiredContainer)))
       (elems (ct_Ports fetchedContainer))"

definition probePath :: "Container \<Rightarrow> (string \<times> int \<times> int) res" where
  "probePath c = bindR (deref (ct_ReadinessProbe c)) (\<lambda>p.
     bindR (deref (pr_HTTPGet p)) (\<lambda>h. Ok (hg_Path h, pr_InitialDelaySeconds p, pr_PeriodSeconds p)))"

definition deploymentSpecModified :: "Deployment \<Rightarrow> Deployment \<Rightarrow> bool res" where
  "deploymentSpecModified desired fetched =
     bindR (deref (dep_Replicas desired)) (\<lambda>desiredReplicas.
     bindR (deref (dep_Replicas fetched)) (\<lambda>fetchedReplicas.
     if desiredReplicas \<noteq> fetchedReplicas then Ok True else
     bindR (deref (dep_Selector desired)) (\<lambda>desiredSelector.
     bindR (deref (dep_Selector fetched)) (\<lambda>fetchedSelector.
     if \<not> deep_equal_map (ls_MatchLabels desiredSelector) (ls_MatchLabels fetchedSelector) then Ok True
     else if \<not> deep_equal_map (pt_Labels (dep_Template desired)) (pt_Labels (dep_Template fetched)) \<or>
             length (containers desired) \<noteq> length (containers fetched) then Ok True
     else
     bindR (index0 (containers desired)) (\<lambda>desiredContainer.
     bindR (index0 (containers fetched)) (\<lambda>fetchedContainer.
     if ct_Args desiredContainer \<noteq> ct_Args fetchedContainer \<or>
        ct_Name desiredContainer \<noteq> ct_Name fetchedContainer \<or>
        ct_Image desiredContainer \<noteq> ct_Image fetchedContainer \<or>
        ct_ImagePullPolicy desiredContainer \<noteq> ct_ImagePullPolicy fetchedContainer then Ok True
     else if length (elems (ct_Ports desiredContainer)) \<noteq> length (elems (ct_Ports fetchedContainer)) then Ok True
     else if ports_unmatched desiredContainer fetchedContainer then Ok True
     else
     bindR (probePath desiredContainer) (\<lambda>desiredProbe.
     bindR (probePath fetchedContainer) (\<lambda>fetchedProbe.
     if desiredProbe \<noteq> fetchedProbe then Ok True
     else if \<not> resources_equal (ct_Resources desiredContainer) (ct_Resources fetchedContainer) then Ok True
     else
     bindR (deref (ct_SecurityContext desiredContainer)) (\<lambda>desiredSecurity.
     bindR (deref (ct_SecurityContext fetchedContainer)) (\<lambda>fetchedSecurity.
     if desiredSecurity \<noteq> fetchedSecurity \<or> ct_VolumeMounts desiredContainer \<noteq> ct_VolumeMounts fetchedContainer
     then Ok True
     else Ok (ps_ServiceAccountName (dep_Pod desired) \<noteq> ps_ServiceAccountName (dep_Pod fetched) \<or>
              \<not> deep_equal_map (ps_NodeSelector (dep_Pod desired)) (ps_NodeSelector (dep_Pod fetched)) \<or>
              ps_Volumes (dep_Pod desired) \<noteq> ps_Volumes (dep_Pod fetched))))))))))))"

definition certificateSpecModified :: "Certificate \<Rightarrow> Certificate \<Rightarrow> bool" where
  "certificateSpecModified desired fetched \<longleftrightarrow> cert_Spec desired \<noteq> cert_Spec fetched"

definition serviceSpecModified :: "Service \<Rightarrow> Service \<Rightarrow> bool" where
  "serviceSpecModified desired fetched \<longleftrightarrow> svc_Type desired \<noteq> svc_Type fetched \<or>
     svc_Ports desired \<noteq> svc_Ports fetched \<or> \<not> deep_equal_map (svc_Selector desired) (svc_Selector fetched)"

definition rbacRoleRulesModified :: "RbacRole \<Rightarrow> RbacRole \<Rightarrow> bool" where
  "rbacRoleRulesModified desired fetched \<longleftrightarrow> role_Rules desired \<noteq> role_Rules fetched"

definition rbacRoleBindingRefModified :: "RbacBinding \<Rightarrow> RbacBinding \<Rightarrow> bool" where
  "rbacRoleBindingRefModified desired fetched \<longleftrightarrow> rb_RoleRef desired \<noteq> rb_RoleRef fetched"

definition rbacRoleBindingSubjectsModified :: "RbacBinding \<Rightarrow> RbacBinding \<Rightarrow> bool" where
  "rbacRoleBindingSubjectsModified desired fetched \<longleftrightarrow> rb_Subjects desired \<noteq> rb_Subjects fetched"

definition configMapDataModified :: "ConfigMap \<Rightarrow> ConfigMap \<Rightarrow> bool" where
  "configMapDataModified desired fetched \<longleftrightarrow> \<not> deep_equal_map (cmap_Data desired) (cmap_Data fetched)"

definition networkPolicySpecModified :: "NetworkPolicy \<Rightarrow> NetworkPolicy \<Rightarrow> bool" where
  "networkPolicySpecModified desired fetched \<longleftrightarrow>
     \<not> (selector_equal (Some (np_PodSelector desired)) (Some (np_PodSelector fetched)) \<and>
        np_Ingress desired = np_Ingress fetched \<and> np_Egress desired = np_Egress fetched \<and>
        np_PolicyTypes desired = np_PolicyTypes fetched)"

definition objectModified :: "obj \<Rightarrow> obj \<Rightarrow> bool res" where
  "objectModified desired fetched = (case (desired, fetched) of
      (OCertificate d, OCertificate f) \<Rightarrow> Ok (certificateSpecModified d f)
    | (OClusterRole d, OClusterRole f) \<Rightarrow> Ok (rbacRoleRulesModified d f)
    | (OClusterRoleBinding d, OClusterRoleBinding f) \<Rightarrow>
        Ok (rbacRoleBindingRefModified d f \<or> rbacRoleBindingSubjectsModified d f)
    | (ODeployment d, ODeployment f) \<Rightarrow> deploymentSpecModified d f
    | (ORole d, ORole f) \<Rightarrow> Ok (rbacRoleRulesModified d f)
    | (ORoleBinding d, ORoleBinding f) \<Rightarrow>
        Ok (rbacRoleBindingRefModified d f \<or> rbacRoleBindingSubjectsModified d f)
    | (OService d, OService f) \<Rightarrow> Ok (serviceSpecModified d f)
    | (OConfigMap d, OConfigMap f) \<Rightarrow> Ok (configMapDataModified d f)
    | (ONetworkPolicy d, ONetworkPolicy f) \<Rightarrow> Ok (networkPolicySpecModified d f)
    | (OServiceAccount d, OServiceAccount f) \<Rightarrow> Ok False
    | _ \<Rightarrow> Panic ''unsupported object type'')"

definition hasObjectChanged :: "obj \<Rightarrow> obj \<Rightarrow> bool res" where
  "hasObjectChanged desired fetched =
     (if kind_of desired \<noteq> kind_of fetched then Panic ''both objects to be compared must be of same type''
      else bindR (objectModified desired fetched) (\<lambda>modified.
        Ok (modified \<or> ObjectMetadataModified desired fetched)))"

section \<open>Create or update\<close>

text \<open>
  The body shared by the \<open>createOrApply\<close> functions; \<open>what\<close> is the resource word of their
  messages.  The result is the desired object as Go holds it afterwards.
\<close>

definition reconcileObject ::
  "'c api \<Rightarrow> string \<Rightarrow> obj \<Rightarrow> bool \<Rightarrow> (('c, 'x) world_scheme, obj) eff" where
  "reconcileObject api what desired createRecon =
     (let name = show_key (ObjectKeyFromObject desired)
      in bindM (onErrM (clientErr (''failed to check '' @ name @ '' '' @ what @ '' resource already exists''))
                 (onCluster (clExists api (kind_of desired) (ObjectKeyFromObject desired)))) (\<lambda>exist.
         case exist of
           Some fetched \<Rightarrow>
             seqM (whenM createRecon (Eventf ''Warning'' ''ResourceAlreadyExists''
                     (name @ '' '' @ what @ '' resource already exists, maybe from previous installation'')))
             (bindM (liftM (hasObjectChanged desired fetched)) (\<lambda>changed.
              if changed then
                bindM (onErrM (clientErr (''failed to update '' @ name @ '' '' @ what @ '' resource''))
                         (onCluster (UpdateWithRetry api desired))) (\<lambda>desired.
                seqM (Eventf ''Normal'' ''Reconciled''
                       (what @ '' resource '' @ name @ '' reconciled back to desired state''))
                  (returnM desired))
              else returnM desired))
         | None \<Rightarrow>
             bindM (onErrM (clientErr (''failed to create '' @ name @ '' '' @ what @ '' resource''))
                      (onCluster (clCreate api desired))) (\<lambda>desired.
             seqM (Eventf ''Normal'' ''Reconciled'' (what @ '' resource '' @ name @ '' created''))
               (returnM desired))))"

section \<open>Lemmas\<close>

text \<open>A deployment the comparison can read without a nil dereference.\<close>

definition comparable_deployment :: "Deployment \<Rightarrow> bool" where
  "comparable_deployment d \<longleftrightarrow> dep_Replicas d \<noteq> None \<and> dep_Selector d \<noteq> None \<and>
     (case containers d of [] \<Rightarrow> False
      | c # _ \<Rightarrow> ct_SecurityContext c \<noteq> None \<and>
          (case ct_ReadinessProbe c of None \<Rightarrow> False | Some p \<Rightarrow> pr_HTTPGet p \<noteq> None))"

fun comparable :: "obj \<Rightarrow> bool" where
  "comparable (ODeployment d) = comparable_deployment d"
| "comparable (OIssuer _) = False"
| "comparable (OClusterIssuer _) = False"
| "comparable (OSecret _) = False"
| "comparable (OIstioCSR _) = False"
| "comparable (OTrustManager _) = False"
| "comparable (OValidatingWebhookConfiguration _) = False"
| "comparable (ONamespace _) = False"
| "comparable (OAPIServer _ _) = False"
| "comparable (OCertManager _) = False"
| "comparable (OConsoleYAMLSample _ _) = False"
| "comparable (OConsoleQuickStart _ _) = False"
| "comparable _ = True"

lemma deref_simps [simp]: "deref (Some x) = Ok x" "deref None = Panic nil_deref"
  by (simp_all add: deref_def)

lemma index0_simps [simp]: "index0 (x # xs) = Ok x" "index0 [] = Panic index_panic"
  by (simp_all add: index0_def)

lemma ports_unmatched_refl [simp]: "\<not> ports_unmatched c c"
  by (auto simp: ports_unmatched_def list_ex_iff)

lemma deploymentSpecModified_agree:
  assumes "comparable_deployment d" "dep_Replicas f = dep_Replicas d" "dep_Selector f = dep_Selector d"
    "pt_Labels (dep_Template f) = pt_Labels (dep_Template d)" "containers f = containers d"
    "ps_ServiceAccountName (dep_Pod f) = ps_ServiceAccountName (dep_Pod d)"
    "ps_NodeSelector (dep_Pod f) = ps_NodeSelector (dep_Pod d)" "ps_Volumes (dep_Pod f) = ps_Volumes (dep_Pod d)"
  shows "deploymentSpecModified d f = Ok False"
proof -
  from assms(1) obtain ct cs p h where
    "containers d = ct # cs" "ct_ReadinessProbe ct = Some p" "pr_HTTPGet p = Some h"
    "dep_Replicas d \<noteq> None" "dep_Selector d \<noteq> None" "ct_SecurityContext ct \<noteq> None"
    by (auto simp: comparable_deployment_def split: list.splits option.splits)
  with assms(2-8) show ?thesis
    by (auto simp: deploymentSpecModified_def probePath_def)
qed

lemma deploymentSpecModified_same:
  "comparable_deployment d \<Longrightarrow> dep_Replicas f = dep_Replicas d \<Longrightarrow> dep_Selector f = dep_Selector d \<Longrightarrow>
   dep_Template f = dep_Template d \<Longrightarrow> deploymentSpecModified d f = Ok False"
  by (rule deploymentSpecModified_agree) (simp_all add: containers_def)

lemma same_content_labels: "same_content a b \<Longrightarrow> om_Labels (meta_of a) = om_Labels (meta_of b)"
proof -
  assume "same_content a b"
  then have "om_Labels (meta_of (upd_meta plain_meta a)) = om_Labels (meta_of (upd_meta plain_meta b))"
    by (simp only: same_content_def)
  then show ?thesis by (simp add: plain_meta_def)
qed

lemma same_content_kind: "same_content a b \<Longrightarrow> kind_of a = kind_of b"
  by (metis kind_of_upd_meta same_content_def)

text \<open>Records that differ only in their metadata agree on every other field.\<close>

lemma same_deployment:
  "x\<lparr>dep_Meta := m\<rparr> = y\<lparr>dep_Meta := m'\<rparr> \<Longrightarrow>
   dep_Replicas y = dep_Replicas x \<and> dep_Selector y = dep_Selector x \<and> dep_Template y = dep_Template x"
  by (cases x, cases y) simp

lemma same_certificate: "x\<lparr>cert_Meta := m\<rparr> = y\<lparr>cert_Meta := m'\<rparr> \<Longrightarrow> cert_Spec y = cert_Spec x"
  by (cases x, cases y) simp

lemma same_role: "x\<lparr>role_Meta := m\<rparr> = y\<lparr>role_Meta := m'\<rparr> \<Longrightarrow> role_Rules y = role_Rules x"
  by (cases x, cases y) simp

lemma same_binding:
  "x\<lparr>rb_Meta := m\<rparr> = y\<lparr>rb_Meta := m'\<rparr> \<Longrightarrow> rb_RoleRef y = rb_RoleRef x \<and> rb_Subjects y = rb_Subjects x"
  by (cases x, cases y) simp

lemma same_service:
  "x\<lparr>svc_Meta := m\<rparr> = y\<lparr>svc_Meta := m'\<rparr> \<Longrightarrow>
   svc_Type y = svc_Type x \<and> svc_Ports y = svc_Ports x \<and> svc_Selector y = svc_Selector x"
  by (cases x, cases y) simp

lemma same_configmap: "x\<lparr>cmap_Meta := m\<rparr> = y\<lparr>cmap_Meta := m'\<rparr> \<Longrightarrow> cmap_Data y = cmap_Data x"
  by (cases x, cases y) simp

lemma same_networkpolicy:
  "x\<lparr>np_Meta := m\<rparr> = y\<lparr>np_Meta := m'\<rparr> \<Longrightarrow> np_PodSelector y = np_PodSelector x \<and>
   np_Ingress y = np_Ingress x \<and> np_Egress y = np_Egress x \<and> np_PolicyTypes y = np_PolicyTypes x"
  by (cases x, cases y) simp

lemmas same_fields = same_deployment same_certificate same_role same_binding same_service same_configmap
  same_networkpolicy

lemmas modified_defs = objectModified_def certificateSpecModified_def rbacRoleRulesModified_def
  rbacRoleBindingRefModified_def rbacRoleBindingSubjectsModified_def serviceSpecModified_def
  configMapDataModified_def networkPolicySpecModified_def

lemma objectModified_same:
  assumes "same_content a b" "comparable a"
  shows "objectModified a b = Ok False"
  using assms
  by (cases a; cases b)
     (auto simp: same_content_def modified_defs deploymentSpecModified_same dest!: same_fields)

lemma hasObjectChanged_same:
  "same_content a b \<Longrightarrow> comparable a \<Longrightarrow> hasObjectChanged a b = Ok False"
  by (simp add: hasObjectChanged_def objectModified_same same_content_kind ObjectMetadataModified_def
      same_content_labels)

text \<open>No comparable kind has a status subresource in the model.\<close>

lemma comparable_keep_status: "comparable x \<Longrightarrow> keep_status old x = x"
  by (cases old; cases x) simp_all

lemma reconcileObject_absent:
  "clExists api (kind_of x) (ObjectKeyFromObject x) (w_cluster w) = (Ok None, c) \<Longrightarrow>
   reconcileObject api what x createRecon w = (Ok y, w') \<Longrightarrow>
   \<exists>c'. api_Create api x c = (Ok y, c') \<and> w_cluster w' = c'"
  by (auto simp: reconcileObject_def Let_def eff_defs onCluster_def clCreate_def Eventf_def
      split: prod.splits res.splits)

lemma reconcileObject_present:
  assumes "clExists api (kind_of x) (ObjectKeyFromObject x) (w_cluster w) = (Ok (Some f), c)"
    and "reconcileObject api what x createRecon w = (Ok y, w')"
  shows "(hasObjectChanged x f = Ok False \<and> y = x \<and> w_cluster w' = c) \<or>
     (hasObjectChanged x f = Ok True \<and> (\<exists>c'. UpdateWithRetry api x c = (Ok y, c') \<and> w_cluster w' = c'))"
proof (cases "hasObjectChanged x f")
  case (Ok b)
  with assms show ?thesis
    by (cases b; cases createRecon)
       (auto simp: reconcileObject_def Let_def eff_defs onCluster_def Eventf_def split: prod.splits res.splits)
qed (use assms in \<open>cases createRecon;
      simp add: reconcileObject_def Let_def eff_defs onCluster_def Eventf_def\<close>)+

context api_server
begin

text \<open>
  When \<open>reconcileObject\<close> succeeds, an object in the desired state is stored under
  the desired key, and no other object of the cluster was touched.
\<close>

lemma reconcileObject_establishes:
  assumes "reconcileObject api what x createRecon w = (Ok y, w')" "comparable x"
    and "om_Name (meta_of x) \<noteq> ''''" "om_DeletionTimestamp (meta_of x) = None"
  shows "\<exists>z. stored (w_cluster w') (kind_of x) (ObjectKeyFromObject x) = Some z \<and>
       hasObjectChanged x z = Ok False \<and>
       (\<forall>k key. (k, key) \<noteq> (kind_of x, ObjectKeyFromObject x) \<longrightarrow>
          stored (w_cluster w') k key = stored (w_cluster w) k key)"
proof -
  from assms(1) obtain found c where
    ex: "clExists api (kind_of x) (ObjectKeyFromObject x) (w_cluster w) = (Ok found, c)"
    by (auto simp: reconcileObject_def Let_def bindM_eq_Ok_iff onCluster_eq_iff)
  have c: "stored c = stored (w_cluster w)" "stored c (kind_of x) (ObjectKeyFromObject x) = found"
    using exists_cases [OF ex] by simp_all
  show ?thesis
  proof (cases found)
    case None
    obtain c' where cr: "api_Create api x c = (Ok y, c')" and w': "w_cluster w' = c'"
      using reconcileObject_absent [OF ex [unfolded None] assms(1)] by blast
    from create_Ok [OF cr] assms(3) have "same_content x y" "ObjectKeyFromObject y = ObjectKeyFromObject x"
      "stored c' = (stored c)(kind_of x := (stored c (kind_of x))(ObjectKeyFromObject y \<mapsto> y))" by auto
    with w' c(1) assms(2) show ?thesis by (auto simp: hasObjectChanged_same)
  next
    case (Some f)
    consider "hasObjectChanged x f = Ok False" "w_cluster w' = c"
      | (upd) c' where "UpdateWithRetry api x c = (Ok y, c')" "w_cluster w' = c'"
      using reconcileObject_present [OF ex [unfolded Some] assms(1)] by blast
    then show ?thesis
    proof cases
      case 1
      with c Some show ?thesis by auto
    next
      case upd
      from UpdateWithRetry_Ok [OF upd(1) assms(4)] upd(2) c(1) assms(2) show ?thesis
        by (auto simp: comparable_keep_status hasObjectChanged_same)
    qed
  qed
qed

end

text \<open>An object already in the desired state is left alone, whatever server the client talks to.\<close>

lemma reconcileObject_unchanged:
  assumes "clExists api (kind_of x) (ObjectKeyFromObject x) (w_cluster w) = (Ok (Some f), c)"
    and "hasObjectChanged x f = Ok False"
  shows "reconcileObject api what x False w = (Ok x, w\<lparr>w_cluster := c\<rparr>)"
  using assms by (simp add: reconcileObject_def Let_def eff_defs onCluster_def)

section \<open>Properties\<close>

lemma hasObjectChanged_FalseD:
  assumes "hasObjectChanged x z = Ok False"
  shows "kind_of z = kind_of x \<and> deep_equal_map (om_Labels (meta_of x)) (om_Labels (meta_of z)) \<and> objectModified x z = Ok False"
  using assms
  by (auto simp: hasObjectChanged_def ObjectMetadataModified_def bindR_eq_Ok_iff split: if_splits)


definition demo_configmap :: obj where
  "demo_configmap = OConfigMap \<lparr>cmap_Meta = empty_meta\<lparr>om_Name := ''ca'', om_Namespace := ''istio''\<rparr>,
     cmap_Data = Some [(''ca.crt'', ''pem'')], cmap_rest = ''''\<rparr>"

text \<open>The stored config map has been edited and the first write meets a conflict.\<close>

definition demo_world :: "store world" where
  "demo_world = \<lparr>w_cluster = put_obj (OConfigMap \<lparr>cmap_Meta = empty_meta\<lparr>om_Name := ''ca'', om_Namespace := ''istio''\<rparr>,
       cmap_Data = Some [], cmap_rest = ''''\<rparr>) (empty_store\<lparr>st_faults := [None, None, Some FaultConflict]\<rparr>),
     w_events = []\<rparr>"

lemma demo_reconcile_ok: "is_ok (fst (reconcileObject store_api ''configmap'' demo_configmap False demo_world))"
  by code_simp


end
