(* ===== verification/IC_Certificates.thy ===== *)
theory IC_Certificates
  imports IC_Objects Validation Operator_Startup
begin

text \<open>
  The istio-csr controller's environment and constants (\<open>constants.go\<close>), its resource labels, and
  the istiod certificate of \<open>pkg/controller/istiocsr/certificates.go\<close>.
\<close>

section \<open>Environment and state\<close>

text \<open>
  What the controller gets from outside: decoded manifests by asset name, the process environment,
  the Kubernetes validators, the PEM and X.509 parsers, the TLS settings resolved at start-up, the times it
  stamps on conditions, and the \<open>%+v\<close> text of a list of objects.
\<close>

record x509_cert =
  BasicConstraintsValid :: bool
  IsCA :: bool
  KeyUsageCertSign :: bool

record ic_env =
  e_decode :: "string \<Rightarrow> obj res"
  e_getenv :: "string \<Rightarrow> string option"
  e_validators :: core_validators
  e_pem :: "string \<Rightarrow> (string \<times> string) option"
  e_x509 :: "string \<Rightarrow> x509_cert res"
  e_tls :: TLSConfig
  e_now :: "nat \<Rightarrow> int"
  e_show :: "obj list \<Rightarrow> string"

text \<open>The controller's state: cluster, events and the \<open>IstioCSR\<close> it holds.\<close>

record 'c ic_world = "'c world" +
  w_cr :: IstioCSR

definition getCR :: "('c ic_world, IstioCSR) eff" where
  "getCR w = (Ok (w_cr w), w)"

definition modifyCR :: "(IstioCSR \<Rightarrow> IstioCSR) \<Rightarrow> ('c ic_world, unit) eff" where
  "modifyCR f w = (Ok (), w\<lparr>w_cr := f (w_cr w)\<rparr>)"

definition ic_Namespace :: "IstioCSR \<Rightarrow> string" where
  "ic_Namespace cr = om_Namespace (ic_Meta cr)"

definition ic_Name :: "IstioCSR \<Rightarrow> string" where
  "ic_Name cr = om_Name (ic_Meta cr)"

abbreviation ic_Config :: "IstioCSR \<Rightarrow> IstioCSRConfig" where
  "ic_Config cr \<equiv> IstioCSRConfig (ic_Spec cr)"

abbreviation ic_TLS :: "IstioCSR \<Rightarrow> IstiodTLSConfig" where
  "ic_TLS cr \<equiv> IstiodTLSConfig (ic_Config cr)"

section \<open>constants.go\<close>

definition istiocsrCommonName :: string where "istiocsrCommonName = ''cert-manager-istio-csr''"
definition controllerProcessedAnnotation :: string where
  "controllerProcessedAnnotation = ''operator.openshift.io/istio-csr-processed''"
definition controllerProcessingRejectedAnnotation :: string where
  "controllerProcessingRejectedAnnotation = ''operator.openshift.io/istio-csr-reject-multiple-instance''"
definition ic_finalizer :: string where
  "ic_finalizer = ''istiocsr.openshift.operator.io/cert-manager-istio-csr-controller''"
definition defaultRequeueTime :: int where "defaultRequeueTime = 30000000000"
definition istiocsrObjectName :: string where "istiocsrObjectName = ''default''"
definition istiocsrContainerName :: string where "istiocsrContainerName = istiocsrCommonName"
definition istiocsrImageNameEnvVarName :: string where
  "istiocsrImageNameEnvVarName = ''RELATED_IMAGE_CERT_MANAGER_ISTIOCSR''"
definition istiocsrImageVersionEnvVarName :: string where
  "istiocsrImageVersionEnvVarName = ''ISTIOCSR_OPERAND_IMAGE_VERSION''"
definition defaultClusterID :: string where "defaultClusterID = ''Kubernetes''"
definition defaultIstioRevision :: string where "defaultIstioRevision = ''default''"
definition istiocsrNamespaceMappingLabelName :: string where
  "istiocsrNamespaceMappingLabelName = ''cert-manager-istio-csr-namespace''"
definition IstiocsrResourceWatchLabelName :: string where
  "IstiocsrResourceWatchLabelName = ''istiocsr.openshift.operator.io/watched-by''"
definition IstiocsrCAConfigMapName :: string where
  "IstiocsrCAConfigMapName = istiocsrCommonName @ ''-issuer-ca-copy''"
definition IstiocsrCAKeyName :: string where "IstiocsrCAKeyName = ''ca.crt''"

definition istiodCertificateCommonName :: "string \<Rightarrow> string" where
  "istiodCertificateCommonName ns = ''istiod.'' @ ns @ ''.svc''"
definition istiodCertificateRevisionBasedDNSName :: "string \<Rightarrow> string \<Rightarrow> string" where
  "istiodCertificateRevisionBasedDNSName revision ns = ''istiod-'' @ revision @ ''.'' @ ns @ ''.svc''"
definition istiodCertificateSpiffeURI :: "string \<Rightarrow> string \<Rightarrow> string" where
  "istiodCertificateSpiffeURI trustDomain ns =
     ''spiffe://'' @ trustDomain @ ''/ns/'' @ ns @ ''/sa/istiod-service-account''"
definition istiocsrGRPCEndpoint :: "string \<Rightarrow> string \<Rightarrow> int \<Rightarrow> string" where
  "istiocsrGRPCEndpoint name ns port = name @ ''.'' @ ns @ ''.svc:'' @ show_int port"

definition clusterIssuerKind :: string where "clusterIssuerKind = ''clusterissuer''"
definition issuerKind :: string where "issuerKind = ''issuer''"
definition issuerGroup :: string where "issuerGroup = ''cert-manager.io''"

definition DefaultCertificateDuration :: int where "DefaultCertificateDuration = 3600000000000"
definition DefaultCertificateRenewBeforeDuration :: int where
  "DefaultCertificateRenewBeforeDuration = 1800000000000"
definition RSAKeyAlgorithm :: string where "RSAKeyAlgorithm = ''RSA''"
definition ECDSAKeyAlgorithm :: string where "ECDSAKeyAlgorithm = ''ECDSA''"
definition DefaultPrivateKeyAlgorithm :: string where "DefaultPrivateKeyAlgorithm = RSAKeyAlgorithm"
definition DefaultRSAPrivateKeySize :: int where "DefaultRSAPrivateKeySize = 2048"
definition DefaultECDSA256PrivateKeySize :: int where "DefaultECDSA256PrivateKeySize = 256"
definition DefaultECDSA384PrivateKeySize :: int where "DefaultECDSA384PrivateKeySize = 384"

definition controllerDefaultResourceLabels :: "ic_env \<Rightarrow> labels" where
  "controllerDefaultResourceLabels e = Some [
     (''app'', istiocsrCommonName),
     (''app.kubernetes.io/name'', istiocsrCommonName),
     (''app.kubernetes.io/instance'', istiocsrCommonName),
     (''app.kubernetes.io/version'', case e_getenv e istiocsrImageVersionEnvVarName of None \<Rightarrow> '''' | Some v \<Rightarrow> v),
     (''app.kubernetes.io/managed-by'', ''cert-manager-operator''),
     (''app.kubernetes.io/part-of'', ''cert-manager-operator'')]"

text \<open>The labels of every created resource, as \<open>reconcileIstioCSRDeployment\<close> computes them.\<close>

definition resourceLabelsFor :: "ic_env \<Rightarrow> IstioCSR \<Rightarrow> labels" where
  "resourceLabelsFor e cr =
     (let resourceLabels = (case ControllerLabels (ic_Spec cr) of
              Some lbls \<Rightarrow> if elems lbls \<noteq> [] then mcopy (Some []) lbls else Some []
            | None \<Rightarrow> Some [])
      in mcopy resourceLabels (controllerDefaultResourceLabels e))"

definition updateResourceLabelsWithIstioMapperLabels :: "string \<Rightarrow> labels \<Rightarrow> obj \<Rightarrow> obj" where
  "updateResourceLabelsWithIstioMapperLabels istiocsrNamespace lbls x =
     UpdateResourceLabels (mput istiocsrNamespaceMappingLabelName istiocsrNamespace (mcopy (Some []) lbls)) x"

section \<open>certificates.go\<close>

definition revisionDNSName :: "string \<Rightarrow> string \<Rightarrow> string list" where
  "revisionDNSName ns revision =
     (if revision = '''' then []
      else if revision = defaultIstioRevision then [istiodCertificateCommonName ns]
      else [istiodCertificateRevisionBasedDNSName revision ns])"

definition errKeyParams :: goerror where
  "errKeyParams = ErrNew ''certificate parameters PrivateKeySize and PrivateKeyAlgorithm do not comply''"

definition privateKeyFor :: "IstiodTLSConfig \<Rightarrow> string \<times> int" where
  "privateKeyFor t =
     (let algorithm = (if PrivateKeyAlgorithm t = '''' then DefaultPrivateKeyAlgorithm else PrivateKeyAlgorithm t);
          size = PrivateKeySize t;
          size = (if size = 0 \<and> algorithm = RSAKeyAlgorithm then DefaultRSAPrivateKeySize
                  else if size = 0 \<and> algorithm = ECDSAKeyAlgorithm then DefaultECDSA384PrivateKeySize
                  else size)
      in (algorithm, size))"

definition updateCertificateParams :: "IstioCSR \<Rightarrow> Certificate \<Rightarrow> Certificate res" where
  "updateCertificateParams istiocsr certificate =
     (let t = ic_TLS istiocsr; ns = istio_Namespace (Istio (ic_Config istiocsr));
          spec = (cert_Spec certificate)\<lparr>
            cs_CommonName := (if CommonName t = '''' then istiodCertificateCommonName ns else CommonName t),
            cs_DNSNames := Some (elems (CertificateDNSNames t) @
               concat (map (revisionDNSName ns) (elems (Revisions (Istio (ic_Config istiocsr)))))),
            cs_URIs := Some [istiodCertificateSpiffeURI (TrustDomain t) ns],
            cs_Duration := (case CertificateDuration t of None \<Rightarrow> Some DefaultCertificateDuration | d \<Rightarrow> d),
            cs_RenewBefore := (case CertificateRenewBefore t of
               None \<Rightarrow> Some DefaultCertificateRenewBeforeDuration | d \<Rightarrow> d)\<rparr>;
          (algorithm, size) = privateKeyFor t
      in case cs_PrivateKey spec of
           None \<Rightarrow> Panic nil_deref
         | Some pk \<Rightarrow>
             if (algorithm = RSAKeyAlgorithm \<and> size < DefaultRSAPrivateKeySize) \<or>
                (algorithm = ECDSAKeyAlgorithm \<and> size \<noteq> DefaultECDSA256PrivateKeySize \<and>
                 size \<noteq> DefaultECDSA384PrivateKeySize)
             then Err errKeyParams
             else Ok (certificate\<lparr>cert_Spec := spec\<lparr>
                    cs_PrivateKey := Some (pk\<lparr>pk_Algorithm := algorithm, pk_Size := size\<rparr>),
                    cs_IssuerRef := IssuerRef (CertManager (ic_Config istiocsr))\<rparr>\<rparr>))"

definition certificateAssetName :: string where
  "certificateAssetName = ''istio-csr/istiod-certificate.yaml''"

fun the_certificate :: "obj \<Rightarrow> Certificate res" where
  "the_certificate (OCertificate c) = Ok c"
| "the_certificate _ = Panic ''failed to convert decoded object''"

definition show_cr :: "IstioCSR \<Rightarrow> string" where
  "show_cr cr = ic_Namespace cr @ ''/'' @ ic_Name cr"

definition getCertificateObject :: "ic_env \<Rightarrow> IstioCSR \<Rightarrow> labels \<Rightarrow> Certificate res" where
  "getCertificateObject e istiocsr resourceLabels =
     bindR (DecodeObjBytes KCertificate (e_decode e certificateAssetName)) (\<lambda>certificate.
     let certificate = UpdateNamespace (istio_Namespace (Istio (ic_Config istiocsr))) certificate;
         certificate = updateResourceLabelsWithIstioMapperLabels (ic_Namespace istiocsr) resourceLabels certificate
     in bindR (the_certificate certificate) (\<lambda>certificate.
        case updateCertificateParams istiocsr certificate of
          Err err \<Rightarrow> Err (irrecoverable (''failed to update certificate resource for '' @ show_cr istiocsr @
                      '' istiocsr deployment'') err)
        | r \<Rightarrow> r))"

definition createOrApplyCertificates :: "'c api \<Rightarrow> ic_env \<Rightarrow> labels \<Rightarrow> bool \<Rightarrow> ('c ic_world, unit) eff" where
  "createOrApplyCertificates api e resourceLabels istioCSRCreateRecon =
     bindM getCR (\<lambda>istiocsr.
     bindM (wrapM (''failed to generate certificate resource for creation in '' @ ic_Namespace istiocsr @ '': '')
              (liftM (getCertificateObject e istiocsr resourceLabels))) (\<lambda>desired.
     bindM (reconcileObject api ''certificate'' (OCertificate desired) istioCSRCreateRecon) (\<lambda>_. returnM ())))"

section \<open>Lemmas\<close>

lemma show_cr_key: "show_cr cr = show_key (ic_Namespace cr, ic_Name cr)"
  by (simp add: show_cr_def show_key_def)

lemma default_label_lookup:
  "mlookup (resourceLabelsFor e cr) k =
     (case mlookup (controllerDefaultResourceLabels e) k of
        Some v \<Rightarrow> Some v
      | None \<Rightarrow> (case ControllerLabels (ic_Spec cr) of None \<Rightarrow> None | Some lbls \<Rightarrow> mlookup lbls k))"
  by (auto simp: resourceLabelsFor_def Let_def mlookup_no_elems split: option.splits)

lemma the_certificate_upd:
  "the_certificate (upd_meta f x) = Ok c \<longleftrightarrow> (\<exists>c0. x = OCertificate c0 \<and> c = c0\<lparr>cert_Meta := f (cert_Meta c0)\<rparr>)"
  by (cases x) auto

lemma updateCertificateParams_meta: "updateCertificateParams cr c = Ok c' \<Longrightarrow> cert_Meta c' = cert_Meta c"
  by (auto simp: updateCertificateParams_def Let_def split: option.splits if_splits prod.splits)

lemma getCertificateObject_shape:
  assumes "getCertificateObject e cr lbls = Ok c"
  shows "om_Namespace (cert_Meta c) = istio_Namespace (Istio (ic_Config cr)) \<and>
     mlookup (om_Labels (cert_Meta c)) istiocsrNamespaceMappingLabelName = Some (ic_Namespace cr)"
  using assms
  by (auto simp: getCertificateObject_def bindR_eq_Ok_iff Let_def updateResourceLabelsWithIstioMapperLabels_def
      UpdateNamespace_def UpdateResourceLabels_def the_certificate_upd dest!: updateCertificateParams_meta)

lemma UN_singletons_except: "(\<Union>r \<in> A. if r = z then {} else {f r}) = f ` (A - {z})"
  by auto

section \<open>Properties\<close>

text \<open>
  The key parameters that the custom resource definition admits, and the keys that may be issued.
\<close>

definition admitted_key :: "IstiodTLSConfig \<Rightarrow> bool" where
  "admitted_key t \<longleftrightarrow>
     (PrivateKeyAlgorithm t \<in> {'''', ''RSA''} \<and> PrivateKeySize t \<in> {2048, 4096, 8192}) \<or>
     (PrivateKeyAlgorithm t = ''ECDSA'' \<and> PrivateKeySize t \<in> {256, 384})"

definition strong_key :: "CertificatePrivateKey \<Rightarrow> bool" where
  "strong_key pk \<longleftrightarrow> (pk_Algorithm pk = ''RSA'' \<longrightarrow> pk_Size pk \<ge> 2048) \<and>
     (pk_Algorithm pk = ''ECDSA'' \<longrightarrow> pk_Size pk \<in> {256, 384})"


definition demo_istiocsr :: IstioCSR where
  "demo_istiocsr = \<lparr>ic_Meta = empty_meta\<lparr>om_Name := ''default'', om_Namespace := ''istio-csr''\<rparr>,
     ic_Spec = \<lparr>IstioCSRConfig = zero_IstioCSRConfig\<lparr>
         CertManager := \<lparr>IssuerRef = \<lparr>ir_Name = ''ca'', ir_Kind = ''Issuer'', ir_Group = ''cert-manager.io''\<rparr>,
                         IstioCACertificate = None\<rparr>,
         IstiodTLSConfig := zero_IstiodTLSConfig\<lparr>TrustDomain := ''cluster.local'', PrivateKeySize := 384,
                         PrivateKeyAlgorithm := ''ECDSA''\<rparr>,
         Istio := \<lparr>Revisions = Some [''default'', ''v1'', ''''], istio_Namespace = ''istio-system''\<rparr>\<rparr>,
       ControllerLabels = None\<rparr>,
     ic_Status = zero_IstioCSRStatus\<rparr>"

definition demo_certificate :: Certificate where
  "demo_certificate = \<lparr>cert_Meta = empty_meta\<lparr>om_Name := ''istiod'', om_Namespace := ''istio-system''\<rparr>,
     cert_Spec = \<lparr>cs_CommonName = '''', cs_Duration = None, cs_RenewBefore = None, cs_DNSNames = None, cs_URIs = None,
       cs_SecretName = ''istiod-tls'', cs_IssuerRef = zero_IssuerReference,
       cs_PrivateKey = Some \<lparr>pk_RotationPolicy = ''Always'', pk_Encoding = '''', pk_Algorithm = ''RSA'', pk_Size = 2048\<rparr>,
       cs_RevisionHistoryLimit = None, cs_SecretTemplate = None, cs_rest = ''''\<rparr>\<rparr>"


end
