(* ===== verification/IC_Status.thy ===== *)
theory IC_Status
  imports IC_Certificates
begin

text \<open>
  The \<open>IstioCSR\<close> resource itself: status writes, finalizer, annotations, validation and the single-instance
  rule of \<open>pkg/controller/istiocsr/utils.go\<close>.
\<close>

definition cr_key :: "IstioCSR \<Rightarrow> key" where
  "cr_key cr = (ic_Namespace cr, ic_Name cr)"

fun the_istiocsr :: "obj \<Rightarrow> IstioCSR res" where
  "the_istiocsr (OIstioCSR c) = Ok c"
| "the_istiocsr _ = Panic ''unexpected object type''"

section \<open>Status\<close>

definition crText :: "string \<Rightarrow> key \<Rightarrow> string \<Rightarrow> string" where
  "crText before key after = before @ '' istiocsr.openshift.operator.io '' @ quoted (show_key key) @ after"

definition updateStatusOnce :: "'c api \<Rightarrow> IstioCSR \<Rightarrow> ('c, unit) eff" where
  "updateStatusOnce api changed =
     bindM (wrapM (crText ''failed to fetch'' (cr_key changed) '' for status update: '')
              (clGet api KIstioCSR (cr_key changed))) (\<lambda>x.
     bindM (liftM (the_istiocsr x)) (\<lambda>current.
     bindM (wrapM (crText ''failed to update'' (cr_key changed) '' status: '')
              (clStatusUpdate api (OIstioCSR (current\<lparr>ic_Status := ic_Status changed\<rparr>)))) (\<lambda>_.
     returnM ())))"

definition updateStatus :: "'c api \<Rightarrow> ('c ic_world, unit) eff" where
  "updateStatus api = bindM getCR (\<lambda>changed.
     wrapM (''failed to update status for '' @ quoted (show_key (cr_key changed)) @ '': '')
       (onCluster (RetryOnConflict DefaultRetry (updateStatusOnce api changed))))"

definition updateConditionM :: "'c api \<Rightarrow> goerror option \<Rightarrow> ('c ic_world, goerror option) eff" where
  "updateConditionM api prependErr = bindM getCR (\<lambda>istiocsr.
     bindM (attemptM (updateStatus api)) (\<lambda>r. case r of
       Err err \<Rightarrow>
         (let errUpdate = ErrWrap (''failed to update '' @ show_cr istiocsr @ '' status: '') err
          in returnM (if prependErr \<noteq> None then NewAggregate [prependErr, Some errUpdate] else Some errUpdate))
     | _ \<Rightarrow> returnM prependErr))"

section \<open>Finalizer\<close>

text \<open>\<open>UpdateWithRetry\<close> and \<open>Get\<close> on the resource in memory: the server's answer replaces it.\<close>

definition updateCR :: "'c api \<Rightarrow> ('c ic_world, unit) eff" where
  "updateCR api = bindM getCR (\<lambda>cr.
     bindM (onCluster (UpdateWithRetry api (OIstioCSR cr))) (\<lambda>x.
     bindM (liftM (the_istiocsr x)) (\<lambda>cr'. modifyCR (\<lambda>_. cr'))))"

definition setFinalizers :: "string list \<Rightarrow> IstioCSR \<Rightarrow> IstioCSR" where
  "setFinalizers fs cr = cr\<lparr>ic_Meta := (ic_Meta cr)\<lparr>om_Finalizers := fs\<rparr>\<rparr>"

definition ic_addFinalizer :: "'c api \<Rightarrow> ('c ic_world, unit) eff" where
  "ic_addFinalizer api = bindM getCR (\<lambda>istiocsr.
     let key = cr_key istiocsr; fs = om_Finalizers (ic_Meta istiocsr)
     in if List.member fs ic_finalizer then returnM ()
        else seqM (modifyCR (setFinalizers (fs @ [ic_finalizer])))
        (seqM (wrapM (''failed to add finalizers on '' @ quoted (show_key key) @
                 '' istiocsr.openshift.operator.io with '') (updateCR api))
        (bindM (wrapM (crText ''failed to fetch'' key '' after updating finalizers: '')
                 (onCluster (clGet api KIstioCSR key))) (\<lambda>updated.
         bindM (liftM (the_istiocsr updated)) (\<lambda>cr'. modifyCR (\<lambda>_. cr'))))))"

definition ic_removeFinalizer :: "'c api \<Rightarrow> string \<Rightarrow> ('c ic_world, unit) eff" where
  "ic_removeFinalizer api f = bindM getCR (\<lambda>istiocsr.
     let key = cr_key istiocsr; fs = om_Finalizers (ic_Meta istiocsr)
     in if List.member fs f
        then seqM (modifyCR (setFinalizers (removeAll f fs)))
          (wrapM (''failed to remove finalizers on '' @ quoted (show_key key) @
             '' istiocsr.openshift.operator.io with '') (updateCR api))
        else returnM ())"

section \<open>Annotations\<close>

definition containsProcessedAnnotation :: "IstioCSR \<Rightarrow> bool" where
  "containsProcessedAnnotation cr = ContainsAnnotation (OIstioCSR cr) controllerProcessedAnnotation"

definition containsProcessingRejectedAnnotation :: "IstioCSR \<Rightarrow> bool" where
  "containsProcessingRejectedAnnotation cr = ContainsAnnotation (OIstioCSR cr) controllerProcessingRejectedAnnotation"

definition annotate :: "string \<Rightarrow> ('c ic_world, bool) eff" where
  "annotate annotation = bindM getCR (\<lambda>cr. case AddAnnotation (OIstioCSR cr) annotation ''true'' of (added, x) \<Rightarrow>
     bindM (liftM (the_istiocsr x)) (\<lambda>cr'. seqM (modifyCR (\<lambda>_. cr')) (returnM added)))"

definition addProcessedAnnotation :: "('c ic_world, bool) eff" where
  "addProcessedAnnotation = annotate controllerProcessedAnnotation"

definition addProcessingRejectedAnnotation :: "('c ic_world, bool) eff" where
  "addProcessingRejectedAnnotation = annotate controllerProcessingRejectedAnnotation"

section \<open>Validation\<close>

definition validateIstioCSRConfig :: "IstioCSR \<Rightarrow> unit res" where
  "validateIstioCSRConfig istiocsr =
     (if ic_Config istiocsr = zero_IstioCSRConfig then Err (ErrNew ''spec.istioCSRConfig config cannot be empty'')
      else if ic_TLS istiocsr = zero_IstiodTLSConfig
      then Err (ErrNew ''spec.istioCSRConfig.istiodTLSConfig config cannot be empty'')
      else if Istio (ic_Config istiocsr) = zero_IstioConfig
      then Err (ErrNew ''spec.istioCSRConfig.istio config cannot be empty'')
      else if CertManager (ic_Config istiocsr) = zero_CertManagerConfig
      then Err (ErrNew ''spec.istioCSRConfig.certManager config cannot be empty'')
      else Ok ())"

section \<open>One instance per cluster\<close>

definition setCondition :: "int \<Rightarrow> string \<Rightarrow> string \<Rightarrow> string \<Rightarrow> string \<Rightarrow> ('c ic_world, bool) eff" where
  "setCondition now t st reason msg = bindM getCR (\<lambda>cr.
     case SetCondition (ics_Conditional (ic_Status cr)) now t st reason msg of (changed, cond) \<Rightarrow>
       seqM (modifyCR (\<lambda>cr. cr\<lparr>ic_Status := (ic_Status cr)\<lparr>ics_Conditional := cond\<rparr>\<rparr>)) (returnM changed))"

definition multipleInstancesMessage :: "IstioCSR \<Rightarrow> string" where
  "multipleInstancesMessage cr =
     ''multiple instances of istiocsr exists, '' @ show_cr cr @ '' will not be processed''"

definition rejectInStatus :: "'c api \<Rightarrow> ic_env \<Rightarrow> string \<Rightarrow> ('c ic_world, goerror option) eff" where
  "rejectInStatus api e statusMessage =
     bindM (setCondition (e_now e 0) Ready ConditionFalse ReasonFailed statusMessage) (\<lambda>changed.
     if changed then updateConditionM api None else returnM None)"

text \<open>An instance in another namespace that is older, or as old.\<close>

definition precedes :: "IstioCSR \<Rightarrow> obj \<Rightarrow> bool" where
  "precedes istiocsr item \<longleftrightarrow> om_Namespace (meta_of item) \<noteq> ic_Namespace istiocsr \<and>
     om_CreationTimestamp (meta_of item) \<le> om_CreationTimestamp (ic_Meta istiocsr)"

definition markRejected :: "'c api \<Rightarrow> ('c ic_world, goerror option) eff" where
  "markRejected api = bindM addProcessingRejectedAnnotation (\<lambda>added.
     if added then
       bindM getCR (\<lambda>istiocsr.
       bindM (attemptM (updateCR api)) (\<lambda>r. case r of
         Err err \<Rightarrow> returnM (Some (ErrWrap (''failed to update reject processing annotation to '' @
                      show_cr istiocsr @ '': '') err))
       | _ \<Rightarrow> returnM None))
     else returnM None)"

definition disallowMultipleIstioCSRInstances :: "'c api \<Rightarrow> ic_env \<Rightarrow> ('c ic_world, unit) eff" where
  "disallowMultipleIstioCSRInstances api e = bindM getCR (\<lambda>istiocsr.
     let statusMessage = multipleInstancesMessage istiocsr
     in if containsProcessingRejectedAnnotation istiocsr then
          bindM (rejectInStatus api e statusMessage) (\<lambda>updateErr.
          failM (the (NewMultipleInstanceError (NewAggregate [Some (ErrNew statusMessage), updateErr]))))
        else
          bindM (wrapM ''failed to fetch list of istiocsr resources: ''
                   (onCluster (clList api KIstioCSR None))) (\<lambda>items.
          if length items \<le> 1 then returnM ()
          else if \<not> list_ex (precedes istiocsr) items then returnM ()
          else
            bindM (rejectInStatus api e statusMessage) (\<lambda>condUpdateErr.
            bindM (markRejected api) (\<lambda>annUpdateErr.
            if condUpdateErr \<noteq> None \<or> annUpdateErr \<noteq> None
            then failM (the (NewAggregate [condUpdateErr, annUpdateErr]))
            else failM (the (NewMultipleInstanceError (Some (ErrNew statusMessage))))))))"

section \<open>Lemmas\<close>

lemma getCR_eq_iff [simp]: "getCR w = (r, w') \<longleftrightarrow> r = Ok (w_cr w) \<and> w' = w"
  by (auto simp: getCR_def)

lemma modifyCR_eq_iff [simp]: "modifyCR f w = (r, w') \<longleftrightarrow> r = Ok () \<and> w' = w\<lparr>w_cr := f (w_cr w)\<rparr>"
  by (auto simp: modifyCR_def)

lemma keepsM_getCR [keeps_intro]: "keepsM I getCR"
  by (simp add: keepsM_def getCR_def)

lemma keepsM_onCluster: "keepsM I m \<Longrightarrow> keepsM (\<lambda>w. I (w_cluster w)) (onCluster m)"
  by (auto simp: keepsM_def onCluster_def split: prod.splits)

context api_server
begin

text \<open>Writing the status touches no object of another kind.\<close>

lemma updateStatusOnce_other:
  "k \<noteq> KIstioCSR \<Longrightarrow> keepsM (\<lambda>s. stored s k = f) (updateStatusOnce api cr)"
  unfolding updateStatusOnce_def clGet_def clStatusUpdate_def
  by (intro keeps_intro)
     (auto simp: keepsM_def get_keeps status_other)

lemma updateStatus_keeps:
  "k \<noteq> KIstioCSR \<Longrightarrow> keepsM (\<lambda>w. stored (w_cluster w) k = f) (updateStatus api)"
  unfolding updateStatus_def
  by (intro keeps_intro keepsM_getCR keepsM_onCluster [where I = "\<lambda>s. stored s k = f"] keepsM_retry updateStatusOnce_other)

lemma updateStatus_other:
  "k \<noteq> KIstioCSR \<Longrightarrow> stored (w_cluster (snd (updateStatus api w))) k = stored (w_cluster w) k"
  using updateStatus_keeps unfolding keepsM_def by blast

end

lemma updateStatus_cr: "w_cr (snd (updateStatus api w)) = w_cr w"
  by (auto simp: updateStatus_def eff_defs getCR_def onCluster_def split: prod.splits res.splits)

end
