(* ===== verification/IC_Deployment.thy ===== *)
theory IC_Deployment
  imports IC_Status
begin

text \<open>
  The istio-csr deployment and its CA bundle: \<open>pkg/controller/istiocsr/deployments.go\<close> and
  \<open>tls_profile.go\<close>.
\<close>

section \<open>Arguments\<close>

text \<open>
  \<open>fmt.Sprintf("%.0fm", d.Minutes())\<close> of a duration in nanoseconds: rounded half to even, with the sign of a
  negative duration that rounds to zero.  The floating-point sum in \<open>Minutes\<close> gives the same text for every
  duration of whole seconds and for every duration below \<open>2 ^ 18\<close> minutes.
\<close>

definition round_minutes :: "int \<Rightarrow> int" where
  "round_minutes d =
     (let q = d div 60000000000; r = d mod 60000000000
      in if 2 * r < 60000000000 then q
         else if 2 * r > 60000000000 then q + 1
         else if even q then q else q + 1)"

definition minutes_text :: "int \<Rightarrow> string" where
  "minutes_text d =
     (if d < 0 \<and> round_minutes d = 0 then ''-0m'' else show_int (round_minutes d) @ ''m'')"

definition clusterTLSProfileArgs :: "ic_env \<Rightarrow> string list" where
  "clusterTLSProfileArgs e =
     (if \<not> tc_Honor (e_tls e) then []
      else if tc_Spec (e_tls e) = None then []
      else IstioCSRServingTLSArgs (tc_Spec (e_tls e)))"

definition caVolumeMountPath :: string where "caVolumeMountPath = ''/var/run/configmaps/istio-csr''"

definition istiocsrArgs :: "IstioCSR \<Rightarrow> int \<Rightarrow> int \<Rightarrow> int \<Rightarrow> string list \<Rightarrow> string list" where
  "istiocsrArgs istiocsr duration maxDuration renewBefore clusterTLSArgs =
     (let c = ic_Config istiocsr; t = ic_TLS istiocsr; ref = IssuerRef (CertManager c); ns = istio_Namespace (Istio c);
          clusterID = (case Server c of None \<Rightarrow> defaultClusterID
                       | Some s \<Rightarrow> if ClusterID s \<noteq> '''' then ClusterID s else defaultClusterID)
      in [''--log-level='' @ show_int (LogLevel c),
          ''--log-format='' @ LogFormat c,
          ''--metrics-port=9402'', ''--readiness-probe-port=6060'', ''--readiness-probe-path=/readyz'',
          ''--certificate-namespace='' @ ns,
          ''--issuer-enabled=true'', ''--preserve-certificate-requests=false'',
          ''--issuer-name='' @ ir_Name ref,
          ''--issuer-kind='' @ ir_Kind ref,
          ''--issuer-group='' @ ir_Group ref,
          ''--root-ca-file='' @ caVolumeMountPath @ ''/'' @ IstiocsrCAKeyName,
          ''--serving-certificate-dns-names=cert-manager-istio-csr.'' @ ic_Namespace istiocsr @ ''.svc'',
          ''--serving-certificate-duration='' @ minutes_text duration,
          ''--trust-domain='' @ TrustDomain t,
          ''--cluster-id='' @ clusterID,
          ''--max-client-certificate-duration='' @ minutes_text maxDuration,
          ''--serving-address=0.0.0.0:6443'',
          ''--serving-certificate-key-size='' @ show_int (PrivateKeySize t),
          ''--serving-signature-algorithm='' @ PrivateKeyAlgorithm t,
          ''--enable-client-cert-authenticator=false'',
          ''--leader-election-namespace='' @ ns,
          ''--disable-kubernetes-client-rate-limiter=false'', ''--istiod-cert-enabled=false'',
          ''--istiod-cert-namespace='' @ ns,
          ''--istiod-cert-duration='' @ minutes_text duration,
          ''--istiod-cert-renew-before='' @ minutes_text renewBefore,
          ''--istiod-cert-key-algorithm='' @ PrivateKeyAlgorithm t,
          ''--istiod-cert-key-size='' @ show_int (PrivateKeySize t),
          ''--istiod-cert-additional-dns-names='' @ join '','' (elems (CertificateDNSNames t)),
          ''--istiod-cert-istio-revisions='' @ join '','' (elems (Revisions (Istio c)))]
         @ (if IstioDataPlaneNamespaceSelector c \<noteq> ''''
            then [''--configmap-namespace-selector='' @ IstioDataPlaneNamespaceSelector c] else [])
         @ clusterTLSArgs)"

definition on_istiocsr_container :: "(Container \<Rightarrow> Container) \<Rightarrow> Deployment \<Rightarrow> Deployment" where
  "on_istiocsr_container f =
     upd_containers (map (\<lambda>c. if ct_Name c = istiocsrContainerName then f c else c))"

definition updateArgList :: "IstioCSR \<Rightarrow> string list \<Rightarrow> Deployment \<Rightarrow> Deployment res" where
  "updateArgList istiocsr clusterTLSArgs deployment =
     bindR (deref (CertificateDuration (ic_TLS istiocsr))) (\<lambda>duration.
     bindR (deref (MaxCertificateDuration (ic_TLS istiocsr))) (\<lambda>maxDuration.
     bindR (deref (CertificateRenewBefore (ic_TLS istiocsr))) (\<lambda>renewBefore.
     Ok (on_istiocsr_container (\<lambda>c. c\<lparr>ct_Args :=
           Some (istiocsrArgs istiocsr duration maxDuration renewBefore clusterTLSArgs)\<rparr>) deployment))))"

section \<open>Pod settings\<close>

definition updatePodTemplateLabels :: "labels \<Rightarrow> Deployment \<Rightarrow> Deployment" where
  "updatePodTemplateLabels resourceLabels deployment =
     deployment\<lparr>dep_Template := (dep_Template deployment)\<lparr>pt_Labels := resourceLabels\<rparr>\<rparr>"

definition istioCSRConfigPath :: path where "istioCSRConfigPath = ''spec.istioCSRConfig''"

definition validated :: "goerror option \<Rightarrow> 'a \<Rightarrow> 'a res" where
  "validated err x = (case err of None \<Rightarrow> Ok x | Some e \<Rightarrow> Err e)"

definition updateResourceRequirement :: "core_validators \<Rightarrow> IstioCSR \<Rightarrow> Deployment \<Rightarrow> Deployment res" where
  "updateResourceRequirement cv istiocsr deployment =
     (let resources = ic_Resources (ic_Config istiocsr)
      in if resources = zero_Resources then Ok deployment
         else validated (ValidateResourceRequirements cv resources istioCSRConfigPath)
                (upd_containers (map (\<lambda>c. c\<lparr>ct_Resources := resources\<rparr>)) deployment))"

definition updateAffinityRules :: "core_validators \<Rightarrow> IstioCSR \<Rightarrow> Deployment \<Rightarrow> Deployment res" where
  "updateAffinityRules cv istiocsr deployment =
     (let affinity = ic_Affinity (ic_Config istiocsr)
      in if affinity = None then Ok deployment
         else validated (ValidateAffinityRules cv affinity istioCSRConfigPath)
                (upd_pod (\<lambda>p. p\<lparr>ps_Affinity := affinity\<rparr>) deployment))"

definition updatePodTolerations :: "core_validators \<Rightarrow> IstioCSR \<Rightarrow> Deployment \<Rightarrow> Deployment res" where
  "updatePodTolerations cv istiocsr deployment =
     (let tolerations = ic_Tolerations (ic_Config istiocsr)
      in if tolerations = None then Ok deployment
         else validated (ValidateTolerationsConfig cv (elems tolerations) istioCSRConfigPath)
                (upd_pod (\<lambda>p. p\<lparr>ps_Tolerations := tolerations\<rparr>) deployment))"

definition updateNodeSelector :: "core_validators \<Rightarrow> IstioCSR \<Rightarrow> Deployment \<Rightarrow> Deployment res" where
  "updateNodeSelector cv istiocsr deployment =
     (let nodeSelector = ic_NodeSelector (ic_Config istiocsr)
      in if nodeSelector = None then Ok deployment
         else validated (ValidateNodeSelectorConfig cv nodeSelector istioCSRConfigPath)
                (upd_pod (\<lambda>p. p\<lparr>ps_NodeSelector := nodeSelector\<rparr>) deployment))"

definition updateImage :: "ic_env \<Rightarrow> Deployment \<Rightarrow> Deployment res" where
  "updateImage e deployment =
     (case e_getenv e istiocsrImageNameEnvVarName of
        Some (ch # chs) \<Rightarrow> Ok (on_istiocsr_container (\<lambda>c. c\<lparr>ct_Image := ch # chs\<rparr>) deployment)
      | _ \<Rightarrow> Err (ErrNew (istiocsrImageNameEnvVarName @ '' environment variable with istiocsr image not set'')))"

section \<open>CA volume\<close>

definition upsert :: "('a \<Rightarrow> bool) \<Rightarrow> 'a \<Rightarrow> 'a list \<Rightarrow> 'a list" where
  "upsert P v xs = (if list_ex P xs then update_first P (\<lambda>_. v) xs else xs @ [v])"

definition caVolumeName :: string where "caVolumeName = ''root-ca''"

definition caVolumeMount :: VolumeMount where
  "caVolumeMount = \<lparr>vm_Name = caVolumeName, vm_ReadOnly = True, vm_MountPath = caVolumeMountPath, vm_SubPath = ''''\<rparr>"

definition caVolume :: Volume where
  "caVolume = \<lparr>vol_Name = caVolumeName, vol_Source = ConfigMapVolume IstiocsrCAConfigMapName
     (Some [\<lparr>kp_Key = IstiocsrCAKeyName, kp_Path = IstiocsrCAKeyName, kp_Mode = Some 420\<rparr>]) (Some 420)\<rparr>"

definition updateVolumeWithIssuerCA :: "Deployment \<Rightarrow> Deployment" where
  "updateVolumeWithIssuerCA deployment =
     upd_volumes (upsert (\<lambda>v. vol_Name v = caVolumeName) caVolume)
       (upd_containers (update_first (\<lambda>c. ct_Name c = istiocsrContainerName)
          (\<lambda>c. c\<lparr>ct_VolumeMounts :=
             Some (upsert (\<lambda>vm. vm_Name vm = caVolumeName) caVolumeMount (elems (ct_VolumeMounts c)))\<rparr>))
        deployment)"

section \<open>Issuer\<close>

definition errInvalidIssuerRefConfig :: goerror where
  "errInvalidIssuerRefConfig = ErrNew ''invalid issuerRef config''"

definition issuerRefKind :: "IstioCSR \<Rightarrow> string" where
  "issuerRefKind istiocsr = to_lower (ir_Kind (IssuerRef (CertManager (ic_Config istiocsr))))"

definition getIssuer :: "'c api \<Rightarrow> IstioCSR \<Rightarrow> ('c ic_world, obj) eff" where
  "getIssuer api istiocsr =
     (let key = (istio_Namespace (Istio (ic_Config istiocsr)), ir_Name (IssuerRef (CertManager (ic_Config istiocsr))));
          fetch = (\<lambda>k. wrapM (''failed to fetch '' @ quoted (show_key key) @ '' issuer: '') (onCluster (clGet api k key)))
      in if issuerRefKind istiocsr = clusterIssuerKind then fetch KClusterIssuer
         else if issuerRefKind istiocsr = issuerKind then fetch KIssuer
         else failM (ErrNew (''unsupported issuer kind '' @ quoted (issuerRefKind istiocsr) @ '': must be '' @
                quoted clusterIssuerKind @ '' or '' @ quoted issuerKind)))"

text \<open>The two type assertions on the fetched issuer; anything else than the expected kind fails.\<close>

definition issuerConfigOf :: "IstioCSR \<Rightarrow> obj \<Rightarrow> Issuer option" where
  "issuerConfigOf istiocsr x = (case x of
      OClusterIssuer i \<Rightarrow> if issuerRefKind istiocsr = clusterIssuerKind then Some i else None
    | OIssuer i \<Rightarrow> if issuerRefKind istiocsr = issuerKind then Some i else None
    | _ \<Rightarrow> None)"

definition convertedName :: "IstioCSR \<Rightarrow> string" where
  "convertedName istiocsr = (if issuerRefKind istiocsr = clusterIssuerKind then ''ClusterIssuer'' else ''Issuer'')"

definition watchLabelValue :: "IstioCSR \<Rightarrow> string" where
  "watchLabelValue istiocsr = ic_Namespace istiocsr @ ''_'' @ ic_Name istiocsr"

definition updateWatchLabel :: "'c api \<Rightarrow> obj \<Rightarrow> IstioCSR \<Rightarrow> ('c ic_world, obj) eff" where
  "updateWatchLabel api x istiocsr =
     (let x = upd_meta (\<lambda>m. m\<lparr>om_Labels :=
            mput IstiocsrResourceWatchLabelName (watchLabelValue istiocsr) (om_Labels m)\<rparr>) x
      in wrapM (''failed to update '' @ om_Name (meta_of x) @ '' resource with watch label: '')
           (onCluster (UpdateWithRetry api x)))"

definition assertIssuerRefExists :: "'c api \<Rightarrow> IstioCSR \<Rightarrow> ('c ic_world, unit) eff" where
  "assertIssuerRefExists api istiocsr =
     (let ref = IssuerRef (CertManager (ic_Config istiocsr)); kind = issuerRefKind istiocsr;
          grp = to_lower (ir_Group ref); invalid = (\<lambda>msg. failM (irrecoverable msg errInvalidIssuerRefConfig))
      in if kind \<noteq> clusterIssuerKind \<and> kind \<noteq> issuerKind
         then invalid (''spec.istioCSRConfig.certManager.issuerRef.kind can be any of `'' @ clusterIssuerKind @
                ''` or `'' @ issuerKind @ ''`, configured: '' @ kind)
         else if grp \<noteq> issuerGroup
         then invalid (''spec.istioCSRConfig.certManager.issuerRef.group can be only `'' @ issuerGroup @
                ''`, configured: '' @ grp)
         else
           bindM (onErrM (clientErr ''failed to fetch issuer'') (getIssuer api istiocsr)) (\<lambda>x.
           case issuerConfigOf istiocsr x of
             None \<Rightarrow> invalid (''failed to convert to '' @ convertedName istiocsr)
           | Some issuer \<Rightarrow>
               if iss_ACME issuer \<noteq> None
               then invalid ''spec.istioCSRConfig.certManager.issuerRef uses unsupported ACME issuer''
               else bindM (onErrM (clientErr (''failed to update watch label on cert-manager issuer '' @ ir_Name ref))
                      (updateWatchLabel api x istiocsr)) (\<lambda>_. returnM ())))"

section \<open>CA bundle\<close>

definition caConfigMap :: "IstioCSR \<Rightarrow> string \<Rightarrow> labels \<Rightarrow> obj" where
  "caConfigMap istiocsr certData resourceLabels = OConfigMap
     \<lparr>cmap_Meta = empty_meta\<lparr>om_Name := IstiocsrCAConfigMapName, om_Namespace := ic_Namespace istiocsr,
        om_Labels := resourceLabels\<rparr>,
      cmap_Data = Some [(IstiocsrCAKeyName, certData)], cmap_rest = ''''\<rparr>"

definition createOrUpdateCAConfigMap ::
  "'c api \<Rightarrow> IstioCSR \<Rightarrow> string \<Rightarrow> labels \<Rightarrow> ('c ic_world, unit) eff" where
  "createOrUpdateCAConfigMap api istiocsr certData resourceLabels =
     (if certData = '''' then failM (ErrNew ''failed to find CA certificate'')
      else
        let desired = caConfigMap istiocsr certData resourceLabels; key = ObjectKeyFromObject desired; name = show_key key
        in bindM (wrapM ''failed to check if CA configmap exists: '' (onCluster (clExists api KConfigMap key))) (\<lambda>exist.
           case exist of
             Some fetched \<Rightarrow>
               bindM (liftM (hasObjectChanged desired fetched)) (\<lambda>changed.
               if changed then
                 seqM (bindM (wrapM (''failed to update '' @ name @ '' configmap resource: '')
                         (onCluster (UpdateWithRetry api desired))) (\<lambda>_. returnM ()))
                   (Eventf ''Normal'' ''Reconciled''
                      (''configmap resource '' @ name @ '' reconciled back to desired state''))
               else returnM ())
           | None \<Rightarrow>
               seqM (bindM (wrapM (''failed to create '' @ name @ '' configmap resource: '')
                       (onCluster (clCreate api desired))) (\<lambda>_. returnM ()))
                 (Eventf ''Normal'' ''Reconciled'' (''configmap resource '' @ name @ '' created''))))"

definition validatePEMData :: "ic_env \<Rightarrow> string \<Rightarrow> unit res" where
  "validatePEMData e pemData =
     (if pemData = '''' then Err (ErrNew ''PEM data is empty'')
      else case e_pem e pemData of
        None \<Rightarrow> Err (ErrNew ''no valid PEM data found'')
      | Some (blockType, bytes) \<Rightarrow>
          if blockType \<noteq> ''CERTIFICATE''
          then Err (ErrNew (''PEM block is not a certificate, found: '' @ blockType))
          else bindR (wrapR ''failed to parse certificate: '' (e_x509 e bytes)) (\<lambda>cert.
            if \<not> BasicConstraintsValid cert
            then Err (ErrNew ''certificate does not have valid Basic Constraints extension'')
            else if \<not> IsCA cert then Err (ErrNew ''certificate is not a CA certificate'')
            else if \<not> KeyUsageCertSign cert
            then Err (ErrNew ''certificate does not have Certificate Sign key usage'')
            else Ok ()))"

fun the_secret :: "obj \<Rightarrow> Secret res" where
  "the_secret (OSecret s) = Ok s"
| "the_secret _ = Panic ''unexpected object type''"

fun the_configmap :: "obj \<Rightarrow> ConfigMap res" where
  "the_configmap (OConfigMap c) = Ok c"
| "the_configmap _ = Panic ''unexpected object type''"

text \<open>The steps both issuer-based routines share: read the secret, label it, copy its CA.\<close>

definition createCAConfigMapFromSecret ::
  "'c api \<Rightarrow> IstioCSR \<Rightarrow> key \<Rightarrow> labels \<Rightarrow> ('c ic_world, unit) eff" where
  "createCAConfigMapFromSecret api istiocsr secretKey resourceLabels =
     bindM (wrapM ''failed to fetch secret in issuer: '' (onCluster (clGet api KSecret secretKey))) (\<lambda>x.
     bindM (updateWatchLabel api x istiocsr) (\<lambda>x.
     bindM (liftM (the_secret x)) (\<lambda>secret.
     createOrUpdateCAConfigMap api istiocsr (mget (sec_Data secret) IstiocsrCAKeyName) resourceLabels)))"

definition createCAConfigMapFromIstiodCertificate ::
  "'c api \<Rightarrow> ic_env \<Rightarrow> IstioCSR \<Rightarrow> labels \<Rightarrow> ('c ic_world, unit) eff" where
  "createCAConfigMapFromIstiodCertificate api e istiocsr resourceLabels =
     bindM (onErrM (clientErr ''failed to fetch istiod certificate'')
              (liftM (getCertificateObject e istiocsr resourceLabels))) (\<lambda>istiodCertificate.
     createCAConfigMapFromSecret api istiocsr
       (om_Namespace (cert_Meta istiodCertificate), cs_SecretName (cert_Spec istiodCertificate)) resourceLabels)"

definition createCAConfigMapFromIssuerSecret ::
  "'c api \<Rightarrow> IstioCSR \<Rightarrow> string \<Rightarrow> labels \<Rightarrow> ('c ic_world, unit) eff" where
  "createCAConfigMapFromIssuerSecret api istiocsr secretName resourceLabels =
     (if secretName = ''''
      then failM (ErrNew (''failed to fetch CA certificate configured for the '' @
             ir_Name (IssuerRef (CertManager (ic_Config istiocsr))) @ '' issuer of CA type''))
      else createCAConfigMapFromSecret api istiocsr
             (istio_Namespace (Istio (ic_Config istiocsr)), secretName) resourceLabels)"

definition handleIssuerBasedCA ::
  "'c api \<Rightarrow> ic_env \<Rightarrow> IstioCSR \<Rightarrow> labels \<Rightarrow> Deployment \<Rightarrow> ('c ic_world, Deployment) eff" where
  "handleIssuerBasedCA api e istiocsr resourceLabels deployment =
     bindM (onErrM (clientErr ''failed to fetch issuer'') (getIssuer api istiocsr)) (\<lambda>x.
     case issuerConfigOf istiocsr x of
       None \<Rightarrow> failM (clientErr ''failed to fetch issuer'' (ErrNew (''failed to convert to '' @ convertedName istiocsr)))
     | Some issuer \<Rightarrow>
         (case iss_CA issuer of
            Some secretName \<Rightarrow>
              if secretName \<noteq> '''' then
                seqM (onErrM (clientErr ''failed to create CA ConfigMap'')
                        (createCAConfigMapFromIssuerSecret api istiocsr secretName resourceLabels))
                  (returnM (updateVolumeWithIssuerCA deployment))
              else returnM deployment
          | None \<Rightarrow>
              seqM (onErrM (clientErr ''failed to create CA ConfigMap'')
                      (createCAConfigMapFromIstiodCertificate api e istiocsr resourceLabels))
                (returnM (updateVolumeWithIssuerCA deployment))))"

definition handleUserProvidedCA ::
  "'c api \<Rightarrow> ic_env \<Rightarrow> IstioCSR \<Rightarrow> ConfigMapReference \<Rightarrow> labels \<Rightarrow> Deployment \<Rightarrow> ('c ic_world, Deployment) eff" where
  "handleUserProvidedCA api e istiocsr caCertConfig resourceLabels deployment =
     (let ns = (if cmr_Namespace caCertConfig = '''' then ic_Namespace istiocsr else cmr_Namespace caCertConfig);
          key = (ns, cmr_Name caCertConfig); name = show_key key
      in bindM (onErrM (irrecoverable (''failed to fetch CA certificate ConfigMap '' @ name))
                  (onCluster (clGet api KConfigMap key))) (\<lambda>x.
         bindM (onErrM (clientErr (''failed to update watch label on CA certificate ConfigMap '' @ name))
                  (updateWatchLabel api x istiocsr)) (\<lambda>x.
         bindM (liftM (the_configmap x)) (\<lambda>sourceConfigMap.
         case mlookup (cmap_Data sourceConfigMap) (cmr_Key caCertConfig) of
           None \<Rightarrow> failM (irrecoverable (''invalid CA certificate ConfigMap '' @ name)
                     (ErrNew (''key '' @ quoted (cmr_Key caCertConfig) @ '' not found in ConfigMap '' @ name)))
         | Some pemData \<Rightarrow>
             seqM (onErrM (irrecoverable (''invalid PEM data in CA certificate ConfigMap '' @ name @ '' key '' @
                             quoted (cmr_Key caCertConfig)))
                     (liftM (validatePEMData e pemData)))
             (seqM (onErrM (clientErr ''failed to create CA certificate ConfigMap copy'')
                      (createOrUpdateCAConfigMap api istiocsr pemData resourceLabels))
               (returnM (updateVolumeWithIssuerCA deployment)))))))"

definition updateVolumes ::
  "'c api \<Rightarrow> ic_env \<Rightarrow> IstioCSR \<Rightarrow> labels \<Rightarrow> Deployment \<Rightarrow> ('c ic_world, Deployment) eff" where
  "updateVolumes api e istiocsr resourceLabels deployment =
     (case IstioCACertificate (CertManager (ic_Config istiocsr)) of
        Some caCertConfig \<Rightarrow>
          onErrM (genericErr ''failed to validate and mount CA certificate ConfigMap'')
            (handleUserProvidedCA api e istiocsr caCertConfig resourceLabels deployment)
      | None \<Rightarrow> handleIssuerBasedCA api e istiocsr resourceLabels deployment)"

section \<open>The deployment\<close>

definition ic_deploymentAssetName :: string where
  "ic_deploymentAssetName = ''istio-csr/cert-manager-istio-csr-deployment.yaml''"

fun the_deployment :: "obj \<Rightarrow> Deployment res" where
  "the_deployment (ODeployment d) = Ok d"
| "the_deployment _ = Panic ''failed to convert decoded object''"

text \<open>The part of \<open>getDeploymentObject\<close> between the issuer check and the volumes, which has no effects.\<close>

definition deploymentFromManifest :: "ic_env \<Rightarrow> IstioCSR \<Rightarrow> labels \<Rightarrow> Deployment res" where
  "deploymentFromManifest e istiocsr resourceLabels =
     bindR (DecodeObjBytes KDeployment (e_decode e ic_deploymentAssetName)) (\<lambda>x.
     bindR (the_deployment (UpdateResourceLabels resourceLabels (UpdateNamespace (ic_Namespace istiocsr) x))) (\<lambda>d.
     bindR (updateArgList istiocsr (clusterTLSProfileArgs e) (updatePodTemplateLabels resourceLabels d)) (\<lambda>d.
     bindR (wrapR ''failed to update resource requirements: '' (updateResourceRequirement (e_validators e) istiocsr d)) (\<lambda>d.
     bindR (wrapR ''failed to update affinity rules: '' (updateAffinityRules (e_validators e) istiocsr d)) (\<lambda>d.
     bindR (wrapR ''failed to update pod tolerations: '' (updatePodTolerations (e_validators e) istiocsr d)) (\<lambda>d.
     bindR (wrapR ''failed to update node selector: '' (updateNodeSelector (e_validators e) istiocsr d)) (\<lambda>d.
     case updateImage e d of
       Err err \<Rightarrow> Err (irrecoverable (''failed to update image '' @ show_cr istiocsr) err)
     | r \<Rightarrow> r)))))))"

definition getDeploymentObject :: "'c api \<Rightarrow> ic_env \<Rightarrow> labels \<Rightarrow> ('c ic_world, Deployment) eff" where
  "getDeploymentObject api e resourceLabels =
     bindM getCR (\<lambda>istiocsr.
     seqM (wrapM (''failed to verify issuer in '' @ show_cr istiocsr @ '': '') (assertIssuerRefExists api istiocsr))
     (bindM (liftM (deploymentFromManifest e istiocsr resourceLabels)) (\<lambda>deployment.
      wrapM (''failed to update volume '' @ show_cr istiocsr @ '': '')
        (updateVolumes api e istiocsr resourceLabels deployment))))"

text \<open>The loop of \<open>updateImageInStatus\<close>: whether it returns early, and the image it leaves in the status.\<close>

fun imageInStatus :: "Container list \<Rightarrow> string \<Rightarrow> bool \<times> string" where
  "imageInStatus [] img = (False, img)"
| "imageInStatus (c # cs) img =
     (if ct_Name c = istiocsrContainerName
      then if img = ct_Image c then (True, img) else imageInStatus cs (ct_Image c)
      else imageInStatus cs img)"

definition updateImageInStatus :: "'c api \<Rightarrow> Deployment \<Rightarrow> ('c ic_world, unit) eff" where
  "updateImageInStatus api deployment = bindM getCR (\<lambda>istiocsr.
     case imageInStatus (containers deployment) (IstioCSRImage (ic_Status istiocsr)) of (found, img) \<Rightarrow>
       seqM (modifyCR (\<lambda>cr. cr\<lparr>ic_Status := (ic_Status cr)\<lparr>IstioCSRImage := img\<rparr>\<rparr>))
         (if found then returnM () else updateStatus api))"

definition createOrApplyDeployments :: "'c api \<Rightarrow> ic_env \<Rightarrow> labels \<Rightarrow> bool \<Rightarrow> ('c ic_world, unit) eff" where
  "createOrApplyDeployments api e resourceLabels istioCSRCreateRecon =
     bindM getCR (\<lambda>istiocsr.
     bindM (wrapM (''failed to generate deployment resource for creation in '' @ ic_Namespace istiocsr @ '': '')
              (getDeploymentObject api e resourceLabels)) (\<lambda>desired.
     bindM (reconcileObject api ''deployment'' (ODeployment desired) istioCSRCreateRecon) (\<lambda>x.
     bindM (liftM (the_deployment x)) (\<lambda>desired.
     onErrM (clientErr (''failed to update '' @ show_cr istiocsr @ '' istiocsr status with image info''))
       (updateImageInStatus api desired)))))"

section \<open>Lemmas\<close>

lemma update_first_names:
  "(\<And>c. g (f c) = g c) \<Longrightarrow> map g (update_first P f cs) = map g cs"
  by (induction cs) auto

lemma upsert_in: "v \<in> set (upsert P v xs)"
proof -
  have "list_ex P ys \<Longrightarrow> v \<in> set (update_first P (\<lambda>_. v) ys)" for ys
    by (induction ys) auto
  then show ?thesis by (simp add: upsert_def)
qed

lemma caVolume_mounted: "caVolume \<in> set (elems (ps_Volumes (dep_Pod (updateVolumeWithIssuerCA d))))"
  by (simp add: updateVolumeWithIssuerCA_def upsert_in)

lemma caConfigMap_simps [simp]:
  "kind_of (caConfigMap cr d l) = KConfigMap"
  "ObjectKeyFromObject (caConfigMap cr d l) = (ic_Namespace cr, IstiocsrCAConfigMapName)"
  "comparable (caConfigMap cr d l)"
  "om_DeletionTimestamp (meta_of (caConfigMap cr d l)) = None"
  "om_Name (meta_of (caConfigMap cr d l)) = IstiocsrCAConfigMapName"
  by (simp_all add: caConfigMap_def ObjectKeyFromObject_def empty_meta_def)

lemma caConfigMap_data:
  "hasObjectChanged (caConfigMap cr d l) z = Ok False \<Longrightarrow>
   \<exists>c. z = OConfigMap c \<and> mlookup (cmap_Data c) IstiocsrCAKeyName = Some d \<and>
       deep_equal_map l (om_Labels (cmap_Meta c))"
  by (cases z) (auto simp: hasObjectChanged_def caConfigMap_def modified_defs ObjectMetadataModified_def
      mlookup_def dest!: deep_equal_map_lookup fun_cong [where x = IstiocsrCAKeyName] split: if_splits)

text \<open>The CA copy goes through the same three outcomes as every other object.\<close>

lemma createOrUpdateCAConfigMap_Ok:
  assumes "createOrUpdateCAConfigMap api cr d l w = (Ok (), w')"
  shows "d \<noteq> '''' \<and> (\<exists>found c. clExists api KConfigMap (ic_Namespace cr, IstiocsrCAConfigMapName) (w_cluster w) = (Ok found, c) \<and>
     (case found of
        None \<Rightarrow> \<exists>y. api_Create api (caConfigMap cr d l) c = (Ok y, w_cluster w')
      | Some f \<Rightarrow> (hasObjectChanged (caConfigMap cr d l) f = Ok False \<and> w_cluster w' = c) \<or>
          (\<exists>y. UpdateWithRetry api (caConfigMap cr d l) c = (Ok y, w_cluster w'))))"
proof -
  from assms have d: "d \<noteq> ''''" by (auto simp: createOrUpdateCAConfigMap_def)
  with assms obtain found c where
    ex: "clExists api KConfigMap (ic_Namespace cr, IstiocsrCAConfigMapName) (w_cluster w) = (Ok found, c)"
    by (auto simp: createOrUpdateCAConfigMap_def Let_def bindM_eq_Ok_iff onCluster_eq_iff)
  show ?thesis
  proof (cases found)
    case None
    with assms d ex show ?thesis
      by (auto simp: createOrUpdateCAConfigMap_def Let_def eff_defs onCluster_def clCreate_def Eventf_def
          split: prod.splits res.splits)
  next
    case (Some f)
    with assms d ex show ?thesis
      by (cases "hasObjectChanged (caConfigMap cr d l) f")
         (auto simp: createOrUpdateCAConfigMap_def Let_def eff_defs onCluster_def Eventf_def
          split: prod.splits res.splits if_splits)
  qed
qed

context api_server
begin

lemma createOrUpdateCAConfigMap_establishes:
  assumes "createOrUpdateCAConfigMap api cr d l w = (Ok (), w')"
  shows "\<exists>c. stored (w_cluster w') KConfigMap (ic_Namespace cr, IstiocsrCAConfigMapName) = Some (OConfigMap c) \<and>
     mlookup (cmap_Data c) IstiocsrCAKeyName = Some d"
proof -
  from createOrUpdateCAConfigMap_Ok [OF assms] obtain found c where
    ex: "clExists api KConfigMap (ic_Namespace cr, IstiocsrCAConfigMapName) (w_cluster w) = (Ok found, c)"
    and out: "case found of
        None \<Rightarrow> \<exists>y. api_Create api (caConfigMap cr d l) c = (Ok y, w_cluster w')
      | Some f \<Rightarrow> (hasObjectChanged (caConfigMap cr d l) f = Ok False \<and> w_cluster w' = c) \<or>
          (\<exists>y. UpdateWithRetry api (caConfigMap cr d l) c = (Ok y, w_cluster w'))" by auto
  have found: "stored c KConfigMap (ic_Namespace cr, IstiocsrCAConfigMapName) = found"
    using exists_cases [OF ex] by simp
  have name: "IstiocsrCAConfigMapName \<noteq> ''''" by (simp add: IstiocsrCAConfigMapName_def istiocsrCommonName_def)
  have "\<exists>z. stored (w_cluster w') KConfigMap (ic_Namespace cr, IstiocsrCAConfigMapName) = Some z \<and>
      hasObjectChanged (caConfigMap cr d l) z = Ok False"
  proof (cases found)
    case None
    with out obtain y where y: "api_Create api (caConfigMap cr d l) c = (Ok y, w_cluster w')" by auto
    from create_Ok [OF y] name show ?thesis by (auto simp: hasObjectChanged_same)
  next
    case (Some f)
    with out consider "hasObjectChanged (caConfigMap cr d l) f = Ok False" "w_cluster w' = c"
      | y where "UpdateWithRetry api (caConfigMap cr d l) c = (Ok y, w_cluster w')" by auto
    then show ?thesis
    proof cases
      case 1
      with found Some show ?thesis by auto
    next
      case 2
      from UpdateWithRetry_Ok [OF this] show ?thesis
        by (auto simp: comparable_keep_status hasObjectChanged_same)
    qed
  qed
  with caConfigMap_data show ?thesis by blast
qed

end

lemma validatePEMData_Ok_iff:
  "validatePEMData e pem = Ok () \<longleftrightarrow> pem \<noteq> '''' \<and>
     (\<exists>bytes cert. e_pem e pem = Some (''CERTIFICATE'', bytes) \<and> e_x509 e bytes = Ok cert \<and>
        BasicConstraintsValid cert \<and> IsCA cert \<and> KeyUsageCertSign cert)"
  by (auto simp: validatePEMData_def bindR_eq_Ok_iff split: option.splits if_splits)

lemma handleUserProvidedCA_Ok:
  assumes "handleUserProvidedCA api e cr ref l d w = (Ok d', w')"
  shows "d' = updateVolumeWithIssuerCA d \<and>
     (\<exists>pem u. validatePEMData e pem = Ok () \<and> createOrUpdateCAConfigMap api cr pem l u = (Ok (), w'))"
  using assms
  by (auto simp: handleUserProvidedCA_def Let_def bindM_eq_Ok_iff seqM_def split: option.splits)

lemma deploymentSpecModified_scheduling:
  "comparable_deployment d \<Longrightarrow>
   deploymentSpecModified d (upd_pod (\<lambda>p. p\<lparr>ps_Affinity := a, ps_Tolerations := t\<rparr>) d) = Ok False"
  by (rule deploymentSpecModified_agree) (simp_all add: containers_def upd_pod_def)

section \<open>Properties\<close>


definition accept_all :: core_validators where
  "accept_all = \<lparr>ValidateNodeSelector = \<lambda>_ _. [], ValidatePreferredSchedulingTerms = \<lambda>_ _. [],
     ValidatePodAffinityTermSelector = \<lambda>_ _ _. [], ValidateNamespaceName = \<lambda>_. [], ValidateLabelName = \<lambda>_ _. [],
     ValidateLabels = \<lambda>_ _. [], ValidateAnnotations = \<lambda>_ _. [], ValidateTolerations = \<lambda>_ _. [],
     ValidateContainerResourceRequirements = \<lambda>_ _. []\<rparr>"

definition demo_ic_env :: ic_env where
  "demo_ic_env = \<lparr>e_decode = \<lambda>_. Err (ErrNew ''no asset''), e_getenv = \<lambda>_. None, e_validators = accept_all,
     e_pem = \<lambda>s. if s = ''pem'' then Some (''CERTIFICATE'', ''der'') else None,
     e_x509 = \<lambda>b. if b = ''der'' then Ok \<lparr>BasicConstraintsValid = True, IsCA = True, KeyUsageCertSign = True\<rparr>
                  else Err (ErrNew ''malformed''),
     e_tls = no_TLSConfig, e_now = \<lambda>_. 0, e_show = \<lambda>_. ''''\<rparr>"

definition demo_ca_istiocsr :: IstioCSR where
  "demo_ca_istiocsr = demo_istiocsr\<lparr>ic_Spec := (ic_Spec demo_istiocsr)\<lparr>IstioCSRConfig :=
     (ic_Config demo_istiocsr)\<lparr>CertManager := (CertManager (ic_Config demo_istiocsr))\<lparr>
        IstioCACertificate := Some \<lparr>cmr_Name = ''ca'', cmr_Namespace = '''', cmr_Key = ''ca.pem''\<rparr>\<rparr>\<rparr>\<rparr>\<rparr>"

definition demo_pod :: PodSpec where
  "demo_pod = \<lparr>ps_Volumes = None, ps_Containers = Some [\<lparr>ct_Name = istiocsrContainerName, ct_Image = ''img'',
       ct_ImagePullPolicy = ''IfNotPresent'', ct_Args = None, ct_Env = None, ct_Ports = None, ct_Resources = zero_Resources,
       ct_VolumeMounts = None,
       ct_ReadinessProbe = Some \<lparr>pr_HTTPGet = Some \<lparr>hg_Path = ''/readyz'', hg_Port = IntVal 6060, hg_rest = ''''\<rparr>,
         pr_InitialDelaySeconds = 3, pr_PeriodSeconds = 7, pr_rest = ''''\<rparr>,
       ct_SecurityContext = Some ''restricted'', ct_rest = ''''\<rparr>],
     ps_ServiceAccountName = istiocsrCommonName, ps_NodeSelector = None, ps_Affinity = None, ps_Tolerations = None,
     ps_rest = ''''\<rparr>"

definition demo_deployment :: Deployment where
  "demo_deployment = \<lparr>dep_Meta = empty_meta\<lparr>om_Name := istiocsrCommonName, om_Namespace := ''istio-csr''\<rparr>,
     dep_Replicas = Some 1,
     dep_Selector = Some \<lparr>ls_MatchLabels = Some [(''app'', istiocsrCommonName)], ls_MatchExpressions = None\<rparr>,
     dep_Template = \<lparr>pt_Labels = None, pt_Annotations = None, pt_Spec = demo_pod\<rparr>, dep_rest = ''''\<rparr>"

definition demo_ca_world :: "store ic_world" where
  "demo_ca_world = \<lparr>w_cluster = put_obj (OConfigMap \<lparr>cmap_Meta = empty_meta\<lparr>om_Name := ''ca'', om_Namespace := ''istio-csr''\<rparr>,
       cmap_Data = Some [(''ca.pem'', ''pem'')], cmap_rest = ''''\<rparr>) empty_store,
     w_events = [], w_cr = demo_ca_istiocsr\<rparr>"

lemma demo_volumes_ok:
  "is_ok (fst (updateVolumes store_api demo_ic_env demo_ca_istiocsr None demo_deployment demo_ca_world))"
  by code_simp


text \<open>
  C27.  Drift in scheduling is not repaired: a live deployment that differs from the desired one only in
  affinity and tolerations passes for unchanged, so a run over it succeeds without writing and a change of
  these fields in the custom resource does not reach an existing deployment.
\<close>

theorem scheduling_drift_not_repaired:
  assumes "comparable_deployment d"
    and "clExists api KDeployment (ObjectKeyFromObject (ODeployment d)) (w_cluster w) =
      (Ok (Some (ODeployment (upd_pod (\<lambda>p. p\<lparr>ps_Affinity := a, ps_Tolerations := t\<rparr>) d))), c)"
  shows "reconcileObject api ''deployment'' (ODeployment d) False w = (Ok (ODeployment d), w\<lparr>w_cluster := c\<rparr>)"
proof (rule reconcileObject_unchanged)
  show "hasObjectChanged (ODeployment d) (ODeployment (upd_pod (\<lambda>p. p\<lparr>ps_Affinity := a, ps_Tolerations := t\<rparr>) d)) = Ok False"
    using deploymentSpecModified_scheduling [OF assms(1)]
    by (simp add: hasObjectChanged_def objectModified_def ObjectMetadataModified_def)
qed (use assms(2) in simp)

definition demo_toleration :: Toleration where
  "demo_toleration = \<lparr>tol_Key = ''infra'', tol_Operator = ''Exists'', tol_Value = '''', tol_Effect = '''',
     tol_TolerationSeconds = None\<rparr>"

definition demo_tolerating :: Deployment where
  "demo_tolerating = upd_pod (\<lambda>p. p\<lparr>ps_Affinity := None, ps_Tolerations := Some [demo_toleration]\<rparr>) demo_deployment"

definition demo_live :: store where
  "demo_live = put_obj (ODeployment demo_deployment) empty_store"

lemma demo_live_found:
  "clExists store_api KDeployment (ObjectKeyFromObject (ODeployment demo_tolerating)) demo_live =
   (Ok (Some (ODeployment (upd_pod (\<lambda>p. p\<lparr>ps_Affinity := None, ps_Tolerations := None\<rparr>) demo_tolerating))), demo_live)"
  by (simp add: clExists_def store_api_def store_Get_def served_def objs_in_def demo_live_def put_obj_def
      empty_store_def eff_defs demo_tolerating_def upd_pod_def demo_deployment_def demo_pod_def
      ObjectKeyFromObject_def empty_meta_def)

theorem scheduling_drift_not_repaired_witness:
  "reconcileObject store_api ''deployment'' (ODeployment demo_tolerating) False \<lparr>w_cluster = demo_live, w_events = []\<rparr> =
   (Ok (ODeployment demo_tolerating), \<lparr>w_cluster = demo_live, w_events = []\<rparr>)"
proof -
  have "comparable_deployment demo_tolerating"
    by (simp add: comparable_deployment_def demo_tolerating_def demo_deployment_def demo_pod_def containers_def upd_pod_def)
  from scheduling_drift_not_repaired [OF this, of store_api "\<lparr>w_cluster = demo_live, w_events = []\<rparr>"] demo_live_found
  show ?thesis by simp
qed

end
