(* ===== verification/IC_Resources.thy ===== *)
theory IC_Resources
  imports IC_Status
begin

text \<open>
  Services, service account, network policies and RBAC objects of the istio-csr operand:
  \<open>services.go\<close>, \<open>serviceaccounts.go\<close>, \<open>networkpolicies.go\<close> and \<open>rbacs.go\<close> of
  \<open>pkg/controller/istiocsr\<close>.
\<close>

text \<open>\<open>common.DecodeObjBytes\<close> of a bundled manifest.\<close>

definition manifest :: "ic_env \<Rightarrow> kind \<Rightarrow> string \<Rightarrow> obj res" where
  "manifest e k asset = DecodeObjBytes k (e_decode e asset)"

definition ignoreM :: "('s, 'a) eff \<Rightarrow> ('s, unit) eff" where
  "ignoreM m = bindM m (\<lambda>_. returnM ())"

section \<open>services.go\<close>

definition grpcServicePortName :: string where "grpcServicePortName = ''web''"
definition serviceAssetName :: string where
  "serviceAssetName = ''istio-csr/cert-manager-istio-csr-service.yaml''"
definition metricsServiceAssetName :: string where
  "metricsServiceAssetName = ''istio-csr/cert-manager-istio-csr-metrics-service.yaml''"

fun updateServicePort :: "int \<Rightarrow> obj \<Rightarrow> obj" where
  "updateServicePort port (OService s) = OService (s\<lparr>svc_Ports := map_option (map (\<lambda>sp.
      if sp_Name sp = grpcServicePortName \<and> port \<noteq> 0 then sp\<lparr>sp_Port := port\<rparr> else sp)) (svc_Ports s)\<rparr>)"
| "updateServicePort port x = x"

definition placed :: "IstioCSR \<Rightarrow> labels \<Rightarrow> obj \<Rightarrow> obj" where
  "placed istiocsr resourceLabels x =
     UpdateResourceLabels resourceLabels (UpdateNamespace (ic_Namespace istiocsr) x)"

definition getServiceObject :: "ic_env \<Rightarrow> IstioCSR \<Rightarrow> labels \<Rightarrow> obj res" where
  "getServiceObject e istiocsr resourceLabels =
     bindR (manifest e KService serviceAssetName) (\<lambda>x.
     let x = placed istiocsr resourceLabels x
     in Ok (case Server (ic_Config istiocsr) of None \<Rightarrow> x | Some s \<Rightarrow> updateServicePort (server_Port s) x))"

definition getMetricsServiceObject :: "ic_env \<Rightarrow> IstioCSR \<Rightarrow> labels \<Rightarrow> obj res" where
  "getMetricsServiceObject e istiocsr resourceLabels =
     bindR (manifest e KService metricsServiceAssetName) (\<lambda>x. Ok (placed istiocsr resourceLabels x))"

definition createOrApplyService :: "'c api \<Rightarrow> obj \<Rightarrow> bool \<Rightarrow> ('c ic_world, obj) eff" where
  "createOrApplyService api svc istioCSRCreateRecon = reconcileObject api ''service'' svc istioCSRCreateRecon"

text \<open>The loop of \<open>updateGRPCEndpointInStatus\<close>: whether it returns early and the endpoint it leaves.\<close>

fun endpointInStatus :: "key \<Rightarrow> ServicePort list \<Rightarrow> string \<Rightarrow> bool \<times> string" where
  "endpointInStatus key [] cur = (False, cur)"
| "endpointInStatus key (sp # sps) cur =
     (if sp_Name sp = grpcServicePortName
      then (let endpoint = istiocsrGRPCEndpoint (snd key) (fst key) (sp_Port sp)
            in if cur = endpoint then (True, cur) else endpointInStatus key sps endpoint)
      else endpointInStatus key sps cur)"

fun service_ports :: "obj \<Rightarrow> ServicePort list" where
  "service_ports (OService s) = elems (svc_Ports s)"
| "service_ports _ = []"

definition updateGRPCEndpointInStatus :: "'c api \<Rightarrow> obj \<Rightarrow> ('c ic_world, unit) eff" where
  "updateGRPCEndpointInStatus api service = bindM getCR (\<lambda>istiocsr.
     case endpointInStatus (ObjectKeyFromObject service) (service_ports service)
            (IstioCSRGRPCEndpoint (ic_Status istiocsr)) of (found, endpoint) \<Rightarrow>
       seqM (modifyCR (\<lambda>cr. cr\<lparr>ic_Status := (ic_Status cr)\<lparr>IstioCSRGRPCEndpoint := endpoint\<rparr>\<rparr>))
         (if found then returnM () else updateStatus api))"

definition createOrApplyServices :: "'c api \<Rightarrow> ic_env \<Rightarrow> labels \<Rightarrow> bool \<Rightarrow> ('c ic_world, unit) eff" where
  "createOrApplyServices api e resourceLabels istioCSRCreateRecon = bindM getCR (\<lambda>istiocsr.
     bindM (liftM (getServiceObject e istiocsr resourceLabels)) (\<lambda>service.
     bindM (createOrApplyService api service istioCSRCreateRecon) (\<lambda>service.
     seqM (onErrM (clientErr (''failed to update '' @ show_cr istiocsr @ '' istiocsr status with '' @
                     om_Name (meta_of service) @ '' service endpoint info''))
             (updateGRPCEndpointInStatus api service))
     (bindM (liftM (getMetricsServiceObject e istiocsr resourceLabels)) (\<lambda>metricsService.
      ignoreM (createOrApplyService api metricsService istioCSRCreateRecon))))))"

section \<open>serviceaccounts.go\<close>

definition serviceAccountAssetName :: string where
  "serviceAccountAssetName = ''istio-csr/cert-manager-istio-csr-serviceaccount.yaml''"

definition getServiceAccountObject :: "ic_env \<Rightarrow> IstioCSR \<Rightarrow> labels \<Rightarrow> obj res" where
  "getServiceAccountObject e istiocsr resourceLabels =
     bindR (manifest e KServiceAccount serviceAccountAssetName) (\<lambda>x. Ok (placed istiocsr resourceLabels x))"

definition updateServiceAccountNameInStatus :: "'c api \<Rightarrow> string \<Rightarrow> ('c ic_world, unit) eff" where
  "updateServiceAccountNameInStatus api name = bindM getCR (\<lambda>istiocsr.
     if ics_ServiceAccount (ic_Status istiocsr) = name then returnM ()
     else seqM (modifyCR (\<lambda>cr. cr\<lparr>ic_Status := (ic_Status cr)\<lparr>ics_ServiceAccount := name\<rparr>\<rparr>)) (updateStatus api))"

definition createOrApplyServiceAccounts :: "'c api \<Rightarrow> ic_env \<Rightarrow> labels \<Rightarrow> bool \<Rightarrow> ('c ic_world, unit) eff" where
  "createOrApplyServiceAccounts api e resourceLabels istioCSRCreateRecon = bindM getCR (\<lambda>istiocsr.
     bindM (liftM (getServiceAccountObject e istiocsr resourceLabels)) (\<lambda>desired.
     let serviceAccountName = show_key (ObjectKeyFromObject desired)
     in bindM (reconcileObject api ''serviceaccount'' desired istioCSRCreateRecon) (\<lambda>desired.
        onErrM (clientErr (''failed to update '' @ show_cr istiocsr @ '' istiocsr status with '' @ serviceAccountName @
                  '' serviceaccount resource name''))
          (updateServiceAccountNameInStatus api (om_Name (meta_of desired))))))"

section \<open>networkpolicies.go\<close>

definition istioCSRNetworkPolicyAssets :: "string list" where
  "istioCSRNetworkPolicyAssets =
     [''networkpolicies/istio-csr-deny-all-networkpolicy.yaml'',
      ''networkpolicies/istio-csr-allow-egress-to-api-server-networkpolicy.yaml'',
      ''networkpolicies/istio-csr-allow-ingress-to-metrics-networkpolicy.yaml'',
      ''networkpolicies/istio-csr-allow-ingress-to-grpc-networkpolicy.yaml'']"

definition getNetworkPolicyFromAsset :: "ic_env \<Rightarrow> string \<Rightarrow> IstioCSR \<Rightarrow> labels \<Rightarrow> obj res" where
  "getNetworkPolicyFromAsset e assetPath istiocsr resourceLabels =
     (let ns = (if ic_Namespace istiocsr = '''' then istio_Namespace (Istio (ic_Config istiocsr))
                else ic_Namespace istiocsr)
      in bindR (wrapR (''failed to decode network policy asset '' @ assetPath @ '': '') (e_decode e assetPath)) (\<lambda>x.
         if kind_of x \<noteq> KNetworkPolicy then Err (ErrNew ''decoded object is not a NetworkPolicy'')
         else Ok (upd_meta (\<lambda>m. m\<lparr>om_Namespace := ns, om_Labels := mcopy (om_Labels m) resourceLabels\<rparr>) x)))"

definition createOrUpdateNetworkPolicy :: "'c api \<Rightarrow> obj \<Rightarrow> bool \<Rightarrow> ('c ic_world, unit) eff" where
  "createOrUpdateNetworkPolicy api policy istioCSRCreateRecon =
     ignoreM (reconcileObject api ''network policy'' policy istioCSRCreateRecon)"

definition createOrApplyNetworkPolicies :: "'c api \<Rightarrow> ic_env \<Rightarrow> labels \<Rightarrow> bool \<Rightarrow> ('c ic_world, unit) eff" where
  "createOrApplyNetworkPolicies api e resourceLabels istioCSRCreateRecon = bindM getCR (\<lambda>istiocsr.
     forM istioCSRNetworkPolicyAssets (\<lambda>assetPath.
       bindM (wrapM (''failed to get network policy from asset '' @ assetPath @ '': '')
                (liftM (getNetworkPolicyFromAsset e assetPath istiocsr resourceLabels))) (\<lambda>x.
       wrapM (''failed to create/update network policy from '' @ assetPath @ '': '')
         (createOrUpdateNetworkPolicy api x istioCSRCreateRecon))))"

section \<open>rbacs.go\<close>

definition clusterRoleAssetName :: string where
  "clusterRoleAssetName = ''istio-csr/cert-manager-istio-csr-clusterrole.yaml''"
definition clusterRoleBindingAssetName :: string where
  "clusterRoleBindingAssetName = ''istio-csr/cert-manager-istio-csr-clusterrolebinding.yaml''"
definition roleAssetName :: string where
  "roleAssetName = ''istio-csr/cert-manager-istio-csr-role.yaml''"
definition roleLeasesAssetName :: string where
  "roleLeasesAssetName = ''istio-csr/cert-manager-istio-csr-leases-role.yaml''"
definition roleBindingAssetName :: string where
  "roleBindingAssetName = ''istio-csr/cert-manager-istio-csr-rolebinding.yaml''"
definition roleBindingLeasesAssetName :: string where
  "roleBindingLeasesAssetName = ''istio-csr/cert-manager-istio-csr-leases-rolebinding.yaml''"

definition roleBindingSubjectKind :: string where "roleBindingSubjectKind = ''ServiceAccount''"

definition updateToUseGenerateName :: "obj \<Rightarrow> obj" where
  "updateToUseGenerateName = upd_meta (\<lambda>m. m\<lparr>om_Name := '''', om_GenerateName := ''cert-manager-istio-csr-''\<rparr>)"

definition useStableRBACNameForRecreate :: "string \<Rightarrow> obj \<Rightarrow> obj" where
  "useStableRBACNameForRecreate statusName x =
     (if statusName = '''' then x else upd_meta (\<lambda>m. m\<lparr>om_Name := statusName, om_GenerateName := ''''\<rparr>) x)"

fun upd_binding :: "(RbacBinding \<Rightarrow> RbacBinding) \<Rightarrow> obj \<Rightarrow> obj" where
  "upd_binding f (OClusterRoleBinding b) = OClusterRoleBinding (f b)"
| "upd_binding f (ORoleBinding b) = ORoleBinding (f b)"
| "upd_binding f x = x"

definition updateServiceAccountNamespaceInRBACBindingObject :: "string \<Rightarrow> string \<Rightarrow> obj \<Rightarrow> obj" where
  "updateServiceAccountNamespaceInRBACBindingObject serviceAccount newNamespace =
     upd_binding (\<lambda>b. b\<lparr>rb_Subjects := map_option (map (\<lambda>s.
       if sub_Kind s = roleBindingSubjectKind \<and> sub_Name s = serviceAccount
       then s\<lparr>sub_Namespace := newNamespace\<rparr> else s)) (rb_Subjects b)\<rparr>)"

definition getClusterRoleObject :: "ic_env \<Rightarrow> string \<Rightarrow> labels \<Rightarrow> obj res" where
  "getClusterRoleObject e istioCSRNamespace resourceLabels =
     bindR (manifest e KClusterRole clusterRoleAssetName) (\<lambda>x.
     Ok (updateResourceLabelsWithIstioMapperLabels istioCSRNamespace resourceLabels (updateToUseGenerateName x)))"

definition getClusterRoleBindingObject :: "ic_env \<Rightarrow> string \<Rightarrow> string \<Rightarrow> string \<Rightarrow> labels \<Rightarrow> obj res" where
  "getClusterRoleBindingObject e clusterRoleName serviceAccount istiocsrNamespace resourceLabels =
     bindR (manifest e KClusterRoleBinding clusterRoleBindingAssetName) (\<lambda>x.
     let x = upd_binding (\<lambda>b. b\<lparr>rb_RoleRef := (rb_RoleRef b)\<lparr>ref_Name := clusterRoleName\<rparr>\<rparr>) x;
         x = updateResourceLabelsWithIstioMapperLabels istiocsrNamespace resourceLabels (updateToUseGenerateName x)
     in Ok (updateServiceAccountNamespaceInRBACBindingObject serviceAccount istiocsrNamespace x))"

definition getNamespacedRole :: "ic_env \<Rightarrow> string \<Rightarrow> string \<Rightarrow> string \<Rightarrow> labels \<Rightarrow> obj res" where
  "getNamespacedRole e asset istiocsrNamespace roleNamespace resourceLabels =
     bindR (manifest e KRole asset) (\<lambda>x.
     Ok (updateResourceLabelsWithIstioMapperLabels istiocsrNamespace resourceLabels (UpdateNamespace roleNamespace x)))"

definition getRoleObject :: "ic_env \<Rightarrow> string \<Rightarrow> string \<Rightarrow> labels \<Rightarrow> obj res" where
  "getRoleObject e = getNamespacedRole e roleAssetName"

definition getRoleForLeasesObject :: "ic_env \<Rightarrow> string \<Rightarrow> string \<Rightarrow> labels \<Rightarrow> obj res" where
  "getRoleForLeasesObject e = getNamespacedRole e roleLeasesAssetName"

definition getNamespacedBinding :: "ic_env \<Rightarrow> string \<Rightarrow> string \<Rightarrow> string \<Rightarrow> string \<Rightarrow> labels \<Rightarrow> obj res" where
  "getNamespacedBinding e asset serviceAccount istiocsrNamespace roleNamespace resourceLabels =
     bindR (manifest e KRoleBinding asset) (\<lambda>x.
     Ok (updateServiceAccountNamespaceInRBACBindingObject serviceAccount istiocsrNamespace
          (updateResourceLabelsWithIstioMapperLabels istiocsrNamespace resourceLabels
            (UpdateNamespace roleNamespace x))))"

definition getRoleBindingObject :: "ic_env \<Rightarrow> string \<Rightarrow> string \<Rightarrow> string \<Rightarrow> labels \<Rightarrow> obj res" where
  "getRoleBindingObject e = getNamespacedBinding e roleBindingAssetName"

definition getRoleBindingForLeasesObject :: "ic_env \<Rightarrow> string \<Rightarrow> string \<Rightarrow> string \<Rightarrow> labels \<Rightarrow> obj res" where
  "getRoleBindingForLeasesObject e = getNamespacedBinding e roleBindingLeasesAssetName"

text \<open>
  Looking for the live cluster-scoped object: by the name in the status, else by its labels.  The result is
  the object and the name used in messages.
\<close>

definition findByStatusOrLabels ::
  "'c api \<Rightarrow> ic_env \<Rightarrow> string \<Rightarrow> obj \<Rightarrow> string \<Rightarrow> ('c ic_world, obj option \<times> string) eff" where
  "findByStatusOrLabels api e what desired statusName = bindM getCR (\<lambda>istiocsr.
     if statusName \<noteq> '''' then
       (let key = (om_Namespace (meta_of desired), statusName); roleName = show_key key
        in bindM (onErrM (clientErr (''failed to check '' @ roleName @ '' '' @ what @ '' resource already exists''))
                   (onCluster (clExists api (kind_of desired) key))) (\<lambda>exist. returnM (exist, roleName)))
     else
       bindM (onErrM (clientErr (''failed to list '' @ what @ '' resources, impacted namespace '' @ ic_Namespace istiocsr))
                (onCluster (clList api (kind_of desired) (om_Labels (meta_of desired))))) (\<lambda>items.
       case items of
         [] \<Rightarrow> returnM (None, '''')
       | [x] \<Rightarrow> returnM (Some x, show_key (ObjectKeyFromObject x))
       | _ \<Rightarrow>
           (let duplicate = ''more than 1 '' @ what @ '' resources exist with matching labels''
            in seqM (Eventf ''Warning'' ''DuplicateResources'' duplicate)
                 (failM (irrecoverable (''matched '' @ what @ '' resources: '' @ e_show e items) (ErrNew duplicate))))))"

definition pinName :: "obj \<Rightarrow> obj \<Rightarrow> obj" where
  "pinName fetched = upd_meta (\<lambda>m. m\<lparr>om_Name := om_Name (meta_of fetched), om_GenerateName := ''''\<rparr>)"

text \<open>Creation under the name the status records, if any; also the name that messages use from here on.\<close>

definition createPinned :: "'c api \<Rightarrow> string \<Rightarrow> string \<Rightarrow> string \<Rightarrow> obj \<Rightarrow> ('c ic_world, obj \<times> string) eff" where
  "createPinned api what statusName roleName desired =
     (let desired = useStableRBACNameForRecreate statusName desired;
          roleName = (if om_Name (meta_of desired) \<noteq> '''' then show_key (ObjectKeyFromObject desired) else roleName)
      in bindM (onErrM (clientErr (''failed to create '' @ roleName @ '' '' @ what @ '' resource''))
                  (onCluster (clCreate api desired))) (\<lambda>desired.
         seqM (Eventf ''Normal'' ''Reconciled'' (what @ '' resource '' @ roleName @ '' created''))
           (returnM (desired, roleName))))"

text \<open>The name recorded in the status: the desired object's, or the live one's when nothing was written.\<close>

definition nameForStatus :: "obj \<Rightarrow> obj option \<Rightarrow> string" where
  "nameForStatus desired existing =
     (if om_Name (meta_of desired) = '''' then (case existing of None \<Rightarrow> '''' | Some x \<Rightarrow> om_Name (meta_of x))
      else om_Name (meta_of desired))"

definition alreadyExistsEvent :: "string \<Rightarrow> string \<Rightarrow> bool \<Rightarrow> ('c ic_world, unit) eff" where
  "alreadyExistsEvent what name createRecon =
     whenM createRecon (Eventf ''Warning'' ''ResourceAlreadyExists''
       (name @ '' '' @ what @ '' resource already exists, maybe from previous installation''))"

definition updatePinned :: "'c api \<Rightarrow> string \<Rightarrow> string \<Rightarrow> obj \<Rightarrow> ('c ic_world, obj) eff" where
  "updatePinned api what roleName desired =
     bindM (onErrM (clientErr (''failed to update '' @ roleName @ '' '' @ what @ '' resource''))
              (onCluster (UpdateWithRetry api desired))) (\<lambda>desired.
     seqM (Eventf ''Normal'' ''Reconciled'' (what @ '' resource '' @ roleName @ '' reconciled back to desired state''))
       (returnM desired))"

definition updateClusterRoleNameInStatus :: "'c api \<Rightarrow> obj \<Rightarrow> obj option \<Rightarrow> ('c ic_world, string) eff" where
  "updateClusterRoleNameInStatus api desired existing =
     (let name = nameForStatus desired existing
      in seqM (modifyCR (\<lambda>cr. cr\<lparr>ic_Status := (ic_Status cr)\<lparr>ics_ClusterRole := name\<rparr>\<rparr>))
           (seqM (updateStatus api) (returnM name)))"

text \<open>The middle of \<open>createOrApplyClusterRoles\<close>: create the object, update it or leave it.\<close>

definition clusterRoleStep :: "'c api \<Rightarrow> bool \<Rightarrow> string \<Rightarrow> string \<Rightarrow> obj \<Rightarrow> obj option \<Rightarrow> ('c ic_world, obj) eff" where
  "clusterRoleStep api createRecon statusName roleName desired existing = (case existing of
      Some fetched \<Rightarrow>
        seqM (alreadyExistsEvent ''clusterrole'' roleName createRecon)
        (bindM (liftM (hasObjectChanged desired fetched)) (\<lambda>changed.
         if changed then updatePinned api ''clusterrole'' roleName (pinName fetched desired)
         else returnM desired))
    | None \<Rightarrow> bindM (createPinned api ''clusterrole'' statusName roleName desired) (\<lambda>(desired, _). returnM desired))"

definition createOrApplyClusterRoles :: "'c api \<Rightarrow> ic_env \<Rightarrow> labels \<Rightarrow> bool \<Rightarrow> ('c ic_world, string) eff" where
  "createOrApplyClusterRoles api e resourceLabels istioCSRCreateRecon = bindM getCR (\<lambda>istiocsr.
     bindM (liftM (getClusterRoleObject e (ic_Namespace istiocsr) resourceLabels)) (\<lambda>desired.
     let statusName = ics_ClusterRole (ic_Status istiocsr)
     in bindM (findByStatusOrLabels api e ''clusterrole'' desired statusName) (\<lambda>(existing, roleName).
        bindM (clusterRoleStep api istioCSRCreateRecon statusName roleName desired existing) (\<lambda>desired.
        onErrM (clientErr (''failed to update '' @ show_cr istiocsr @ '' istiocsr status with '' @
                  nameForStatus desired existing @ '' clusterrole resource name''))
          (updateClusterRoleNameInStatus api desired existing)))))"

definition refModified :: "obj \<Rightarrow> obj \<Rightarrow> bool res" where
  "refModified desired fetched = (case (desired, fetched) of
      (OClusterRoleBinding d, OClusterRoleBinding f) \<Rightarrow> Ok (rbacRoleBindingRefModified d f)
    | (ORoleBinding d, ORoleBinding f) \<Rightarrow> Ok (rbacRoleBindingRefModified d f)
    | _ \<Rightarrow> Panic ''unsupported object type'')"

definition handleClusterRoleBindingModification ::
  "'c api \<Rightarrow> obj \<Rightarrow> obj \<Rightarrow> string \<Rightarrow> ('c ic_world, bool \<times> obj) eff" where
  "handleClusterRoleBindingModification api desired fetched roleBindingName =
     (let desired = pinName fetched desired
      in bindM (liftM (refModified desired fetched)) (\<lambda>changed.
         if changed then
           bindM (attemptM (onCluster (clDelete api fetched))) (\<lambda>r. case r of
             Err err \<Rightarrow> if IsNotFound (Some err) then returnM (True, desired)
                        else failM (clientErr (''failed to delete '' @ roleBindingName @
                               '' clusterrolebinding to replace roleRef'') err)
           | _ \<Rightarrow> returnM (True, desired))
         else bindM (updatePinned api ''clusterrolebinding'' roleBindingName desired) (\<lambda>desired.
                returnM (False, desired))))"

definition updateClusterRoleBindingNameInStatus :: "'c api \<Rightarrow> obj \<Rightarrow> obj option \<Rightarrow> ('c ic_world, unit) eff" where
  "updateClusterRoleBindingNameInStatus api desired existing =
     seqM (modifyCR (\<lambda>cr. cr\<lparr>ic_Status := (ic_Status cr)\<lparr>ics_ClusterRoleBinding := nameForStatus desired existing\<rparr>\<rparr>))
       (updateStatus api)"

definition createOrApplyClusterRoleBindings ::
  "'c api \<Rightarrow> ic_env \<Rightarrow> string \<Rightarrow> string \<Rightarrow> labels \<Rightarrow> bool \<Rightarrow> ('c ic_world, unit) eff" where
  "createOrApplyClusterRoleBindings api e clusterRoleName serviceAccount resourceLabels istioCSRCreateRecon =
     bindM getCR (\<lambda>istiocsr.
     bindM (liftM (getClusterRoleBindingObject e clusterRoleName serviceAccount (ic_Namespace istiocsr) resourceLabels)) (\<lambda>desired.
     let statusName = ics_ClusterRoleBinding (ic_Status istiocsr); what = ''clusterrolebinding''
     in bindM (findByStatusOrLabels api e what desired statusName) (\<lambda>(existing, bindingName).
        bindM (case existing of
            Some fetched \<Rightarrow>
              seqM (alreadyExistsEvent what bindingName istioCSRCreateRecon)
              (bindM (liftM (hasObjectChanged desired fetched)) (\<lambda>changed.
               if changed then
                 bindM (handleClusterRoleBindingModification api desired fetched bindingName) (\<lambda>(recreate, desired).
                 if recreate then createPinned api what statusName bindingName desired
                 else returnM (desired, bindingName))
               else returnM (desired, bindingName)))
          | None \<Rightarrow> createPinned api what statusName bindingName desired) (\<lambda>(desired, bindingName).
        onErrM (clientErr (''failed to update '' @ show_cr istiocsr @ '' istiocsr status with '' @ bindingName @
                  '' clusterrolebinding resource name''))
          (updateClusterRoleBindingNameInStatus api desired existing)))))"

definition createOrApplyRoles :: "'c api \<Rightarrow> ic_env \<Rightarrow> labels \<Rightarrow> bool \<Rightarrow> ('c ic_world, unit) eff" where
  "createOrApplyRoles api e resourceLabels istioCSRCreateRecon = bindM getCR (\<lambda>istiocsr.
     bindM (liftM (getRoleObject e (ic_Namespace istiocsr) (istio_Namespace (Istio (ic_Config istiocsr))) resourceLabels)) (\<lambda>desired.
     ignoreM (reconcileObject api ''role'' desired istioCSRCreateRecon)))"

definition createOrApplyRoleBindings ::
  "'c api \<Rightarrow> ic_env \<Rightarrow> string \<Rightarrow> labels \<Rightarrow> bool \<Rightarrow> ('c ic_world, unit) eff" where
  "createOrApplyRoleBindings api e serviceAccount resourceLabels istioCSRCreateRecon = bindM getCR (\<lambda>istiocsr.
     bindM (liftM (getRoleBindingObject e serviceAccount (ic_Namespace istiocsr)
                     (istio_Namespace (Istio (ic_Config istiocsr))) resourceLabels)) (\<lambda>desired.
     ignoreM (reconcileObject api ''rolebinding'' desired istioCSRCreateRecon)))"

definition createOrApplyRoleForLeases :: "'c api \<Rightarrow> ic_env \<Rightarrow> labels \<Rightarrow> bool \<Rightarrow> ('c ic_world, unit) eff" where
  "createOrApplyRoleForLeases api e resourceLabels istioCSRCreateRecon = bindM getCR (\<lambda>istiocsr.
     bindM (liftM (getRoleForLeasesObject e (ic_Namespace istiocsr) (istio_Namespace (Istio (ic_Config istiocsr)))
                     resourceLabels)) (\<lambda>desired.
     ignoreM (reconcileObject api ''role'' desired istioCSRCreateRecon)))"

definition createOrApplyRoleBindingForLeases ::
  "'c api \<Rightarrow> ic_env \<Rightarrow> string \<Rightarrow> labels \<Rightarrow> bool \<Rightarrow> ('c ic_world, unit) eff" where
  "createOrApplyRoleBindingForLeases api e serviceAccount resourceLabels istioCSRCreateRecon = bindM getCR (\<lambda>istiocsr.
     bindM (liftM (getRoleBindingForLeasesObject e serviceAccount (ic_Namespace istiocsr)
                     (istio_Namespace (Istio (ic_Config istiocsr))) resourceLabels)) (\<lambda>desired.
     ignoreM (reconcileObject api ''rolebinding'' desired istioCSRCreateRecon)))"

definition createOrApplyRBACResource :: "'c api \<Rightarrow> ic_env \<Rightarrow> labels \<Rightarrow> bool \<Rightarrow> ('c ic_world, unit) eff" where
  "createOrApplyRBACResource api e resourceLabels istioCSRCreateRecon =
     bindM (liftM (manifest e KServiceAccount serviceAccountAssetName)) (\<lambda>sa.
     let serviceAccount = om_Name (meta_of sa)
     in bindM (createOrApplyClusterRoles api e resourceLabels istioCSRCreateRecon) (\<lambda>clusterRoleName.
        seqM (createOrApplyClusterRoleBindings api e clusterRoleName serviceAccount resourceLabels istioCSRCreateRecon)
       (seqM (createOrApplyRoles api e resourceLabels istioCSRCreateRecon)
       (seqM (createOrApplyRoleBindings api e serviceAccount resourceLabels istioCSRCreateRecon)
       (seqM (createOrApplyRoleForLeases api e resourceLabels istioCSRCreateRecon)
             (createOrApplyRoleBindingForLeases api e serviceAccount resourceLabels istioCSRCreateRecon))))))"

section \<open>Lemmas\<close>

lemma pinName_same: "same_content (pinName f x) y \<longleftrightarrow> same_content x y"
  by (cases x) (simp_all add: same_content_def pinName_def comp_def plain_meta_def)

lemma stable_same: "same_content (useStableRBACNameForRecreate n x) y \<longleftrightarrow> same_content x y"
  by (cases x) (simp_all add: same_content_def useStableRBACNameForRecreate_def comp_def plain_meta_def)

lemma cluster_rbac_comparable:
  "kind_of x = KClusterRole \<or> kind_of x = KClusterRoleBinding \<Longrightarrow> comparable x"
  by (cases x) auto

lemma getClusterRoleObject_shape:
  "getClusterRoleObject e ns l = Ok x \<Longrightarrow> kind_of x = KClusterRole \<and> om_Name (meta_of x) = ''''"
  by (auto simp: getClusterRoleObject_def bindR_eq_Ok_iff manifest_def DecodeObjBytes_eq_Ok_iff
      updateResourceLabelsWithIstioMapperLabels_def updateToUseGenerateName_def UpdateResourceLabels_def)

lemma pinned_key:
  "ObjectKeyFromObject f = (om_Namespace (meta_of x), n) \<Longrightarrow>
   ObjectKeyFromObject (pinName f x) = (om_Namespace (meta_of x), n) \<and> kind_of (pinName f x) = kind_of x \<and>
   om_DeletionTimestamp (meta_of (pinName f x)) = om_DeletionTimestamp (meta_of x)"
  by (simp add: ObjectKeyFromObject_def pinName_def)

lemma stable_key:
  "n \<noteq> '''' \<Longrightarrow> ObjectKeyFromObject (useStableRBACNameForRecreate n x) = (om_Namespace (meta_of x), n) \<and>
   kind_of (useStableRBACNameForRecreate n x) = kind_of x \<and> om_Name (meta_of (useStableRBACNameForRecreate n x)) = n"
  by (simp add: ObjectKeyFromObject_def useStableRBACNameForRecreate_def)

lemma createPinned_Ok:
  "createPinned api what n rn x w = (Ok (d, m), w1) \<Longrightarrow>
   api_Create api (useStableRBACNameForRecreate n x) (w_cluster w) = (Ok d, w_cluster w1)"
  by (auto simp: createPinned_def Let_def bindM_eq_Ok_iff onCluster_eq_iff clCreate_def seqM_def Eventf_def)

lemma updatePinned_Ok:
  "updatePinned api what rn x w = (Ok d, w1) \<Longrightarrow> UpdateWithRetry api x (w_cluster w) = (Ok d, w_cluster w1)"
  by (auto simp: updatePinned_def Let_def bindM_eq_Ok_iff onCluster_eq_iff seqM_def Eventf_def)

lemma alreadyExistsEvent_Ok: "alreadyExistsEvent what n b w = (Ok u, w1) \<Longrightarrow> w_cluster w1 = w_cluster w"
  by (auto simp: alreadyExistsEvent_def whenM_def Eventf_def split: if_splits)

lemma clusterRoleStep_None:
  "clusterRoleStep api b n rn x None w = (Ok d, w1) \<Longrightarrow>
   api_Create api (useStableRBACNameForRecreate n x) (w_cluster w) = (Ok d, w_cluster w1)"
  by (auto simp: clusterRoleStep_def bindM_eq_Ok_iff dest: createPinned_Ok)

lemma clusterRoleStep_Some:
  "clusterRoleStep api b n rn x (Some f) w = (Ok d, w1) \<Longrightarrow>
   (hasObjectChanged x f = Ok False \<and> d = x \<and> w_cluster w1 = w_cluster w) \<or>
   UpdateWithRetry api (pinName f x) (w_cluster w) = (Ok d, w_cluster w1)"
  by (auto simp: clusterRoleStep_def bindM_eq_Ok_iff seqM_def split: if_splits
      dest!: alreadyExistsEvent_Ok updatePinned_Ok)

lemma createOrApplyClusterRoles_Ok:
  assumes "createOrApplyClusterRoles api e l cre w = (Ok r, w')"
    and "getClusterRoleObject e (ic_Namespace (w_cr w)) l = Ok x"
    and "ics_ClusterRole (ic_Status (w_cr w)) = n" "n \<noteq> ''''"
  shows "\<exists>found c d rn w1. clExists api (kind_of x) (om_Namespace (meta_of x), n) (w_cluster w) = (Ok found, c) \<and>
     clusterRoleStep api cre n rn x found (w\<lparr>w_cluster := c\<rparr>) = (Ok d, w1) \<and>
     updateClusterRoleNameInStatus api d found w1 = (Ok r, w')"
proof -
  from assms(1,2,3) obtain found rn w0 d w1 where
    find: "findByStatusOrLabels api e ''clusterrole'' x n w = (Ok (found, rn), w0)"
    and step: "clusterRoleStep api cre n rn x found w0 = (Ok d, w1)"
    and st: "updateClusterRoleNameInStatus api d found w1 = (Ok r, w')"
    by (auto simp: createOrApplyClusterRoles_def Let_def bindM_eq_Ok_iff)
  from find assms(4) obtain c where
    "clExists api (kind_of x) (om_Namespace (meta_of x), n) (w_cluster w) = (Ok found, c)" "w0 = w\<lparr>w_cluster := c\<rparr>"
    by (auto simp: findByStatusOrLabels_def Let_def bindM_eq_Ok_iff onCluster_eq_iff)
  with step st show ?thesis by blast
qed

context api_server
begin

lemma clusterRoleStep_establishes:
  assumes "clusterRoleStep api b n rn x found w = (Ok d, w1)"
    and "found = stored (w_cluster w) (kind_of x) (om_Namespace (meta_of x), n)"
    and "n \<noteq> ''''" "om_Name (meta_of x) = ''''" "comparable x" "om_DeletionTimestamp (meta_of x) = None"
  shows "nameForStatus d found = n \<and>
     (\<exists>z. stored (w_cluster w1) (kind_of x) (om_Namespace (meta_of x), n) = Some z \<and> hasObjectChanged x z = Ok False)"
proof (cases found)
  case None
  with clusterRoleStep_None assms(1) have cr:
    "api_Create api (useStableRBACNameForRecreate n x) (w_cluster w) = (Ok d, w_cluster w1)" by blast
  from create_Ok [OF cr] stable_key [OF assms(3), of x] assms(3,5) show ?thesis
    by (auto simp: stable_same hasObjectChanged_same nameForStatus_def ObjectKeyFromObject_def)
next
  case (Some f)
  have f: "ObjectKeyFromObject f = (om_Namespace (meta_of x), n)"
    using stored_kind Some assms(2) by metis
  consider "hasObjectChanged x f = Ok False" "d = x" "w_cluster w1 = w_cluster w"
    | "UpdateWithRetry api (pinName f x) (w_cluster w) = (Ok d, w_cluster w1)"
    using clusterRoleStep_Some [OF assms(1) [unfolded Some]] by blast
  then show ?thesis
  proof cases
    case 1
    with Some assms(2,4) f show ?thesis by (auto simp: nameForStatus_def ObjectKeyFromObject_def)
  next
    case 2
    have cmp: "comparable (pinName f x)" using assms(5) by (cases x) (simp_all add: pinName_def comparable_deployment_def containers_def)
    from UpdateWithRetry_Ok [OF 2] pinned_key [OF f] assms(6) cmp have
      "same_content x d" "ObjectKeyFromObject d = (om_Namespace (meta_of x), n)"
      "stored (w_cluster w1) (kind_of x) (om_Namespace (meta_of x), n) = Some d"
      by (auto simp: comparable_keep_status pinName_same)
    with assms(3,5) show ?thesis by (auto simp: hasObjectChanged_same nameForStatus_def ObjectKeyFromObject_def)
  qed
qed

end

section \<open>Properties\<close>

text \<open>
  C28.  The cluster role keeps its name: once the status records one, a successful run leaves a cluster
  role of exactly that name with the manifest's rules and labels in the cluster, whether it was untouched,
  edited or deleted in between, and the status still records the name.
\<close>

theorem clusterRole_name_stable:
  assumes "api_server api stored"
    and "createOrApplyClusterRoles api e l createRecon w = (Ok r, w')"
    and "getClusterRoleObject e (ic_Namespace (w_cr w)) l = Ok x" and "om_DeletionTimestamp (meta_of x) = None"
    and "ics_ClusterRole (ic_Status (w_cr w)) = n" and "n \<noteq> ''''"
  shows "r = n \<and> ics_ClusterRole (ic_Status (w_cr w')) = n \<and>
     (\<exists>z. stored (w_cluster w') KClusterRole (om_Namespace (meta_of x), n) = Some z \<and> hasObjectChanged x z = Ok False)"
proof -
  have x: "kind_of x = KClusterRole" "om_Name (meta_of x) = ''''" "comparable x"
    using getClusterRoleObject_shape [OF assms(3)] cluster_rbac_comparable by auto
  from createOrApplyClusterRoles_Ok [OF assms(2,3,5,6)] obtain found c d rn w1 where
    ex: "clExists api (kind_of x) (om_Namespace (meta_of x), n) (w_cluster w) = (Ok found, c)"
    and step: "clusterRoleStep api createRecon n rn x found (w\<lparr>w_cluster := c\<rparr>) = (Ok d, w1)"
    and st: "updateClusterRoleNameInStatus api d found w1 = (Ok r, w')" by blast
  have "found = stored (w_cluster (w\<lparr>w_cluster := c\<rparr>)) (kind_of x) (om_Namespace (meta_of x), n)"
    using api_server.exists_cases [OF assms(1) ex] by simp
  from api_server.clusterRoleStep_establishes [OF assms(1) step this assms(6) x(2,3) assms(4)] obtain z where
    z: "nameForStatus d found = n" "stored (w_cluster w1) KClusterRole (om_Namespace (meta_of x), n) = Some z"
      "hasObjectChanged x z = Ok False" by (auto simp: x(1))
  define w2 where "w2 = w1\<lparr>w_cr := (w_cr w1)\<lparr>ic_Status := (ic_Status (w_cr w1))\<lparr>ics_ClusterRole := n\<rparr>\<rparr>\<rparr>"
  from st z(1) have up: "updateStatus api w2 = (Ok (), w')" "r = n"
    by (auto simp: updateClusterRoleNameInStatus_def Let_def seqM_def bindM_eq_Ok_iff w2_def)
  have "stored (w_cluster w') KClusterRole = stored (w_cluster w2) KClusterRole"
    using api_server.updateStatus_other [OF assms(1), of KClusterRole w2] up(1) by simp
  moreover have "w_cr w' = w_cr w2" using updateStatus_cr [of api w2] up(1) by simp
  ultimately show ?thesis using z up(2) by (simp add: w2_def)
qed

definition demo_named :: "string \<Rightarrow> ObjectMeta" where
  "demo_named n = empty_meta\<lparr>om_Name := n\<rparr>"

definition demo_role :: RbacRole where
  "demo_role = \<lparr>role_Meta = demo_named ''cert-manager-istio-csr'', 
     role_Rules = Some [\<lparr>rule_Verbs = Some [''get''], rule_APIGroups = Some [''''], rule_Resources = Some [''configmaps''],
       rule_ResourceNames = None, rule_NonResourceURLs = None\<rparr>], role_rest = ''''\<rparr>"

definition demo_role_env :: ic_env where
  "demo_role_env = \<lparr>e_decode = \<lambda>_. Ok (OClusterRole demo_role), e_getenv = \<lambda>_. None,
     e_validators = \<lparr>ValidateNodeSelector = \<lambda>_ _. [], ValidatePreferredSchedulingTerms = \<lambda>_ _. [],
       ValidatePodAffinityTermSelector = \<lambda>_ _ _. [], ValidateNamespaceName = \<lambda>_. [], ValidateLabelName = \<lambda>_ _. [],
       ValidateLabels = \<lambda>_ _. [], ValidateAnnotations = \<lambda>_ _. [], ValidateTolerations = \<lambda>_ _. [],
       ValidateContainerResourceRequirements = \<lambda>_ _. []\<rparr>,
     e_pem = \<lambda>_. None, e_x509 = \<lambda>_. Err (ErrNew ''malformed''), e_tls = no_TLSConfig, e_now = \<lambda>_. 0, e_show = \<lambda>_. ''''\<rparr>"

text \<open>The role of the recorded name was deleted by someone.\<close>

definition demo_role_world :: "store ic_world" where
  "demo_role_world =
     (let cr = demo_istiocsr\<lparr>ic_Status := zero_IstioCSRStatus\<lparr>ics_ClusterRole := ''cert-manager-istio-csr-x7''\<rparr>\<rparr>
      in \<lparr>w_cluster = put_obj (OIstioCSR cr) empty_store, w_events = [], w_cr = cr\<rparr>)"

definition demo_role_desired :: obj where
  "demo_role_desired = updateResourceLabelsWithIstioMapperLabels ''istio-csr'' None (updateToUseGenerateName (OClusterRole demo_role))"

lemma demo_role_ok: "is_ok (fst (createOrApplyClusterRoles store_api demo_role_env None False demo_role_world))"
  by code_simp

theorem clusterRole_name_stable_witness:
  "\<exists>w' z. createOrApplyClusterRoles store_api demo_role_env None False demo_role_world =
       (Ok ''cert-manager-istio-csr-x7'', w') \<and>
     objs_in (w_cluster w') KClusterRole ('''', ''cert-manager-istio-csr-x7'') = Some z \<and>
     hasObjectChanged demo_role_desired z = Ok False"
proof -
  obtain r w' where run: "createOrApplyClusterRoles store_api demo_role_env None False demo_role_world = (Ok r, w')"
    using demo_role_ok by (metis fst_conv is_ok_iff surj_pair)
  have obj: "getClusterRoleObject demo_role_env (ic_Namespace (w_cr demo_role_world)) None = Ok demo_role_desired"
    by (simp add: getClusterRoleObject_def manifest_def DecodeObjBytes_def demo_role_env_def demo_role_desired_def
        demo_role_world_def Let_def demo_istiocsr_def ic_Namespace_def)
  have meta: "om_DeletionTimestamp (meta_of demo_role_desired) = None" "om_Namespace (meta_of demo_role_desired) = ''''"
    by (simp_all add: demo_role_desired_def updateResourceLabelsWithIstioMapperLabels_def updateToUseGenerateName_def
        UpdateResourceLabels_def demo_role_def demo_named_def empty_meta_def)
  have "ics_ClusterRole (ic_Status (w_cr demo_role_world)) = ''cert-manager-istio-csr-x7''"
    by (simp add: demo_role_world_def Let_def)
  from clusterRole_name_stable [OF mem.api_server_axioms run obj meta(1) this] run meta(2) show ?thesis by auto
qed

end
