(* ===== verification/IC_Frames.thy ===== *)
theory IC_Frames
  imports IC_Deployment IC_Resources
begin

text \<open>
  What each installation step leaves alone: an operation on one kind of object does not change the objects
  of another kind, whatever its result.  The lemmas hold for every server with the laws of
  \<open>api_server\<close> and let a later step be skipped over when a property of an earlier one is proved.
\<close>

lemma givesM_onCluster: "givesM I Q m \<Longrightarrow> givesM (\<lambda>w. I (w_cluster w)) Q (onCluster m)"
  by (auto simp: givesM_def onCluster_def split: prod.splits)

lemma keepsM_Eventf [keeps_intro]: "keepsM (\<lambda>w. I (w_cluster w)) (Eventf t r m)"
  by (simp add: keepsM_def Eventf_def)

lemma keepsM_modifyCR [keeps_intro]: "keepsM (\<lambda>w. I (w_cluster w)) (modifyCR f)"
  by (simp add: keepsM_def modifyCR_def)

lemma keepsM_case_option [keeps_intro]:
  "keepsM I m \<Longrightarrow> (\<And>x. keepsM I (f x)) \<Longrightarrow> keepsM I (case v of None \<Rightarrow> m | Some x \<Rightarrow> f x)"
  by (cases v) simp_all

lemma keepsM_case_res [keeps_intro]:
  "(\<And>a. keepsM I (f a)) \<Longrightarrow> (\<And>a. keepsM I (g a)) \<Longrightarrow> (\<And>a. keepsM I (h a)) \<Longrightarrow>
   keepsM I (case r of Ok a \<Rightarrow> f a | Err a \<Rightarrow> g a | Panic a \<Rightarrow> h a)"
  by (cases r) simp_all

lemma keepsM_case_prod [keeps_intro]: "(\<And>x y. keepsM I (f x y)) \<Longrightarrow> keepsM I (case v of (x, y) \<Rightarrow> f x y)"
  by (cases v) simp

lemma keepsM_if [keeps_intro]:
  "(b \<Longrightarrow> keepsM I m) \<Longrightarrow> (\<not> b \<Longrightarrow> keepsM I n) \<Longrightarrow> keepsM I (if b then m else n)"
  by simp

lemma keepsM_bind_pair:
  "givesM I (\<lambda>(x, y). Q x y) m \<Longrightarrow> (\<And>x y. Q x y \<Longrightarrow> keepsM I (f x y)) \<Longrightarrow>
   keepsM I (bindM m (\<lambda>(x, y). f x y))"
  by (erule keepsM_bind_gives) auto

lemma keepsM_bind_lift: "(\<And>a. r = Ok a \<Longrightarrow> keepsM I (f a)) \<Longrightarrow> keepsM I (bindM (liftM r) f)"
  by (rule keepsM_bind_gives [OF givesM_lift]) auto

lemma keepsM_bind_wrapped:
  "(\<And>a. r = Ok a \<Longrightarrow> keepsM I (f a)) \<Longrightarrow> keepsM I (bindM (wrapM p (liftM r)) f)"
  by (rule keepsM_bind_gives [OF givesM_wrap [OF givesM_lift]]) auto

lemma keepsM_ignore [keeps_intro]: "keepsM I m \<Longrightarrow> keepsM I (ignoreM m)"
  unfolding ignoreM_def by (intro keeps_intro)

context api_server
begin

subsection \<open>Client calls\<close>

lemma get_gives: "givesM (\<lambda>s. stored s k = f) (\<lambda>x. kind_of x = k') (clGet api k' key)"
proof -
  have "givesM (\<lambda>s. stored s k = f) (\<lambda>x. kind_of x = k') (api_Get api k' key)"
    unfolding givesM_def
  proof (intro allI impI conjI)
    fix s x assume "stored s k = f" "fst (api_Get api k' key s) = Ok x"
    then show "kind_of x = k'" by (cases "api_Get api k' key s") (auto dest!: get_Ok stored_kind)
  qed (simp add: get_keeps)
  then show ?thesis unfolding clGet_def by (rule givesM_wrap)
qed

lemma exists_frame: "keepsM (\<lambda>s. stored s k = f) (clExists api k' key)"
proof -
  have "stored (snd (clExists api k' key s)) = stored s" for s
    using exists_cases [of k' key s] by (cases "clExists api k' key s") auto
  then show ?thesis by (simp add: keepsM_def)
qed

lemma exists_gives:
  "givesM (\<lambda>s. stored s k = f) (\<lambda>r. \<forall>x. r = Some x \<longrightarrow> kind_of x = k') (clExists api k' key)"
proof -
  have "kind_of x = k'" if found: "fst (clExists api k' key s) = Ok (Some x)" for s x
  proof -
    obtain s' where "clExists api k' key s = (Ok (Some x), s')" using found by (cases "clExists api k' key s") auto
    from exists_cases [OF this] show ?thesis by (auto dest: stored_kind)
  qed
  with exists_frame show ?thesis by (auto simp: givesM_def keepsM_def)
qed

lemma list_frame: "keepsM (\<lambda>s. stored s k = f) (clList api k' sel)"
  unfolding clList_def by (intro keeps_intro) (simp add: keepsM_def list_keeps)

lemma create_frame: "k \<noteq> kind_of x \<Longrightarrow> keepsM (\<lambda>s. stored s k = f) (clCreate api x)"
  unfolding clCreate_def by (intro keeps_intro) (simp add: keepsM_def create_other)

lemma delete_frame: "k \<noteq> kind_of x \<Longrightarrow> keepsM (\<lambda>s. stored s k = f) (clDelete api x)"
  unfolding clDelete_def by (intro keeps_intro) (simp add: keepsM_def delete_other)

lemma update_frame: "k \<noteq> kind_of x \<Longrightarrow> keepsM (\<lambda>s. stored s k = f) (UpdateWithRetry api x)"
  unfolding UpdateWithRetry_def updateOnce_def Let_def
  by (intro keeps_intro) (simp_all add: keepsM_def get_keeps update_other set_rv_def)

lemmas client_frames = keepsM_onCluster [OF exists_frame] keepsM_onCluster [OF list_frame]
  keepsM_onCluster [OF create_frame] keepsM_onCluster [OF delete_frame] keepsM_onCluster [OF update_frame]
  keepsM_onCluster [OF givesM_keeps [OF get_gives]]

text \<open>An invariant on the objects of a kind, as a predicate on the cluster.\<close>

lemmas frame_Eventf = keepsM_Eventf [of "\<lambda>s. stored s k = f" for k f]
lemmas frame_modifyCR = keepsM_modifyCR [of "\<lambda>s. stored s k = f" for k f]
lemmas frame_intros = keepsM_bind_lift keepsM_bind_wrapped keeps_intro client_frames frame_Eventf frame_modifyCR updateStatus_keeps

subsection \<open>Operations\<close>

lemma reconcileObject_frame:
  "k \<noteq> kind_of x \<Longrightarrow> keepsM (\<lambda>w. stored (w_cluster w) k = f) (reconcileObject api what x b)"
  unfolding reconcileObject_def Let_def by (intro frame_intros) simp_all

lemma updateCR_frame: "k \<noteq> KIstioCSR \<Longrightarrow> keepsM (\<lambda>w. stored (w_cluster w) k = f) (updateCR api)"
  unfolding updateCR_def by (intro frame_intros) simp_all

lemma manifest_kind: "manifest e k' a = Ok x \<Longrightarrow> kind_of x = k'"
  by (simp add: manifest_def DecodeObjBytes_eq_Ok_iff)

lemma kind_of_updateServicePort [simp]: "kind_of (updateServicePort p y) = kind_of y"
  by (cases y) simp_all

lemma kind_of_placed [simp]: "kind_of (placed cr l y) = kind_of y"
  by (simp add: placed_def UpdateResourceLabels_def UpdateNamespace_def)

lemma services_kind:
  "getServiceObject e cr l = Ok x \<Longrightarrow> kind_of x = KService"
  "getMetricsServiceObject e cr l = Ok y \<Longrightarrow> kind_of y = KService"
  by (auto simp: getServiceObject_def getMetricsServiceObject_def bindR_eq_Ok_iff Let_def
        dest!: manifest_kind split: option.splits)

lemma services_frame:
  "k \<noteq> KService \<Longrightarrow> k \<noteq> KIstioCSR \<Longrightarrow>
   keepsM (\<lambda>w. stored (w_cluster w) k = f) (createOrApplyServices api e l b)"
  unfolding createOrApplyServices_def createOrApplyService_def updateGRPCEndpointInStatus_def
  by (intro frame_intros reconcileObject_frame) (auto dest: services_kind)

lemma serviceAccounts_frame:
  "k \<noteq> KServiceAccount \<Longrightarrow> k \<noteq> KIstioCSR \<Longrightarrow>
   keepsM (\<lambda>w. stored (w_cluster w) k = f) (createOrApplyServiceAccounts api e l b)"
  unfolding createOrApplyServiceAccounts_def updateServiceAccountNameInStatus_def Let_def
  by (intro frame_intros reconcileObject_frame)
     (auto simp: getServiceAccountObject_def bindR_eq_Ok_iff dest!: manifest_kind)

lemma networkPolicies_frame:
  "k \<noteq> KNetworkPolicy \<Longrightarrow>
   keepsM (\<lambda>w. stored (w_cluster w) k = f) (createOrApplyNetworkPolicies api e l b)"
  unfolding createOrApplyNetworkPolicies_def createOrUpdateNetworkPolicy_def
  by (intro frame_intros reconcileObject_frame)
     (auto simp: getNetworkPolicyFromAsset_def bindR_eq_Ok_iff Let_def split: if_splits)

lemma certificates_frame:
  "k \<noteq> KCertificate \<Longrightarrow> keepsM (\<lambda>w. stored (w_cluster w) k = f) (createOrApplyCertificates api e l b)"
  unfolding createOrApplyCertificates_def
  by (intro frame_intros reconcileObject_frame) (auto)

lemma kind_of_mapper [simp]: "kind_of (updateResourceLabelsWithIstioMapperLabels ns l y) = kind_of y"
  by (simp add: updateResourceLabelsWithIstioMapperLabels_def UpdateResourceLabels_def)

lemma kind_of_upd_binding [simp]: "kind_of (upd_binding g y) = kind_of y"
  by (cases y) simp_all

lemma rbac_kinds:
  "getClusterRoleObject e ns l = Ok x1 \<Longrightarrow> kind_of x1 = KClusterRole"
  "getClusterRoleBindingObject e n sa ns l = Ok x2 \<Longrightarrow> kind_of x2 = KClusterRoleBinding"
  "getNamespacedRole e a ns rn l = Ok x3 \<Longrightarrow> kind_of x3 = KRole"
  "getNamespacedBinding e a sa ns rn l = Ok x4 \<Longrightarrow> kind_of x4 = KRoleBinding"
  by (auto simp: getClusterRoleObject_def getClusterRoleBindingObject_def getNamespacedRole_def
      getNamespacedBinding_def bindR_eq_Ok_iff Let_def updateToUseGenerateName_def UpdateNamespace_def
      updateServiceAccountNamespaceInRBACBindingObject_def dest!: manifest_kind)

lemma kind_of_pinned [simp]: "kind_of (pinName x y) = kind_of y" "kind_of (useStableRBACNameForRecreate n y) = kind_of y"
  by (simp_all add: pinName_def useStableRBACNameForRecreate_def)

lemma pinned_frames:
  "k \<noteq> kind_of x \<Longrightarrow> keepsM (\<lambda>w. stored (w_cluster w) k = f) (createPinned api what n rn x)"
  "k \<noteq> kind_of x \<Longrightarrow> keepsM (\<lambda>w. stored (w_cluster w) k = f) (updatePinned api what rn x)"
  "keepsM (\<lambda>w. stored (w_cluster w) k = f) (alreadyExistsEvent what n b)"
  "keepsM (\<lambda>w. stored (w_cluster w) k = f) (findByStatusOrLabels api e what x n)"
  unfolding createPinned_def updatePinned_def alreadyExistsEvent_def findByStatusOrLabels_def Let_def
  by (intro frame_intros; simp split: list.split; intro frame_intros conjI allI impI; simp)+

lemma clusterRoles_frame:
  "k \<notin> {KClusterRole, KIstioCSR} \<Longrightarrow>
   keepsM (\<lambda>w. stored (w_cluster w) k = f) (createOrApplyClusterRoles api e l b)"
  unfolding createOrApplyClusterRoles_def clusterRoleStep_def updateClusterRoleNameInStatus_def Let_def
  by (intro frame_intros pinned_frames) (auto dest: rbac_kinds)

lemma roles_frames:
  "k \<noteq> KRole \<Longrightarrow> keepsM (\<lambda>w. stored (w_cluster w) k = f) (createOrApplyRoles api e l b)"
  "k \<noteq> KRole \<Longrightarrow> keepsM (\<lambda>w. stored (w_cluster w) k = f) (createOrApplyRoleForLeases api e l b)"
  "k \<noteq> KRoleBinding \<Longrightarrow> keepsM (\<lambda>w. stored (w_cluster w) k = f) (createOrApplyRoleBindings api e sa l b)"
  "k \<noteq> KRoleBinding \<Longrightarrow> keepsM (\<lambda>w. stored (w_cluster w) k = f) (createOrApplyRoleBindingForLeases api e sa l b)"
  unfolding createOrApplyRoles_def createOrApplyRoleForLeases_def createOrApplyRoleBindings_def
    createOrApplyRoleBindingForLeases_def getRoleObject_def getRoleForLeasesObject_def getRoleBindingObject_def
    getRoleBindingForLeasesObject_def
  by (intro frame_intros reconcileObject_frame; auto dest: rbac_kinds)+

lemma refModified_kind: "refModified d g = Ok c \<Longrightarrow> kind_of g = kind_of d"
  by (cases d; cases g) (simp_all add: refModified_def)

lemma bindingModification_frame:
  "k \<noteq> kind_of x \<Longrightarrow>
   keepsM (\<lambda>w. stored (w_cluster w) k = f) (handleClusterRoleBindingModification api x y n)"
  unfolding handleClusterRoleBindingModification_def Let_def
  by (intro frame_intros pinned_frames) (auto dest: refModified_kind)

lemma gives_pinned:
  "k \<noteq> kind_of x \<Longrightarrow> givesM (\<lambda>w. stored (w_cluster w) k = f) (\<lambda>(b, d). b \<longrightarrow> kind_of d = kind_of x)
     (handleClusterRoleBindingModification api x y n)"
proof -
  assume k: "k \<noteq> kind_of x"
  have "kind_of d = kind_of x" if run: "handleClusterRoleBindingModification api x y n w = (Ok (True, d), w')" for d w w'
    using run
    by (auto simp: handleClusterRoleBindingModification_def Let_def bindM_eq_Ok_iff split: if_splits)
       (auto split: res.splits if_splits)
  with bindingModification_frame [OF k] show ?thesis
    by (auto simp: givesM_def keepsM_def) (metis prod.collapse)
qed

lemma clusterRoleBindings_frame:
  "k \<notin> {KClusterRoleBinding, KIstioCSR} \<Longrightarrow>
   keepsM (\<lambda>w. stored (w_cluster w) k = f) (createOrApplyClusterRoleBindings api e n sa l b)"
  unfolding createOrApplyClusterRoleBindings_def updateClusterRoleBindingNameInStatus_def Let_def
  by (intro keepsM_bind_pair [OF gives_pinned] frame_intros pinned_frames) (auto dest: rbac_kinds)

lemma rbac_frame:
  "k \<notin> {KClusterRole, KClusterRoleBinding, KRole, KRoleBinding, KIstioCSR} \<Longrightarrow>
   keepsM (\<lambda>w. stored (w_cluster w) k = f) (createOrApplyRBACResource api e l b)"
  unfolding createOrApplyRBACResource_def Let_def
  by (intro frame_intros clusterRoles_frame clusterRoleBindings_frame roles_frames) auto

lemma watchLabel_frame:
  "k \<noteq> kind_of x \<Longrightarrow> keepsM (\<lambda>w. stored (w_cluster w) k = f) (updateWatchLabel api x cr)"
  unfolding updateWatchLabel_def Let_def by (intro frame_intros) simp_all

lemma getIssuer_gives:
  "givesM (\<lambda>w. stored (w_cluster w) k = f) (\<lambda>x. kind_of x \<in> {KIssuer, KClusterIssuer}) (getIssuer api cr)"
proof -
  have "givesM (\<lambda>w. stored (w_cluster w) k = f) (\<lambda>x. kind_of x = k')
      (wrapM p (onCluster (clGet api k' key) :: ('c ic_world, obj) eff))" for k' key p
    by (intro givesM_wrap givesM_onCluster get_gives)
  then show ?thesis
    unfolding getIssuer_def Let_def by (auto simp: givesM_def failM_def)
qed

lemma caConfigMap_frame:
  "k \<noteq> KConfigMap \<Longrightarrow> keepsM (\<lambda>w. stored (w_cluster w) k = f) (createOrUpdateCAConfigMap api cr d l)"
  unfolding createOrUpdateCAConfigMap_def Let_def by (intro frame_intros) simp_all

lemma secretCopy_frame:
  "k \<notin> {KConfigMap, KSecret} \<Longrightarrow>
   keepsM (\<lambda>w. stored (w_cluster w) k = f) (createCAConfigMapFromSecret api cr key l)"
  unfolding createCAConfigMapFromSecret_def
  by (intro keepsM_bind_gives [OF givesM_wrap [OF givesM_onCluster [OF get_gives]]] frame_intros watchLabel_frame
      caConfigMap_frame) auto

lemma volumes_frame:
  "k \<notin> {KConfigMap, KSecret} \<Longrightarrow> keepsM (\<lambda>w. stored (w_cluster w) k = f) (updateVolumes api e cr l d)"
  unfolding updateVolumes_def handleUserProvidedCA_def handleIssuerBasedCA_def Let_def
    createCAConfigMapFromIssuerSecret_def createCAConfigMapFromIstiodCertificate_def
  by (intro keepsM_bind_gives [OF givesM_onErr [OF givesM_onCluster [OF get_gives]]] frame_intros watchLabel_frame
      caConfigMap_frame secretCopy_frame givesM_keeps [OF getIssuer_gives]) auto

lemma deployments_frame:
  "k \<notin> {KDeployment, KConfigMap, KSecret, KIssuer, KClusterIssuer, KIstioCSR} \<Longrightarrow>
   keepsM (\<lambda>w. stored (w_cluster w) k = f) (createOrApplyDeployments api e l b)"
  unfolding createOrApplyDeployments_def getDeploymentObject_def assertIssuerRefExists_def updateImageInStatus_def Let_def
  by (intro keepsM_bind_gives [OF givesM_onErr [OF getIssuer_gives]] frame_intros watchLabel_frame volumes_frame
      reconcileObject_frame) auto

end

end
