(* ===== verification/Watches.thy ===== *)
theory Watches
  imports K8s_Resources
begin

text \<open>
  Watch events of the controller runtime, the predicates that filter them and the handler that turns
  an event into reconcile requests, as the two \<open>SetupWithManager\<close> functions combine them.  A request is
  the key of the custom resource to reconcile.
\<close>

datatype watch_event =
    CreateEvent obj
  | UpdateEvent obj obj
  | DeleteEvent obj
  | GenericEvent obj

type_synonym event_filter = "watch_event \<Rightarrow> bool"

fun NewPredicateFuncs :: "(obj \<Rightarrow> bool) \<Rightarrow> event_filter" where
  "NewPredicateFuncs f (CreateEvent x) = f x"
| "NewPredicateFuncs f (UpdateEvent x y) = f y"
| "NewPredicateFuncs f (DeleteEvent x) = f x"
| "NewPredicateFuncs f (GenericEvent x) = f x"

fun ResourceVersionChangedPredicate :: event_filter where
  "ResourceVersionChangedPredicate (UpdateEvent x y) \<longleftrightarrow>
     om_ResourceVersion (meta_of y) \<noteq> om_ResourceVersion (meta_of x)"
| "ResourceVersionChangedPredicate _ = True"

fun GenerationChangedPredicate :: event_filter where
  "GenerationChangedPredicate (UpdateEvent x y) \<longleftrightarrow> om_Generation (meta_of y) \<noteq> om_Generation (meta_of x)"
| "GenerationChangedPredicate _ = True"

definition WithPredicates :: "event_filter list \<Rightarrow> event_filter" where
  "WithPredicates ps ev = list_all (\<lambda>p. p ev) ps"

fun event_kind :: "watch_event \<Rightarrow> kind" where
  "event_kind (CreateEvent x) = kind_of x"
| "event_kind (UpdateEvent x y) = kind_of y"
| "event_kind (DeleteEvent x) = kind_of x"
| "event_kind (GenericEvent x) = kind_of x"

text \<open>\<open>handler.EnqueueRequestsFromMapFunc\<close>: the requests added to the queue, each once.\<close>

fun EnqueueRequestsFromMapFunc :: "(obj \<Rightarrow> key list) \<Rightarrow> watch_event \<Rightarrow> key list" where
  "EnqueueRequestsFromMapFunc m (CreateEvent x) = remdups (m x)"
| "EnqueueRequestsFromMapFunc m (UpdateEvent x y) = remdups (m x @ m y)"
| "EnqueueRequestsFromMapFunc m (DeleteEvent x) = remdups (m x)"
| "EnqueueRequestsFromMapFunc m (GenericEvent x) = remdups (m x)"

definition watched :: "event_filter \<Rightarrow> (obj \<Rightarrow> key list) \<Rightarrow> watch_event \<Rightarrow> key list" where
  "watched p m ev = (if p ev then EnqueueRequestsFromMapFunc m ev else [])"

text \<open>\<open>For(...)\<close>: the resource itself, by its key.\<close>

definition EnqueueRequestForObject :: "obj \<Rightarrow> key list" where
  "EnqueueRequestForObject x = [ObjectKeyFromObject x]"

end
