(* ===== verification/IC_Controller.thy ===== *)
theory IC_Controller
  imports IC_Frames Watches Conditions
begin

text \<open>
  The istio-csr controller: which events it reacts to, \<open>Reconcile\<close> and the installation of the operand
  (\<open>controller.go\<close> and \<open>install_istiocsr.go\<close> of \<open>pkg/controller/istiocsr\<close>).
\<close>

section \<open>Watches\<close>

definition RequestEnqueueLabelValue :: string where "RequestEnqueueLabelValue = ''cert-manager-istio-csr''"

text \<open>The closure \<open>labelOk\<close> with the namespace it may overwrite; \<open>None\<close> is false.\<close>

definition labelOk :: "labels \<Rightarrow> string \<Rightarrow> string option" where
  "labelOk objLabels namespace =
     (if mget objLabels ManagedResourceLabelKey = RequestEnqueueLabelValue then Some namespace
      else let value = mget objLabels IstiocsrResourceWatchLabelName
           in if value = '''' then None
              else case split_on (CHR ''_'') value of [ns, _] \<Rightarrow> Some ns | _ \<Rightarrow> None)"

definition mapFunc :: "obj \<Rightarrow> key list" where
  "mapFunc x =
     (let objLabels = om_Labels (meta_of x)
      in if objLabels = None then []
         else let namespace = mget objLabels istiocsrNamespaceMappingLabelName;
                  namespace = (if namespace = '''' then om_Namespace (meta_of x) else namespace)
              in case labelOk objLabels namespace of
                   Some ns \<Rightarrow> if ns \<noteq> '''' then [(ns, istiocsrObjectName)] else []
                 | None \<Rightarrow> [])"

definition controllerManagedResources :: event_filter where
  "controllerManagedResources = NewPredicateFuncs (\<lambda>x. om_Labels (meta_of x) \<noteq> None \<and>
     mget (om_Labels (meta_of x)) ManagedResourceLabelKey = RequestEnqueueLabelValue)"

definition controllerWatchResources :: event_filter where
  "controllerWatchResources = NewPredicateFuncs (\<lambda>x. om_Labels (meta_of x) \<noteq> None \<and>
     mget (om_Labels (meta_of x)) IstiocsrResourceWatchLabelName \<noteq> '''')"

definition controllerConfigMapPredicates :: event_filter where
  "controllerConfigMapPredicates = NewPredicateFuncs (\<lambda>x.
     if om_Labels (meta_of x) = None then False
     else mget (om_Labels (meta_of x)) ManagedResourceLabelKey = RequestEnqueueLabelValue \<or>
          mget (om_Labels (meta_of x)) IstiocsrResourceWatchLabelName \<noteq> '''')"

text \<open>\<open>SetupWithManager\<close>: the requests an event leads to.\<close>

definition SetupWithManager :: "watch_event \<Rightarrow> key list" where
  "SetupWithManager ev =
     (let withIgnoreStatusUpdatePredicates = WithPredicates [GenerationChangedPredicate, controllerManagedResources];
          controllerWatchResourcePredicates = WithPredicates [ResourceVersionChangedPredicate, controllerWatchResources];
          controllerManagedResourcePredicates = WithPredicates [controllerManagedResources];
          controllerConfigMapWatchPredicates = WithPredicates [ResourceVersionChangedPredicate, controllerConfigMapPredicates]
      in case event_kind ev of
           KIstioCSR \<Rightarrow> watched (WithPredicates [GenerationChangedPredicate]) EnqueueRequestForObject ev
         | KCertificate \<Rightarrow> watched withIgnoreStatusUpdatePredicates mapFunc ev
         | KDeployment \<Rightarrow> watched withIgnoreStatusUpdatePredicates mapFunc ev
         | KClusterRole \<Rightarrow> watched controllerManagedResourcePredicates mapFunc ev
         | KClusterRoleBinding \<Rightarrow> watched controllerManagedResourcePredicates mapFunc ev
         | KRole \<Rightarrow> watched controllerManagedResourcePredicates mapFunc ev
         | KRoleBinding \<Rightarrow> watched controllerManagedResourcePredicates mapFunc ev
         | KService \<Rightarrow> watched controllerManagedResourcePredicates mapFunc ev
         | KServiceAccount \<Rightarrow> watched controllerManagedResourcePredicates mapFunc ev
         | KConfigMap \<Rightarrow> watched controllerConfigMapWatchPredicates mapFunc ev
         | KSecret \<Rightarrow> watched controllerWatchResourcePredicates mapFunc ev
         | KNetworkPolicy \<Rightarrow> watched controllerManagedResourcePredicates mapFunc ev
         | KIssuer \<Rightarrow> watched controllerWatchResourcePredicates mapFunc ev
         | KClusterIssuer \<Rightarrow> watched controllerWatchResourcePredicates mapFunc ev
         | _ \<Rightarrow> [])"

section \<open>Installation\<close>

definition reconcileIstioCSRDeployment :: "'c api \<Rightarrow> ic_env \<Rightarrow> bool \<Rightarrow> ('c ic_world, unit) eff" where
  "reconcileIstioCSRDeployment api e istioCSRCreateRecon = bindM getCR (\<lambda>istiocsr.
     seqM (onErrM (irrecoverable (show_cr istiocsr @ '' configuration validation failed''))
             (liftM (validateIstioCSRConfig istiocsr)))
     (let resourceLabels = resourceLabelsFor e istiocsr
      in seqM (createOrApplyNetworkPolicies api e resourceLabels istioCSRCreateRecon)
        (seqM (createOrApplyServices api e resourceLabels istioCSRCreateRecon)
        (seqM (createOrApplyServiceAccounts api e resourceLabels istioCSRCreateRecon)
        (seqM (createOrApplyRBACResource api e resourceLabels istioCSRCreateRecon)
        (seqM (createOrApplyCertificates api e resourceLabels istioCSRCreateRecon)
        (seqM (createOrApplyDeployments api e resourceLabels istioCSRCreateRecon)
        (bindM addProcessedAnnotation (\<lambda>added.
           whenM added (bindM getCR (\<lambda>istiocsr.
             wrapM (''failed to update processed annotation to '' @ show_cr istiocsr @ '': '') (updateCR api))))))))))))"

section \<open>Reconcile\<close>

text \<open>
  \<open>common.HandleReconcileResult\<close> on the conditions inside the resource.  The callback works on the resource,
  which carries the conditions of the moment; a panic in it ends the call.
\<close>

definition conditionCallback :: "'c api \<Rightarrow> (string option \<times> 'c ic_world) status_fn" where
  "conditionCallback api prependErr status pw = (case pw of (p, w) \<Rightarrow>
     (case updateConditionM api prependErr
             (w\<lparr>w_cr := (w_cr w)\<lparr>ic_Status := (ic_Status (w_cr w))\<lparr>ics_Conditional := status\<rparr>\<rparr>\<rparr>) of
        (Ok err, w') \<Rightarrow> (err, (p, w'))
      | (Err err, w') \<Rightarrow> (Some err, (p, w'))
      | (Panic m, w') \<Rightarrow> (None, (Some m, w'))))"

definition handleResult :: "'c api \<Rightarrow> ic_env \<Rightarrow> goerror option \<Rightarrow> ('c ic_world, int) eff" where
  "handleResult api e reconcileErr w =
     (case HandleReconcileResult (e_now e 1) (e_now e 2) (ics_Conditional (ic_Status (w_cr w))) reconcileErr
             (conditionCallback api) defaultRequeueTime (None, w) of
        ((requeueAfter, err), status, (panicked, w')) \<Rightarrow>
          (let w' = w'\<lparr>w_cr := (w_cr w')\<lparr>ic_Status := (ic_Status (w_cr w'))\<lparr>ics_Conditional := status\<rparr>\<rparr>\<rparr>
           in (case panicked of
                 Some m \<Rightarrow> Panic m
               | None \<Rightarrow> (case err of None \<Rightarrow> Ok requeueAfter | Some err \<Rightarrow> Err err), w')))"

definition processReconcileRequest :: "'c api \<Rightarrow> ic_env \<Rightarrow> ('c ic_world, int) eff" where
  "processReconcileRequest api e = bindM getCR (\<lambda>istiocsr.
     let istioCSRCreateRecon = (\<not> containsProcessedAnnotation istiocsr \<and> ic_Status istiocsr = zero_IstioCSRStatus)
     in bindM (attemptM (disallowMultipleIstioCSRInstances api e)) (\<lambda>r. case r of
          Err err \<Rightarrow>
            if IsMultipleInstanceError (Some err)
            then seqM (Eventf ''Warning'' ''MultiIstioCSRInstance''
                   ''creation of multiple istiocsr instances is not supported, will not be processed'') (returnM 0)
            else failM err
        | _ \<Rightarrow>
            bindM (attemptM (reconcileIstioCSRDeployment api e istioCSRCreateRecon)) (\<lambda>r.
            handleResult api e (case r of Err err \<Rightarrow> Some err | _ \<Rightarrow> None))))"

definition cleanUp :: "('c ic_world, bool) eff" where
  "cleanUp = bindM getCR (\<lambda>istiocsr.
     seqM (Eventf ''Warning'' ''RemoveDeployment'' (show_cr istiocsr @ '' istiocsr marked for deletion, remove '' @
       ''reference in istiod deployment and remove all resources created for istiocsr deployment''))
       (returnM False))"

definition fetchText :: "string \<Rightarrow> key \<Rightarrow> string \<Rightarrow> string" where
  "fetchText before req after = before @ quoted (show_key req) @ after"

definition Reconcile :: "'c api \<Rightarrow> ic_env \<Rightarrow> key \<Rightarrow> ('c ic_world, int) eff" where
  "Reconcile api e req =
     bindM (attemptM (onCluster (clGet api KIstioCSR req))) (\<lambda>r. case r of
       Err err \<Rightarrow>
         if IsNotFound (Some err) then returnM 0
         else failM (ErrWrap (fetchText ''failed to fetch istiocsr.openshift.operator.io '' req '' during reconciliation: '') err)
     | Panic p \<Rightarrow> panicM p
     | Ok x \<Rightarrow>
         bindM (liftM (the_istiocsr x)) (\<lambda>istiocsr. seqM (modifyCR (\<lambda>_. istiocsr))
         (if om_DeletionTimestamp (ic_Meta istiocsr) \<noteq> None then
            bindM (wrapM (fetchText ''clean up failed for '' req '' istiocsr.openshift.operator.io instance deletion: '') cleanUp) (\<lambda>requeue.
            if requeue then returnM defaultRequeueTime
            else seqM (ic_removeFinalizer api ic_finalizer) (returnM 0))
          else
            seqM (wrapM (fetchText ''failed to update '' req '' istiocsr.openshift.operator.io with finalizers: '') (ic_addFinalizer api))
            (processReconcileRequest api e))))"

end
