(* ===== verification/IC_Properties.thy ===== *)
theory IC_Properties
  imports IC_Controller
begin

text \<open>
  Properties of the istio-csr controller as a whole: which requests the events of its resources lead to, which
  instance is installed, and what \<open>Reconcile\<close> does on its paths.
\<close>

section \<open>Labels and requests\<close>

lemma mget_mput: "mget (mput k v m) k' = (if k' = k then v else mget m k')"
  by (simp add: mget_def mlookup_mput)

lemma label_keys_distinct:
  "istiocsrNamespaceMappingLabelName \<noteq> ManagedResourceLabelKey"
  "IstiocsrResourceWatchLabelName \<noteq> ManagedResourceLabelKey"
  "istiocsrNamespaceMappingLabelName \<noteq> IstiocsrResourceWatchLabelName"
  by (simp_all add: istiocsrNamespaceMappingLabelName_def ManagedResourceLabelKey_def IstiocsrResourceWatchLabelName_def)

lemma default_app_label: "mget (resourceLabelsFor e cr) ManagedResourceLabelKey = RequestEnqueueLabelValue"
proof -
  have "mlookup (controllerDefaultResourceLabels e) ManagedResourceLabelKey = Some RequestEnqueueLabelValue"
    by (simp add: controllerDefaultResourceLabels_def mlookup_def ManagedResourceLabelKey_def
        RequestEnqueueLabelValue_def istiocsrCommonName_def)
  then show ?thesis by (simp add: mget_def default_label_lookup)
qed

text \<open>The labels of an object with namespace mapping.\<close>

definition mapped_labels :: "ic_env \<Rightarrow> IstioCSR \<Rightarrow> labels" where
  "mapped_labels e cr =
     mput istiocsrNamespaceMappingLabelName (ic_Namespace cr) (mcopy (Some []) (resourceLabelsFor e cr))"

lemma mapped_labels_get:
  "mget (mapped_labels e cr) istiocsrNamespaceMappingLabelName = ic_Namespace cr"
  "mget (mapped_labels e cr) ManagedResourceLabelKey = RequestEnqueueLabelValue"
  using default_app_label [of e cr] label_keys_distinct
  by (simp_all add: mapped_labels_def mget_def mlookup_mput mlookup_mcopy split: option.splits)

lemma mapFunc_managed:
  assumes "om_Labels (meta_of x) \<noteq> None"
    and "mget (om_Labels (meta_of x)) ManagedResourceLabelKey = RequestEnqueueLabelValue"
  shows "mapFunc x =
     (let n = mget (om_Labels (meta_of x)) istiocsrNamespaceMappingLabelName;
          n = (if n = '''' then om_Namespace (meta_of x) else n)
      in if n \<noteq> '''' then [(n, istiocsrObjectName)] else [])"
  using assms by (auto simp: mapFunc_def labelOk_def Let_def)

lemma labels_mapper [simp]:
  "om_Labels (meta_of (updateResourceLabelsWithIstioMapperLabels (ic_Namespace cr) (resourceLabelsFor e cr) x)) =
   mapped_labels e cr"
  by (simp add: updateResourceLabelsWithIstioMapperLabels_def UpdateResourceLabels_def mapped_labels_def)

lemma split_watch_value:
  "CHR ''_'' \<notin> set ns \<Longrightarrow> CHR ''_'' \<notin> set n \<Longrightarrow> split_on (CHR ''_'') (ns @ ''_'' @ n) = [ns, n]"
  by (simp add: split_on_append_sep split_on_absent)

lemma mapFunc_watched:
  assumes "mget (om_Labels (meta_of x)) IstiocsrResourceWatchLabelName = watchLabelValue cr"
    and "mget (om_Labels (meta_of x)) ManagedResourceLabelKey \<noteq> RequestEnqueueLabelValue"
    and "ic_Namespace cr \<noteq> ''''" "CHR ''_'' \<notin> set (ic_Namespace cr)" "CHR ''_'' \<notin> set (ic_Name cr)"
  shows "mapFunc x = [(ic_Namespace cr, istiocsrObjectName)]"
proof -
  have "om_Labels (meta_of x) \<noteq> None"
    using assms(1) by (cases "om_Labels (meta_of x)") (auto simp: watchLabelValue_def mget_def)
  with assms split_watch_value [OF assms(4,5)] show ?thesis
    by (simp add: mapFunc_def labelOk_def Let_def watchLabelValue_def)
qed

lemma updateWatchLabel_result:
  assumes "api_server api stored" "updateWatchLabel api x cr w = (Ok y, w')"
  shows "om_Labels (meta_of y) = mput IstiocsrResourceWatchLabelName (watchLabelValue cr) (om_Labels (meta_of x))"
proof -
  define x' where "x' = upd_meta (\<lambda>m. m\<lparr>om_Labels :=
            mput IstiocsrResourceWatchLabelName (watchLabelValue cr) (om_Labels m)\<rparr>) x"
  from assms(2) have "UpdateWithRetry api x' (w_cluster w) = (Ok y, w_cluster w')"
    by (auto simp: updateWatchLabel_def Let_def x'_def onCluster_eq_iff)
  from api_server.UpdateWithRetry_result [OF assms(1) this] obtain old where
    "same_content (keep_status old x') y" by blast
  then have "om_Labels (meta_of y) = om_Labels (meta_of (keep_status old x'))"
    using same_content_labels by metis
  then show ?thesis by (simp add: x'_def)
qed

text \<open>
  C29.  Labels lead back to the resource: an object the controller labels with a namespace mapping, one it
  creates in its own namespace and one it only watches are all mapped to a request for exactly the
  \<open>IstioCSR\<close> they belong to.
\<close>

theorem labels_lead_back:
  assumes "api_server api stored" and "ic_Name cr = istiocsrObjectName" and "ic_Namespace cr \<noteq> ''''"
    and "CHR ''_'' \<notin> set (ic_Namespace cr)"
  shows "mapFunc (updateResourceLabelsWithIstioMapperLabels (ic_Namespace cr) (resourceLabelsFor e cr) x) = [cr_key cr] \<and>
    (mget (resourceLabelsFor e cr) istiocsrNamespaceMappingLabelName = '''' \<longrightarrow>
       mapFunc (placed cr (resourceLabelsFor e cr) x) = [cr_key cr]) \<and>
    (mget (om_Labels (meta_of x)) ManagedResourceLabelKey \<noteq> RequestEnqueueLabelValue \<longrightarrow>
       updateWatchLabel api x cr w = (Ok y, w') \<longrightarrow> mapFunc y = [cr_key cr])"
proof (intro conjI impI)
  have key: "cr_key cr = (ic_Namespace cr, istiocsrObjectName)" by (simp add: cr_key_def assms(2))
  have some: "mapped_labels e cr \<noteq> None" "resourceLabelsFor e cr \<noteq> None"
    by (simp_all add: mapped_labels_def resourceLabelsFor_def Let_def)
  show "mapFunc (updateResourceLabelsWithIstioMapperLabels (ic_Namespace cr) (resourceLabelsFor e cr) x) = [cr_key cr]"
    using assms(3) some by (simp add: mapFunc_managed mapped_labels_get key Let_def)
  show "mapFunc (placed cr (resourceLabelsFor e cr) x) = [cr_key cr]"
    if "mget (resourceLabelsFor e cr) istiocsrNamespaceMappingLabelName = ''''"
    using that assms(3) some
    by (simp add: mapFunc_managed placed_def UpdateResourceLabels_def UpdateNamespace_def default_app_label key Let_def)
  show "mapFunc y = [cr_key cr]"
    if "mget (om_Labels (meta_of x)) ManagedResourceLabelKey \<noteq> RequestEnqueueLabelValue"
      and run: "updateWatchLabel api x cr w = (Ok y, w')"
  proof -
    have "CHR ''_'' \<notin> set (ic_Name cr)" by (simp add: assms(2) istiocsrObjectName_def)
    with that(1) updateWatchLabel_result [OF assms(1) run] label_keys_distinct assms(3,4) show ?thesis
      unfolding key by (intro mapFunc_watched [of y cr]) (simp_all add: mget_mput)
  qed
qed

theorem labels_lead_back_witness:
  "mapFunc (updateResourceLabelsWithIstioMapperLabels ''istio-csr'' (resourceLabelsFor demo_ic_env demo_istiocsr)
      demo_configmap) = [(''istio-csr'', ''default'')]"
proof -
  have cr: "ic_Name demo_istiocsr = istiocsrObjectName" "ic_Namespace demo_istiocsr = ''istio-csr''"
    by (simp_all add: demo_istiocsr_def ic_Name_def ic_Namespace_def istiocsrObjectName_def)
  then have "ic_Namespace demo_istiocsr \<noteq> ''''" "CHR ''_'' \<notin> set (ic_Namespace demo_istiocsr)" by simp_all
  from labels_lead_back [OF mem.api_server_axioms cr(1) this] show ?thesis
    by (simp add: cr cr_key_def istiocsrObjectName_def)
qed

section \<open>Events\<close>

text \<open>The kinds whose every managed change leads to a request, and those whose generation must change too.\<close>

definition always_watched :: "kind list" where
  "always_watched = [KClusterRole, KClusterRoleBinding, KRole, KRoleBinding, KService, KServiceAccount, KNetworkPolicy]"

definition generation_watched :: "kind list" where
  "generation_watched = [KCertificate, KDeployment]"

fun touches :: "watch_event \<Rightarrow> obj \<Rightarrow> bool" where
  "touches (CreateEvent y) x \<longleftrightarrow> y = x"
| "touches (UpdateEvent z y) x \<longleftrightarrow> y = x"
| "touches (DeleteEvent y) x \<longleftrightarrow> y = x"
| "touches (GenericEvent y) x \<longleftrightarrow> y = x"

lemma touches_simps:
  assumes "touches ev x"
  shows "event_kind ev = kind_of x" "NewPredicateFuncs p ev = p x"
    "set (mapFunc x) \<subseteq> set (EnqueueRequestsFromMapFunc mapFunc ev)"
  using assms by (cases ev; auto)+

lemma managed_enqueued:
  assumes "touches ev x" and "kind_of x \<in> set always_watched \<union> set generation_watched"
    and "kind_of x \<in> set generation_watched \<longrightarrow> GenerationChangedPredicate ev"
    and "om_Labels (meta_of x) \<noteq> None"
    and "mget (om_Labels (meta_of x)) ManagedResourceLabelKey = RequestEnqueueLabelValue"
  shows "set (mapFunc x) \<subseteq> set (SetupWithManager ev)"
  using touches_simps [OF assms(1)] assms(2-)
  by (cases "kind_of x")
     (auto simp: SetupWithManager_def Let_def watched_def WithPredicates_def controllerManagedResources_def
       always_watched_def generation_watched_def)





section \<open>One instance\<close>

context api_server
begin

lemma conditionM_frame:
  "k \<noteq> KIstioCSR \<Longrightarrow> keepsM (\<lambda>w. stored (w_cluster w) k = f) (updateConditionM api prep)"
  unfolding updateConditionM_def Let_def by (intro frame_intros) simp_all

lemma conditionCallback_frame:
  assumes "k \<noteq> KIstioCSR"
  shows "stored (w_cluster (snd (snd (conditionCallback api p c (q, u))))) k = stored (w_cluster u) k"
proof -
  obtain r x where run: "updateConditionM api p
      (u\<lparr>w_cr := (w_cr u)\<lparr>ic_Status := (ic_Status (w_cr u))\<lparr>ics_Conditional := c\<rparr>\<rparr>\<rparr>) = (r, x)" by fastforce
  have "stored (w_cluster x) k = stored (w_cluster u) k"
    using conditionM_frame [OF assms, of "stored (w_cluster u) k" p, unfolded keepsM_def, rule_format,
        of "u\<lparr>w_cr := (w_cr u)\<lparr>ic_Status := (ic_Status (w_cr u))\<lparr>ics_Conditional := c\<rparr>\<rparr>\<rparr>"] run
    by simp
  with run show ?thesis by (cases r) (simp_all add: conditionCallback_def)
qed

lemma handleResult_frame:
  "k \<noteq> KIstioCSR \<Longrightarrow> keepsM (\<lambda>w. stored (w_cluster w) k = f) (handleResult api e err)"
proof -
  assume k: "k \<noteq> KIstioCSR"
  have "stored (w_cluster (snd (handleResult api e err w))) k = stored (w_cluster w) k" for w
    using conditionCallback_frame [OF k, of "if IsIrrecoverableError err then None else err"
        "handled_status (e_now e 1) (e_now e 2) (ics_Conditional (ic_Status (w_cr w))) err" None w]
    by (auto simp: handleResult_def HandleReconcileResult_eq Let_def split: prod.splits if_splits)
  then show ?thesis by (simp add: keepsM_def)
qed

lemma annotate_frame: "keepsM (\<lambda>w. stored (w_cluster w) k = f) (annotate a)"
  unfolding annotate_def by (intro frame_intros)

lemma disallow_frame:
  "k \<noteq> KIstioCSR \<Longrightarrow> keepsM (\<lambda>w. stored (w_cluster w) k = f) (disallowMultipleIstioCSRInstances api e)"
  unfolding disallowMultipleIstioCSRInstances_def rejectInStatus_def setCondition_def markRejected_def
    addProcessingRejectedAnnotation_def Let_def
  by (intro frame_intros conditionM_frame annotate_frame updateCR_frame) simp_all

text \<open>A request that the single-instance check turns away touches the \<open>IstioCSR\<close> objects only.\<close>

lemma process_rejected_frame:
  assumes "\<And>w'. disallowMultipleIstioCSRInstances api e w \<noteq> (Ok (), w')" "k \<noteq> KIstioCSR"
  shows "stored (w_cluster (snd (processReconcileRequest api e w))) k = stored (w_cluster w) k"
proof -
  obtain r w1 where run: "disallowMultipleIstioCSRInstances api e w = (r, w1)" by fastforce
  have "stored (w_cluster w1) k = stored (w_cluster w) k"
    using disallow_frame [OF assms(2), of "stored (w_cluster w) k" e] run unfolding keepsM_def by (metis snd_conv)
  with run assms(1) show ?thesis
    by (cases r) (auto simp: processReconcileRequest_def Let_def bindM_def getCR_def attemptM_def seqM_def Eventf_def eff_defs)
qed

end

context api_listing
begin

lemma younger_not_allowed:
  assumes "stored (w_cluster w) KIstioCSR key = Some x" and "precedes (w_cr w) x"
    and "stored (w_cluster w) KIstioCSR (cr_key (w_cr w)) = Some (OIstioCSR me)"
  shows "disallowMultipleIstioCSRInstances api e w \<noteq> (Ok (), w')"
proof
  assume run: "disallowMultipleIstioCSRInstances api e w = (Ok (), w')"
  have fails: "bindM m (\<lambda>a. failM (g a)) v \<noteq> (Ok b, v')" for m g v b v' by (simp add: bindM_eq_Ok_iff)
  from run obtain items c where items: "api_List api KIstioCSR None (w_cluster w) = (Ok items, c)"
    and ok: "length items \<le> 1 \<or> \<not> list_ex (precedes (w_cr w)) items"
    by (auto simp: disallowMultipleIstioCSRInstances_def Let_def bindM_eq_Ok_iff onCluster_eq_iff clList_def fails
        split: if_splits)
  have key: "ObjectKeyFromObject x = key" using stored_kind [OF assms(1)] by simp
  with listed_iff [OF items] assms(1) have x: "x \<in> set items" by simp
  have k2: "ObjectKeyFromObject (OIstioCSR me) = cr_key (w_cr w)" using stored_kind [OF assms(3)] by simp
  with listed_iff [OF items] assms(3) have me: "OIstioCSR me \<in> set items" by simp
  have "x \<noteq> OIstioCSR me"
    using assms(2) k2 by (auto simp: precedes_def ObjectKeyFromObject_def cr_key_def)
  with x me have "length items > 1"
    by (cases items rule: list.exhaust; cases "tl items") auto
  with ok x assms(2) show False by (auto simp: list_ex_iff)
qed

end

text \<open>
  C32.  One instance is installed: while an older or equally old instance exists in another namespace, processing an
  \<open>IstioCSR\<close> changes no object of the operand, whatever calls fail on the way; only \<open>IstioCSR\<close> objects
  (condition and annotation) may change.
\<close>

theorem younger_instance_not_installed:
  assumes "api_listing api stored"
    and "stored (w_cluster w) KIstioCSR (cr_key (w_cr w)) = Some (OIstioCSR me)"
    and "stored (w_cluster w) KIstioCSR key = Some (OIstioCSR other)"
    and "ic_Namespace other \<noteq> ic_Namespace (w_cr w)"
    and "om_CreationTimestamp (ic_Meta other) \<le> om_CreationTimestamp (ic_Meta (w_cr w))" and "k \<noteq> KIstioCSR"
  shows "stored (w_cluster (snd (processReconcileRequest api e w))) k = stored (w_cluster w) k"
proof -
  have srv: "api_server api stored" using assms(1) by (simp add: api_listing_def)
  have "precedes (w_cr w) (OIstioCSR other)"
    using assms(4,5) by (simp add: precedes_def ic_Namespace_def)
  from api_listing.younger_not_allowed [OF assms(1,3) this assms(2)] show ?thesis
    using api_server.process_rejected_frame [OF srv _ assms(6)] by blast
qed

definition demo_second :: IstioCSR where
  "demo_second = demo_istiocsr\<lparr>ic_Meta := (ic_Meta demo_istiocsr)\<lparr>om_Namespace := ''other'', om_CreationTimestamp := 7\<rparr>\<rparr>"

definition demo_two :: "store ic_world" where
  "demo_two = \<lparr>w_cluster = put_obj (OIstioCSR demo_second) (put_obj (OIstioCSR demo_istiocsr) empty_store),
     w_events = [], w_cr = demo_second\<rparr>"

theorem younger_instance_not_installed_witness:
  "objs_in (w_cluster (snd (processReconcileRequest store_api demo_ic_env demo_two))) KDeployment =
   objs_in (w_cluster demo_two) KDeployment"
proof (rule younger_instance_not_installed [OF mem_list.api_listing_axioms, where me = demo_second
      and other = demo_istiocsr and key = "(''istio-csr'', ''default'')"])
qed (simp_all add: demo_two_def stored_put_obj objs_in_def empty_store_def put_obj_def update_conv'
    demo_second_def demo_istiocsr_def cr_key_def ic_Namespace_def ic_Name_def ObjectKeyFromObject_def empty_meta_def)

lemma disallow_oldest:
  assumes "\<not> containsProcessingRejectedAnnotation (w_cr w)"
    and "api_List api KIstioCSR None (w_cluster w) = (Ok items, c)"
    and "\<not> list_ex (precedes (w_cr w)) items"
  shows "disallowMultipleIstioCSRInstances api e w = (Ok (), w\<lparr>w_cluster := c\<rparr>)"
  using assms by (simp add: disallowMultipleIstioCSRInstances_def Let_def bindM_def getCR_def onCluster_def clList_def
      wrapM_def onErrM_def returnM_def)

text \<open>
  C33.  The oldest instance is installed: an \<open>IstioCSR\<close> that was not rejected before and is strictly older than
  every instance in another namespace passes the check without a write, and its request goes on to the installation
  and the report of its result.
\<close>

theorem oldest_instance_proceeds:
  assumes "api_listing api stored" and "\<not> containsProcessingRejectedAnnotation (w_cr w)"
    and "api_List api KIstioCSR None (w_cluster w) = (Ok items, c)"
    and "\<forall>key other. stored (w_cluster w) KIstioCSR key = Some (OIstioCSR other) \<longrightarrow>
      ic_Namespace other = ic_Namespace (w_cr w) \<or>
      om_CreationTimestamp (ic_Meta (w_cr w)) < om_CreationTimestamp (ic_Meta other)"
  shows "processReconcileRequest api e w =
     bindM (attemptM (reconcileIstioCSRDeployment api e
              (\<not> containsProcessedAnnotation (w_cr w) \<and> ic_Status (w_cr w) = zero_IstioCSRStatus)))
       (\<lambda>r. handleResult api e (case r of Err err \<Rightarrow> Some err | _ \<Rightarrow> None)) (w\<lparr>w_cluster := c\<rparr>) \<and>
     stored c = stored (w_cluster w)"
proof -
  have srv: "api_server api stored" using assms(1) by (simp add: api_listing_def)
  have "\<not> precedes (w_cr w) x" if "x \<in> set items" for x
  proof -
    have st: "stored (w_cluster w) KIstioCSR (ObjectKeyFromObject x) = Some x"
      using api_listing.listed_iff [OF assms(1,3)] that by simp
    then obtain other where "x = OIstioCSR other"
      using api_server.stored_kind [OF srv] by (cases x) (auto dest!: api_server.stored_kind [OF srv])
    with st assms(4) [rule_format, of "ObjectKeyFromObject x" other] show ?thesis
      by (auto simp: precedes_def ic_Namespace_def)
  qed
  then have "\<not> list_ex (precedes (w_cr w)) items" by (auto simp: list_ex_iff)
  from disallow_oldest [OF assms(2,3) this, of e] api_server.list_keeps [OF srv, of KIstioCSR None "w_cluster w"] assms(3)
  show ?thesis by (simp add: processReconcileRequest_def Let_def bindM_def getCR_def attemptM_def)
qed

definition demo_first :: "store ic_world" where
  "demo_first = demo_two\<lparr>w_cr := demo_istiocsr\<rparr>"

theorem oldest_instance_proceeds_witness:
  "\<exists>c. processReconcileRequest store_api demo_ic_env demo_first =
     bindM (attemptM (reconcileIstioCSRDeployment store_api demo_ic_env True))
       (\<lambda>r. handleResult store_api demo_ic_env (case r of Err err \<Rightarrow> Some err | _ \<Rightarrow> None)) (demo_first\<lparr>w_cluster := c\<rparr>)"
proof -
  have cr: "w_cr demo_first = demo_istiocsr" "w_cluster demo_first = w_cluster demo_two"
    by (simp_all add: demo_first_def)
  have fresh: "\<not> containsProcessingRejectedAnnotation demo_istiocsr" "\<not> containsProcessedAnnotation demo_istiocsr"
    "ic_Status demo_istiocsr = zero_IstioCSRStatus"
    by (simp_all add: containsProcessingRejectedAnnotation_def containsProcessedAnnotation_def ContainsAnnotation_def
        demo_istiocsr_def empty_meta_def mlookup_def)
  have objs: "objs_in (w_cluster demo_two) KIstioCSR key = Some x \<Longrightarrow> x = OIstioCSR demo_second \<or> x = OIstioCSR demo_istiocsr"
    for key x
    by (auto simp: demo_two_def stored_put_obj objs_in_def empty_store_def put_obj_def update_conv' split: if_splits)
  obtain items c where "api_List store_api KIstioCSR None (w_cluster demo_first) = (Ok items, c)"
    by (simp add: store_api_def store_List_def served_def cr demo_two_def put_obj_def empty_store_def)
  moreover have "\<forall>key other. objs_in (w_cluster demo_first) KIstioCSR key = Some (OIstioCSR other) \<longrightarrow>
      ic_Namespace other = ic_Namespace (w_cr demo_first) \<or>
      om_CreationTimestamp (ic_Meta (w_cr demo_first)) < om_CreationTimestamp (ic_Meta other)"
    by (auto simp: cr dest!: objs) (auto simp: demo_second_def demo_istiocsr_def ic_Namespace_def empty_meta_def)
  moreover have "\<not> containsProcessingRejectedAnnotation (w_cr demo_first)" by (simp add: cr fresh)
  ultimately show ?thesis
    using oldest_instance_proceeds [OF mem_list.api_listing_axioms, of demo_first items c demo_ic_env]
    by (auto simp: cr fresh)
qed

section \<open>Deletion and rejected configuration\<close>

lemma Reconcile_deleting:
  assumes "api_Get api KIstioCSR req (w_cluster w) = (Ok (OIstioCSR cr), c)"
    and "om_DeletionTimestamp (ic_Meta cr) \<noteq> None"
  shows "Reconcile api e req w =
     seqM (ic_removeFinalizer api ic_finalizer) (returnM 0)
       (snd (cleanUp (w\<lparr>w_cluster := c, w_cr := cr\<rparr>)))"
  using assms
  by (simp add: Reconcile_def bindM_def attemptM_def onCluster_def clGet_def seqM_def modifyCR_def liftM_def
      cleanUp_def getCR_def Eventf_def returnM_def wrapM_def onErrM_def)

text \<open>
  C34.  Deletion completes and touches nothing else: reconciling an \<open>IstioCSR\<close> marked for deletion changes no
  object of the operand; when it succeeds it asks for no further run, and if the controller's finalizer was the last
  one, the resource is gone.
\<close>

theorem deletion_completes:
  assumes "api_server api stored" and "api_Get api KIstioCSR req (w_cluster w) = (Ok (OIstioCSR cr), c)"
    and "om_DeletionTimestamp (ic_Meta cr) \<noteq> None" and "Reconcile api e req w = (r, w')"
  shows "(k \<noteq> KIstioCSR \<longrightarrow> stored (w_cluster w') k = stored (w_cluster w) k) \<and>
    (\<forall>n. r = Ok n \<longrightarrow> n = 0 \<and>
       (om_Finalizers (ic_Meta cr) = [ic_finalizer] \<longrightarrow> stored (w_cluster w') KIstioCSR req = None))"
proof -
  define v where "v = snd (cleanUp (w\<lparr>w_cluster := c, w_cr := cr\<rparr>))"
  have v: "w_cluster v = c" "w_cr v = cr" by (simp_all add: v_def cleanUp_def seqM_def bindM_def getCR_def Eventf_def returnM_def)
  have run: "seqM (ic_removeFinalizer api ic_finalizer) (returnM 0) v = (r, w')"
    using Reconcile_deleting [OF assms(2,3), of e] assms(4) by (simp add: v_def)
  have c: "stored c = stored (w_cluster w)"
    using api_server.get_keeps [OF assms(1), of KIstioCSR req "w_cluster w"] assms(2) by simp
  have req: "req = cr_key cr"
    using api_server.stored_kind [OF assms(1) api_server.get_Ok [OF assms(1,2)]]
    by (simp add: ObjectKeyFromObject_def cr_key_def ic_Namespace_def ic_Name_def)
  have "keepsM (\<lambda>w. stored (w_cluster w) k = stored c k) (seqM (ic_removeFinalizer api ic_finalizer) (returnM (0::int)))"
    if "k \<noteq> KIstioCSR"
    unfolding ic_removeFinalizer_def Let_def using that
    by (intro api_server.frame_intros [OF assms(1)] api_server.updateCR_frame [OF assms(1)])
  then have frame: "k \<noteq> KIstioCSR \<longrightarrow> stored (w_cluster w') k = stored (w_cluster w) k"
    using run v(1) c unfolding keepsM_def by (metis snd_conv)
  have "stored (w_cluster w') KIstioCSR req = None" if "r = Ok n" "om_Finalizers (ic_Meta cr) = [ic_finalizer]" for n
  proof -
    define x where "x = OIstioCSR (setFinalizers [] cr)"
    have "\<exists>y w1. UpdateWithRetry api x c = (Ok y, w1) \<and> w_cluster w' = w1"
      using run that v
      by (auto simp: seqM_def bindM_eq_Ok_iff ic_removeFinalizer_def Let_def updateCR_def onCluster_eq_iff x_def)
    then obtain y where up: "UpdateWithRetry api x c = (Ok y, w_cluster w')" by blast
    have "released x" using assms(3) by (simp add: released_def x_def setFinalizers_def)
    with api_server.UpdateWithRetry_result [OF assms(1) up] show ?thesis
      by (auto simp: x_def req setFinalizers_def ObjectKeyFromObject_def cr_key_def ic_Namespace_def ic_Name_def)
  qed
  moreover have "n = 0" if "r = Ok n" for n using run that by (auto simp: seqM_def bindM_eq_Ok_iff)
  ultimately show ?thesis using frame by blast
qed

definition demo_deleting :: "store ic_world" where
  "demo_deleting =
     (let cr = demo_istiocsr\<lparr>ic_Meta := (ic_Meta demo_istiocsr)\<lparr>om_DeletionTimestamp := Some 9, om_Finalizers := [ic_finalizer]\<rparr>\<rparr>
      in \<lparr>w_cluster = put_obj (OIstioCSR cr) empty_store, w_events = [], w_cr = cr\<rparr>)"

lemma demo_deleting_ok: "is_ok (fst (Reconcile store_api demo_ic_env (''istio-csr'', ''default'') demo_deleting))"
  by code_simp

theorem deletion_completes_witness:
  "\<exists>w'. Reconcile store_api demo_ic_env (''istio-csr'', ''default'') demo_deleting = (Ok 0, w') \<and>
     objs_in (w_cluster w') KIstioCSR (''istio-csr'', ''default'') = None"
proof -
  obtain n w' where run: "Reconcile store_api demo_ic_env (''istio-csr'', ''default'') demo_deleting = (Ok n, w')"
    using demo_deleting_ok by (metis fst_conv is_ok_iff surj_pair)
  have get: "api_Get store_api KIstioCSR (''istio-csr'', ''default'') (w_cluster demo_deleting) =
      (Ok (OIstioCSR (w_cr demo_deleting)), w_cluster demo_deleting)"
    by (simp add: demo_deleting_def Let_def store_api_def store_Get_def served_def put_obj_def empty_store_def objs_in_def
        demo_istiocsr_def ObjectKeyFromObject_def)
  have "om_DeletionTimestamp (ic_Meta (w_cr demo_deleting)) \<noteq> None" by (simp add: demo_deleting_def Let_def)
  from deletion_completes [OF mem.api_server_axioms get this run] run show ?thesis
    by (auto simp: demo_deleting_def Let_def)
qed


definition demo_empty_config :: "store ic_world" where
  "demo_empty_config =
     (let cr = demo_istiocsr\<lparr>ic_Spec := (ic_Spec demo_istiocsr)\<lparr>IstioCSRConfig := zero_IstioCSRConfig\<rparr>\<rparr>
      in \<lparr>w_cluster = put_obj (OIstioCSR cr) empty_store, w_events = [], w_cr = cr\<rparr>)"


end
