(* ===== verification/IC_Liveness.thy ===== *)
theory IC_Liveness
  imports IC_Properties
begin

text \<open>
  The installation of the istio-csr operand as a whole: what a successful one establishes, and that on a healthy
  API server with no leftovers it does succeed.
\<close>

section \<open>A healthy server\<close>

text \<open>No call fails, and the resource being reconciled is in the cluster.\<close>

definition good :: "IstioCSR \<Rightarrow> store ic_world \<Rightarrow> bool" where
  "good cr w \<longleftrightarrow> st_faults (w_cluster w) = [] \<and> cr_key (w_cr w) = cr_key cr \<and> ic_Spec (w_cr w) = ic_Spec cr \<and>
     om_DeletionTimestamp (ic_Meta (w_cr w)) = None \<and>
     (\<exists>c. objs_in (w_cluster w) KIstioCSR (cr_key cr) = Some (OIstioCSR c) \<and> ic_Spec c = ic_Spec cr \<and>
        om_DeletionTimestamp (ic_Meta c) = None)"

text \<open>The computation succeeds from every state with the precondition, and ends in one with the postcondition.\<close>

definition succeeds :: "('s \<Rightarrow> bool) \<Rightarrow> ('s, 'a) eff \<Rightarrow> ('a \<Rightarrow> 's \<Rightarrow> bool) \<Rightarrow> bool" where
  "succeeds P m Q \<longleftrightarrow> (\<forall>s. P s \<longrightarrow> (\<exists>a s'. m s = (Ok a, s') \<and> Q a s'))"

named_theorems succ_intro \<open>rules for computations that succeed\<close>

lemma succeeds_bind [succ_intro]:
  "succeeds P m R \<Longrightarrow> (\<And>a. succeeds (R a) (f a) Q) \<Longrightarrow> succeeds P (bindM m f) Q"
  by (fastforce simp: succeeds_def bindM_def)

lemma succeeds_seq [succ_intro]: "succeeds P m (\<lambda>_. R) \<Longrightarrow> succeeds R k Q \<Longrightarrow> succeeds P (seqM m k) Q"
  unfolding seqM_def by (rule succeeds_bind)

lemma succeeds_wrap [succ_intro]: "succeeds P m Q \<Longrightarrow> succeeds P (wrapM p m) Q"
  by (fastforce simp: succeeds_def)

lemma succeeds_onErr [succ_intro]: "succeeds P m Q \<Longrightarrow> succeeds P (onErrM p m) Q"
  by (fastforce simp: succeeds_def)

lemma succeeds_ignore [succ_intro]: "succeeds P m (\<lambda>_. Q) \<Longrightarrow> succeeds P (ignoreM m) (\<lambda>_. Q)"
  unfolding ignoreM_def by (erule succeeds_bind) (simp add: succeeds_def)

lemma succeeds_weaken: "succeeds P m Q \<Longrightarrow> (\<And>s. P' s \<Longrightarrow> P s) \<Longrightarrow> (\<And>a s. Q a s \<Longrightarrow> Q' a s) \<Longrightarrow> succeeds P' m Q'"
  by (fastforce simp: succeeds_def)

text \<open>Framing: what the computation keeps, whatever its result, is part of the postcondition.\<close>

lemma succeeds_frame:
  "succeeds P m Q \<Longrightarrow> keepsM I m \<Longrightarrow> succeeds (\<lambda>s. P s \<and> I s) m (\<lambda>a s. Q a s \<and> I s)"
  unfolding succeeds_def keepsM_def by (metis snd_conv)

subsection \<open>Client calls\<close>

definition absent :: "kind \<Rightarrow> store ic_world \<Rightarrow> bool" where
  "absent k w \<longleftrightarrow> objs_in (w_cluster w) k = Map.empty"

lemma put_obj_faults [simp]: "st_faults (put_obj x s) = st_faults s"
  by (simp add: put_obj_def)

lemma drop_obj_faults [simp]: "st_faults (drop_obj x s) = st_faults s"
  by (simp add: drop_obj_def)

lemma good_put:
  "good cr w \<Longrightarrow> kind_of y \<noteq> KIstioCSR \<Longrightarrow> good cr (w\<lparr>w_cluster := put_obj y (w_cluster w), w_events := v\<rparr>)"
  by (simp add: good_def stored_put_obj)

lemma create_calm:
  assumes "st_faults s = []" "om_Name (meta_of x) \<noteq> '''' \<or> om_GenerateName (meta_of x) \<noteq> ''''"
    and "objs_in s (kind_of x) (ObjectKeyFromObject (created (st_count s) x)) = None"
  shows "clCreate store_api x s = (Ok (created (st_count s) x), put_obj (created (st_count s) x) s)"
  using assms by (auto simp: clCreate_def store_api_def store_Create_def served_def Let_def wrapM_def onErrM_def)

text \<open>The objects that are not there yet.\<close>

definition missing :: "(kind \<times> key) set \<Rightarrow> store ic_world \<Rightarrow> bool" where
  "missing S w \<longleftrightarrow> (\<forall>x\<in>S. objs_in (w_cluster w) (fst x) (snd x) = None)"

lemma missing_put: "(kind_of y, ObjectKeyFromObject y) \<notin> S \<Longrightarrow> missing S w \<Longrightarrow>
   missing S (w\<lparr>w_cluster := put_obj y (w_cluster w), w_events := v\<rparr>)"
  by (simp add: missing_def stored_put_obj) (metis prod.collapse)

lemma absent_missing: "absent k w \<Longrightarrow> missing ({k} \<times> U) w"
  by (simp add: absent_def missing_def)

abbreviation id_of :: "obj \<Rightarrow> kind \<times> key" where
  "id_of x \<equiv> (kind_of x, ObjectKeyFromObject x)"

lemma reconcileObject_fresh:
  assumes "om_Name (meta_of x) \<noteq> ''''" "kind_of x \<noteq> KIstioCSR" "id_of x \<notin> S"
  shows "succeeds (\<lambda>w. good cr w \<and> missing (insert (id_of x) S) w)
     (reconcileObject store_api what x b)
     (\<lambda>y w. (good cr w \<and> missing S w) \<and> kind_of y = kind_of x)"
  unfolding succeeds_def
proof (intro allI impI)
  fix w assume pre: "good cr w \<and> missing (insert (id_of x) S) w"
  define y where "y = created (st_count (w_cluster w)) x"
  have calm: "st_faults (w_cluster w) = []" using pre by (simp add: good_def)
  have none: "objs_in (w_cluster w) (kind_of x) (ObjectKeyFromObject x) = None" using pre by (simp add: missing_def)
  have key: "ObjectKeyFromObject y = ObjectKeyFromObject x" "kind_of y = kind_of x"
    using assms(1) by (simp_all add: y_def created_key)
  have cr: "clCreate store_api x (w_cluster w) = (Ok y, put_obj y (w_cluster w))"
    using create_calm [OF calm, of x] assms(1) none key by (simp add: y_def)
  have "\<exists>v. reconcileObject store_api what x b w = (Ok y, w\<lparr>w_cluster := put_obj y (w_cluster w), w_events := v\<rparr>)"
    using exists_calm [OF calm] none cr
    by (simp add: reconcileObject_def Let_def bindM_def onErrM_def onCluster_def seqM_def Eventf_def returnM_def)
       (rule exI, rule refl)
  moreover have "missing S w" using pre by (simp add: missing_def)
  ultimately show "\<exists>a w'. reconcileObject store_api what x b w = (Ok a, w') \<and>
      (good cr w' \<and> missing S w') \<and> kind_of a = kind_of x"
    using key good_put [of cr w y] missing_put [of y S w] pre assms(2,3) by metis
qed

text \<open>Reading an object and writing a version of it back.\<close>

lemma clGet_calm:
  "st_faults s = [] \<Longrightarrow> objs_in s k key = Some x \<Longrightarrow> clGet store_api k key s = (Ok x, s)"
  by (simp add: clGet_def store_api_def store_Get_def served_def wrapM_def onErrM_def)

lemma status_calm:
  assumes "st_faults s = []" "objs_in s KIstioCSR key = Some (OIstioCSR c)" "cr_key cr = key"
  shows "\<exists>y s'. updateStatusOnce store_api cr s = (Ok (), s') \<and> st_faults s' = [] \<and>
     objs_in s' KIstioCSR key = Some (OIstioCSR y) \<and> ic_Spec y = ic_Spec c \<and>
     om_DeletionTimestamp (ic_Meta y) = om_DeletionTimestamp (ic_Meta c)"
proof -
  have k: "ObjectKeyFromObject (OIstioCSR c) = key" using stored_kind_key [OF assms(2)] by simp
  define x where "x = OIstioCSR (c\<lparr>ic_Status := ic_Status cr\<rparr>)"
  have x: "kind_of x = KIstioCSR" "ObjectKeyFromObject x = key" "meta_of x = meta_of (OIstioCSR c)"
    using k by (simp_all add: x_def ObjectKeyFromObject_def)
  define z where "z = c\<lparr>ic_Status := ic_Status cr, ic_Meta := (ic_Meta c)\<lparr>om_ResourceVersion := show_nat (st_count s)\<rparr>\<rparr>"
  have "clStatusUpdate store_api x s = (Ok (OIstioCSR z), put_obj (OIstioCSR z) s)"
    using assms(1,2) x by (simp add: clStatusUpdate_def store_api_def store_StatusUpdate_def served_def Let_def wrapM_def
        onErrM_def x_def z_def set_rv_def)
  then have "updateStatusOnce store_api cr s = (Ok (), put_obj (OIstioCSR z) s)"
    using clGet_calm [OF assms(1,2)] assms(3)
    by (simp add: updateStatusOnce_def bindM_def wrapM_def onErrM_def liftM_def returnM_def x_def)
  moreover have "objs_in (put_obj (OIstioCSR z) s) KIstioCSR key = Some (OIstioCSR z)"
    using k by (simp add: stored_put_obj z_def ObjectKeyFromObject_def)
  ultimately show ?thesis using assms(1) by (auto simp: z_def)
qed

lemma RetryOnConflict_Ok: "n > 0 \<Longrightarrow> fn s = (Ok a, s') \<Longrightarrow> RetryOnConflict n fn s = (Ok a, s')"
  by (cases n) (simp_all add: RetryOnConflict_Suc)

lemma updateStatus_good: "succeeds (good cr) (updateStatus store_api) (\<lambda>_. good cr)"
  unfolding succeeds_def
proof (intro allI impI)
  fix w assume g: "good cr w"
  then obtain c where c: "objs_in (w_cluster w) KIstioCSR (cr_key cr) = Some (OIstioCSR c)" "ic_Spec c = ic_Spec cr"
      "om_DeletionTimestamp (ic_Meta c) = None" by (auto simp: good_def)
  from status_calm [OF _ c(1), of "w_cr w"] g c obtain y s' where
    s': "updateStatusOnce store_api (w_cr w) (w_cluster w) = (Ok (), s')" "st_faults s' = []"
      "objs_in s' KIstioCSR (cr_key cr) = Some (OIstioCSR y)" "ic_Spec y = ic_Spec cr" "om_DeletionTimestamp (ic_Meta y) = None"
    by (auto simp: good_def)
  then have "updateStatus store_api w = (Ok (), w\<lparr>w_cluster := s'\<rparr>)"
    by (simp add: updateStatus_def bindM_def getCR_def wrapM_def onErrM_def onCluster_def RetryOnConflict_Ok DefaultRetry_def)
  with g s' show "\<exists>a w'. updateStatus store_api w = (Ok a, w') \<and> good cr w'" by (auto simp: good_def)
qed

lemma modify_status_good:
  "succeeds (good cr) (modifyCR (\<lambda>c. c\<lparr>ic_Status := f c\<rparr>)) (\<lambda>_. good cr)"
  by (auto simp: succeeds_def good_def cr_key_def ic_Namespace_def ic_Name_def)

lemma update_calm:
  assumes "st_faults s = []" "objs_in s (kind_of x) (ObjectKeyFromObject x) = Some old"
  shows "\<exists>y s'. UpdateWithRetry store_api x s = (Ok y, s') \<and> st_faults s' = []"
proof -
  define v where "v = set_rv (om_ResourceVersion (meta_of old)) x"
  have v: "kind_of v = kind_of x" "ObjectKeyFromObject v = ObjectKeyFromObject x" "released v = released x"
    "om_ResourceVersion (meta_of v) = om_ResourceVersion (meta_of old)"
    by (simp_all add: v_def set_rv_def ObjectKeyFromObject_def released_def)
  have "\<exists>y s'. store_Update v s = (Ok y, s') \<and> st_faults s' = []"
    using assms v by (simp add: store_Update_def served_def Let_def released_def)
  then obtain y s' where up: "store_Update v s = (Ok y, s')" "st_faults s' = []" by blast
  have "updateOnce store_api x s = (Ok y, s')"
    using up assms by (simp add: updateOnce_def Let_def bindM_def wrapM_def onErrM_def store_api_def store_Get_def served_def v_def)
  then show ?thesis using up(2) by (auto simp: UpdateWithRetry_def RetryOnConflict_Ok DefaultRetry_def)
qed

lemma succeeds_getCR:
  assumes "\<And>a. cr_key a = cr_key cr \<Longrightarrow> ic_Spec a = ic_Spec cr \<Longrightarrow> succeeds (\<lambda>w. good cr w \<and> R w) (f a) Q"
  shows "succeeds (\<lambda>w. good cr w \<and> R w) (bindM getCR f) Q"
  unfolding succeeds_def
proof (intro allI impI)
  fix w assume "good cr w \<and> R w"
  with assms [of "w_cr w"] show "\<exists>a w'. bindM getCR f w = (Ok a, w') \<and> Q a w'"
    by (auto simp: succeeds_def good_def bindM_def getCR_def)
qed

lemma succeeds_lift: "r = Ok x \<Longrightarrow> succeeds P (f x) Q \<Longrightarrow> succeeds P (bindM (liftM r) f) Q"
  by (simp add: succeeds_def bindM_def liftM_def)

lemma succeeds_wrap_lift: "r = Ok x \<Longrightarrow> succeeds P (f x) Q \<Longrightarrow> succeeds P (bindM (wrapM p (liftM r)) f) Q"
  by (simp add: succeeds_def bindM_def liftM_def wrapM_def onErrM_def)

lemma succeeds_return: "(\<And>w. P w \<Longrightarrow> Q a w) \<Longrightarrow> succeeds P (returnM a) Q"
  by (simp add: succeeds_def)

lemma status_frame: "KIstioCSR \<notin> fst ` S \<Longrightarrow> keepsM (missing S) (updateStatus store_api)"
  unfolding keepsM_def missing_def
proof (intro allI impI ballI)
  fix w :: "store ic_world" and x assume "KIstioCSR \<notin> fst ` S" "\<forall>x\<in>S. objs_in (w_cluster w) (fst x) (snd x) = None" "x \<in> S"
  moreover from this have "fst x \<noteq> KIstioCSR" by (metis image_eqI)
  ultimately show "objs_in (w_cluster (snd (updateStatus store_api w))) (fst x) (snd x) = None"
    by (simp add: mem.updateStatus_other)
qed

lemma modify_frame: "keepsM (missing S) (modifyCR f)"
  by (simp add: keepsM_def missing_def modifyCR_def)

lemma updateStatus_ok:
  "KIstioCSR \<notin> fst ` S \<Longrightarrow>
   succeeds (\<lambda>w. good cr w \<and> missing S w) (updateStatus store_api) (\<lambda>_ w. good cr w \<and> missing S w)"
  by (rule succeeds_frame [OF updateStatus_good status_frame])

lemma modify_ok:
  "succeeds (\<lambda>w. good cr w \<and> missing S w) (modifyCR (\<lambda>c. c\<lparr>ic_Status := f c\<rparr>)) (\<lambda>_ w. good cr w \<and> missing S w)"
  by (rule succeeds_frame [OF modify_status_good modify_frame])

lemma endpoint_ok:
  "KIstioCSR \<notin> fst ` S \<Longrightarrow>
   succeeds (\<lambda>w. good cr w \<and> missing S w) (updateGRPCEndpointInStatus store_api x) (\<lambda>_ w. good cr w \<and> missing S w)"
  unfolding updateGRPCEndpointInStatus_def
  by (rule succeeds_getCR) (auto intro!: succeeds_seq modify_ok updateStatus_ok succeeds_return split: prod.split)

text \<open>What a step reads of the resource: its key and its specification.\<close>

lemma same_cr:
  assumes "cr_key a = cr_key cr" "ic_Spec a = ic_Spec cr"
  shows "ic_Namespace a = ic_Namespace cr" "ic_Name a = ic_Name cr" "getServiceObject e a l = getServiceObject e cr l"
    "getMetricsServiceObject e a l = getMetricsServiceObject e cr l"
    "getServiceAccountObject e a l = getServiceAccountObject e cr l"
    "getNetworkPolicyFromAsset e p a l = getNetworkPolicyFromAsset e p cr l"
proof -
  have a: "ic_Namespace a = ic_Namespace cr" "ic_Name a = ic_Name cr" "ic_Config a = ic_Config cr"
    using assms by (simp_all add: cr_key_def)
  show "ic_Namespace a = ic_Namespace cr" "ic_Name a = ic_Name cr" "getServiceObject e a l = getServiceObject e cr l"
    "getMetricsServiceObject e a l = getMetricsServiceObject e cr l"
    "getServiceAccountObject e a l = getServiceAccountObject e cr l"
    "getNetworkPolicyFromAsset e p a l = getNetworkPolicyFromAsset e p cr l"
    unfolding getServiceObject_def getMetricsServiceObject_def getServiceAccountObject_def
      getNetworkPolicyFromAsset_def placed_def by (simp_all only: a)
qed

lemma services_ok:
  assumes "getServiceObject e cr l = Ok x" "getMetricsServiceObject e cr l = Ok y"
    and "om_Name (meta_of x) \<noteq> ''''" "om_Name (meta_of y) \<noteq> ''''" "ObjectKeyFromObject x \<noteq> ObjectKeyFromObject y"
  shows "succeeds (\<lambda>w. good cr w \<and> missing {id_of x, id_of y} w) (createOrApplyServices store_api e l b) (\<lambda>_. good cr)"
proof -
  have k: "kind_of x = KService" "kind_of y = KService" using mem.services_kind assms(1,2) by blast+
  have 1: "succeeds (\<lambda>w. good cr w \<and> missing {id_of x, id_of y} w) (createOrApplyService store_api x b)
      (\<lambda>_ w. good cr w \<and> missing {id_of y} w)"
    unfolding createOrApplyService_def using assms(3,5) k
    by (intro succeeds_weaken [OF reconcileObject_fresh [where S = "{id_of y}"]]) auto
  have 2: "succeeds (\<lambda>w. good cr w \<and> missing {id_of y} w) (createOrApplyService store_api y b) (\<lambda>_. good cr)"
    unfolding createOrApplyService_def using assms(4) k
    by (intro succeeds_weaken [OF reconcileObject_fresh [where S = "{}"]]) auto
  have 3: "succeeds (\<lambda>w. good cr w \<and> missing {id_of y} w) (updateGRPCEndpointInStatus store_api z)
      (\<lambda>_ w. good cr w \<and> missing {id_of y} w)" for z
    using k by (intro endpoint_ok) simp
  show ?thesis
    unfolding createOrApplyServices_def
    by (rule succeeds_getCR)
       (auto simp: same_cr assms(1,2) intro!: succeeds_lift succeeds_bind [OF 1] succeeds_seq succeeds_onErr 3 succeeds_ignore 2)
qed

lemma serviceAccounts_ok:
  assumes "getServiceAccountObject e cr l = Ok x" "om_Name (meta_of x) \<noteq> ''''"
  shows "succeeds (\<lambda>w. good cr w \<and> missing {id_of x} w) (createOrApplyServiceAccounts store_api e l b) (\<lambda>_. good cr)"
proof -
  have k: "kind_of x = KServiceAccount"
    using assms(1) by (auto simp: getServiceAccountObject_def bindR_eq_Ok_iff dest!: mem.manifest_kind)
  have 1: "succeeds (\<lambda>w. good cr w \<and> missing {id_of x} w) (reconcileObject store_api what x b)
      (\<lambda>_ w. good cr w \<and> missing {} w)" for what
    using assms(2) k by (intro succeeds_weaken [OF reconcileObject_fresh [where S = "{}"]]) auto
  have 2: "succeeds (\<lambda>w. good cr w \<and> missing {} w) (updateServiceAccountNameInStatus store_api n) (\<lambda>_. good cr)" for n
    unfolding updateServiceAccountNameInStatus_def
    by (rule succeeds_getCR)
       (auto intro!: succeeds_return succeeds_seq [OF modify_ok] succeeds_weaken [OF updateStatus_ok [where S = "{}"]])
  show ?thesis
    unfolding createOrApplyServiceAccounts_def Let_def
    by (rule succeeds_getCR)
       (auto simp: same_cr assms(1) intro!: succeeds_lift succeeds_bind [OF 1] succeeds_onErr 2)
qed

lemma forM_fresh:
  assumes "\<And>a. a \<in> set as \<Longrightarrow> get a = Ok (D a) \<and> om_Name (meta_of (D a)) \<noteq> '''' \<and> kind_of (D a) = k"
    and "distinct (map (\<lambda>a. ObjectKeyFromObject (D a)) as)" "k \<noteq> KIstioCSR"
  shows "succeeds (\<lambda>w. good cr w \<and> missing ((\<lambda>a. id_of (D a)) ` set as) w)
    (forM as (\<lambda>a. bindM (wrapM (p a) (liftM (get a))) (\<lambda>x. wrapM (q a) (ignoreM (reconcileObject store_api what x b)))))
    (\<lambda>_. good cr)"
  using assms
proof (induction as)
  case Nil
  then show ?case by (simp add: succeeds_def)
next
  case (Cons a as)
  let ?S = "(\<lambda>a. id_of (D a)) ` set as"
  have D: "get a = Ok (D a)" "om_Name (meta_of (D a)) \<noteq> ''''" "kind_of (D a) = k" using Cons.prems(1) [of a] by auto
  have "id_of (D a) \<notin> ?S" using Cons.prems(2) by auto
  then have 1: "succeeds (\<lambda>w. good cr w \<and> missing (insert (id_of (D a)) ?S) w) (reconcileObject store_api what (D a) b)
      (\<lambda>_ w. good cr w \<and> missing ?S w)"
    using D Cons.prems(3) by (intro succeeds_weaken [OF reconcileObject_fresh [where S = ?S]]) auto
  have 2: "succeeds (\<lambda>w. good cr w \<and> missing ?S w)
    (forM as (\<lambda>a. bindM (wrapM (p a) (liftM (get a))) (\<lambda>x. wrapM (q a) (ignoreM (reconcileObject store_api what x b)))))
    (\<lambda>_. good cr)" using Cons by simp
  show ?case
    unfolding forM.simps
  proof (rule succeeds_bind)
    show "succeeds (\<lambda>w. good cr w \<and> missing ((\<lambda>a. id_of (D a)) ` set (a # as)) w)
        (bindM (wrapM (p a) (liftM (get a))) (\<lambda>x. wrapM (q a) (ignoreM (reconcileObject store_api what x b))))
        (\<lambda>_ w. good cr w \<and> missing ?S w)"
      using succeeds_wrap [OF succeeds_ignore [OF 1]] by (intro succeeds_wrap_lift [OF D(1)]) simp
  qed (rule 2)
qed

lemma networkPolicy_kind: "getNetworkPolicyFromAsset e a cr l = Ok x \<Longrightarrow> kind_of x = KNetworkPolicy"
  by (auto simp: getNetworkPolicyFromAsset_def bindR_eq_Ok_iff Let_def split: if_splits)

lemma networkPolicies_ok:
  assumes "\<And>a. a \<in> set istioCSRNetworkPolicyAssets \<Longrightarrow> getNetworkPolicyFromAsset e a cr l = Ok (D a) \<and> om_Name (meta_of (D a)) \<noteq> ''''"
    and "distinct (map (\<lambda>a. ObjectKeyFromObject (D a)) istioCSRNetworkPolicyAssets)"
  shows "succeeds (\<lambda>w. good cr w \<and> absent KNetworkPolicy w) (createOrApplyNetworkPolicies store_api e l b) (\<lambda>_. good cr)"
proof -
  have k: "kind_of (D a) = KNetworkPolicy" if "a \<in> set istioCSRNetworkPolicyAssets" for a
    using assms(1) [OF that] networkPolicy_kind by blast
  show ?thesis
    unfolding createOrApplyNetworkPolicies_def createOrUpdateNetworkPolicy_def
  proof (rule succeeds_getCR, unfold same_cr(6))
    show "succeeds (\<lambda>w. good cr w \<and> absent KNetworkPolicy w) (forM istioCSRNetworkPolicyAssets (\<lambda>a.
        bindM (wrapM (''failed to get network policy from asset '' @ a @ '': '')
                (liftM (getNetworkPolicyFromAsset e a cr l))) (\<lambda>x.
        wrapM (''failed to create/update network policy from '' @ a @ '': '')
          (ignoreM (reconcileObject store_api ''network policy'' x b))))) (\<lambda>_. good cr)"
    proof (rule succeeds_weaken [OF forM_fresh [where D = D and k = KNetworkPolicy, OF _ assms(2)]])
      show "good cr w \<and> missing ((\<lambda>a. id_of (D a)) ` set istioCSRNetworkPolicyAssets) w"
        if "good cr w \<and> absent KNetworkPolicy w" for w
        using that k by (simp add: missing_def absent_def)
    qed (use assms(1) k in auto)
  qed
qed

lemma certificates_ok:
  assumes "getCertificateObject e cr l = Ok x" "om_Name (cert_Meta x) \<noteq> ''''"
  shows "succeeds (\<lambda>w. good cr w \<and> missing {id_of (OCertificate x)} w) (createOrApplyCertificates store_api e l b) (\<lambda>_. good cr)"
proof -
  have same: "getCertificateObject e a l = getCertificateObject e cr l" if "cr_key a = cr_key cr" "ic_Spec a = ic_Spec cr" for a
  proof -
    have a: "ic_Namespace a = ic_Namespace cr" "ic_Name a = ic_Name cr" "ic_Config a = ic_Config cr"
      using that by (simp_all add: cr_key_def)
    show ?thesis
      unfolding getCertificateObject_def updateCertificateParams_def show_cr_def by (simp_all only: a)
  qed
  have 1: "succeeds (\<lambda>w. good cr w \<and> missing {id_of (OCertificate x)} w) (reconcileObject store_api what (OCertificate x) b)
      (\<lambda>_. good cr)" for what
    using assms(2) by (intro succeeds_weaken [OF reconcileObject_fresh [where S = "{}"]]) auto
  show ?thesis
    unfolding createOrApplyCertificates_def
    by (rule succeeds_getCR)
       (auto simp: same assms(1) intro!: succeeds_wrap_lift succeeds_bind [OF 1 [simplified]] succeeds_return)
qed

subsection \<open>Cluster-scoped objects with generated names\<close>

lemma list_calm_absent:
  "st_faults s = [] \<Longrightarrow> objs_in s k = Map.empty \<Longrightarrow> clList store_api k sel s = (Ok [], s)"
  by (simp add: clList_def store_api_def store_List_def served_def wrapM_def onErrM_def)

lemma find_ok:
  "succeeds (\<lambda>w. good cr w \<and> absent (kind_of x) w) (findByStatusOrLabels store_api e what x n)
     (\<lambda>r w. (good cr w \<and> absent (kind_of x) w) \<and> fst r = None)"
  unfolding succeeds_def
proof (intro allI impI)
  fix w assume w: "good cr w \<and> absent (kind_of x) w"
  then have "st_faults (w_cluster w) = []" "objs_in (w_cluster w) (kind_of x) = Map.empty" by (simp_all add: good_def absent_def)
  then have "\<exists>rn. findByStatusOrLabels store_api e what x n w = (Ok (None, rn), w)"
    by (simp add: findByStatusOrLabels_def Let_def bindM_def getCR_def onErrM_def onCluster_def exists_calm list_calm_absent
        returnM_def)
  with w show "\<exists>a w'. findByStatusOrLabels store_api e what x n w = (Ok a, w') \<and>
      (good cr w' \<and> absent (kind_of x) w') \<and> fst a = None" by fastforce
qed

lemma createPinned_ok:
  assumes "om_GenerateName (meta_of x) \<noteq> ''''" "kind_of x \<noteq> KIstioCSR"
  shows "succeeds (\<lambda>w. good cr w \<and> absent (kind_of x) w) (createPinned store_api what n rn x) (\<lambda>_. good cr)"
  unfolding succeeds_def
proof (intro allI impI)
  fix w assume w: "good cr w \<and> absent (kind_of x) w"
  define z where "z = useStableRBACNameForRecreate n x"
  define y where "y = created (st_count (w_cluster w)) z"
  have z: "kind_of z = kind_of x" "om_Name (meta_of z) \<noteq> '''' \<or> om_GenerateName (meta_of z) \<noteq> ''''"
    using assms(1) by (auto simp: z_def useStableRBACNameForRecreate_def)
  have y: "kind_of y = kind_of x" using z(1) by (simp add: y_def created_def)
  have "st_faults (w_cluster w) = []" "objs_in (w_cluster w) (kind_of z) = Map.empty"
    using w z(1) by (simp_all add: good_def absent_def)
  from create_calm [OF this(1) z(2)] this(2)
  have "clCreate store_api z (w_cluster w) = (Ok y, put_obj y (w_cluster w))" by (simp add: y_def)
  then have "\<exists>a v. createPinned store_api what n rn x w = (Ok a, w\<lparr>w_cluster := put_obj y (w_cluster w), w_events := v\<rparr>)"
    by (simp add: createPinned_def Let_def bindM_def onErrM_def onCluster_def seqM_def Eventf_def returnM_def z_def)
       (intro conjI impI; rule exI; rule refl)
  with good_put [of cr w y] w y assms(2)
  show "\<exists>a w'. createPinned store_api what n rn x w = (Ok a, w') \<and> good cr w'" by metis
qed

lemma generated_name:
  "getClusterRoleObject e ns l = Ok x \<Longrightarrow> kind_of x = KClusterRole \<and> om_GenerateName (meta_of x) \<noteq> ''''"
  "getClusterRoleBindingObject e n sa ns l = Ok y \<Longrightarrow> kind_of y = KClusterRoleBinding \<and> om_GenerateName (meta_of y) \<noteq> ''''"
proof -
  have b: "meta_of (upd_binding (\<lambda>b. b\<lparr>rb_Subjects := f b\<rparr>) v) = meta_of v"
    "meta_of (upd_binding (\<lambda>b. b\<lparr>rb_RoleRef := g b\<rparr>) v) = meta_of v" for f g v by (cases v; simp)+
  show "getClusterRoleObject e ns l = Ok x \<Longrightarrow> kind_of x = KClusterRole \<and> om_GenerateName (meta_of x) \<noteq> ''''"
    by (auto simp: getClusterRoleObject_def bindR_eq_Ok_iff updateToUseGenerateName_def
        updateResourceLabelsWithIstioMapperLabels_def UpdateResourceLabels_def dest!: mem.manifest_kind)
  show "getClusterRoleBindingObject e n sa ns l = Ok y \<Longrightarrow> kind_of y = KClusterRoleBinding \<and> om_GenerateName (meta_of y) \<noteq> ''''"
    by (auto simp: getClusterRoleBindingObject_def bindR_eq_Ok_iff Let_def updateToUseGenerateName_def b
        updateServiceAccountNamespaceInRBACBindingObject_def
        updateResourceLabelsWithIstioMapperLabels_def UpdateResourceLabels_def dest!: mem.manifest_kind)
qed

lemma good_modify_status: "succeeds (good cr) (seqM (modifyCR (\<lambda>c. c\<lparr>ic_Status := f c\<rparr>)) (updateStatus store_api)) (\<lambda>_. good cr)"
  by (intro succeeds_seq [OF modify_status_good] updateStatus_good)

lemma clusterRoles_ok:
  assumes "getClusterRoleObject e (ic_Namespace cr) l = Ok x"
  shows "succeeds (\<lambda>w. good cr w \<and> absent KClusterRole w) (createOrApplyClusterRoles store_api e l b) (\<lambda>_. good cr)"
proof -
  note x = generated_name(1) [OF assms]
  have step: "succeeds (\<lambda>w. (good cr w \<and> absent KClusterRole w) \<and> found = None) (clusterRoleStep store_api b n rn x found) (\<lambda>_. good cr)"
    for n rn found
  proof (cases found)
    case None
    have pin: "succeeds (\<lambda>w. good cr w \<and> absent KClusterRole w) (createPinned store_api what n rn x) (\<lambda>_. good cr)" for what
      using createPinned_ok [of x cr what n rn] x by simp
    show ?thesis
      by (auto simp: None clusterRoleStep_def intro!: succeeds_bind [OF pin] succeeds_return split: prod.split)
  qed (simp add: succeeds_def)
  have st: "succeeds (good cr) (updateClusterRoleNameInStatus store_api d found) (\<lambda>_. good cr)" for d found
    unfolding updateClusterRoleNameInStatus_def Let_def
    by (intro succeeds_seq [OF modify_status_good] succeeds_seq [OF updateStatus_good] succeeds_return)
  have find: "succeeds (\<lambda>w. good cr w \<and> absent KClusterRole w) (findByStatusOrLabels store_api e what x n)
      (\<lambda>(found, _) w. (good cr w \<and> absent KClusterRole w) \<and> found = None)" for what n
    using find_ok [of cr x e what n] x by (simp add: case_prod_beta')
  show ?thesis
    unfolding createOrApplyClusterRoles_def Let_def
  proof (rule succeeds_getCR, unfold same_cr(1), intro succeeds_lift [OF assms] succeeds_bind [OF find])
    fix a r assume "cr_key a = cr_key cr" "ic_Spec a = ic_Spec cr"
    show "succeeds ((\<lambda>(found, _) w. (good cr w \<and> absent KClusterRole w) \<and> found = None) r)
        (case r of (existing, roleName) \<Rightarrow> bindM (clusterRoleStep store_api b (ics_ClusterRole (ic_Status a)) roleName x existing)
          (\<lambda>desired. onErrM (clientErr (''failed to update '' @ show_cr a @ '' istiocsr status with '' @
                  nameForStatus desired existing @ '' clusterrole resource name''))
            (updateClusterRoleNameInStatus store_api desired existing))) (\<lambda>_. good cr)"
      by (cases r) (simp only: prod.case, intro succeeds_bind [OF step] succeeds_onErr st)
  qed
qed

lemma clusterRoleBindings_ok:
  assumes "\<And>n. getClusterRoleBindingObject e n sa (ic_Namespace cr) l = Ok (x n)"
  shows "succeeds (\<lambda>w. good cr w \<and> absent KClusterRoleBinding w)
     (createOrApplyClusterRoleBindings store_api e n sa l b) (\<lambda>_. good cr)"
proof -
  have x: "kind_of (x n) = KClusterRoleBinding" "om_GenerateName (meta_of (x n)) \<noteq> ''''"
    using generated_name(2) [OF assms] by simp_all
  have pin: "succeeds (\<lambda>w. good cr w \<and> absent KClusterRoleBinding w) (createPinned store_api what sn rn (x n)) (\<lambda>_. good cr)"
    for what sn rn using createPinned_ok [of "x n" cr what sn rn] x by simp
  have st: "succeeds (good cr) (updateClusterRoleBindingNameInStatus store_api d found) (\<lambda>_. good cr)" for d found
    unfolding updateClusterRoleBindingNameInStatus_def by (rule good_modify_status)
  have find: "succeeds (\<lambda>w. good cr w \<and> absent KClusterRoleBinding w) (findByStatusOrLabels store_api e what (x n) sn)
      (\<lambda>r w. (good cr w \<and> absent KClusterRoleBinding w) \<and> fst r = None)" for what sn
    using find_ok [of cr "x n" e what sn] x by simp
  have rest: "succeeds (\<lambda>w. (good cr w \<and> absent KClusterRoleBinding w) \<and> fst r = None)
      (case r of (existing, bindingName) \<Rightarrow> bindM (case existing of
          Some fetched \<Rightarrow> g fetched bindingName
        | None \<Rightarrow> createPinned store_api what sn bindingName (x n)) (\<lambda>(desired, bindingName).
        onErrM (h bindingName) (updateClusterRoleBindingNameInStatus store_api desired existing))) (\<lambda>_. good cr)"
    for r g h sn what
    by (cases r; cases "fst r")
       (auto simp: succeeds_def [of "\<lambda>_. False"] intro!: succeeds_bind [OF pin] succeeds_onErr st split: prod.split)
  show ?thesis
    unfolding createOrApplyClusterRoleBindings_def Let_def
    by (rule succeeds_getCR, unfold same_cr(1), intro succeeds_lift [OF assms] succeeds_bind [OF find] rest)
qed

lemma roles_ok:
  assumes "getNamespacedRole e roleAssetName (ic_Namespace cr) (istio_Namespace (Istio (ic_Config cr))) l = Ok x"
    and "getNamespacedRole e roleLeasesAssetName (ic_Namespace cr) (istio_Namespace (Istio (ic_Config cr))) l = Ok y"
    and "om_Name (meta_of x) \<noteq> ''''" "om_Name (meta_of y) \<noteq> ''''"
  shows "id_of x \<notin> S \<Longrightarrow> succeeds (\<lambda>w. good cr w \<and> missing (insert (id_of x) S) w) (createOrApplyRoles store_api e l b)
      (\<lambda>_ w. good cr w \<and> missing S w)"
    and "id_of y \<notin> S \<Longrightarrow> succeeds (\<lambda>w. good cr w \<and> missing (insert (id_of y) S) w) (createOrApplyRoleForLeases store_api e l b)
      (\<lambda>_ w. good cr w \<and> missing S w)"
proof -
  have k: "kind_of x = KRole" "kind_of y = KRole" using mem.rbac_kinds(3) assms(1,2) by blast+
  have 1: "succeeds (\<lambda>w. good cr w \<and> missing (insert (id_of z) S) w) (reconcileObject store_api what z b)
      (\<lambda>_ w. good cr w \<and> missing S w)" if "id_of z \<notin> S" "z = x \<or> z = y" for z what
    using that assms(3,4) k by (intro succeeds_weaken [OF reconcileObject_fresh [where S = S]]) auto
  have cfg: "ic_Spec a = ic_Spec cr \<Longrightarrow> ic_Config a = ic_Config cr" for a by simp
  show "succeeds (\<lambda>w. good cr w \<and> missing (insert (id_of x) S) w) (createOrApplyRoles store_api e l b)
      (\<lambda>_ w. good cr w \<and> missing S w)" if "id_of x \<notin> S"
    unfolding createOrApplyRoles_def getRoleObject_def
    by (rule succeeds_getCR, unfold same_cr(1) cfg, intro succeeds_lift [OF assms(1)] succeeds_ignore 1 [OF that]) simp
  show "succeeds (\<lambda>w. good cr w \<and> missing (insert (id_of y) S) w) (createOrApplyRoleForLeases store_api e l b)
      (\<lambda>_ w. good cr w \<and> missing S w)" if "id_of y \<notin> S"
    unfolding createOrApplyRoleForLeases_def getRoleForLeasesObject_def
    by (rule succeeds_getCR, unfold same_cr(1) cfg, intro succeeds_lift [OF assms(2)] succeeds_ignore 1 [OF that]) simp
qed

lemma bindings_ok:
  assumes "getNamespacedBinding e roleBindingAssetName sa (ic_Namespace cr) (istio_Namespace (Istio (ic_Config cr))) l = Ok x"
    and "getNamespacedBinding e roleBindingLeasesAssetName sa (ic_Namespace cr) (istio_Namespace (Istio (ic_Config cr))) l = Ok y"
    and "om_Name (meta_of x) \<noteq> ''''" "om_Name (meta_of y) \<noteq> ''''"
  shows "id_of x \<notin> S \<Longrightarrow> succeeds (\<lambda>w. good cr w \<and> missing (insert (id_of x) S) w) (createOrApplyRoleBindings store_api e sa l b)
      (\<lambda>_ w. good cr w \<and> missing S w)"
    and "id_of y \<notin> S \<Longrightarrow> succeeds (\<lambda>w. good cr w \<and> missing (insert (id_of y) S) w)
      (createOrApplyRoleBindingForLeases store_api e sa l b) (\<lambda>_ w. good cr w \<and> missing S w)"
proof -
  have k: "kind_of x = KRoleBinding" "kind_of y = KRoleBinding" using mem.rbac_kinds(4) assms(1,2) by blast+
  have 1: "succeeds (\<lambda>w. good cr w \<and> missing (insert (id_of z) S) w) (reconcileObject store_api what z b)
      (\<lambda>_ w. good cr w \<and> missing S w)" if "id_of z \<notin> S" "z = x \<or> z = y" for z what
    using that assms(3,4) k by (intro succeeds_weaken [OF reconcileObject_fresh [where S = S]]) auto
  have cfg: "ic_Spec a = ic_Spec cr \<Longrightarrow> ic_Config a = ic_Config cr" for a by simp
  show "succeeds (\<lambda>w. good cr w \<and> missing (insert (id_of x) S) w) (createOrApplyRoleBindings store_api e sa l b)
      (\<lambda>_ w. good cr w \<and> missing S w)" if "id_of x \<notin> S"
    unfolding createOrApplyRoleBindings_def getRoleBindingObject_def
    by (rule succeeds_getCR, unfold same_cr(1) cfg, intro succeeds_lift [OF assms(1)] succeeds_ignore 1 [OF that]) simp
  show "succeeds (\<lambda>w. good cr w \<and> missing (insert (id_of y) S) w) (createOrApplyRoleBindingForLeases store_api e sa l b)
      (\<lambda>_ w. good cr w \<and> missing S w)" if "id_of y \<notin> S"
    unfolding createOrApplyRoleBindingForLeases_def getRoleBindingForLeasesObject_def
    by (rule succeeds_getCR, unfold same_cr(1) cfg, intro succeeds_lift [OF assms(2)] succeeds_ignore 1 [OF that]) simp
qed

subsection \<open>The bundle of manifests\<close>

text \<open>
  The manifests decode to named objects of the expected kinds, the objects of one kind have different names, and
  the specification passes the checks of the certificate and the deployment.
\<close>

definition named :: "obj res \<Rightarrow> bool" where
  "named r = (case r of Ok x \<Rightarrow> om_Name (meta_of x) \<noteq> '''' | _ \<Rightarrow> False)"

definition the_key :: "obj res \<Rightarrow> key" where
  "the_key r = (case r of Ok x \<Rightarrow> ObjectKeyFromObject x | _ \<Rightarrow> ('''', ''''))"

definition installable :: "ic_env \<Rightarrow> IstioCSR \<Rightarrow> labels \<Rightarrow> bool" where
  "installable e cr l \<longleftrightarrow>
     (let ns = ic_Namespace cr; istio = istio_Namespace (Istio (ic_Config cr));
          policy = (\<lambda>a. getNetworkPolicyFromAsset e a cr l);
          sa = (case manifest e KServiceAccount serviceAccountAssetName of Ok x \<Rightarrow> om_Name (meta_of x) | _ \<Rightarrow> '''');
          role = (\<lambda>a. getNamespacedRole e a ns istio l); binding = (\<lambda>a. getNamespacedBinding e a sa ns istio l)
      in is_ok (validateIstioCSRConfig cr) \<and>
         list_all (named \<circ> policy) istioCSRNetworkPolicyAssets \<and> distinct (map (the_key \<circ> policy) istioCSRNetworkPolicyAssets) \<and>
         named (getServiceObject e cr l) \<and> named (getMetricsServiceObject e cr l) \<and>
         the_key (getServiceObject e cr l) \<noteq> the_key (getMetricsServiceObject e cr l) \<and>
         named (getServiceAccountObject e cr l) \<and>
         is_ok (manifest e KClusterRole clusterRoleAssetName) \<and> is_ok (manifest e KClusterRoleBinding clusterRoleBindingAssetName) \<and>
         named (role roleAssetName) \<and> named (role roleLeasesAssetName) \<and> the_key (role roleAssetName) \<noteq> the_key (role roleLeasesAssetName) \<and>
         named (binding roleBindingAssetName) \<and> named (binding roleBindingLeasesAssetName) \<and>
         the_key (binding roleBindingAssetName) \<noteq> the_key (binding roleBindingLeasesAssetName) \<and>
         (case getCertificateObject e cr l of Ok c \<Rightarrow> om_Name (cert_Meta c) \<noteq> '''' | _ \<Rightarrow> False) \<and>
         (case deploymentFromManifest e cr l of Ok d \<Rightarrow> om_Name (dep_Meta d) \<noteq> '''' | _ \<Rightarrow> False))"

lemma named_iff: "named r \<longleftrightarrow> (\<exists>x. r = Ok x \<and> om_Name (meta_of x) \<noteq> '''')"
  by (cases r) (simp_all add: named_def)

lemma the_key_Ok [simp]: "the_key (Ok x) = ObjectKeyFromObject x"
  by (simp add: the_key_def)

lemma absent_frame: "(\<And>f. keepsM (\<lambda>w. objs_in (w_cluster w) k = f) m) \<Longrightarrow> keepsM (absent k) m"
  unfolding absent_def by blast

lemma succeeds_absent:
  assumes "succeeds P m (\<lambda>_. Q)" "\<And>k f. k \<in> K \<Longrightarrow> keepsM (\<lambda>w. objs_in (w_cluster w) k = f) m"
  shows "succeeds (\<lambda>w. P w \<and> (\<forall>k\<in>K. absent k w)) m (\<lambda>_ w. Q w \<and> (\<forall>k\<in>K. absent k w))"
proof (rule succeeds_frame [OF assms(1)])
  show "keepsM (\<lambda>w. \<forall>k\<in>K. absent k w) m"
    using assms(2) absent_frame unfolding keepsM_def by blast
qed

lemma rbac_ok:
  assumes "installable e cr l"
  shows "succeeds (\<lambda>w. good cr w \<and> (\<forall>k\<in>{KClusterRole, KClusterRoleBinding, KRole, KRoleBinding}. absent k w))
     (createOrApplyRBACResource store_api e l b) (\<lambda>_. good cr)"
proof -
  define sa where "sa = (case manifest e KServiceAccount serviceAccountAssetName of Ok x \<Rightarrow> om_Name (meta_of x) | _ \<Rightarrow> '''')"
  from assms obtain r1 r2 b1 b2 where
    r: "getNamespacedRole e roleAssetName (ic_Namespace cr) (istio_Namespace (Istio (ic_Config cr))) l = Ok r1"
      "getNamespacedRole e roleLeasesAssetName (ic_Namespace cr) (istio_Namespace (Istio (ic_Config cr))) l = Ok r2"
      "om_Name (meta_of r1) \<noteq> ''''" "om_Name (meta_of r2) \<noteq> ''''"
    and bd: "getNamespacedBinding e roleBindingAssetName sa (ic_Namespace cr) (istio_Namespace (Istio (ic_Config cr))) l = Ok b1"
      "getNamespacedBinding e roleBindingLeasesAssetName sa (ic_Namespace cr) (istio_Namespace (Istio (ic_Config cr))) l = Ok b2"
      "om_Name (meta_of b1) \<noteq> ''''" "om_Name (meta_of b2) \<noteq> ''''"
    and ne: "ObjectKeyFromObject r1 \<noteq> ObjectKeyFromObject r2" "ObjectKeyFromObject b1 \<noteq> ObjectKeyFromObject b2"
    by (auto simp: installable_def Let_def named_iff sa_def)
  have kinds: "kind_of r1 = KRole" "kind_of r2 = KRole" "kind_of b1 = KRoleBinding" "kind_of b2 = KRoleBinding"
    using mem.rbac_kinds(3) [OF r(1)] mem.rbac_kinds(3) [OF r(2)] mem.rbac_kinds(4) [OF bd(1)] mem.rbac_kinds(4) [OF bd(2)]
    by simp_all
  from assms obtain c0 d0 where "manifest e KClusterRole clusterRoleAssetName = Ok c0"
    and d0: "manifest e KClusterRoleBinding clusterRoleBindingAssetName = Ok d0"
    by (auto simp: installable_def Let_def is_ok_iff)
  then obtain c where c: "getClusterRoleObject e (ic_Namespace cr) l = Ok c" by (auto simp: getClusterRoleObject_def)
  from assms obtain s0 where s0: "manifest e KServiceAccount serviceAccountAssetName = Ok s0"
    by (auto simp: installable_def Let_def named_iff getServiceAccountObject_def bindR_eq_Ok_iff)
  then have sa: "om_Name (meta_of s0) = sa" by (simp add: sa_def)
  have "\<exists>d. \<forall>n. getClusterRoleBindingObject e n sa (ic_Namespace cr) l = Ok (d n)"
    using d0 by (simp add: getClusterRoleBindingObject_def Let_def) (rule exI, rule allI, rule refl)
  then obtain d where d: "\<And>n. getClusterRoleBindingObject e n sa (ic_Namespace cr) l = Ok (d n)" by blast
  have 1: "succeeds (\<lambda>w. good cr w \<and> (\<forall>k\<in>{KClusterRole, KClusterRoleBinding, KRole, KRoleBinding}. absent k w))
      (createOrApplyClusterRoles store_api e l b) (\<lambda>_ w. good cr w \<and> (\<forall>k\<in>{KClusterRoleBinding, KRole, KRoleBinding}. absent k w))"
    by (rule succeeds_weaken [OF succeeds_absent [OF clusterRoles_ok [OF c], of "{KClusterRoleBinding, KRole, KRoleBinding}" b]])
       (auto intro: mem.clusterRoles_frame)
  have 2: "succeeds (\<lambda>w. good cr w \<and> (\<forall>k\<in>{KClusterRoleBinding, KRole, KRoleBinding}. absent k w))
      (createOrApplyClusterRoleBindings store_api e n sa l b) (\<lambda>_ w. good cr w \<and> missing {id_of r1, id_of b1, id_of r2, id_of b2} w)" for n
    by (rule succeeds_weaken [OF succeeds_absent [OF clusterRoleBindings_ok [OF d], of "{KRole, KRoleBinding}" n b]])
       (auto intro: mem.clusterRoleBindings_frame simp: missing_def absent_def kinds)
  have 3: "succeeds (\<lambda>w. good cr w \<and> missing {id_of b2} w) (createOrApplyRoleBindingForLeases store_api e sa l b) (\<lambda>_. good cr)"
    by (rule succeeds_weaken [OF bindings_ok(2) [OF bd, where S = "{}"]]) auto
  show ?thesis
    unfolding createOrApplyRBACResource_def Let_def
    by (rule succeeds_lift [OF s0], unfold sa,
        intro succeeds_bind [OF 1] succeeds_seq [OF 2] succeeds_seq [OF roles_ok(1) [OF r]]
          succeeds_seq [OF bindings_ok(1) [OF bd]] succeeds_seq [OF roles_ok(2) [OF r]] 3)
       (use ne kinds in auto)
qed

subsection \<open>The deployment and its CA\<close>

lemma watchLabel_ok:
  assumes "good cr w" "objs_in (w_cluster w) (kind_of x) (ObjectKeyFromObject x) = Some x" "kind_of x \<noteq> KIstioCSR" "\<not> released x"
  shows "\<exists>y w'. updateWatchLabel store_api x a w = (Ok y, w') \<and> good cr w' \<and>
     same_content (upd_meta (\<lambda>m. m\<lparr>om_Labels := mput IstiocsrResourceWatchLabelName (watchLabelValue a) (om_Labels m)\<rparr>) x) y \<and>
     objs_in (w_cluster w') = (objs_in (w_cluster w))(kind_of x := (objs_in (w_cluster w) (kind_of x))(ObjectKeyFromObject x \<mapsto> y))"
proof -
  define z where "z = upd_meta (\<lambda>m. m\<lparr>om_Labels := mput IstiocsrResourceWatchLabelName (watchLabelValue a) (om_Labels m)\<rparr>) x"
  have z: "kind_of z = kind_of x" "ObjectKeyFromObject z = ObjectKeyFromObject x" "\<not> released z"
    using assms(4) by (simp_all add: z_def ObjectKeyFromObject_def released_def)
  have calm: "st_faults (w_cluster w) = []" using assms(1) by (simp add: good_def)
  from update_calm [OF calm, of z x] assms(2) z obtain y s' where
    up: "UpdateWithRetry store_api z (w_cluster w) = (Ok y, s')" "st_faults s' = []" by auto
  from mem.UpdateWithRetry_result [OF up(1)] z have
    y: "same_content (keep_status x z) y"
      "objs_in s' = (objs_in (w_cluster w))(kind_of x := (objs_in (w_cluster w) (kind_of x))(ObjectKeyFromObject x \<mapsto> y))"
    using assms(2) by auto
  have "keep_status x z = z" by (simp add: z_def keep_status_upd_meta)
  moreover have "updateWatchLabel store_api x a w = (Ok y, w\<lparr>w_cluster := s'\<rparr>)"
    using up(1) by (simp add: updateWatchLabel_def Let_def wrapM_def onErrM_def onCluster_def z_def)
  moreover have "good cr (w\<lparr>w_cluster := s'\<rparr>)" using assms(1,3) up(2) y(2) by (simp add: good_def)
  ultimately show ?thesis using y by (auto simp: z_def)
qed

lemma same_released:
  assumes "same_content a b" shows "released a = released b"
proof -
  have "plain_meta (meta_of a) = plain_meta (meta_of b)"
    using arg_cong [OF assms [unfolded same_content_def], of meta_of] by simp
  from arg_cong [OF this, of om_DeletionTimestamp] arg_cong [OF this, of om_Finalizers] show ?thesis
    by (simp add: released_def plain_meta_def)
qed

lemma same_issuer:
  assumes "same_content (OIssuer i) y" shows "\<exists>j. y = OIssuer j \<and> iss_ACME j = iss_ACME i \<and> iss_CA j = iss_CA i"
proof (cases y)
  case (OIssuer j)
  with assms have "i\<lparr>iss_Meta := plain_meta (iss_Meta i)\<rparr> = j\<lparr>iss_Meta := plain_meta (iss_Meta j)\<rparr>"
    by (simp add: same_content_def)
  from arg_cong [OF this, of iss_ACME] arg_cong [OF this, of iss_CA] OIssuer show ?thesis by simp
qed (use assms in \<open>simp_all add: same_content_def\<close>)

lemma same_secret:
  assumes "same_content (OSecret i) y" shows "\<exists>j. y = OSecret j \<and> sec_Data j = sec_Data i"
proof (cases y)
  case (OSecret j)
  with assms have "i\<lparr>sec_Meta := plain_meta (sec_Meta i)\<rparr> = j\<lparr>sec_Meta := plain_meta (sec_Meta j)\<rparr>"
    by (simp add: same_content_def)
  from arg_cong [OF this, of sec_Data] OSecret show ?thesis by simp
qed (use assms in \<open>simp_all add: same_content_def\<close>)

lemma watchLabel_issuer:
  assumes "good cr w" "objs_in (w_cluster w) KIssuer key = Some (OIssuer i)" "\<not> released (OIssuer i)"
  shows "\<exists>i' w'. updateWatchLabel store_api (OIssuer i) a w = (Ok (OIssuer i'), w') \<and> good cr w' \<and> \<not> released (OIssuer i') \<and>
     iss_ACME i' = iss_ACME i \<and> iss_CA i' = iss_CA i \<and>
     objs_in (w_cluster w') = (objs_in (w_cluster w))(KIssuer := (objs_in (w_cluster w) KIssuer)(key \<mapsto> OIssuer i'))"
proof -
  have key: "ObjectKeyFromObject (OIssuer i) = key" using stored_kind_key [OF assms(2)] by simp
  from watchLabel_ok [OF assms(1), of "OIssuer i" a] key assms(2,3) obtain y w' where
    y: "updateWatchLabel store_api (OIssuer i) a w = (Ok y, w')" "good cr w'"
      "same_content (OIssuer (i\<lparr>iss_Meta := (iss_Meta i)\<lparr>om_Labels :=
          mput IstiocsrResourceWatchLabelName (watchLabelValue a) (om_Labels (iss_Meta i))\<rparr>\<rparr>)) y"
      "objs_in (w_cluster w') = (objs_in (w_cluster w))(KIssuer := (objs_in (w_cluster w) KIssuer)(key \<mapsto> y))" by auto
  from same_issuer [OF y(3)] obtain i' where "y = OIssuer i'" "iss_ACME i' = iss_ACME i" "iss_CA i' = iss_CA i" by auto
  moreover have "\<not> released y" using same_released [OF y(3)] assms(3) by (simp add: released_def)
  ultimately show ?thesis using y by auto
qed

lemma watchLabel_secret:
  assumes "good cr w" "objs_in (w_cluster w) KSecret key = Some (OSecret i)" "\<not> released (OSecret i)"
  shows "\<exists>i' w'. updateWatchLabel store_api (OSecret i) a w = (Ok (OSecret i'), w') \<and> good cr w' \<and> sec_Data i' = sec_Data i \<and>
     objs_in (w_cluster w') = (objs_in (w_cluster w))(KSecret := (objs_in (w_cluster w) KSecret)(key \<mapsto> OSecret i'))"
proof -
  have key: "ObjectKeyFromObject (OSecret i) = key" using stored_kind_key [OF assms(2)] by simp
  from watchLabel_ok [OF assms(1), of "OSecret i" a] key assms(2,3) obtain y w' where
    y: "updateWatchLabel store_api (OSecret i) a w = (Ok y, w')" "good cr w'"
      "same_content (OSecret (i\<lparr>sec_Meta := (sec_Meta i)\<lparr>om_Labels :=
          mput IstiocsrResourceWatchLabelName (watchLabelValue a) (om_Labels (sec_Meta i))\<rparr>\<rparr>)) y"
      "objs_in (w_cluster w') = (objs_in (w_cluster w))(KSecret := (objs_in (w_cluster w) KSecret)(key \<mapsto> y))" by auto
  from same_secret [OF y(3)] obtain i' where "y = OSecret i'" "sec_Data i' = sec_Data i" by auto
  with y show ?thesis by auto
qed

text \<open>A namespaced CA issuer with its secret, and what the deployment step creates not there yet.\<close>

definition ca_issuer :: "IstioCSR \<Rightarrow> bool" where
  "ca_issuer cr \<longleftrightarrow> issuerRefKind cr = issuerKind \<and> to_lower (ir_Group (IssuerRef (CertManager (ic_Config cr)))) = issuerGroup \<and>
     IstioCACertificate (CertManager (ic_Config cr)) = None"

definition ca_there :: "IstioCSR \<Rightarrow> store \<Rightarrow> bool" where
  "ca_there cr s \<longleftrightarrow> (\<exists>i n x. objs_in s KIssuer (istio_Namespace (Istio (ic_Config cr)),
       ir_Name (IssuerRef (CertManager (ic_Config cr)))) = Some (OIssuer i) \<and> \<not> released (OIssuer i) \<and>
     iss_ACME i = None \<and> iss_CA i = Some n \<and> n \<noteq> '''' \<and>
     objs_in s KSecret (istio_Namespace (Istio (ic_Config cr)), n) = Some (OSecret x) \<and> \<not> released (OSecret x) \<and>
     mget (sec_Data x) IstiocsrCAKeyName \<noteq> '''')"

definition ca_ready :: "IstioCSR \<Rightarrow> store ic_world \<Rightarrow> bool" where
  "ca_ready cr w \<longleftrightarrow> good cr w \<and> ca_there cr (w_cluster w) \<and> absent KConfigMap w \<and> absent KDeployment w"

lemma getIssuer_ok:
  assumes "st_faults (w_cluster w) = []" "issuerRefKind a = issuerKind"
    and "objs_in (w_cluster w) KIssuer (istio_Namespace (Istio (ic_Config a)), ir_Name (IssuerRef (CertManager (ic_Config a)))) = Some x"
  shows "getIssuer store_api a w = (Ok x, w)"
  using assms clGet_calm [OF assms(1,3)]
  by (simp add: getIssuer_def Let_def issuerKind_def clusterIssuerKind_def wrapM_def onErrM_def onCluster_def)

lemma assertIssuer_ok:
  assumes "ca_issuer cr" "ic_Spec a = ic_Spec cr"
  shows "succeeds (ca_ready cr) (assertIssuerRefExists store_api a) (\<lambda>_. ca_ready cr)"
  unfolding succeeds_def
proof (intro allI impI)
  fix w assume w: "ca_ready cr w"
  let ?ns = "istio_Namespace (Istio (ic_Config cr))" and ?n = "ir_Name (IssuerRef (CertManager (ic_Config cr)))"
  from w obtain i n x where
    i: "objs_in (w_cluster w) KIssuer (?ns, ?n) = Some (OIssuer i)" "\<not> released (OIssuer i)" "iss_ACME i = None" "iss_CA i = Some n"
      "n \<noteq> ''''" and x: "objs_in (w_cluster w) KSecret (?ns, n) = Some (OSecret x)" "\<not> released (OSecret x)"
      "mget (sec_Data x) IstiocsrCAKeyName \<noteq> ''''" and g: "good cr w"
    by (auto simp: ca_ready_def ca_there_def)
  have a: "issuerRefKind a = issuerKind" "to_lower (ir_Group (IssuerRef (CertManager (ic_Config a)))) = issuerGroup"
    using assms by (simp_all add: ca_issuer_def issuerRefKind_def)
  have get: "getIssuer store_api a w = (Ok (OIssuer i), w)"
    using getIssuer_ok [OF _ a(1)] g i(1) assms(2) by (simp add: good_def)
  from watchLabel_issuer [OF g i(1,2), of a] obtain i' w' where
    w': "updateWatchLabel store_api (OIssuer i) a w = (Ok (OIssuer i'), w')" "good cr w'" "iss_ACME i' = None" "iss_CA i' = Some n" "\<not> released (OIssuer i')"
      "objs_in (w_cluster w') = (objs_in (w_cluster w))(KIssuer := (objs_in (w_cluster w) KIssuer)((?ns, ?n) \<mapsto> OIssuer i'))"
    using i(3,4) by auto
  have "assertIssuerRefExists store_api a w = (Ok (), w')"
    using get a w'(1) i(3)
    by (simp add: assertIssuerRefExists_def Let_def issuerConfigOf_def bindM_def onErrM_def returnM_def)
  then show "\<exists>b w'. assertIssuerRefExists store_api a w = (Ok b, w') \<and> ca_ready cr w'"
    using w' i x w by (auto simp: ca_ready_def ca_there_def absent_def)
qed

lemma caConfigMap_fresh:
  assumes "d \<noteq> ''''"
  shows "succeeds (\<lambda>w. good cr w \<and> absent KConfigMap w) (createOrUpdateCAConfigMap store_api a d l) (\<lambda>_. good cr)"
  unfolding succeeds_def
proof (intro allI impI)
  fix w assume w: "good cr w \<and> absent KConfigMap w"
  define x where "x = caConfigMap a d l"
  define y where "y = created (st_count (w_cluster w)) x"
  have x: "kind_of x = KConfigMap" "om_Name (meta_of x) \<noteq> ''''" by (simp_all add: x_def IstiocsrCAConfigMapName_def)
  have calm: "st_faults (w_cluster w) = []" and none: "objs_in (w_cluster w) KConfigMap = Map.empty"
    using w by (simp_all add: good_def absent_def)
  have cr: "clCreate store_api x (w_cluster w) = (Ok y, put_obj y (w_cluster w))"
    using create_calm [OF calm, of x] none x by (simp add: y_def)
  have "\<exists>v. createOrUpdateCAConfigMap store_api a d l w = (Ok (), w\<lparr>w_cluster := put_obj y (w_cluster w), w_events := v\<rparr>)"
    using assms exists_calm [OF calm] none cr
    by (simp add: createOrUpdateCAConfigMap_def Let_def bindM_def wrapM_def onErrM_def onCluster_def seqM_def Eventf_def
        returnM_def x_def) (rule exI, rule refl)
  moreover have "kind_of y = KConfigMap" using x(1) by (simp add: y_def created_def)
  ultimately show "\<exists>u w'. createOrUpdateCAConfigMap store_api a d l w = (Ok u, w') \<and> good cr w'"
    using good_put [of cr w y] w by auto
qed

lemma volumes_ok:
  assumes "ca_issuer cr" "ic_Spec a = ic_Spec cr"
  shows "succeeds (ca_ready cr) (updateVolumes store_api e a l d)
     (\<lambda>d' w. (good cr w \<and> absent KDeployment w) \<and> d' = updateVolumeWithIssuerCA d)"
  unfolding succeeds_def
proof (intro allI impI)
  fix w assume w: "ca_ready cr w"
  let ?ns = "istio_Namespace (Istio (ic_Config cr))" and ?n = "ir_Name (IssuerRef (CertManager (ic_Config cr)))"
  from w obtain i n x where
    i: "objs_in (w_cluster w) KIssuer (?ns, ?n) = Some (OIssuer i)" "iss_CA i = Some n" "n \<noteq> ''''"
    and x: "objs_in (w_cluster w) KSecret (?ns, n) = Some (OSecret x)" "\<not> released (OSecret x)"
      "mget (sec_Data x) IstiocsrCAKeyName \<noteq> ''''" and g: "good cr w"
    by (auto simp: ca_ready_def ca_there_def)
  have calm: "st_faults (w_cluster w) = []" using g by (simp add: good_def)
  have a: "issuerRefKind a = issuerKind" "IstioCACertificate (CertManager (ic_Config a)) = None"
    using assms by (simp_all add: ca_issuer_def issuerRefKind_def)
  have get: "getIssuer store_api a w = (Ok (OIssuer i), w)"
    using getIssuer_ok [OF calm a(1)] i(1) assms(2) by simp
  from watchLabel_secret [OF g x(1,2), of a] obtain y w1 where
    w1: "updateWatchLabel store_api (OSecret x) a w = (Ok (OSecret y), w1)" "good cr w1" "sec_Data y = sec_Data x"
      "objs_in (w_cluster w1) = (objs_in (w_cluster w))(KSecret := (objs_in (w_cluster w) KSecret)((?ns, n) \<mapsto> OSecret y))" by auto
  have abs: "absent KConfigMap w1" "absent KDeployment w1" using w w1(4) by (simp_all add: ca_ready_def absent_def)
  from caConfigMap_fresh [of "mget (sec_Data y) IstiocsrCAKeyName" cr a l] x(3) w1(2,3) abs(1) obtain w2 where
    w2: "createOrUpdateCAConfigMap store_api a (mget (sec_Data y) IstiocsrCAKeyName) l w1 = (Ok (), w2)" "good cr w2"
    by (auto simp: succeeds_def)
  have "absent KDeployment w2"
    using absent_frame [OF mem.caConfigMap_frame, of KDeployment a "mget (sec_Data y) IstiocsrCAKeyName" l] abs(2) w2(1)
    unfolding keepsM_def by (metis kind.distinct snd_conv)
  moreover have "createCAConfigMapFromIssuerSecret store_api a n l w = (Ok (), w2)"
    using clGet_calm [OF calm x(1)] w1(1) w2(1) i(3) assms(2)
    by (simp add: createCAConfigMapFromIssuerSecret_def createCAConfigMapFromSecret_def bindM_def wrapM_def onErrM_def
        onCluster_def liftM_def)
  then have "updateVolumes store_api e a l d w = (Ok (updateVolumeWithIssuerCA d), w2)"
    using get a i(2,3)
    by (simp add: updateVolumes_def handleIssuerBasedCA_def issuerConfigOf_def bindM_def onErrM_def seqM_def returnM_def)
  ultimately show "\<exists>d' w'. updateVolumes store_api e a l d w = (Ok d', w') \<and>
      (good cr w' \<and> absent KDeployment w') \<and> d' = updateVolumeWithIssuerCA d"
    using w2(2) by auto
qed

lemma imageInStatus_ok: "succeeds (good cr) (updateImageInStatus store_api d) (\<lambda>_. good cr)"
proof -
  have "succeeds (\<lambda>w. good cr w \<and> True) (updateImageInStatus store_api d) (\<lambda>_. good cr)"
    unfolding updateImageInStatus_def
    by (rule succeeds_getCR)
       (auto intro!: succeeds_seq [OF modify_status_good] updateStatus_good succeeds_return split: prod.split)
  then show ?thesis by simp
qed

lemma deployments_ok:
  assumes "ca_issuer cr" "deploymentFromManifest e cr l = Ok d" "om_Name (dep_Meta d) \<noteq> ''''"
  shows "succeeds (ca_ready cr) (createOrApplyDeployments store_api e l b) (\<lambda>_. good cr)"
proof -
  have same: "deploymentFromManifest e a l = deploymentFromManifest e cr l" if "cr_key a = cr_key cr" "ic_Spec a = ic_Spec cr" for a
  proof -
    have a: "ic_Namespace a = ic_Namespace cr" "ic_Name a = ic_Name cr" "ic_Config a = ic_Config cr"
      using that by (simp_all add: cr_key_def)
    show ?thesis
      unfolding deploymentFromManifest_def updateArgList_def istiocsrArgs_def updateResourceRequirement_def updateAffinityRules_def
        updatePodTolerations_def updateNodeSelector_def show_cr_def by (simp_all only: a)
  qed
  define d' where "d' = updateVolumeWithIssuerCA d"
  have nm: "om_Name (meta_of (ODeployment d')) \<noteq> ''''" using assms(3) by (simp add: d'_def updateVolumeWithIssuerCA_def)
  have obj: "succeeds (\<lambda>w. good cr w \<and> ca_ready cr w) (getDeploymentObject store_api e l)
      (\<lambda>x w. (good cr w \<and> absent KDeployment w) \<and> x = d')"
    unfolding getDeploymentObject_def
    proof (rule succeeds_getCR)
      fix a assume a: "cr_key a = cr_key cr" "ic_Spec a = ic_Spec cr"
      have 1: "succeeds (\<lambda>w. good cr w \<and> ca_ready cr w) (assertIssuerRefExists store_api a) (\<lambda>_. ca_ready cr)"
        using assertIssuer_ok [OF assms(1) a(2)] by (rule succeeds_weaken) auto
      show "succeeds (\<lambda>w. good cr w \<and> ca_ready cr w)
          (seqM (wrapM (''failed to verify issuer in '' @ show_cr a @ '': '') (assertIssuerRefExists store_api a))
            (bindM (liftM (deploymentFromManifest e a l)) (\<lambda>deployment.
               wrapM (''failed to update volume '' @ show_cr a @ '': '') (updateVolumes store_api e a l deployment))))
          (\<lambda>x w. (good cr w \<and> absent KDeployment w) \<and> x = d')"
        unfolding same [OF a] d'_def
        by (intro succeeds_seq [OF succeeds_wrap [OF 1]] succeeds_lift [OF assms(2)] succeeds_wrap volumes_ok [OF assms(1) a(2)])
    qed
  have rec: "succeeds (\<lambda>w. (good cr w \<and> absent KDeployment w) \<and> x = d') (reconcileObject store_api what (ODeployment x) b)
      (\<lambda>y w. good cr w \<and> (\<exists>z. y = ODeployment z))" for what x
  proof -
    have kd: "kind_of y = KDeployment \<Longrightarrow> \<exists>z. y = ODeployment z" for y by (cases y) auto
    have "succeeds (\<lambda>w. good cr w \<and> absent KDeployment w) (reconcileObject store_api what (ODeployment d') b)
        (\<lambda>y w. good cr w \<and> (\<exists>z. y = ODeployment z))"
      using nm by (intro succeeds_weaken [OF reconcileObject_fresh [where S = "{}"]]) (auto simp: missing_def absent_def intro: kd)
    then show ?thesis by (cases "x = d'") (auto simp: succeeds_def)
  qed
  have fin: "succeeds (\<lambda>w. good cr w \<and> (\<exists>z. y = ODeployment z)) (bindM (liftM (the_deployment y)) (\<lambda>d. onErrM h (updateImageInStatus store_api d)))
      (\<lambda>_. good cr)" for y h
    using succeeds_onErr [OF imageInStatus_ok] by (cases y) (auto simp: succeeds_def [of "\<lambda>_. False"] intro: succeeds_lift)
  have "succeeds (\<lambda>w. good cr w \<and> ca_ready cr w) (createOrApplyDeployments store_api e l b) (\<lambda>_. good cr)"
    unfolding createOrApplyDeployments_def
    by (rule succeeds_getCR, intro succeeds_bind [OF succeeds_wrap [OF obj]] succeeds_bind [OF rec] fin)
  then show ?thesis by (rule succeeds_weaken) (auto simp: ca_ready_def)
qed

lemma same_istiocsr:
  assumes "same_content (OIstioCSR c) y"
  shows "\<exists>z. y = OIstioCSR z \<and> ic_Spec z = ic_Spec c \<and> om_DeletionTimestamp (ic_Meta z) = om_DeletionTimestamp (ic_Meta c) \<and>
    om_Annotations (ic_Meta z) = om_Annotations (ic_Meta c)"
proof (cases y)
  case (OIstioCSR z)
  with assms have eq: "c\<lparr>ic_Meta := plain_meta (ic_Meta c)\<rparr> = z\<lparr>ic_Meta := plain_meta (ic_Meta z)\<rparr>"
    by (simp add: same_content_def)
  from arg_cong [OF eq, of "\<lambda>c. om_DeletionTimestamp (ic_Meta c)"] arg_cong [OF eq, of "\<lambda>c. om_Annotations (ic_Meta c)"]
    arg_cong [OF eq, of ic_Spec] OIstioCSR show ?thesis by (simp add: plain_meta_def)
qed (use assms in \<open>simp_all add: same_content_def\<close>)

text \<open>Writing the resource back after a change of its metadata.\<close>

lemma updateCR_ok:
  assumes "good cr w"
  shows "\<exists>z w'. updateCR store_api w = (Ok (), w') \<and> good cr w' \<and> w_cr w' = z \<and>
     om_Annotations (ic_Meta z) = om_Annotations (ic_Meta (w_cr w)) \<and> w_events w' = w_events w \<and>
     objs_in (w_cluster w') = (objs_in (w_cluster w))(KIstioCSR := (objs_in (w_cluster w) KIstioCSR)(cr_key cr \<mapsto> OIstioCSR z))"
proof -
  define x where "x = OIstioCSR (w_cr w)"
  have x: "kind_of x = KIstioCSR" "ObjectKeyFromObject x = cr_key cr" "\<not> released x"
    using assms by (simp_all add: x_def good_def ObjectKeyFromObject_def cr_key_def ic_Namespace_def ic_Name_def released_def)
  from assms obtain c where c: "objs_in (w_cluster w) KIstioCSR (cr_key cr) = Some (OIstioCSR c)" and calm: "st_faults (w_cluster w) = []"
    by (auto simp: good_def)
  from update_calm [OF calm, of x] x c obtain y s' where
    up: "UpdateWithRetry store_api x (w_cluster w) = (Ok y, s')" "st_faults s' = []" by auto
  from mem.UpdateWithRetry_result [OF up(1)] x c have
    y: "same_content (OIstioCSR ((w_cr w)\<lparr>ic_Status := ic_Status c\<rparr>)) y" "ObjectKeyFromObject y = cr_key cr"
      "objs_in s' = (objs_in (w_cluster w))(KIstioCSR := (objs_in (w_cluster w) KIstioCSR)(cr_key cr \<mapsto> y))"
    by (auto simp: x_def)
  from same_istiocsr [OF y(1)] obtain z where z: "y = OIstioCSR z" "ic_Spec z = ic_Spec (w_cr w)"
    "om_DeletionTimestamp (ic_Meta z) = om_DeletionTimestamp (ic_Meta (w_cr w))"
    "om_Annotations (ic_Meta z) = om_Annotations (ic_Meta (w_cr w))" by auto
  have "updateCR store_api w = (Ok (), w\<lparr>w_cluster := s', w_cr := z\<rparr>)"
    using up(1) by (simp add: updateCR_def bindM_def getCR_def onCluster_def liftM_def modifyCR_def x_def z(1))
  moreover have "cr_key z = cr_key cr" using y(2) by (simp add: z(1) ObjectKeyFromObject_def cr_key_def ic_Namespace_def ic_Name_def)
  then have "good cr (w\<lparr>w_cluster := s', w_cr := z\<rparr>)" using assms up(2) y(3) z by (simp add: good_def)
  ultimately show ?thesis using y(3) z by auto
qed

lemma annotation_ok:
  "succeeds (good cr) (bindM addProcessedAnnotation (\<lambda>added. whenM added (bindM getCR (\<lambda>istiocsr. wrapM (p istiocsr) (updateCR store_api)))))
     (\<lambda>_. good cr)"
  unfolding succeeds_def
proof (intro allI impI)
  fix w assume w: "good cr w"
  obtain added cr' where add: "AddAnnotation (OIstioCSR (w_cr w)) controllerProcessedAnnotation ''true'' = (added, OIstioCSR cr')"
    and key: "cr_key cr' = cr_key (w_cr w)" "ic_Spec cr' = ic_Spec (w_cr w)"
      "om_DeletionTimestamp (ic_Meta cr') = om_DeletionTimestamp (ic_Meta (w_cr w))"
    by (cases "AddAnnotation (OIstioCSR (w_cr w)) controllerProcessedAnnotation ''true''")
       (auto simp: AddAnnotation_def cr_key_def ic_Namespace_def ic_Name_def split: if_splits)
  define v where "v = w\<lparr>w_cr := cr'\<rparr>"
  have ann: "addProcessedAnnotation w = (Ok added, v)"
    by (simp add: addProcessedAnnotation_def annotate_def bindM_def getCR_def add liftM_def seqM_def modifyCR_def returnM_def v_def)
  have v: "good cr v" using w key by (simp add: v_def good_def)
  from updateCR_ok [OF v] obtain w' where up: "updateCR store_api v = (Ok (), w')" "good cr w'" by blast
  with ann v show "\<exists>a w'. bindM addProcessedAnnotation (\<lambda>added. whenM added (bindM getCR (\<lambda>istiocsr. wrapM (p istiocsr) (updateCR store_api)))) w =
      (Ok a, w') \<and> good cr w'"
    by (cases added) (simp_all add: bindM_def whenM_def getCR_def wrapM_def onErrM_def returnM_def)
qed

subsection \<open>The whole installation\<close>

definition operandKinds :: "kind list" where
  "operandKinds = [KNetworkPolicy, KService, KServiceAccount, KClusterRole, KClusterRoleBinding, KRole, KRoleBinding,
     KCertificate, KConfigMap, KDeployment]"

definition kept :: "kind set \<Rightarrow> (kind \<Rightarrow> key \<Rightarrow> obj option) \<Rightarrow> store ic_world \<Rightarrow> bool" where
  "kept K f w \<longleftrightarrow> (\<forall>k\<in>K. objs_in (w_cluster w) k = f k)"

lemma succeeds_kept:
  assumes "succeeds P m (\<lambda>_. Q)" "\<And>k g. k \<in> K \<Longrightarrow> keepsM (\<lambda>w. objs_in (w_cluster w) k = g) m"
  shows "succeeds (\<lambda>w. P w \<and> kept K f w) m (\<lambda>_ w. Q w \<and> kept K f w)"
proof (rule succeeds_frame [OF assms(1)])
  show "keepsM (kept K f) m" using assms(2) unfolding keepsM_def kept_def by blast
qed

text \<open>One step: it needs the kinds \<open>J\<close> to be as they were and leaves those of \<open>K\<close> as they were.\<close>

lemma step_kept:
  assumes "succeeds (\<lambda>w. good cr w \<and> R w) m (\<lambda>_. good cr)" "\<And>k g. k \<in> K \<Longrightarrow> keepsM (\<lambda>w. objs_in (w_cluster w) k = g) m"
    and "\<And>w. kept J f w \<Longrightarrow> R w" "K \<subseteq> J"
  shows "succeeds (\<lambda>w. good cr w \<and> kept J f w) m (\<lambda>_ w. good cr w \<and> kept K f w)"
  by (rule succeeds_weaken [OF succeeds_kept [OF assms(1,2)]]) (use assms(3,4) in \<open>auto simp: kept_def\<close>)

lemma named_obtain:
  assumes "named r" obtains x where "r = Ok x" "om_Name (meta_of x) \<noteq> ''''"
  using assms by (auto simp: named_iff)

lemma installation_steps:
  assumes "installable e cr l" and fresh: "\<And>k. k \<in> set operandKinds \<Longrightarrow> f k = Map.empty"
  defines "A \<equiv> set operandKinds \<union> {KIssuer, KSecret}"
  shows "succeeds (\<lambda>w. good cr w \<and> kept A f w) (createOrApplyNetworkPolicies store_api e l b)
      (\<lambda>_ w. good cr w \<and> kept (A - {KNetworkPolicy}) f w)" (is ?np)
    and "succeeds (\<lambda>w. good cr w \<and> kept (A - {KNetworkPolicy}) f w) (createOrApplyServices store_api e l b)
      (\<lambda>_ w. good cr w \<and> kept (A - {KNetworkPolicy, KService}) f w)" (is ?sv)
    and "succeeds (\<lambda>w. good cr w \<and> kept (A - {KNetworkPolicy, KService}) f w) (createOrApplyServiceAccounts store_api e l b)
      (\<lambda>_ w. good cr w \<and> kept (A - {KNetworkPolicy, KService, KServiceAccount}) f w)" (is ?sa)
    and "succeeds (\<lambda>w. good cr w \<and> kept (A - {KNetworkPolicy, KService, KServiceAccount}) f w) (createOrApplyRBACResource store_api e l b)
      (\<lambda>_ w. good cr w \<and> kept {KCertificate, KConfigMap, KDeployment, KIssuer, KSecret} f w)" (is ?rb)
    and "succeeds (\<lambda>w. good cr w \<and> kept {KCertificate, KConfigMap, KDeployment, KIssuer, KSecret} f w) (createOrApplyCertificates store_api e l b)
      (\<lambda>_ w. good cr w \<and> kept {KConfigMap, KDeployment, KIssuer, KSecret} f w)" (is ?ce)
proof -
  define D where "D a = (case getNetworkPolicyFromAsset e a cr l of Ok x \<Rightarrow> x | _ \<Rightarrow> OServiceAccount undefined)" for a
  have D: "getNetworkPolicyFromAsset e a cr l = Ok (D a) \<and> om_Name (meta_of (D a)) \<noteq> ''''"
    if "a \<in> set istioCSRNetworkPolicyAssets" for a
    using assms(1) that by (auto simp: installable_def Let_def list_all_iff named_iff D_def dest!: bspec)
  have "map (the_key \<circ> (\<lambda>a. getNetworkPolicyFromAsset e a cr l)) istioCSRNetworkPolicyAssets =
      map (\<lambda>a. ObjectKeyFromObject (D a)) istioCSRNetworkPolicyAssets" using D by simp
  with assms(1) have dist: "distinct (map (\<lambda>a. ObjectKeyFromObject (D a)) istioCSRNetworkPolicyAssets)"
    by (simp add: installable_def Let_def)
  show ?np
    by (rule step_kept [OF networkPolicies_ok [OF D dist]])
       (auto simp: kept_def absent_def A_def fresh operandKinds_def intro: mem.networkPolicies_frame)
  from assms(1) have "named (getServiceObject e cr l)" "named (getMetricsServiceObject e cr l)" "named (getServiceAccountObject e cr l)"
    by (simp_all add: installable_def Let_def)
  then obtain x y z where
    xy: "getServiceObject e cr l = Ok x" "getMetricsServiceObject e cr l = Ok y" "om_Name (meta_of x) \<noteq> ''''" "om_Name (meta_of y) \<noteq> ''''"
    and z: "getServiceAccountObject e cr l = Ok z" "om_Name (meta_of z) \<noteq> ''''"
    by (elim named_obtain) auto
  have ne: "ObjectKeyFromObject x \<noteq> ObjectKeyFromObject y" using assms(1) xy by (simp add: installable_def Let_def)
  have k: "kind_of x = KService" "kind_of y = KService" using mem.services_kind xy(1,2) by blast+
  show ?sv
    by (rule step_kept [OF services_ok [OF xy ne]])
       (auto simp: kept_def missing_def k A_def fresh operandKinds_def intro: mem.services_frame)
  have kz: "kind_of z = KServiceAccount"
    using z(1) by (auto simp: getServiceAccountObject_def bindR_eq_Ok_iff dest!: mem.manifest_kind)
  show ?sa
    by (rule step_kept [OF serviceAccounts_ok [OF z]])
       (auto simp: kept_def missing_def kz A_def fresh operandKinds_def intro: mem.serviceAccounts_frame)
  show ?rb
    by (rule step_kept [OF rbac_ok [OF assms(1)]])
       (auto simp: kept_def absent_def A_def fresh operandKinds_def intro: mem.rbac_frame)
  from assms(1) obtain c where c: "getCertificateObject e cr l = Ok c" "om_Name (cert_Meta c) \<noteq> ''''"
    by (auto simp: installable_def Let_def split: res.splits)
  show ?ce
    by (rule step_kept [OF certificates_ok [OF c]])
       (auto simp: kept_def missing_def fresh operandKinds_def intro: mem.certificates_frame)
qed

lemma fresh_run:
  assumes "installable e cr l" "ca_issuer cr" "good cr w" "w_cr w = c" "cr_key c = cr_key cr" "ic_Spec c = ic_Spec cr"
    and "l = resourceLabelsFor e c" "ca_there cr (w_cluster w)" and "\<forall>k\<in>set operandKinds. absent k w"
  shows "\<exists>w'. reconcileIstioCSRDeployment store_api e b w = (Ok (), w') \<and> good cr w'"
proof -
  define f where "f = objs_in (w_cluster w)"
  have fresh: "f k = Map.empty" if "k \<in> set operandKinds" for k using assms(9) that by (simp add: f_def absent_def)
  note steps = installation_steps [OF assms(1), of f, OF fresh]
  have val: "validateIstioCSRConfig c = Ok ()"
  proof -
    have "validateIstioCSRConfig c = validateIstioCSRConfig cr" unfolding validateIstioCSRConfig_def assms(6) ..
    with assms(1) show ?thesis by (simp add: installable_def Let_def is_ok_iff)
  qed
  from assms(1) obtain d where d: "deploymentFromManifest e cr l = Ok d" "om_Name (dep_Meta d) \<noteq> ''''"
    by (auto simp: installable_def Let_def split: res.splits)
  have dep: "succeeds (\<lambda>w. good cr w \<and> kept {KConfigMap, KDeployment, KIssuer, KSecret} f w)
      (createOrApplyDeployments store_api e l b) (\<lambda>_. good cr)"
  proof (rule succeeds_weaken [OF deployments_ok [OF assms(2) d]])
    fix v assume "good cr v \<and> kept {KConfigMap, KDeployment, KIssuer, KSecret} f v"
    with assms(8) fresh show "ca_ready cr v"
      by (simp add: ca_ready_def ca_there_def kept_def absent_def operandKinds_def f_def)
  qed
  have "succeeds (\<lambda>w. good cr w \<and> kept (set operandKinds \<union> {KIssuer, KSecret}) f w)
      (seqM (createOrApplyNetworkPolicies store_api e l b) (seqM (createOrApplyServices store_api e l b)
        (seqM (createOrApplyServiceAccounts store_api e l b) (seqM (createOrApplyRBACResource store_api e l b)
        (seqM (createOrApplyCertificates store_api e l b) (seqM (createOrApplyDeployments store_api e l b)
        (bindM addProcessedAnnotation (\<lambda>added. whenM added (bindM getCR (\<lambda>istiocsr.
             wrapM (''failed to update processed annotation to '' @ show_cr istiocsr @ '': '') (updateCR store_api))))))))))) (\<lambda>_. good cr)"
    by (intro succeeds_seq [OF steps(1)] succeeds_seq [OF steps(2)] succeeds_seq [OF steps(3)] succeeds_seq [OF steps(4)]
        succeeds_seq [OF steps(5)] succeeds_seq [OF dep] annotation_ok)
  moreover have "kept (set operandKinds \<union> {KIssuer, KSecret}) f w" by (simp add: kept_def f_def)
  ultimately show ?thesis
    using assms(3,4,7) val
    by (simp add: succeeds_def reconcileIstioCSRDeployment_def bindM_def [of getCR] getCR_def seqM_def [of "onErrM _ _"]
        bindM_def [of "onErrM _ _"] onErrM_def liftM_def Let_def)
qed

lemma conditionM_good: "succeeds (good cr) (updateConditionM store_api p) (\<lambda>r w. good cr w \<and> r = p)"
  unfolding succeeds_def
proof (intro allI impI)
  fix w assume "good cr w"
  with updateStatus_good [of cr] obtain w' where "updateStatus store_api w = (Ok (), w')" "good cr w'"
    by (auto simp: succeeds_def)
  then show "\<exists>a w'. updateConditionM store_api p w = (Ok a, w') \<and> good cr w' \<and> a = p"
    by (simp add: updateConditionM_def bindM_def getCR_def attemptM_def returnM_def)
qed

lemma handleResult_good:
  assumes "good cr w"
  shows "\<exists>w'. handleResult store_api e None w = (Ok 0, w') \<and> good cr w' \<and>
     says (ics_Conditional (ic_Status (w_cr w'))) Ready = Some (ConditionTrue, ReasonReady)"
proof -
  define st where "st = handled_status (e_now e 1) (e_now e 2) (ics_Conditional (ic_Status (w_cr w))) None"
  define u where "u = w\<lparr>w_cr := (w_cr w)\<lparr>ic_Status := (ic_Status (w_cr w))\<lparr>ics_Conditional := st\<rparr>\<rparr>\<rparr>"
  have set: "good cr (v\<lparr>w_cr := (w_cr v)\<lparr>ic_Status := (ic_Status (w_cr v))\<lparr>ics_Conditional := st\<rparr>\<rparr>\<rparr>)" if "good cr v" for v
    using that by (simp add: good_def cr_key_def ic_Namespace_def ic_Name_def)
  have "good cr u" unfolding u_def by (rule set [OF assms])
  with conditionM_good [of cr None] obtain w1 where w1: "updateConditionM store_api None u = (Ok None, w1)" "good cr w1"
    by (auto simp: succeeds_def)
  have says: "says st Ready = Some (ConditionTrue, ReasonReady)"
    using settled_handled_status [of None "e_now e 1" "e_now e 2" "ics_Conditional (ic_Status (w_cr w))"]
    by (simp add: settled_def outcome_ready_def st_def)
  have cb: "conditionCallback store_api None st (None, w) = (None, None, w1)"
    using w1(1) by (simp add: conditionCallback_def u_def)
  show ?thesis
    using set [OF assms] set [OF w1(2)] says cb
    by (auto simp: handleResult_def HandleReconcileResult_eq Let_def st_def [symmetric] simp del: One_nat_def)
qed

text \<open>The only \<open>IstioCSR\<close> of the cluster, not rejected earlier.\<close>

definition sole :: "IstioCSR \<Rightarrow> store ic_world \<Rightarrow> bool" where
  "sole cr w \<longleftrightarrow> (\<forall>key x. objs_in (w_cluster w) KIstioCSR key = Some x \<longrightarrow> key = cr_key cr) \<and>
     \<not> containsProcessingRejectedAnnotation (w_cr w)"

lemma rejected_cong:
  "om_Annotations (ic_Meta a) = om_Annotations (ic_Meta b) \<Longrightarrow>
   containsProcessingRejectedAnnotation a = containsProcessingRejectedAnnotation b"
  by (simp add: containsProcessingRejectedAnnotation_def ContainsAnnotation_def)

lemma addFinalizer_ok:
  assumes "good cr w" "sole cr w"
  shows "\<exists>w'. ic_addFinalizer store_api w = (Ok (), w') \<and> good cr w' \<and> sole cr w'"
proof (cases "List.member (om_Finalizers (ic_Meta (w_cr w))) ic_finalizer")
  case True
  with assms show ?thesis by (simp add: ic_addFinalizer_def bindM_def getCR_def Let_def returnM_def)
next
  case False
  define v where "v = w\<lparr>w_cr := setFinalizers (om_Finalizers (ic_Meta (w_cr w)) @ [ic_finalizer]) (w_cr w)\<rparr>"
  have v: "good cr v" "om_Annotations (ic_Meta (w_cr v)) = om_Annotations (ic_Meta (w_cr w))"
    using assms(1) by (simp_all add: v_def good_def setFinalizers_def cr_key_def ic_Namespace_def ic_Name_def)
  from updateCR_ok [OF v(1)] obtain z w1 where
    w1: "updateCR store_api v = (Ok (), w1)" "good cr w1" "w_cr w1 = z" "om_Annotations (ic_Meta z) = om_Annotations (ic_Meta (w_cr w))"
      "objs_in (w_cluster w1) = (objs_in (w_cluster v))(KIstioCSR := (objs_in (w_cluster v) KIstioCSR)(cr_key cr \<mapsto> OIstioCSR z))"
    using v(2) by auto
  have key: "cr_key (w_cr w) = cr_key cr" using assms(1) by (simp add: good_def)
  have get: "clGet store_api KIstioCSR (cr_key cr) (w_cluster w1) = (Ok (OIstioCSR z), w_cluster w1)"
    using clGet_calm [of "w_cluster w1" KIstioCSR "cr_key cr"] w1(2,5) by (simp add: good_def)
  have same: "w1\<lparr>w_cr := z\<rparr> = w1" using w1(3) by simp
  have "ic_addFinalizer store_api w = (Ok (), w1)"
    using False key w1(1) get same
    by (simp add: ic_addFinalizer_def bindM_def getCR_def Let_def seqM_def modifyCR_def wrapM_def onErrM_def onCluster_def liftM_def v_def)
  moreover have "sole cr w1"
    using assms(2) w1(3-5) rejected_cong [OF w1(4)] by (auto simp: sole_def v_def split: if_splits)
  ultimately show ?thesis using w1(2) by blast
qed

lemma disallow_sole:
  assumes "good cr w" "sole cr w"
  shows "disallowMultipleIstioCSRInstances store_api e w = (Ok (), w)"
proof -
  have calm: "st_faults (w_cluster w) = []" using assms(1) by (simp add: good_def)
  then obtain items where items: "api_List store_api KIstioCSR None (w_cluster w) = (Ok items, w_cluster w)"
    by (simp add: store_api_def store_List_def served_def)
  have "\<not> precedes (w_cr w) x" if "x \<in> set items" for x
  proof -
    have "objs_in (w_cluster w) KIstioCSR (ObjectKeyFromObject x) = Some x" using mem_list.listed_iff [OF items] that by simp
    with assms have "ObjectKeyFromObject x = cr_key (w_cr w)" unfolding sole_def good_def by metis
    then show ?thesis by (simp add: precedes_def ObjectKeyFromObject_def cr_key_def)
  qed
  then have "\<not> list_ex (precedes (w_cr w)) items" by (auto simp: list_ex_iff)
  from disallow_oldest [OF _ items this, of e] assms(2) show ?thesis by (simp add: sole_def)
qed

lemma labels_cong: "ic_Spec a = ic_Spec b \<Longrightarrow> resourceLabelsFor e a = resourceLabelsFor e b"
  by (simp add: resourceLabelsFor_def)


text \<open>A manifest bundle with short names, and a cluster that holds the resource, its issuer and the issuer's secret.\<close>

definition demo_binding :: RbacBinding where
  "demo_binding = \<lparr>rb_Meta = demo_named ''csr'', rb_RoleRef = \<lparr>ref_APIGroup = ''rbac'', ref_Kind = ''Role'', ref_Name = ''csr''\<rparr>,
     rb_Subjects = None\<rparr>"

definition demo_policy :: "string \<Rightarrow> obj" where
  "demo_policy n = ONetworkPolicy \<lparr>np_Meta = demo_named n, np_PodSelector = \<lparr>ls_MatchLabels = None, ls_MatchExpressions = None\<rparr>,
     np_Ingress = None, np_Egress = None, np_PolicyTypes = None\<rparr>"

definition demo_service :: "string \<Rightarrow> obj" where
  "demo_service n = OService \<lparr>svc_Meta = demo_named n, svc_Type = ''ClusterIP'', svc_Ports = None, svc_Selector = None, svc_rest = ''''\<rparr>"

definition demo_bundle :: "string \<Rightarrow> obj res" where
  "demo_bundle a =
     (if a = serviceAssetName then Ok (demo_service ''svc'')
      else if a = metricsServiceAssetName then Ok (demo_service ''metrics'')
      else if a = serviceAccountAssetName then Ok (OServiceAccount \<lparr>sa_Meta = demo_named ''sa'', sa_Automount = None, sa_rest = ''''\<rparr>)
      else if a = clusterRoleAssetName then Ok (OClusterRole demo_role)
      else if a = clusterRoleBindingAssetName then Ok (OClusterRoleBinding demo_binding)
      else if a = roleAssetName then Ok (ORole demo_role)
      else if a = roleLeasesAssetName then Ok (ORole (demo_role\<lparr>role_Meta := demo_named ''leases''\<rparr>))
      else if a = roleBindingAssetName then Ok (ORoleBinding demo_binding)
      else if a = roleBindingLeasesAssetName then Ok (ORoleBinding (demo_binding\<lparr>rb_Meta := demo_named ''leases''\<rparr>))
      else if a = certificateAssetName then Ok (OCertificate demo_certificate)
      else if a = ic_deploymentAssetName then Ok (ODeployment demo_deployment)
      else Ok (demo_policy a))"

definition demo_full_env :: ic_env where
  "demo_full_env = demo_ic_env\<lparr>e_decode := demo_bundle, e_getenv := (\<lambda>_. Some ''img'')\<rparr>"

definition demo_full_istiocsr :: IstioCSR where
  "demo_full_istiocsr = demo_istiocsr\<lparr>ic_Spec := (ic_Spec demo_istiocsr)\<lparr>IstioCSRConfig :=
     (ic_Config demo_istiocsr)\<lparr>IstiodTLSConfig := (ic_TLS demo_istiocsr)\<lparr>CertificateDuration := Some 3600000000000,
        CertificateRenewBefore := Some 1800000000000, MaxCertificateDuration := Some 3600000000000\<rparr>\<rparr>\<rparr>\<rparr>"

definition demo_full_world :: "store ic_world" where
  "demo_full_world = \<lparr>w_cluster =
      put_obj (OSecret \<lparr>sec_Meta = empty_meta\<lparr>om_Name := ''ca-key'', om_Namespace := ''istio-system''\<rparr>,
          sec_Data = Some [(''ca.crt'', ''pem'')], sec_rest = ''''\<rparr>)
      (put_obj (OIssuer \<lparr>iss_Meta = empty_meta\<lparr>om_Name := ''ca'', om_Namespace := ''istio-system''\<rparr>, iss_ACME = None,
          iss_CA = Some ''ca-key'', iss_rest = ''''\<rparr>)
      (put_obj (OIstioCSR demo_full_istiocsr) empty_store)),
     w_events = [], w_cr = demo_full_istiocsr\<rparr>"

lemma demo_installable: "installable demo_full_env demo_full_istiocsr (resourceLabelsFor demo_full_env demo_full_istiocsr)"
  by code_simp

lemmas demo_full_defs = demo_full_world_def demo_full_istiocsr_def demo_istiocsr_def empty_meta_def empty_store_def put_obj_def
  objs_in_def update_conv' ObjectKeyFromObject_def

lemma demo_cr_key: "cr_key demo_full_istiocsr = (''istio-csr'', ''default'')"
  by (simp add: demo_full_defs cr_key_def ic_Namespace_def ic_Name_def)

lemma demo_objs:
  "objs_in (w_cluster demo_full_world) KIstioCSR = [(''istio-csr'', ''default'') \<mapsto> OIstioCSR demo_full_istiocsr]"
  "\<forall>k\<in>set operandKinds. objs_in (w_cluster demo_full_world) k = Map.empty"
  by (auto simp: demo_full_world_def put_obj_def objs_in_def update_conv' empty_store_def fun_eq_iff operandKinds_def
      ObjectKeyFromObject_def demo_full_istiocsr_def demo_istiocsr_def split: if_splits)

lemma demo_ca: "ca_issuer demo_full_istiocsr" "ca_there demo_full_istiocsr (w_cluster demo_full_world)"
proof -
  show "ca_issuer demo_full_istiocsr" by code_simp
  show "ca_there demo_full_istiocsr (w_cluster demo_full_world)"
    by (simp add: ca_there_def demo_full_defs released_def mget_def mlookup_def IstiocsrCAKeyName_def)
qed

lemma demo_unrejected: "\<not> containsProcessingRejectedAnnotation demo_full_istiocsr" "om_DeletionTimestamp (ic_Meta demo_full_istiocsr) = None"
  "st_faults (w_cluster demo_full_world) = []"
  by (simp_all add: demo_full_defs containsProcessingRejectedAnnotation_def ContainsAnnotation_def mlookup_def)


section \<open>What a successful installation establishes\<close>

context api_server
begin

text \<open>Reconciling a list of objects with different keys leaves all of them in the desired state.\<close>

lemma forM_establishes:
  assumes "forM as (\<lambda>a. bindM (wrapM (p a) (liftM (get a))) (\<lambda>x. wrapM (q a) (ignoreM (reconcileObject api what x b)))) w = (Ok (), w')"
    and "\<And>a. a \<in> set as \<Longrightarrow> get a = Ok (D a) \<and> comparable (D a) \<and> om_Name (meta_of (D a)) \<noteq> '''' \<and>
           om_DeletionTimestamp (meta_of (D a)) = None \<and> kind_of (D a) = k"
    and "distinct (map (\<lambda>a. ObjectKeyFromObject (D a)) as)"
  shows "(\<forall>a\<in>set as. \<exists>z. stored (w_cluster w') k (ObjectKeyFromObject (D a)) = Some z \<and> hasObjectChanged (D a) z = Ok False) \<and>
    (\<forall>key. key \<notin> (\<lambda>a. ObjectKeyFromObject (D a)) ` set as \<longrightarrow> stored (w_cluster w') k key = stored (w_cluster w) k key)"
  using assms
proof (induction as arbitrary: w)
  case (Cons a as)
  have D: "get a = Ok (D a)" "comparable (D a)" "om_Name (meta_of (D a)) \<noteq> ''''"
    "om_DeletionTimestamp (meta_of (D a)) = None" "kind_of (D a) = k" using Cons.prems(2) [of a] by auto
  from Cons.prems(1) D(1) obtain y v where step: "reconcileObject api what (D a) b w = (Ok y, v)"
    and rest: "forM as (\<lambda>a. bindM (wrapM (p a) (liftM (get a))) (\<lambda>x. wrapM (q a) (ignoreM (reconcileObject api what x b)))) v = (Ok (), w')"
    by (auto simp: bindM_eq_Ok_iff ignoreM_def)
  from reconcileObject_establishes [OF step D(2-4)] D(5) obtain z where
    z: "stored (w_cluster v) k (ObjectKeyFromObject (D a)) = Some z" "hasObjectChanged (D a) z = Ok False"
    and oth: "\<And>key. key \<noteq> ObjectKeyFromObject (D a) \<Longrightarrow> stored (w_cluster v) k key = stored (w_cluster w) k key"
    by blast
  have prem: "\<And>a. a \<in> set as \<Longrightarrow> get a = Ok (D a) \<and> comparable (D a) \<and> om_Name (meta_of (D a)) \<noteq> '''' \<and>
           om_DeletionTimestamp (meta_of (D a)) = None \<and> kind_of (D a) = k"
    "distinct (map (\<lambda>a. ObjectKeyFromObject (D a)) as)" using Cons.prems(2,3) by auto
  have fresh: "ObjectKeyFromObject (D a) \<notin> (\<lambda>a. ObjectKeyFromObject (D a)) ` set as" using Cons.prems(3) by auto
  note IH = Cons.IH [OF rest prem]
  have "stored (w_cluster w') k (ObjectKeyFromObject (D a)) = Some z" using IH z(1) fresh by metis
  with IH z(2) oth show ?case by simp
qed simp

end

text \<open>
  C37.  Network policies come with the operand: a successful installation leaves every network policy of the
  operand in the cluster, with the content of its manifest; no later step of the installation undoes it.
\<close>

theorem installation_restricts_network:
  assumes "api_server api stored" and "reconcileIstioCSRDeployment api e b w = (Ok (), w')"
    and "\<forall>a\<in>set istioCSRNetworkPolicyAssets.
      getNetworkPolicyFromAsset e a (w_cr w) (resourceLabelsFor e (w_cr w)) = Ok (D a) \<and>
      om_Name (meta_of (D a)) \<noteq> '''' \<and> om_DeletionTimestamp (meta_of (D a)) = None"
    and "distinct (map (\<lambda>a. ObjectKeyFromObject (D a)) istioCSRNetworkPolicyAssets)"
  shows "\<forall>a\<in>set istioCSRNetworkPolicyAssets. \<exists>z.
     stored (w_cluster w') KNetworkPolicy (ObjectKeyFromObject (D a)) = Some z \<and> hasObjectChanged (D a) z = Ok False"
proof -
  define l where "l = resourceLabelsFor e (w_cr w)"
  from assms(2) obtain v where np: "createOrApplyNetworkPolicies api e l b w = (Ok (), v)"
    and rest: "seqM (createOrApplyServices api e l b)
        (seqM (createOrApplyServiceAccounts api e l b)
        (seqM (createOrApplyRBACResource api e l b)
        (seqM (createOrApplyCertificates api e l b)
        (seqM (createOrApplyDeployments api e l b)
        (bindM addProcessedAnnotation (\<lambda>added.
           whenM added (bindM getCR (\<lambda>istiocsr.
             wrapM (''failed to update processed annotation to '' @ show_cr istiocsr @ '': '') (updateCR api)))))))))
        v = (Ok (), w')" (is "?rest v = _")
    by (auto simp: reconcileIstioCSRDeployment_def Let_def seqM_def bindM_eq_Ok_iff l_def)
  have shape: "kind_of (D a) = KNetworkPolicy \<and> comparable (D a)" if "a \<in> set istioCSRNetworkPolicyAssets" for a
  proof -
    have "kind_of (D a) = KNetworkPolicy"
      using assms(3) that networkPolicy_kind by blast
    then show ?thesis by (cases "D a") simp_all
  qed
  have est: "\<forall>a\<in>set istioCSRNetworkPolicyAssets. \<exists>z.
     stored (w_cluster v) KNetworkPolicy (ObjectKeyFromObject (D a)) = Some z \<and> hasObjectChanged (D a) z = Ok False"
  proof (rule api_server.forM_establishes [OF assms(1), THEN conjunct1])
    show "forM istioCSRNetworkPolicyAssets (\<lambda>a.
        bindM (wrapM (''failed to get network policy from asset '' @ a @ '': '')
                (liftM (getNetworkPolicyFromAsset e a (w_cr w) l))) (\<lambda>x.
        wrapM (''failed to create/update network policy from '' @ a @ '': '')
          (ignoreM (reconcileObject api ''network policy'' x b)))) w = (Ok (), v)"
      using np by (simp add: createOrApplyNetworkPolicies_def createOrUpdateNetworkPolicy_def bindM_def getCR_def)
  qed (use assms(3,4) shape l_def in auto)
  have "keepsM (\<lambda>u. stored (w_cluster u) KNetworkPolicy = stored (w_cluster v) KNetworkPolicy) ?rest"
    unfolding addProcessedAnnotation_def
    by (intro keeps_intro api_server.frame_intros [OF assms(1)] api_server.services_frame [OF assms(1)]
        api_server.serviceAccounts_frame [OF assms(1)] api_server.rbac_frame [OF assms(1)]
        api_server.certificates_frame [OF assms(1)] api_server.deployments_frame [OF assms(1)]
        api_server.annotate_frame [OF assms(1)] api_server.updateCR_frame [OF assms(1)]) simp_all
  with rest have "stored (w_cluster w') KNetworkPolicy = stored (w_cluster v) KNetworkPolicy"
    unfolding keepsM_def by (metis snd_conv)
  with est show ?thesis by simp
qed

lemma demo_policies: "list_all (\<lambda>a. e_decode demo_full_env a = Ok (demo_policy a)) istioCSRNetworkPolicyAssets"
  by code_simp

theorem installation_restricts_network_witness:
  "\<exists>w'. reconcileIstioCSRDeployment store_api demo_full_env True demo_full_world = (Ok (), w') \<and>
     (\<forall>a\<in>set istioCSRNetworkPolicyAssets. \<exists>z. objs_in (w_cluster w') KNetworkPolicy (''istio-csr'', a) = Some z)"
proof -
  let ?e = demo_full_env and ?cr = demo_full_istiocsr and ?w = demo_full_world
  define l where "l = resourceLabelsFor ?e ?cr"
  have cr: "w_cr ?w = ?cr" by (simp add: demo_full_world_def)
  have good: "good ?cr ?w" by (simp add: good_def demo_unrejected cr demo_objs demo_cr_key)
  obtain w' where run: "reconcileIstioCSRDeployment store_api ?e True ?w = (Ok (), w')"
    using fresh_run [OF demo_installable demo_ca(1) good cr refl refl refl demo_ca(2)] demo_objs(2) by (auto simp: absent_def)
  define D where "D a = upd_meta (\<lambda>m. m\<lparr>om_Namespace := ''istio-csr'', om_Labels := mcopy (om_Labels m) l\<rparr>) (demo_policy a)" for a
  have ns: "ic_Namespace ?cr = ''istio-csr''" using demo_cr_key by (simp add: cr_key_def)
  have dec: "e_decode ?e a = Ok (demo_policy a)" if "a \<in> set istioCSRNetworkPolicyAssets" for a
    using demo_policies that by (simp add: list_all_iff)
  have key: "ObjectKeyFromObject (D a) = (''istio-csr'', a)" "om_DeletionTimestamp (meta_of (D a)) = None"
    "om_Name (meta_of (D a)) = a" for a
    by (simp_all add: D_def demo_policy_def demo_named_def ObjectKeyFromObject_def empty_meta_def)
  have pol: "\<forall>a\<in>set istioCSRNetworkPolicyAssets.
      getNetworkPolicyFromAsset ?e a (w_cr ?w) (resourceLabelsFor ?e (w_cr ?w)) = Ok (D a) \<and>
      om_Name (meta_of (D a)) \<noteq> '''' \<and> om_DeletionTimestamp (meta_of (D a)) = None"
  proof
    fix a assume a: "a \<in> set istioCSRNetworkPolicyAssets"
    have "a \<noteq> ''''" using a by (auto simp: istioCSRNetworkPolicyAssets_def)
    then show "getNetworkPolicyFromAsset ?e a (w_cr ?w) (resourceLabelsFor ?e (w_cr ?w)) = Ok (D a) \<and>
      om_Name (meta_of (D a)) \<noteq> '''' \<and> om_DeletionTimestamp (meta_of (D a)) = None"
      using dec [OF a] by (simp add: key getNetworkPolicyFromAsset_def Let_def cr ns D_def demo_policy_def l_def demo_named_def empty_meta_def)
  qed
  have dist: "distinct (map (\<lambda>a. ObjectKeyFromObject (D a)) istioCSRNetworkPolicyAssets)"
    by (simp add: key istioCSRNetworkPolicyAssets_def)
  from installation_restricts_network [OF mem.api_server_axioms run pol dist]
  have "\<forall>a\<in>set istioCSRNetworkPolicyAssets. \<exists>z. objs_in (w_cluster w') KNetworkPolicy (''istio-csr'', a) = Some z"
    unfolding key by blast
  with run show ?thesis by blast
qed

end
