(* ===== verification/TM_Objects.thy ===== *)
theory TM_Objects
  imports Client Validation Operator_Startup
begin

text \<open>
  The trust-manager controller's environment, constants (\<open>constants.go\<close>) and helpers
  (\<open>utils.go\<close> of \<open>pkg/controller/trustmanager\<close>): the \<open>TrustManager\<close> resource with its status and finalizer,
  its validation, the labels and annotations of the operand's objects, and the routine by which every
  object is compared with the live one and applied.
\<close>

section \<open>Environment and state\<close>

text \<open>
  Decoded manifests by asset name, the process environment, the Kubernetes validators and the times
  stamped on conditions.
\<close>

record tm_env =
  te_decode :: "string \<Rightarrow> obj res"
  te_getenv :: "string \<Rightarrow> string"
  te_validators :: core_validators
  te_now :: "nat \<Rightarrow> int"

record 'c tm_world = "'c world" +
  w_tm :: TrustManager

definition getTM :: "('c tm_world, TrustManager) eff" where
  "getTM w = (Ok (w_tm w), w)"

definition modifyTM :: "(TrustManager \<Rightarrow> TrustManager) \<Rightarrow> ('c tm_world, unit) eff" where
  "modifyTM f w = (Ok (), w\<lparr>w_tm := f (w_tm w)\<rparr>)"

abbreviation tm_Config :: "TrustManager \<Rightarrow> TrustManagerConfig" where
  "tm_Config t \<equiv> TrustManagerConfig (tm_Spec t)"

abbreviation tm_Name :: "TrustManager \<Rightarrow> string" where
  "tm_Name t \<equiv> om_Name (tm_Meta t)"

definition tm_key :: "TrustManager \<Rightarrow> key" where
  "tm_key t = (om_Namespace (tm_Meta t), tm_Name t)"

section \<open>constants.go\<close>

definition trustManagerCommonName :: string where "trustManagerCommonName = ''cert-manager-trust-manager''"
definition tm_ControllerName :: string where "tm_ControllerName = trustManagerCommonName @ ''-controller''"
definition tm_finalizer :: string where "tm_finalizer = ''trustmanager.openshift.operator.io/'' @ tm_ControllerName"
definition tm_defaultRequeueTime :: int where "tm_defaultRequeueTime = 30 * 10 ^ 9"
definition trustManagerObjectName :: string where "trustManagerObjectName = ''cluster''"
definition trustManagerImageNameEnvVarName :: string where
  "trustManagerImageNameEnvVarName = ''RELATED_IMAGE_CERT_MANAGER_TRUST_MANAGER''"
definition trustManagerImageVersionEnvVarName :: string where
  "trustManagerImageVersionEnvVarName = ''TRUSTMANAGER_OPERAND_IMAGE_VERSION''"
definition defaultTrustNamespace :: string where "defaultTrustNamespace = ''cert-manager''"
definition operandNamespace :: string where "operandNamespace = ''cert-manager''"
definition trustManagerContainerName :: string where "trustManagerContainerName = ''trust-manager''"
definition tm_roleBindingSubjectKind :: string where "tm_roleBindingSubjectKind = ''ServiceAccount''"

definition defaultCAPackageConfigMapName :: string where
  "defaultCAPackageConfigMapName = ''trust-manager-default-ca-package''"
definition defaultCAPackageName :: string where "defaultCAPackageName = ''cert-manager-package-openshift''"
definition defaultCAPackageFilename :: string where "defaultCAPackageFilename = defaultCAPackageName @ ''.json''"
definition defaultCAPackageVolumeName :: string where "defaultCAPackageVolumeName = ''packages''"
definition defaultCAPackageMountPath :: string where "defaultCAPackageMountPath = ''/packages''"
definition defaultCAPackageLocation :: string where
  "defaultCAPackageLocation = defaultCAPackageMountPath @ ''/'' @ defaultCAPackageFilename"
definition defaultCAPackageHashAnnotation :: string where
  "defaultCAPackageHashAnnotation = ''operator.openshift.io/default-ca-package-hash''"
definition serviceAccountUIDAnnotation :: string where
  "serviceAccountUIDAnnotation = ''operator.openshift.io/trust-manager-service-account-uid''"

definition trustManagerCommonResourceName :: string where "trustManagerCommonResourceName = ''trust-manager''"
definition trustManagerServiceAccountName :: string where
  "trustManagerServiceAccountName = trustManagerCommonResourceName"
definition trustManagerDeploymentName :: string where "trustManagerDeploymentName = trustManagerCommonResourceName"
definition trustManagerServiceName :: string where "trustManagerServiceName = trustManagerCommonResourceName"
definition trustManagerMetricsServiceName :: string where
  "trustManagerMetricsServiceName = trustManagerCommonResourceName @ ''-metrics''"
definition trustManagerClusterRoleName :: string where "trustManagerClusterRoleName = trustManagerCommonResourceName"
definition trustManagerClusterRoleClusterViewName :: string where
  "trustManagerClusterRoleClusterViewName = trustManagerCommonResourceName @ ''-cluster-view''"
definition trustManagerClusterRoleBindingName :: string where
  "trustManagerClusterRoleBindingName = trustManagerCommonResourceName"
definition trustManagerRoleName :: string where "trustManagerRoleName = trustManagerCommonResourceName"
definition trustManagerRoleBindingName :: string where "trustManagerRoleBindingName = trustManagerCommonResourceName"
definition trustManagerLeaderElectionRoleName :: string where
  "trustManagerLeaderElectionRoleName = trustManagerCommonResourceName @ '':leaderelection''"
definition trustManagerLeaderElectionRoleBindingName :: string where
  "trustManagerLeaderElectionRoleBindingName = trustManagerCommonResourceName @ '':leaderelection''"
definition trustManagerIssuerName :: string where "trustManagerIssuerName = trustManagerCommonResourceName"
definition trustManagerCertificateName :: string where "trustManagerCertificateName = trustManagerCommonResourceName"
definition trustManagerTLSSecretName :: string where
  "trustManagerTLSSecretName = trustManagerCommonResourceName @ ''-tls''"
definition trustManagerWebhookConfigName :: string where
  "trustManagerWebhookConfigName = trustManagerCommonResourceName"

definition tm_asset :: "string \<Rightarrow> string" where
  "tm_asset file = ''trust-manager/resources/'' @ file"

definition tm_configPath :: path where "tm_configPath = ''spec.trustManagerConfig''"
definition tm_controllerPath :: path where "tm_controllerPath = ''spec.controllerConfig''"

definition tm_DefaultResourceLabels :: "tm_env \<Rightarrow> labels" where
  "tm_DefaultResourceLabels e = Some [
     (''app'', trustManagerCommonName),
     (''app.kubernetes.io/name'', trustManagerCommonName),
     (''app.kubernetes.io/instance'', trustManagerCommonName),
     (''app.kubernetes.io/version'', te_getenv e trustManagerImageVersionEnvVarName),
     (''app.kubernetes.io/managed-by'', ''cert-manager-operator''),
     (''app.kubernetes.io/part-of'', ''cert-manager-operator'')]"

section \<open>Status and finalizer\<close>

fun the_trustmanager :: "obj \<Rightarrow> TrustManager res" where
  "the_trustmanager (OTrustManager t) = Ok t"
| "the_trustmanager _ = Panic ''unexpected object type''"

definition tmText :: "string \<Rightarrow> key \<Rightarrow> string \<Rightarrow> string" where
  "tmText before key after = before @ '' trustmanager.openshift.operator.io '' @ quoted (show_key key) @ after"

definition tm_updateStatusOnce :: "'c api \<Rightarrow> TrustManager \<Rightarrow> ('c, unit) eff" where
  "tm_updateStatusOnce api changed =
     bindM (wrapM (tmText ''failed to fetch'' (tm_key changed) '' for status update: '')
              (clGet api KTrustManager (tm_key changed))) (\<lambda>x.
     bindM (liftM (the_trustmanager x)) (\<lambda>current.
     bindM (wrapM (tmText ''failed to update'' (tm_key changed) '' status: '')
              (clStatusUpdate api (OTrustManager (current\<lparr>tm_Status := tm_Status changed\<rparr>)))) (\<lambda>_.
     returnM ())))"

definition tm_updateStatus :: "'c api \<Rightarrow> ('c tm_world, unit) eff" where
  "tm_updateStatus api = bindM getTM (\<lambda>changed.
     onCluster (RetryOnConflict DefaultRetry (tm_updateStatusOnce api changed)))"

definition tm_updateCR :: "'c api \<Rightarrow> ('c tm_world, unit) eff" where
  "tm_updateCR api = bindM getTM (\<lambda>t.
     bindM (onCluster (UpdateWithRetry api (OTrustManager t))) (\<lambda>x.
     bindM (liftM (the_trustmanager x)) (\<lambda>t'. modifyTM (\<lambda>_. t'))))"

definition tm_setFinalizers :: "string list \<Rightarrow> TrustManager \<Rightarrow> TrustManager" where
  "tm_setFinalizers fs t = t\<lparr>tm_Meta := (tm_Meta t)\<lparr>om_Finalizers := fs\<rparr>\<rparr>"

definition tm_addFinalizer :: "'c api \<Rightarrow> ('c tm_world, unit) eff" where
  "tm_addFinalizer api = bindM getTM (\<lambda>t.
     let key = tm_key t; fs = om_Finalizers (tm_Meta t)
     in if List.member fs tm_finalizer then returnM ()
        else seqM (modifyTM (tm_setFinalizers (fs @ [tm_finalizer])))
        (seqM (wrapM (''failed to add finalizers on '' @ quoted (show_key key) @
                 '' trustmanager.openshift.operator.io with '') (tm_updateCR api))
        (bindM (wrapM (tmText ''failed to fetch'' key '' after updating finalizers: '')
                 (onCluster (clGet api KTrustManager key))) (\<lambda>updated.
         bindM (liftM (the_trustmanager updated)) (\<lambda>t'. modifyTM (\<lambda>_. t'))))))"

definition tm_removeFinalizer :: "'c api \<Rightarrow> string \<Rightarrow> ('c tm_world, unit) eff" where
  "tm_removeFinalizer api f = bindM getTM (\<lambda>t.
     let key = tm_key t; fs = om_Finalizers (tm_Meta t)
     in if List.member fs f
        then seqM (modifyTM (tm_setFinalizers (removeAll f fs)))
          (wrapM (''failed to remove finalizers on '' @ quoted (show_key key) @
             '' trustmanager.openshift.operator.io with '') (tm_updateCR api))
        else returnM ())"

definition tm_updateCondition :: "'c api \<Rightarrow> goerror option \<Rightarrow> ('c tm_world, goerror option) eff" where
  "tm_updateCondition api prependErr = bindM getTM (\<lambda>t.
     bindM (attemptM (tm_updateStatus api)) (\<lambda>r. case r of
       Err err \<Rightarrow>
         (let errUpdate = ErrWrap (''failed to update '' @ tm_Name t @ '' status: '') err
          in returnM (if prependErr \<noteq> None then NewAggregate [prependErr, Some errUpdate] else Some errUpdate))
     | _ \<Rightarrow> returnM prependErr))"

section \<open>Configuration\<close>

definition errR :: "goerror option \<Rightarrow> unit res" where
  "errR err = (case err of None \<Rightarrow> Ok () | Some e \<Rightarrow> Err e)"

definition validateTrustManagerConfig :: "tm_env \<Rightarrow> TrustManager \<Rightarrow> unit res" where
  "validateTrustManagerConfig e t =
     (let lbls = cc_Labels (ControllerConfig (tm_Spec t)); annotations = cc_Annotations (ControllerConfig (tm_Spec t))
      in if tm_Config t = zero_TrustManagerConfig then Err (ErrNew ''spec.trustManagerConfig config cannot be empty'')
         else bindR (if length (elems lbls) > 0
                     then errR (ValidateLabelsConfig (te_validators e) lbls tm_controllerPath) else Ok ()) (\<lambda>_.
              if length (elems annotations) > 0
              then errR (ValidateAnnotationsConfig (te_validators e) annotations tm_controllerPath) else Ok ()))"

definition secretTargetsEnabled :: "SecretTargetsConfig \<Rightarrow> bool" where
  "secretTargetsEnabled config \<longleftrightarrow> st_Policy config = ''Custom'' \<and> length (elems (AuthorizedSecrets config)) > 0"

definition defaultCAPackageEnabled :: "DefaultCAPackageConfig \<Rightarrow> bool" where
  "defaultCAPackageEnabled config \<longleftrightarrow> ca_Policy config = ''Enabled''"

definition getTrustNamespace :: "TrustManager \<Rightarrow> string" where
  "getTrustNamespace t =
     (if tm_TrustNamespace (tm_Config t) \<noteq> '''' then tm_TrustNamespace (tm_Config t) else defaultTrustNamespace)"

definition getResourceLabels :: "tm_env \<Rightarrow> TrustManager \<Rightarrow> labels" where
  "getResourceLabels e t =
     (let user = cc_Labels (ControllerConfig (tm_Spec t))
      in mcopy (if length (elems user) \<noteq> 0 then mcopy (Some []) user else Some []) (tm_DefaultResourceLabels e))"

definition getResourceAnnotations :: "TrustManager \<Rightarrow> labels" where
  "getResourceAnnotations t =
     (let user = cc_Annotations (ControllerConfig (tm_Spec t))
      in if length (elems user) \<noteq> 0 then mcopy (Some []) user else Some [])"

definition updateResourceAnnotations :: "labels \<Rightarrow> obj \<Rightarrow> obj" where
  "updateResourceAnnotations annotations x =
     (if length (elems annotations) = 0 then x
      else upd_meta (\<lambda>m. m\<lparr>om_Annotations := mcopy (om_Annotations m) annotations\<rparr>) x)"

section \<open>Drift of managed metadata\<close>

text \<open>\<open>for k, v := range desired { if existing[k] != v \<dots> } }\<close>.\<close>

definition entriesModified :: "labels \<Rightarrow> labels \<Rightarrow> bool" where
  "entriesModified desired existing \<longleftrightarrow>
     list_ex (\<lambda>k. mget existing k \<noteq> mget desired k) (map fst (elems desired))"

definition managedLabelsModified :: "obj \<Rightarrow> obj \<Rightarrow> bool" where
  "managedLabelsModified desired existing =
     entriesModified (om_Labels (meta_of desired)) (om_Labels (meta_of existing))"

definition managedAnnotationsModified :: "obj \<Rightarrow> obj \<Rightarrow> bool" where
  "managedAnnotationsModified desired existing =
     entriesModified (om_Annotations (meta_of desired)) (om_Annotations (meta_of existing))"

definition managedMetadataModified :: "obj \<Rightarrow> obj \<Rightarrow> bool" where
  "managedMetadataModified desired existing \<longleftrightarrow>
     managedLabelsModified desired existing \<or> managedAnnotationsModified desired existing"

definition namespaceExists :: "'c api \<Rightarrow> string \<Rightarrow> ('c tm_world, bool) eff" where
  "namespaceExists api namespace =
     bindM (onCluster (clExists api KNamespace ('''', namespace))) (\<lambda>found. returnM (found \<noteq> None))"

section \<open>Applying an object\<close>

text \<open>
  The body the \<open>createOrApply\<close> functions share: \<open>what\<close> names the resource in errors, \<open>label\<close> in the
  event, \<open>name\<close> is the printed name and \<open>modified\<close> the comparison for the kind.
\<close>

definition applyObject ::
  "'c api \<Rightarrow> string \<Rightarrow> string \<Rightarrow> string \<Rightarrow> (obj \<Rightarrow> obj \<Rightarrow> bool) \<Rightarrow> obj \<Rightarrow> ('c tm_world, unit) eff" where
  "applyObject api what label name modified desired =
     bindM (onErrM (clientErr (''failed to check if '' @ what @ '' '' @ quoted name @ '' exists''))
              (onCluster (clExists api (kind_of desired) (ObjectKeyFromObject desired)))) (\<lambda>existing.
     if (case existing of Some x \<Rightarrow> \<not> modified desired x | None \<Rightarrow> False) then returnM ()
     else
       bindM (onErrM (clientErr (''failed to apply '' @ what @ '' '' @ quoted name))
                (onCluster (clPatch api desired applyPatch))) (\<lambda>_.
       Eventf ''Normal'' ''Reconciled'' (label @ '' '' @ name @ '' applied'')))"

abbreviation fullName :: "obj \<Rightarrow> string" where
  "fullName x \<equiv> show_key (ObjectKeyFromObject x)"

section \<open>Lemmas\<close>

lemma getTM_eq_iff [simp]: "getTM w = (r, w') \<longleftrightarrow> r = Ok (w_tm w) \<and> w' = w"
  by (auto simp: getTM_def)

lemma modifyTM_eq_iff [simp]: "modifyTM f w = (r, w') \<longleftrightarrow> r = Ok () \<and> w' = w\<lparr>w_tm := f (w_tm w)\<rparr>"
  by (auto simp: modifyTM_def)

lemma keepsM_getTM [keeps_intro]: "keepsM I getTM"
  by (simp add: keepsM_def getTM_def)

lemma keepsM_clusterTM: "keepsM I m \<Longrightarrow> keepsM (\<lambda>w :: 'c tm_world. I (w_cluster w)) (onCluster m)"
  by (auto simp: keepsM_def onCluster_def split: prod.splits)

lemma entriesModified_within: "map_within a b \<Longrightarrow> \<not> entriesModified a b"
  by (auto simp: map_within_def entriesModified_def mget_def list_all_iff list_ex_iff)

lemma managedMetadata_applied: "applied x y \<Longrightarrow> \<not> managedMetadataModified x y"
  by (simp add: applied_def managedMetadataModified_def managedLabelsModified_def managedAnnotationsModified_def
      entriesModified_within)

text \<open>The default labels win over the user's, and every user label that does not clash is there.\<close>

lemma getResourceLabels_lookup:
  "mlookup (getResourceLabels e t) k = (case mlookup (tm_DefaultResourceLabels e) k of
     None \<Rightarrow> mlookup (cc_Labels (ControllerConfig (tm_Spec t))) k | Some v \<Rightarrow> Some v)"
  by (auto simp: getResourceLabels_def Let_def mlookup_no_elems split: option.splits)

context api_apply
begin

lemma exists_keeps: "stored (snd (clExists api k key s)) = stored s"
  using exists_cases [of k key s "fst (clExists api k key s)" "snd (clExists api k key s)"] by simp

text \<open>
  Applying an object either finds it as desired, or writes it; in both cases nothing else in the cluster
  changes, and whatever the outcome only the object's own key may change.
\<close>

lemma applyObject_frame:
  assumes "(k, key) \<noteq> (kind_of x, ObjectKeyFromObject x)"
  shows "keepsM (\<lambda>w. stored (w_cluster w) k key = v) (applyObject api what label name modified x)"
proof -
  have ex: "keepsM (\<lambda>s. stored s k key = v) (clExists api k' key')" for k' key'
    by (simp add: keepsM_def exists_keeps)
  have pa: "keepsM (\<lambda>s. stored s k key = v) (clPatch api x applyPatch)"
    unfolding clPatch_def using apply_other [OF assms] by (intro keeps_intro) (simp add: keepsM_def)
  have ev: "keepsM (\<lambda>w. stored (w_cluster w) k key = v) (Eventf a b c)" for a b c
    by (simp add: keepsM_def)
  show ?thesis
    unfolding applyObject_def
    by (intro keepsM_bind keepsM_onErr keepsM_clusterTM [where I = "\<lambda>s. stored s k key = v"] ex)
       (auto intro!: keepsM_return keepsM_bind keepsM_onErr keepsM_clusterTM [where I = "\<lambda>s. stored s k key = v"] pa ev)
qed

lemma applyObject_establishes:
  assumes "applyObject api what label name modified x w = (Ok (), w')"
  shows "\<exists>y. stored (w_cluster w') (kind_of x) (ObjectKeyFromObject x) = Some y \<and>
     (applied x y \<or> kind_of y = kind_of x \<and> \<not> modified x y)"
proof -
  from assms obtain found c where
    ex: "clExists api (kind_of x) (ObjectKeyFromObject x) (w_cluster w) = (Ok found, c)"
    by (auto simp: applyObject_def bindM_eq_Ok_iff onCluster_eq_iff)
  have c: "stored c = stored (w_cluster w)" "stored c (kind_of x) (ObjectKeyFromObject x) = found"
    using exists_cases [OF ex] by simp_all
  show ?thesis
  proof (cases "case found of Some y \<Rightarrow> \<not> modified x y | None \<Rightarrow> False")
    case True
    then obtain y where y: "found = Some y" "\<not> modified x y" by (cases found) auto
    with assms ex have "w_cluster w' = c"
      by (auto simp: applyObject_def bindM_eq_Ok_iff onCluster_eq_iff)
    with y c stored_kind show ?thesis by blast
  next
    case False
    with assms ex obtain y c' where "api_Patch api x applyPatch c = (Ok y, c')" "w_cluster w' = c'"
      by (auto simp: applyObject_def bindM_eq_Ok_iff onCluster_eq_iff clPatch_def Eventf_def)
    with apply_Ok show ?thesis by auto
  qed
qed

end

end
