(* ===== verification/Go_Encoding.thy ===== *)
theory Go_Encoding
  imports Prelude "HOL-Library.Word"
begin

text \<open>
  What the trust-manager controller uses of Go's standard library to package the CA bundle:
  the string encoder of \<open>encoding/json\<close>, \<open>crypto/sha256\<close> (FIPS 180-4) and \<open>encoding/hex\<close>.  Strings are
  byte strings.
\<close>

unbundle bit_operations_syntax

section \<open>encoding/hex\<close>

definition hex_digit :: "nat \<Rightarrow> char" where
  "hex_digit n = ''0123456789abcdef'' ! (n mod 16)"

definition hex_byte :: "nat \<Rightarrow> string" where
  "hex_byte n = [hex_digit (n div 16), hex_digit n]"

section \<open>encoding/json\<close>

text \<open>
  \<open>utf8.DecodeRuneInString\<close>: the number of bytes of the code point a string starts with, 0 when the
  bytes are not valid UTF-8.
\<close>

definition byte :: "char \<Rightarrow> nat" where
  "byte c = of_char c"

definition cont_byte :: "char \<Rightarrow> bool" where
  "cont_byte c \<longleftrightarrow> 0x80 \<le> byte c \<and> byte c \<le> 0xBF"

definition rune_size :: "string \<Rightarrow> nat" where
  "rune_size s = (case s of
      [] \<Rightarrow> 0
    | a # rest \<Rightarrow>
        (let n = byte a
         in if n < 0x80 then 1
            else if 0xC2 \<le> n \<and> n \<le> 0xDF then
              (case rest of b # _ \<Rightarrow> if cont_byte b then 2 else 0 | _ \<Rightarrow> 0)
            else if 0xE0 \<le> n \<and> n \<le> 0xEF then
              (case rest of
                 b # c # _ \<Rightarrow>
                   if cont_byte b \<and> cont_byte c \<and> (n = 0xE0 \<longrightarrow> byte b \<ge> 0xA0) \<and> (n = 0xED \<longrightarrow> byte b \<le> 0x9F)
                   then 3 else 0
               | _ \<Rightarrow> 0)
            else if 0xF0 \<le> n \<and> n \<le> 0xF4 then
              (case rest of
                 b # c # d # _ \<Rightarrow>
                   if cont_byte b \<and> cont_byte c \<and> cont_byte d \<and>
                      (n = 0xF0 \<longrightarrow> byte b \<ge> 0x90) \<and> (n = 0xF4 \<longrightarrow> byte b \<le> 0x8F)
                   then 4 else 0
               | _ \<Rightarrow> 0)
            else 0))"

definition backslash :: char where "backslash = CHR 0x5C"

definition json_escape :: "char \<Rightarrow> string" where
  "json_escape c =
     (let n = byte c
      in if c = CHR 0x22 \<or> c = backslash then [backslash, c]
         else if n = 8 then [backslash, CHR ''b'']
         else if n = 12 then [backslash, CHR ''f'']
         else if n = 10 then [backslash, CHR ''n'']
         else if n = 13 then [backslash, CHR ''r'']
         else if n = 9 then [backslash, CHR ''t'']
         else if n < 0x20 \<or> c = CHR ''<'' \<or> c = CHR ''>'' \<or> c = CHR ''&''
         then [backslash, CHR ''u'', CHR ''0'', CHR ''0''] @ hex_byte n
         else [c])"

fun json_body :: "string \<Rightarrow> string" where
  "json_body [] = []"
| "json_body (c # cs) =
     (if byte c < 0x80 then json_escape c @ json_body cs
      else let k = rune_size (c # cs); r = take k (c # cs)
           in if k = 0 then [backslash] @ ''ufffd'' @ json_body cs
              else if r = [CHR 0xE2, CHR 0x80, CHR 0xA8] then [backslash] @ ''u2028'' @ json_body (drop (k - 1) cs)
              else if r = [CHR 0xE2, CHR 0x80, CHR 0xA9] then [backslash] @ ''u2029'' @ json_body (drop (k - 1) cs)
              else r @ json_body (drop (k - 1) cs))"

definition json_string :: "string \<Rightarrow> string" where
  "json_string s = CHR 0x22 # json_body s @ [CHR 0x22]"

text \<open>A struct of strings with its field tags in order.\<close>

definition json_object :: "(string \<times> string) list \<Rightarrow> string" where
  "json_object fields =
     CHR 0x7B # join '','' (map (\<lambda>(k, v). json_string k @ '':'' @ json_string v) fields) @ [CHR 0x7D]"

section \<open>crypto/sha256\<close>

definition rotr32 :: "nat \<Rightarrow> 32 word \<Rightarrow> 32 word" where
  "rotr32 n x = drop_bit n x OR push_bit (32 - n) x"

text \<open>
  The round constants and the initial state: the first 32 bits after the point of the cube roots of the
  first 64 primes and of the square roots of the first eight.
\<close>

definition sha_K :: "32 word list" where
  "sha_K =
    [1116352408, 1899447441, 3049323471, 3921009573, 961987163, 1508970993, 2453635748, 2870763221,
     3624381080, 310598401, 607225278, 1426881987, 1925078388, 2162078206, 2614888103, 3248222580,
     3835390401, 4022224774, 264347078, 604807628, 770255983, 1249150122, 1555081692, 1996064986,
     2554220882, 2821834349, 2952996808, 3210313671, 3336571891, 3584528711, 113926993, 338241895,
     666307205, 773529912, 1294757372, 1396182291, 1695183700, 1986661051, 2177026350, 2456956037,
     2730485921, 2820302411, 3259730800, 3345764771, 3516065817, 3600352804, 4094571909, 275423344,
     430227734, 506948616, 659060556, 883997877, 958139571, 1322822218, 1537002063, 1747873779,
     1955562222, 2024104815, 2227730452, 2361852424, 2428436474, 2756734187, 3204031479, 3329325298]"

definition sha_H0 :: "32 word list" where
  "sha_H0 = [1779033703, 3144134277, 1013904242, 2773480762, 1359893119, 2600822924, 528734635, 1541459225]"

fun sha_schedule :: "nat \<Rightarrow> 32 word list \<Rightarrow> 32 word list" where
  "sha_schedule 0 ws = ws"
| "sha_schedule (Suc n) ws =
     (let t = length ws; a = ws ! (t - 15); b = ws ! (t - 2);
          s0 = rotr32 7 a XOR rotr32 18 a XOR drop_bit 3 a;
          s1 = rotr32 17 b XOR rotr32 19 b XOR drop_bit 10 b
      in sha_schedule n (ws @ [ws ! (t - 16) + s0 + ws ! (t - 7) + s1]))"

fun sha_round :: "32 word list \<Rightarrow> 32 word \<times> 32 word \<Rightarrow> 32 word list" where
  "sha_round [a, b, c, d, e, f, g, h] (k, w) =
     (let S1 = rotr32 6 e XOR rotr32 11 e XOR rotr32 25 e;
          ch = (e AND f) XOR (NOT e AND g);
          t1 = h + S1 + ch + k + w;
          S0 = rotr32 2 a XOR rotr32 13 a XOR rotr32 22 a;
          maj = (a AND b) XOR (a AND c) XOR (b AND c);
          t2 = S0 + maj
      in [t1 + t2, a, b, c, d + t1, e, f, g])"
| "sha_round st _ = st"

definition sha_compress :: "32 word list \<Rightarrow> 32 word list \<Rightarrow> 32 word list" where
  "sha_compress hs block = map2 (+) hs (foldl sha_round hs (zip sha_K (sha_schedule 48 block)))"

text \<open>The message, a one bit, zeros up to eight bytes before a block boundary, and the length in bits.\<close>

definition sha_pad :: "8 word list \<Rightarrow> 8 word list" where
  "sha_pad bytes =
     (let l = length bytes; bits = 8 * of_nat l :: 64 word
      in bytes @ [0x80] @ replicate ((119 - l mod 64) mod 64) 0 @
         map (\<lambda>i. ucast (drop_bit (8 * (7 - i)) bits)) [0..<8])"

fun be_words :: "8 word list \<Rightarrow> 32 word list" where
  "be_words (a # b # c # d # rest) =
     (push_bit 24 (ucast a) OR push_bit 16 (ucast b) OR push_bit 8 (ucast c) OR ucast d) # be_words rest"
| "be_words _ = []"

fun sha_blocks :: "32 word list \<Rightarrow> 32 word list \<Rightarrow> 32 word list" where
  "sha_blocks hs ws =
     (if length ws < 16 then hs else sha_blocks (sha_compress hs (take 16 ws)) (drop 16 ws))"

declare sha_blocks.simps [simp del]

definition be_bytes :: "32 word \<Rightarrow> 8 word list" where
  "be_bytes w = map (\<lambda>n. ucast (drop_bit n w)) [24, 16, 8, 0]"

definition sha256_Sum256 :: "string \<Rightarrow> 8 word list" where
  "sha256_Sum256 s = concat (map be_bytes (sha_blocks sha_H0 (be_words (sha_pad (map (of_nat \<circ> byte) s)))))"

definition hex_EncodeToString :: "8 word list \<Rightarrow> string" where
  "hex_EncodeToString bytes = concat (map (hex_byte \<circ> unat) bytes)"

end
