(* ===== verification/TM_Resources.thy ===== *)
theory TM_Resources
  imports TM_Objects Go_Encoding "HOL-Library.List_Lexorder" "HOL-Library.Char_ord"
begin

text \<open>
  The operand's objects other than the deployment: \<open>configmaps.go\<close>, \<open>serviceaccounts.go\<close>,
  \<open>rbacs.go\<close>, \<open>services.go\<close>, \<open>certificates.go\<close> and \<open>webhooks.go\<close> of \<open>pkg/controller/trustmanager\<close>.
  For each object the desired state, the comparison with the live object and the function that applies it.
\<close>

definition tm_manifest :: "tm_env \<Rightarrow> kind \<Rightarrow> string \<Rightarrow> obj res" where
  "tm_manifest e k file = DecodeObjBytes k (te_decode e (tm_asset file))"

text \<open>
  Name, namespace, labels and annotations as the getters set them.  \<open>SetLabels\<close> stores the map it is given: an
  object built this way shares \<open>resourceLabels\<close> with all others.
\<close>

definition tm_placed :: "string \<Rightarrow> string \<Rightarrow> labels \<Rightarrow> labels \<Rightarrow> obj \<Rightarrow> obj" where
  "tm_placed name namespace resourceLabels resourceAnnotations x =
     updateResourceAnnotations resourceAnnotations
       (UpdateResourceLabels resourceLabels (UpdateNamespace namespace (UpdateName name x)))"

definition tm_placedCluster :: "string \<Rightarrow> labels \<Rightarrow> labels \<Rightarrow> obj \<Rightarrow> obj" where
  "tm_placedCluster name resourceLabels resourceAnnotations x =
     updateResourceAnnotations resourceAnnotations (UpdateResourceLabels resourceLabels (UpdateName name x))"

section \<open>configmaps.go\<close>

definition TrustedCABundleConfigMapName :: string where
  "TrustedCABundleConfigMapName = ''cert-manager-operator-trusted-ca-bundle''"
definition OperatorNamespace :: string where "OperatorNamespace = ''cert-manager-operator''"
definition TrustedCABundleKey :: string where "TrustedCABundleKey = ''ca-bundle.crt''"

fun tm_the_configmap :: "obj \<Rightarrow> ConfigMap res" where
  "tm_the_configmap (OConfigMap c) = Ok c"
| "tm_the_configmap _ = Panic ''unexpected object type''"

definition readTrustedCABundle :: "'c api \<Rightarrow> ('c tm_world, string \<times> string) eff" where
  "readTrustedCABundle api =
     bindM (onErrM (clientErr (''failed to read CA bundle ConfigMap '' @ quoted TrustedCABundleConfigMapName @
              '' in namespace '' @ quoted OperatorNamespace))
              (onCluster (clGet api KConfigMap (OperatorNamespace, TrustedCABundleConfigMapName)))) (\<lambda>x.
     bindM (liftM (tm_the_configmap x)) (\<lambda>injectionCM.
     case mlookup (cmap_Data injectionCM) TrustedCABundleKey of
       Some caBundle \<Rightarrow>
         if caBundle = ''''
         then failM (clientErr (''missing key '' @ quoted TrustedCABundleKey @ '' in ConfigMap '' @ quoted TrustedCABundleConfigMapName)
                (ErrNew (''CA bundle ConfigMap '' @ quoted TrustedCABundleConfigMapName @ '' does not contain key '' @ quoted TrustedCABundleKey)))
         else returnM (caBundle, om_ResourceVersion (cmap_Meta injectionCM))
     | None \<Rightarrow>
         failM (clientErr (''missing key '' @ quoted TrustedCABundleKey @ '' in ConfigMap '' @ quoted TrustedCABundleConfigMapName)
           (ErrNew (''CA bundle ConfigMap '' @ quoted TrustedCABundleConfigMapName @ '' does not contain key '' @ quoted TrustedCABundleKey)))))"

text \<open>\<open>json.Marshal\<close> of a struct of strings does not fail.\<close>

definition formatCAPackage :: "string \<Rightarrow> string \<Rightarrow> string" where
  "formatCAPackage caBundle version =
     json_object [(''name'', defaultCAPackageName), (''bundle'', caBundle), (''version'', version)]"

definition computeCABundleHash :: "string \<Rightarrow> string" where
  "computeCABundleHash caBundle = hex_EncodeToString (sha256_Sum256 caBundle)"

definition buildDefaultCAPackageConfigMap :: "string \<Rightarrow> labels \<Rightarrow> labels \<Rightarrow> obj" where
  "buildDefaultCAPackageConfigMap pkgJSON resourceLabels resourceAnnotations =
     updateResourceAnnotations resourceAnnotations (UpdateResourceLabels resourceLabels
       (OConfigMap \<lparr>cmap_Meta = empty_meta\<lparr>om_Name := defaultCAPackageConfigMapName, om_Namespace := operandNamespace\<rparr>,
          cmap_Data = Some [(defaultCAPackageFilename, pkgJSON)], cmap_rest = ''''\<rparr>))"

definition configMapModified :: "ConfigMap \<Rightarrow> ConfigMap \<Rightarrow> bool" where
  "configMapModified desired existing \<longleftrightarrow>
     managedMetadataModified (OConfigMap desired) (OConfigMap existing) \<or>
     \<not> maps_equal (cmap_Data desired) (cmap_Data existing)"

section \<open>serviceaccounts.go\<close>

definition serviceAccountModified :: "ServiceAccount \<Rightarrow> ServiceAccount \<Rightarrow> bool" where
  "serviceAccountModified desired existing \<longleftrightarrow>
     managedMetadataModified (OServiceAccount desired) (OServiceAccount existing) \<or>
     sa_Automount desired \<noteq> sa_Automount existing"

definition tm_getServiceAccountObject :: "tm_env \<Rightarrow> labels \<Rightarrow> labels \<Rightarrow> obj res" where
  "tm_getServiceAccountObject e resourceLabels resourceAnnotations =
     bindR (tm_manifest e KServiceAccount ''serviceaccount_trust-manager.yml'') (\<lambda>x.
     Ok (tm_placed trustManagerServiceAccountName operandNamespace resourceLabels resourceAnnotations x))"

section \<open>services.go\<close>

definition serviceModified :: "Service \<Rightarrow> Service \<Rightarrow> bool" where
  "serviceModified desired existing \<longleftrightarrow>
     managedMetadataModified (OService desired) (OService existing) \<or>
     svc_Type desired \<noteq> svc_Type existing \<or> \<not> maps_equal (svc_Selector desired) (svc_Selector existing) \<or>
     svc_Ports desired \<noteq> svc_Ports existing"

definition getWebhookServiceObject :: "tm_env \<Rightarrow> labels \<Rightarrow> labels \<Rightarrow> obj res" where
  "getWebhookServiceObject e resourceLabels resourceAnnotations =
     bindR (tm_manifest e KService ''service_trust-manager.yml'') (\<lambda>x.
     Ok (tm_placed trustManagerServiceName operandNamespace resourceLabels resourceAnnotations x))"

definition tm_getMetricsServiceObject :: "tm_env \<Rightarrow> labels \<Rightarrow> labels \<Rightarrow> obj res" where
  "tm_getMetricsServiceObject e resourceLabels resourceAnnotations =
     bindR (tm_manifest e KService ''service_trust-manager-metrics.yml'') (\<lambda>x.
     Ok (tm_placed trustManagerMetricsServiceName operandNamespace resourceLabels resourceAnnotations x))"

section \<open>certificates.go\<close>

definition issuerModified :: "Issuer \<Rightarrow> Issuer \<Rightarrow> bool" where
  "issuerModified desired existing \<longleftrightarrow>
     managedMetadataModified (OIssuer desired) (OIssuer existing) \<or>
     (iss_ACME desired, iss_CA desired, iss_rest desired) \<noteq> (iss_ACME existing, iss_CA existing, iss_rest existing)"

definition getIssuerObject :: "tm_env \<Rightarrow> labels \<Rightarrow> labels \<Rightarrow> obj res" where
  "getIssuerObject e resourceLabels resourceAnnotations =
     bindR (tm_manifest e KIssuer ''issuer_trust-manager.yml'') (\<lambda>x.
     Ok (tm_placed trustManagerIssuerName operandNamespace resourceLabels resourceAnnotations x))"

definition certificatePrivateKeyRotationPolicy :: "CertificatePrivateKey option \<Rightarrow> string" where
  "certificatePrivateKeyRotationPolicy pk = (case pk of None \<Rightarrow> '''' | Some k \<Rightarrow> pk_RotationPolicy k)"

definition certificateModified :: "Certificate \<Rightarrow> Certificate \<Rightarrow> bool" where
  "certificateModified desired existing =
     (if managedMetadataModified (OCertificate desired) (OCertificate existing) then True
      else let d = cert_Spec desired; x = cert_Spec existing
           in cs_CommonName d \<noteq> cs_CommonName x \<or> elems (cs_DNSNames d) \<noteq> elems (cs_DNSNames x) \<or>
              cs_SecretName d \<noteq> cs_SecretName x \<or> cs_RevisionHistoryLimit d \<noteq> cs_RevisionHistoryLimit x \<or>
              cs_IssuerRef d \<noteq> cs_IssuerRef x \<or> cs_SecretTemplate d \<noteq> cs_SecretTemplate x \<or>
              certificatePrivateKeyRotationPolicy (cs_PrivateKey d) \<noteq> certificatePrivateKeyRotationPolicy (cs_PrivateKey x))"

definition tm_dnsName :: string where
  "tm_dnsName = trustManagerServiceName @ ''.'' @ operandNamespace @ ''.svc''"

fun setWebhookCertificate :: "obj \<Rightarrow> obj" where
  "setWebhookCertificate (OCertificate c) = OCertificate (c\<lparr>cert_Spec := (cert_Spec c)\<lparr>
     cs_CommonName := tm_dnsName, cs_DNSNames := Some [tm_dnsName], cs_SecretName := trustManagerTLSSecretName,
     cs_IssuerRef := \<lparr>ir_Name = trustManagerIssuerName, ir_Kind = ''Issuer'', ir_Group = ''cert-manager.io''\<rparr>\<rparr>\<rparr>)"
| "setWebhookCertificate x = x"

definition tm_getCertificateObject :: "tm_env \<Rightarrow> labels \<Rightarrow> labels \<Rightarrow> obj res" where
  "tm_getCertificateObject e resourceLabels resourceAnnotations =
     bindR (tm_manifest e KCertificate ''certificate_trust-manager.yml'') (\<lambda>x.
     Ok (setWebhookCertificate
       (tm_placed trustManagerCertificateName operandNamespace resourceLabels resourceAnnotations x)))"

section \<open>webhooks.go\<close>

definition updateWebhookClientConfig :: "ValidatingWebhookConfiguration \<Rightarrow> ValidatingWebhookConfiguration" where
  "updateWebhookClientConfig c = c\<lparr>vwc_Webhooks := map_option (map (\<lambda>w.
     w\<lparr>wh_Service := map_option (\<lambda>s. s\<lparr>sr_Name := trustManagerServiceName, sr_Namespace := operandNamespace\<rparr>)
        (wh_Service w)\<rparr>)) (vwc_Webhooks c)\<rparr>"

definition updateWebhookAnnotations :: "labels \<Rightarrow> ValidatingWebhookConfiguration \<Rightarrow> ValidatingWebhookConfiguration" where
  "updateWebhookAnnotations resourceAnnotations c = c\<lparr>vwc_Meta := (vwc_Meta c)\<lparr>om_Annotations :=
     mput ''cert-manager.io/inject-ca-from-secret'' (operandNamespace @ ''/'' @ trustManagerTLSSecretName)
       (mcopy (Some []) resourceAnnotations)\<rparr>\<rparr>"

fun on_webhookConfig ::
  "(ValidatingWebhookConfiguration \<Rightarrow> ValidatingWebhookConfiguration) \<Rightarrow> obj \<Rightarrow> obj" where
  "on_webhookConfig f (OValidatingWebhookConfiguration c) = OValidatingWebhookConfiguration (f c)"
| "on_webhookConfig f x = x"

definition getValidatingWebhookConfigObject :: "tm_env \<Rightarrow> labels \<Rightarrow> labels \<Rightarrow> obj res" where
  "getValidatingWebhookConfigObject e resourceLabels resourceAnnotations =
     bindR (tm_manifest e KValidatingWebhookConfiguration ''validatingwebhookconfiguration_trust-manager.yml'') (\<lambda>x.
     Ok (on_webhookConfig (updateWebhookAnnotations resourceAnnotations \<circ> updateWebhookClientConfig)
          (UpdateResourceLabels resourceLabels (UpdateName trustManagerWebhookConfigName x))))"

definition validatingWebhookModified :: "ValidatingWebhook \<Rightarrow> ValidatingWebhook \<Rightarrow> bool" where
  "validatingWebhookModified desired existing \<longleftrightarrow>
     wh_Name desired \<noteq> wh_Name existing \<or> wh_Rules desired \<noteq> wh_Rules existing \<or>
     elems (wh_AdmissionReviewVersions desired) \<noteq> elems (wh_AdmissionReviewVersions existing) \<or>
     wh_FailurePolicy desired \<noteq> wh_FailurePolicy existing \<or> wh_SideEffects desired \<noteq> wh_SideEffects existing \<or>
     wh_TimeoutSeconds desired \<noteq> wh_TimeoutSeconds existing \<or> wh_Service desired \<noteq> wh_Service existing"

definition webhookConfigModified ::
  "ValidatingWebhookConfiguration \<Rightarrow> ValidatingWebhookConfiguration \<Rightarrow> bool" where
  "webhookConfigModified desired existing \<longleftrightarrow>
     managedMetadataModified (OValidatingWebhookConfiguration desired) (OValidatingWebhookConfiguration existing) \<or>
     length (elems (vwc_Webhooks desired)) \<noteq> length (elems (vwc_Webhooks existing)) \<or>
     list_ex (\<lambda>(d, x). validatingWebhookModified d x) (zip (elems (vwc_Webhooks desired)) (elems (vwc_Webhooks existing)))"

section \<open>rbacs.go\<close>

fun on_role :: "(RbacRole \<Rightarrow> RbacRole) \<Rightarrow> obj \<Rightarrow> obj" where
  "on_role f (OClusterRole r) = OClusterRole (f r)"
| "on_role f (ORole r) = ORole (f r)"
| "on_role f x = x"

fun on_binding :: "(RbacBinding \<Rightarrow> RbacBinding) \<Rightarrow> obj \<Rightarrow> obj" where
  "on_binding f (OClusterRoleBinding b) = OClusterRoleBinding (f b)"
| "on_binding f (ORoleBinding b) = ORoleBinding (f b)"
| "on_binding f x = x"

definition secretReadRule :: PolicyRule where
  "secretReadRule = \<lparr>rule_Verbs = Some [''get'', ''list'', ''watch''], rule_APIGroups = Some [''''],
     rule_Resources = Some [''secrets''], rule_ResourceNames = None, rule_NonResourceURLs = None\<rparr>"

definition secretWriteRule :: "string list \<Rightarrow> PolicyRule" where
  "secretWriteRule sortedSecrets = \<lparr>rule_Verbs = Some [''create'', ''update'', ''patch'', ''delete''],
     rule_APIGroups = Some [''''], rule_Resources = Some [''secrets''], rule_ResourceNames = Some sortedSecrets,
     rule_NonResourceURLs = None\<rparr>"

definition appendSecretTargetRules :: "SecretTargetsConfig \<Rightarrow> RbacRole \<Rightarrow> RbacRole" where
  "appendSecretTargetRules secretTargets clusterRole =
     (if \<not> secretTargetsEnabled secretTargets then clusterRole
      else clusterRole\<lparr>role_Rules := Some (elems (role_Rules clusterRole) @
        [secretReadRule, secretWriteRule (sort (elems (AuthorizedSecrets secretTargets)))])\<rparr>)"

definition tm_getClusterRoleObject :: "tm_env \<Rightarrow> SecretTargetsConfig \<Rightarrow> labels \<Rightarrow> labels \<Rightarrow> obj res" where
  "tm_getClusterRoleObject e secretTargets resourceLabels resourceAnnotations =
     bindR (tm_manifest e KClusterRole ''clusterrole_trust-manager.yml'') (\<lambda>x.
     Ok (on_role (appendSecretTargetRules secretTargets)
       (tm_placedCluster trustManagerClusterRoleName resourceLabels resourceAnnotations x)))"

definition clusterReaderAggregateLabel :: string where
  "clusterReaderAggregateLabel = ''rbac.authorization.k8s.io/aggregate-to-cluster-reader''"

text \<open>
  The role's label map is the caller's \<open>resourceLabels\<close>: the entry added to it is added to the caller's
  map as well, which is the second result.
\<close>

definition getClusterViewClusterRoleObject :: "tm_env \<Rightarrow> labels \<Rightarrow> labels \<Rightarrow> (obj \<times> labels) res" where
  "getClusterViewClusterRoleObject e resourceLabels resourceAnnotations =
     bindR (tm_manifest e KClusterRole ''clusterrole_trust-manager-cluster-view.yml'') (\<lambda>x.
     let labelled = mput clusterReaderAggregateLabel ''true'' resourceLabels
     in Ok (tm_placedCluster trustManagerClusterRoleClusterViewName labelled resourceAnnotations x,
            if resourceLabels = None then None else labelled))"

definition updateBindingSubjects :: "string \<Rightarrow> string \<Rightarrow> Subject list \<Rightarrow> Subject list" where
  "updateBindingSubjects serviceAccountName namespace =
     map (\<lambda>s. if sub_Kind s = tm_roleBindingSubjectKind
              then s\<lparr>sub_Name := serviceAccountName, sub_Namespace := namespace\<rparr> else s)"

definition bindTo :: "string \<Rightarrow> RbacBinding \<Rightarrow> RbacBinding" where
  "bindTo roleName b = b\<lparr>rb_RoleRef := (rb_RoleRef b)\<lparr>ref_Name := roleName\<rparr>,
     rb_Subjects := map_option (updateBindingSubjects trustManagerServiceAccountName operandNamespace) (rb_Subjects b)\<rparr>"

definition tm_getClusterRoleBindingObject :: "tm_env \<Rightarrow> labels \<Rightarrow> labels \<Rightarrow> obj res" where
  "tm_getClusterRoleBindingObject e resourceLabels resourceAnnotations =
     bindR (tm_manifest e KClusterRoleBinding ''clusterrolebinding_trust-manager.yml'') (\<lambda>x.
     Ok (on_binding (bindTo trustManagerClusterRoleName)
       (tm_placedCluster trustManagerClusterRoleBindingName resourceLabels resourceAnnotations x)))"

definition getTrustNamespaceRoleObject :: "tm_env \<Rightarrow> labels \<Rightarrow> labels \<Rightarrow> string \<Rightarrow> obj res" where
  "getTrustNamespaceRoleObject e resourceLabels resourceAnnotations trustNamespace =
     bindR (tm_manifest e KRole ''role_trust-manager.yml'') (\<lambda>x.
     Ok (tm_placed trustManagerRoleName trustNamespace resourceLabels resourceAnnotations x))"

definition getTrustNamespaceRoleBindingObject :: "tm_env \<Rightarrow> labels \<Rightarrow> labels \<Rightarrow> string \<Rightarrow> obj res" where
  "getTrustNamespaceRoleBindingObject e resourceLabels resourceAnnotations trustNamespace =
     bindR (tm_manifest e KRoleBinding ''rolebinding_trust-manager.yml'') (\<lambda>x.
     Ok (on_binding (bindTo trustManagerRoleName)
       (tm_placed trustManagerRoleBindingName trustNamespace resourceLabels resourceAnnotations x)))"

definition getLeaderElectionRoleObject :: "tm_env \<Rightarrow> labels \<Rightarrow> labels \<Rightarrow> obj res" where
  "getLeaderElectionRoleObject e resourceLabels resourceAnnotations =
     bindR (tm_manifest e KRole ''role_trust-manager:leaderelection.yml'') (\<lambda>x.
     Ok (tm_placed trustManagerLeaderElectionRoleName operandNamespace resourceLabels resourceAnnotations x))"

definition getLeaderElectionRoleBindingObject :: "tm_env \<Rightarrow> labels \<Rightarrow> labels \<Rightarrow> obj res" where
  "getLeaderElectionRoleBindingObject e resourceLabels resourceAnnotations =
     bindR (tm_manifest e KRoleBinding ''rolebinding_trust-manager:leaderelection.yml'') (\<lambda>x.
     Ok (on_binding (bindTo trustManagerLeaderElectionRoleName)
       (tm_placed trustManagerLeaderElectionRoleBindingName operandNamespace resourceLabels resourceAnnotations x)))"

definition clusterRoleModified :: "RbacRole \<Rightarrow> RbacRole \<Rightarrow> bool" where
  "clusterRoleModified desired existing \<longleftrightarrow>
     managedMetadataModified (OClusterRole desired) (OClusterRole existing) \<or> role_Rules desired \<noteq> role_Rules existing"

definition clusterRoleBindingModified :: "RbacBinding \<Rightarrow> RbacBinding \<Rightarrow> bool" where
  "clusterRoleBindingModified desired existing \<longleftrightarrow>
     managedMetadataModified (OClusterRoleBinding desired) (OClusterRoleBinding existing) \<or>
     rb_RoleRef desired \<noteq> rb_RoleRef existing \<or> rb_Subjects desired \<noteq> rb_Subjects existing"

definition roleModified :: "RbacRole \<Rightarrow> RbacRole \<Rightarrow> bool" where
  "roleModified desired existing \<longleftrightarrow>
     managedMetadataModified (ORole desired) (ORole existing) \<or> role_Rules desired \<noteq> role_Rules existing"

definition roleBindingModified :: "RbacBinding \<Rightarrow> RbacBinding \<Rightarrow> bool" where
  "roleBindingModified desired existing \<longleftrightarrow>
     managedMetadataModified (ORoleBinding desired) (ORoleBinding existing) \<or>
     rb_RoleRef desired \<noteq> rb_RoleRef existing \<or> rb_Subjects desired \<noteq> rb_Subjects existing"

text \<open>
  The comparison each caller picks for its type; the live object has the desired object's type, since the
  client decodes into a variable of that type.
\<close>

definition tm_modified :: "obj \<Rightarrow> obj \<Rightarrow> bool" where
  "tm_modified desired existing = (case (desired, existing) of
      (OConfigMap d, OConfigMap x) \<Rightarrow> configMapModified d x
    | (OServiceAccount d, OServiceAccount x) \<Rightarrow> serviceAccountModified d x
    | (OService d, OService x) \<Rightarrow> serviceModified d x
    | (OIssuer d, OIssuer x) \<Rightarrow> issuerModified d x
    | (OCertificate d, OCertificate x) \<Rightarrow> certificateModified d x
    | (OValidatingWebhookConfiguration d, OValidatingWebhookConfiguration x) \<Rightarrow> webhookConfigModified d x
    | (OClusterRole d, OClusterRole x) \<Rightarrow> clusterRoleModified d x
    | (OClusterRoleBinding d, OClusterRoleBinding x) \<Rightarrow> clusterRoleBindingModified d x
    | (ORole d, ORole x) \<Rightarrow> roleModified d x
    | (ORoleBinding d, ORoleBinding x) \<Rightarrow> roleBindingModified d x
    | _ \<Rightarrow> True)"

section \<open>Applying them\<close>

definition createOrApplyDefaultCAPackageConfigMap ::
  "'c api \<Rightarrow> labels \<Rightarrow> labels \<Rightarrow> ('c tm_world, string) eff" where
  "createOrApplyDefaultCAPackageConfigMap api resourceLabels resourceAnnotations = bindM getTM (\<lambda>t.
     if \<not> defaultCAPackageEnabled (DefaultCAPackage (tm_Config t)) then returnM ''''
     else bindM (readTrustedCABundle api) (\<lambda>(caBundle, resourceVersion).
       let desired = buildDefaultCAPackageConfigMap (formatCAPackage caBundle resourceVersion) resourceLabels resourceAnnotations
       in seqM (applyObject api ''ConfigMap'' ''default CA package ConfigMap'' (fullName desired) tm_modified desired)
            (returnM (computeCABundleHash caBundle))))"

definition tm_createOrApplyServiceAccounts :: "'c api \<Rightarrow> tm_env \<Rightarrow> labels \<Rightarrow> labels \<Rightarrow> ('c tm_world, unit) eff" where
  "tm_createOrApplyServiceAccounts api e resourceLabels resourceAnnotations =
     bindM (liftM (tm_getServiceAccountObject e resourceLabels resourceAnnotations)) (\<lambda>desired.
     applyObject api ''serviceaccount'' ''serviceaccount resource'' (fullName desired) tm_modified desired)"

definition tm_createOrApplyService :: "'c api \<Rightarrow> obj \<Rightarrow> ('c tm_world, unit) eff" where
  "tm_createOrApplyService api desired =
     applyObject api ''service'' ''service resource'' (fullName desired) tm_modified desired"

definition tm_createOrApplyServices :: "'c api \<Rightarrow> tm_env \<Rightarrow> labels \<Rightarrow> labels \<Rightarrow> ('c tm_world, unit) eff" where
  "tm_createOrApplyServices api e resourceLabels resourceAnnotations =
     bindM (liftM (getWebhookServiceObject e resourceLabels resourceAnnotations)) (\<lambda>desired.
     seqM (tm_createOrApplyService api desired)
     (bindM (liftM (tm_getMetricsServiceObject e resourceLabels resourceAnnotations)) (\<lambda>desired.
      tm_createOrApplyService api desired)))"

definition createOrApplyIssuer :: "'c api \<Rightarrow> tm_env \<Rightarrow> labels \<Rightarrow> labels \<Rightarrow> ('c tm_world, unit) eff" where
  "createOrApplyIssuer api e resourceLabels resourceAnnotations =
     bindM (liftM (getIssuerObject e resourceLabels resourceAnnotations)) (\<lambda>desired.
     applyObject api ''issuer'' ''issuer resource'' (fullName desired) tm_modified desired)"

definition createOrApplyCertificate :: "'c api \<Rightarrow> tm_env \<Rightarrow> labels \<Rightarrow> labels \<Rightarrow> ('c tm_world, unit) eff" where
  "createOrApplyCertificate api e resourceLabels resourceAnnotations =
     bindM (liftM (tm_getCertificateObject e resourceLabels resourceAnnotations)) (\<lambda>desired.
     applyObject api ''certificate'' ''certificate resource'' (fullName desired) tm_modified desired)"

definition createOrApplyValidatingWebhookConfiguration ::
  "'c api \<Rightarrow> tm_env \<Rightarrow> labels \<Rightarrow> labels \<Rightarrow> ('c tm_world, unit) eff" where
  "createOrApplyValidatingWebhookConfiguration api e resourceLabels resourceAnnotations =
     bindM (liftM (getValidatingWebhookConfigObject e resourceLabels resourceAnnotations)) (\<lambda>desired.
     applyObject api ''validatingwebhookconfiguration'' ''validatingwebhookconfiguration resource''
       (om_Name (meta_of desired)) tm_modified desired)"

definition createOrApplyClusterRole :: "'c api \<Rightarrow> tm_env \<Rightarrow> labels \<Rightarrow> labels \<Rightarrow> ('c tm_world, unit) eff" where
  "createOrApplyClusterRole api e resourceLabels resourceAnnotations = bindM getTM (\<lambda>t.
     bindM (liftM (tm_getClusterRoleObject e (SecretTargets (tm_Config t)) resourceLabels resourceAnnotations)) (\<lambda>desired.
     applyObject api ''clusterrole'' ''clusterrole resource'' (om_Name (meta_of desired)) tm_modified desired))"

definition createOrApplyClusterViewClusterRole ::
  "'c api \<Rightarrow> tm_env \<Rightarrow> labels \<Rightarrow> labels \<Rightarrow> ('c tm_world, labels) eff" where
  "createOrApplyClusterViewClusterRole api e resourceLabels resourceAnnotations =
     bindM (liftM (getClusterViewClusterRoleObject e resourceLabels resourceAnnotations)) (\<lambda>(desired, resourceLabels').
     seqM (applyObject api ''clusterrole'' ''clusterrole resource'' (om_Name (meta_of desired)) tm_modified desired)
       (returnM resourceLabels'))"

definition createOrApplyClusterRoleBinding :: "'c api \<Rightarrow> tm_env \<Rightarrow> labels \<Rightarrow> labels \<Rightarrow> ('c tm_world, unit) eff" where
  "createOrApplyClusterRoleBinding api e resourceLabels resourceAnnotations =
     bindM (liftM (tm_getClusterRoleBindingObject e resourceLabels resourceAnnotations)) (\<lambda>desired.
     applyObject api ''clusterrolebinding'' ''clusterrolebinding resource'' (om_Name (meta_of desired)) tm_modified desired)"

definition createOrApplyTrustNamespaceRole ::
  "'c api \<Rightarrow> tm_env \<Rightarrow> labels \<Rightarrow> labels \<Rightarrow> string \<Rightarrow> ('c tm_world, unit) eff" where
  "createOrApplyTrustNamespaceRole api e resourceLabels resourceAnnotations trustNamespace =
     bindM (liftM (getTrustNamespaceRoleObject e resourceLabels resourceAnnotations trustNamespace)) (\<lambda>desired.
     applyObject api ''role'' ''role resource'' (fullName desired) tm_modified desired)"

definition createOrApplyTrustNamespaceRoleBinding ::
  "'c api \<Rightarrow> tm_env \<Rightarrow> labels \<Rightarrow> labels \<Rightarrow> string \<Rightarrow> ('c tm_world, unit) eff" where
  "createOrApplyTrustNamespaceRoleBinding api e resourceLabels resourceAnnotations trustNamespace =
     bindM (liftM (getTrustNamespaceRoleBindingObject e resourceLabels resourceAnnotations trustNamespace)) (\<lambda>desired.
     applyObject api ''rolebinding'' ''rolebinding resource'' (fullName desired) tm_modified desired)"

definition createOrApplyLeaderElectionRole :: "'c api \<Rightarrow> tm_env \<Rightarrow> labels \<Rightarrow> labels \<Rightarrow> ('c tm_world, unit) eff" where
  "createOrApplyLeaderElectionRole api e resourceLabels resourceAnnotations =
     bindM (liftM (getLeaderElectionRoleObject e resourceLabels resourceAnnotations)) (\<lambda>desired.
     applyObject api ''leader election role'' ''leader election role resource'' (fullName desired) tm_modified desired)"

definition createOrApplyLeaderElectionRoleBinding ::
  "'c api \<Rightarrow> tm_env \<Rightarrow> labels \<Rightarrow> labels \<Rightarrow> ('c tm_world, unit) eff" where
  "createOrApplyLeaderElectionRoleBinding api e resourceLabels resourceAnnotations =
     bindM (liftM (getLeaderElectionRoleBindingObject e resourceLabels resourceAnnotations)) (\<lambda>desired.
     applyObject api ''leader election rolebinding'' ''leader election rolebinding resource'' (fullName desired)
       tm_modified desired)"

text \<open>The result is the caller's label map as the last step leaves it.\<close>

definition createOrApplyRBACResources ::
  "'c api \<Rightarrow> tm_env \<Rightarrow> labels \<Rightarrow> labels \<Rightarrow> string \<Rightarrow> ('c tm_world, labels) eff" where
  "createOrApplyRBACResources api e resourceLabels resourceAnnotations trustNamespace =
     seqM (createOrApplyClusterRole api e resourceLabels resourceAnnotations)
    (seqM (createOrApplyClusterRoleBinding api e resourceLabels resourceAnnotations)
    (seqM (createOrApplyTrustNamespaceRole api e resourceLabels resourceAnnotations trustNamespace)
    (seqM (createOrApplyTrustNamespaceRoleBinding api e resourceLabels resourceAnnotations trustNamespace)
    (seqM (createOrApplyLeaderElectionRole api e resourceLabels resourceAnnotations)
    (seqM (createOrApplyLeaderElectionRoleBinding api e resourceLabels resourceAnnotations)
          (createOrApplyClusterViewClusterRole api e resourceLabels resourceAnnotations))))))"

end
