(* ===== verification/TM_Deployment.thy ===== *)
theory TM_Deployment
  imports TM_Resources
begin

text \<open>
  The operand's deployment: \<open>deployments.go\<close> and \<open>deployment_tls.go\<close> of \<open>pkg/controller/trustmanager\<close>.
\<close>

section \<open>Building the deployment\<close>

definition tlsVolumeName :: string where "tlsVolumeName = ''tls''"

definition isTLSVolume :: "Volume \<Rightarrow> bool" where
  "isTLSVolume v \<longleftrightarrow> vol_Name v = tlsVolumeName \<and> (case vol_Source v of SecretVolume _ _ _ \<Rightarrow> True | _ \<Rightarrow> False)"

definition validateDeploymentManifest :: "Deployment \<Rightarrow> unit res" where
  "validateDeploymentManifest deployment =
     (if \<not> list_ex (\<lambda>c. ct_Name c = trustManagerContainerName) (containers deployment)
      then Err (ErrNew (''deployment manifest missing required container '' @ quoted trustManagerContainerName))
      else if \<not> list_ex isTLSVolume (elems (ps_Volumes (dep_Pod deployment)))
      then Err (ErrNew (''deployment manifest missing required secret volume '' @ quoted tlsVolumeName))
      else Ok ())"

definition tm_updatePodTemplateLabels :: "labels \<Rightarrow> Deployment \<Rightarrow> Deployment" where
  "tm_updatePodTemplateLabels resourceLabels d = d\<lparr>dep_Template := (dep_Template d)\<lparr>pt_Labels := resourceLabels\<rparr>\<rparr>"

definition tm_args :: "TrustManager \<Rightarrow> string list" where
  "tm_args t = (let config = tm_Config t in
     [''--log-format='' @ tm_LogFormat config,
      ''--log-level='' @ show_int (tm_LogLevel config),
      ''--metrics-port=9402'',
      ''--readiness-probe-port=6060'',
      ''--readiness-probe-path=/readyz'',
      ''--leader-elect=true'',
      ''--leader-election-lease-duration=15s'',
      ''--leader-election-renew-deadline=10s'',
      ''--trust-namespace='' @ getTrustNamespace t,
      ''--webhook-host=0.0.0.0'',
      ''--webhook-port=6443'',
      ''--webhook-certificate-dir=/tls'']
     @ (if secretTargetsEnabled (SecretTargets config) then [''--secret-targets-enabled=true''] else [])
     @ (if FilterExpiredCertificates config = ''Enabled'' then [''--filter-expired-certificates=true''] else [])
     @ (if defaultCAPackageEnabled (DefaultCAPackage config)
        then [''--default-package-location='' @ defaultCAPackageLocation] else []))"

text \<open>Writing to every container called \<open>trust-manager\<close>, and to the first one.\<close>

definition onOperandContainers :: "(Container \<Rightarrow> Container) \<Rightarrow> Deployment \<Rightarrow> Deployment" where
  "onOperandContainers f = upd_containers (map (\<lambda>c. if ct_Name c = trustManagerContainerName then f c else c))"

fun update_first_operand :: "(Container \<Rightarrow> Container) \<Rightarrow> Container list \<Rightarrow> Container list" where
  "update_first_operand f [] = []"
| "update_first_operand f (c # cs) =
     (if ct_Name c = trustManagerContainerName then f c # cs else c # update_first_operand f cs)"

definition updateDeploymentArgs :: "TrustManager \<Rightarrow> Deployment \<Rightarrow> Deployment" where
  "updateDeploymentArgs t = onOperandContainers (\<lambda>c. c\<lparr>ct_Args := Some (tm_args t)\<rparr>)"

definition putTemplateAnnotation :: "string \<Rightarrow> string \<Rightarrow> Deployment \<Rightarrow> Deployment" where
  "putTemplateAnnotation k v d =
     d\<lparr>dep_Template := (dep_Template d)\<lparr>pt_Annotations := mput k v (pt_Annotations (dep_Template d))\<rparr>\<rparr>"

definition caPackageVolume :: Volume where
  "caPackageVolume = \<lparr>vol_Name = defaultCAPackageVolumeName,
     vol_Source = ConfigMapVolume defaultCAPackageConfigMapName None None\<rparr>"

definition caPackageMount :: VolumeMount where
  "caPackageMount = \<lparr>vm_Name = defaultCAPackageVolumeName, vm_ReadOnly = True,
     vm_MountPath = defaultCAPackageMountPath, vm_SubPath = ''''\<rparr>"

definition updateDefaultCAPackageVolume :: "DefaultCAPackageConfig \<Rightarrow> string \<Rightarrow> Deployment \<Rightarrow> Deployment" where
  "updateDefaultCAPackageVolume config caBundleHash d =
     (if \<not> defaultCAPackageEnabled config then d
      else upd_containers (update_first_operand (\<lambda>c. c\<lparr>ct_VolumeMounts :=
               Some (filter (\<lambda>vm. vm_MountPath vm \<noteq> defaultCAPackageMountPath) (elems (ct_VolumeMounts c)) @ [caPackageMount])\<rparr>))
             (upd_volumes (\<lambda>vs. filter (\<lambda>v. vol_Name v \<noteq> defaultCAPackageVolumeName) vs @ [caPackageVolume])
               (putTemplateAnnotation defaultCAPackageHashAnnotation caBundleHash d)))"

definition tm_updateImage :: "tm_env \<Rightarrow> Deployment \<Rightarrow> Deployment res" where
  "tm_updateImage e d =
     (let img = te_getenv e trustManagerImageNameEnvVarName
      in if img = ''''
         then Err (ErrNew (trustManagerImageNameEnvVarName @ '' environment variable with trust-manager image not set''))
         else Ok (onOperandContainers (\<lambda>c. c\<lparr>ct_Image := img\<rparr>) d))"

definition checked :: "goerror option \<Rightarrow> 'a \<Rightarrow> 'a res" where
  "checked err a = (case err of None \<Rightarrow> Ok a | Some e \<Rightarrow> Err e)"

definition tm_updateResourceRequirements :: "tm_env \<Rightarrow> TrustManager \<Rightarrow> Deployment \<Rightarrow> Deployment res" where
  "tm_updateResourceRequirements e t d =
     (let resources = tm_Resources (tm_Config t)
      in if length (elems (rr_Limits resources)) = 0 \<and> length (elems (rr_Requests resources)) = 0 then Ok d
         else checked (ValidateResourceRequirements (te_validators e) resources tm_configPath)
                (onOperandContainers (\<lambda>c. c\<lparr>ct_Resources := resources\<rparr>) d))"

definition tm_updateAffinityRules :: "tm_env \<Rightarrow> TrustManager \<Rightarrow> Deployment \<Rightarrow> Deployment res" where
  "tm_updateAffinityRules e t d =
     (if tm_Affinity (tm_Config t) = None then Ok d
      else checked (ValidateAffinityRules (te_validators e) (tm_Affinity (tm_Config t)) tm_configPath)
             (upd_pod (\<lambda>p. p\<lparr>ps_Affinity := tm_Affinity (tm_Config t)\<rparr>) d))"

definition tm_updatePodTolerations :: "tm_env \<Rightarrow> TrustManager \<Rightarrow> Deployment \<Rightarrow> Deployment res" where
  "tm_updatePodTolerations e t d =
     (if tm_Tolerations (tm_Config t) = None then Ok d
      else checked (ValidateTolerationsConfig (te_validators e) (elems (tm_Tolerations (tm_Config t))) tm_configPath)
             (upd_pod (\<lambda>p. p\<lparr>ps_Tolerations := tm_Tolerations (tm_Config t)\<rparr>) d))"

definition tm_updateNodeSelector :: "tm_env \<Rightarrow> TrustManager \<Rightarrow> Deployment \<Rightarrow> Deployment res" where
  "tm_updateNodeSelector e t d =
     (if tm_NodeSelector (tm_Config t) = None then Ok d
      else checked (ValidateNodeSelectorConfig (te_validators e) (tm_NodeSelector (tm_Config t)) tm_configPath)
             (upd_pod (\<lambda>p. p\<lparr>ps_NodeSelector := mcopy (ps_NodeSelector p) (tm_NodeSelector (tm_Config t))\<rparr>) d))"

definition updateServiceAccountName :: "Deployment \<Rightarrow> Deployment" where
  "updateServiceAccountName = upd_pod (\<lambda>p. p\<lparr>ps_ServiceAccountName := trustManagerServiceAccountName\<rparr>)"

definition setServiceAccountUIDAnnotation :: "'c api \<Rightarrow> Deployment \<Rightarrow> ('c tm_world, Deployment) eff" where
  "setServiceAccountUIDAnnotation api d =
     (let key = (operandNamespace, trustManagerServiceAccountName)
      in bindM (onErrM (clientErr (''failed to get serviceaccount '' @ quoted (show_key key)))
                  (onCluster (clGet api KServiceAccount key))) (\<lambda>serviceAccount.
         let uid = om_UID (meta_of serviceAccount)
         in returnM (if uid = '''' then d else putTemplateAnnotation serviceAccountUIDAnnotation uid d)))"

definition setSecretName :: "Volume \<Rightarrow> Volume" where
  "setSecretName v = (case vol_Source v of
      SecretVolume _ items mode \<Rightarrow> v\<lparr>vol_Source := SecretVolume trustManagerTLSSecretName items mode\<rparr>
    | _ \<Rightarrow> v)"

fun update_first_tls :: "Volume list \<Rightarrow> Volume list" where
  "update_first_tls [] = []"
| "update_first_tls (v # vs) = (if isTLSVolume v then setSecretName v # vs else v # update_first_tls vs)"

definition updateTLSSecretVolume :: "Deployment \<Rightarrow> Deployment" where
  "updateTLSSecretVolume = upd_pod (\<lambda>p. p\<lparr>ps_Volumes := map_option update_first_tls (ps_Volumes p)\<rparr>)"

section \<open>deployment\_tls.go\<close>

definition webhookTLSArgs :: "TLSProfileSpec \<Rightarrow> string list \<Rightarrow> Container \<Rightarrow> Container" where
  "webhookTLSArgs spec extra c =
     (let sourceArgs = elems (ct_Args c);
          sourceArgs = (if MinTLSVersion spec = VersionTLS13
                        then StripArgsByKeys sourceArgs (ArgKeysSet TrustManagerCipherSuiteArgKeys) else sourceArgs)
      in c\<lparr>ct_Args := Some (MergeContainerArgs sourceArgs extra)\<rparr>)"

definition applyTrustManagerWebhookTLSArgs :: "TLSProfileSpec \<Rightarrow> Deployment \<Rightarrow> Deployment res" where
  "applyTrustManagerWebhookTLSArgs spec d =
     (let extra = TrustManagerWebhookTLSArgs (Some spec)
      in if length extra = 0 then Ok d
         else if list_ex (\<lambda>c. ct_Name c = trustManagerContainerName) (containers d)
         then Ok (upd_containers (update_first_operand (webhookTLSArgs spec extra)) d)
         else Err (ErrNew (''deployment '' @ dep_Namespace d @ ''/'' @ dep_Name d @ '' missing container '' @
                quoted trustManagerContainerName)))"

fun the_apiserver :: "obj \<Rightarrow> APIServer res" where
  "the_apiserver (OAPIServer m a) = Ok a"
| "the_apiserver _ = Panic ''unexpected object type''"

text \<open>The client of a running controller is not nil.\<close>

definition applyClusterTLSProfile :: "'c api \<Rightarrow> Deployment \<Rightarrow> ('c tm_world, Deployment) eff" where
  "applyClusterTLSProfile api d =
     bindM (attemptM (onCluster (clGet api KAPIServer ('''', APIServerClusterName)))) (\<lambda>r.
     bindM (liftM (ResolveHonoredTLSProfile (Some (NewClientReaderAPIServerFetch (\<lambda>_. bindR r the_apiserver)))
              FetchErrorPropagateExceptNotFound)) (\<lambda>effective.
     case effective of
       None \<Rightarrow> returnM d
     | Some spec \<Rightarrow> liftM (applyTrustManagerWebhookTLSArgs spec d)))"

section \<open>The desired deployment\<close>

fun tm_the_deployment :: "obj \<Rightarrow> Deployment res" where
  "tm_the_deployment (ODeployment d) = Ok d"
| "tm_the_deployment _ = Panic ''unexpected object type''"

definition tm_getDeploymentObject ::
  "'c api \<Rightarrow> tm_env \<Rightarrow> labels \<Rightarrow> labels \<Rightarrow> string \<Rightarrow> ('c tm_world, Deployment) eff" where
  "tm_getDeploymentObject api e resourceLabels resourceAnnotations caBundleHash = bindM getTM (\<lambda>t.
     bindM (liftM (bindR (tm_manifest e KDeployment ''deployment_trust-manager.yml'') tm_the_deployment)) (\<lambda>d.
     seqM (onErrM (irrecoverable ''invalid trust-manager deployment manifest'') (liftM (validateDeploymentManifest d)))
     (bindM (liftM (tm_the_deployment
               (tm_placed trustManagerDeploymentName operandNamespace resourceLabels resourceAnnotations (ODeployment d)))) (\<lambda>d.
      bindM (applyClusterTLSProfile api (updateDeploymentArgs t (tm_updatePodTemplateLabels resourceLabels d))) (\<lambda>d.
      let d = updateDefaultCAPackageVolume (DefaultCAPackage (tm_Config t)) caBundleHash
                (updateTLSSecretVolume (updateServiceAccountName d))
      in bindM (onErrM (irrecoverable ''failed to update trust-manager image'') (liftM (tm_updateImage e d))) (\<lambda>d.
         bindM (liftM (tm_updateResourceRequirements e t d)) (\<lambda>d.
         bindM (liftM (tm_updateAffinityRules e t d)) (\<lambda>d.
         bindM (liftM (tm_updatePodTolerations e t d)) (\<lambda>d.
         bindM (liftM (tm_updateNodeSelector e t d)) (\<lambda>d.
         setServiceAccountUIDAnnotation api d))))))))))"

section \<open>Drift of the deployment\<close>

definition containerPortsMatch :: "ContainerPort list \<Rightarrow> ContainerPort list \<Rightarrow> bool" where
  "containerPortsMatch desired existing \<longleftrightarrow> length desired = length existing \<and>
     list_all (\<lambda>dp. list_ex (\<lambda>ep. cp_ContainerPort dp = cp_ContainerPort ep \<and> cp_Name dp = cp_Name ep) existing) desired"

definition readinessProbeModified :: "Probe option \<Rightarrow> Probe option \<Rightarrow> bool" where
  "readinessProbeModified desired existing = (case (desired, existing) of
      (None, None) \<Rightarrow> False
    | (Some d, Some x) \<Rightarrow>
        if pr_InitialDelaySeconds d \<noteq> pr_InitialDelaySeconds x \<or> pr_PeriodSeconds d \<noteq> pr_PeriodSeconds x then True
        else (case (pr_HTTPGet d, pr_HTTPGet x) of
                (Some a, Some b) \<Rightarrow> hg_Path a \<noteq> hg_Path b \<or> hg_Port a \<noteq> hg_Port b
              | (None, None) \<Rightarrow> False
              | _ \<Rightarrow> True)
    | _ \<Rightarrow> True)"

definition containerModified :: "Container \<Rightarrow> Container \<Rightarrow> bool" where
  "containerModified desired existing \<longleftrightarrow>
     ct_Name desired \<noteq> ct_Name existing \<or> ct_Image desired \<noteq> ct_Image existing \<or>
     ct_ImagePullPolicy desired \<noteq> ct_ImagePullPolicy existing \<or>
     elems (ct_Args desired) \<noteq> elems (ct_Args existing) \<or>
     \<not> resources_equal (ct_Resources desired) (ct_Resources existing) \<or>
     ct_SecurityContext desired \<noteq> ct_SecurityContext existing \<or>
     ct_VolumeMounts desired \<noteq> ct_VolumeMounts existing \<or>
     \<not> containerPortsMatch (elems (ct_Ports desired)) (elems (ct_Ports existing)) \<or>
     readinessProbeModified (ct_ReadinessProbe desired) (ct_ReadinessProbe existing)"

definition deploymentModified :: "Deployment \<Rightarrow> Deployment \<Rightarrow> bool" where
  "deploymentModified desired existing \<longleftrightarrow>
     managedMetadataModified (ODeployment desired) (ODeployment existing) \<or>
     dep_Replicas desired \<noteq> dep_Replicas existing \<or>
     \<not> selector_equal (dep_Selector desired) (dep_Selector existing) \<or>
     \<not> maps_equal (pt_Labels (dep_Template desired)) (pt_Labels (dep_Template existing)) \<or>
     \<not> maps_equal (pt_Annotations (dep_Template desired)) (pt_Annotations (dep_Template existing)) \<or>
     ps_ServiceAccountName (dep_Pod desired) \<noteq> ps_ServiceAccountName (dep_Pod existing) \<or>
     \<not> maps_equal (ps_NodeSelector (dep_Pod desired)) (ps_NodeSelector (dep_Pod existing)) \<or>
     ps_Volumes (dep_Pod desired) \<noteq> ps_Volumes (dep_Pod existing) \<or>
     \<not> ptr_equal affinity_equal (ps_Affinity (dep_Pod desired)) (ps_Affinity (dep_Pod existing)) \<or>
     ps_Tolerations (dep_Pod desired) \<noteq> ps_Tolerations (dep_Pod existing) \<or>
     length (containers desired) \<noteq> length (containers existing) \<or>
     list_ex (\<lambda>(d, x). containerModified d x) (zip (containers desired) (containers existing))"

definition createOrApplyDeployment ::
  "'c api \<Rightarrow> tm_env \<Rightarrow> labels \<Rightarrow> labels \<Rightarrow> string \<Rightarrow> ('c tm_world, unit) eff" where
  "createOrApplyDeployment api e resourceLabels resourceAnnotations caBundleHash =
     bindM (tm_getDeploymentObject api e resourceLabels resourceAnnotations caBundleHash) (\<lambda>desired.
     applyObject api ''deployment'' ''deployment resource'' (fullName (ODeployment desired))
       (\<lambda>_ x. case x of ODeployment existing \<Rightarrow> deploymentModified desired existing | _ \<Rightarrow> True) (ODeployment desired))"

end
