(* ===== verification/TM_Controller.thy ===== *)
theory TM_Controller
  imports TM_Deployment Watches
begin

text \<open>
  The trust-manager controller: the installation of the operand (\<open>install_trustmanager.go\<close>), the events
  it reacts to and \<open>Reconcile\<close> (\<open>controller.go\<close> of \<open>pkg/controller/trustmanager\<close>).
\<close>

section \<open>Installation\<close>

definition validateTrustNamespace :: "'c api \<Rightarrow> string \<Rightarrow> ('c tm_world, unit) eff" where
  "validateTrustNamespace api namespace =
     bindM (wrapM (''failed to check if namespace '' @ quoted namespace @ '' exists: '') (namespaceExists api namespace)) (\<lambda>found.
     if \<not> found
     then failM (ErrNew (''trust namespace '' @ quoted namespace @
            '' does not exist, create the namespace before creating TrustManager CR''))
     else returnM ())"

definition observedStatus :: "tm_env \<Rightarrow> TrustManager \<Rightarrow> TrustManagerStatus" where
  "observedStatus e t = (tm_Status t)\<lparr>
     TrustManagerImage := te_getenv e trustManagerImageNameEnvVarName,
     tms_TrustNamespace := getTrustNamespace t,
     SecretTargetsPolicy := st_Policy (SecretTargets (tm_Config t)),
     DefaultCAPackagePolicy := ca_Policy (DefaultCAPackage (tm_Config t)),
     FilterExpiredCertificatesPolicy := FilterExpiredCertificates (tm_Config t)\<rparr>"

text \<open>Each field is assigned when it differs: the status changed when the result is another one.\<close>

definition updateStatusObservedState :: "'c api \<Rightarrow> tm_env \<Rightarrow> ('c tm_world, unit) eff" where
  "updateStatusObservedState api e = bindM getTM (\<lambda>t.
     if observedStatus e t = tm_Status t then returnM ()
     else seqM (modifyTM (\<lambda>t. t\<lparr>tm_Status := observedStatus e t\<rparr>)) (tm_updateStatus api))"

definition reconcileTrustManagerDeployment :: "'c api \<Rightarrow> tm_env \<Rightarrow> ('c tm_world, unit) eff" where
  "reconcileTrustManagerDeployment api e = bindM getTM (\<lambda>t.
     seqM (onErrM (irrecoverable (tm_Name t @ '' configuration validation failed''))
             (liftM (validateTrustManagerConfig e t)))
     (let resourceLabels = getResourceLabels e t; resourceAnnotations = getResourceAnnotations t;
          trustNamespace = getTrustNamespace t
      in seqM (onErrM (irrecoverable (''trust namespace '' @ quoted trustNamespace @ '' validation failed''))
                 (validateTrustNamespace api trustNamespace))
        (bindM (createOrApplyDefaultCAPackageConfigMap api resourceLabels resourceAnnotations) (\<lambda>caBundleHash.
         seqM (tm_createOrApplyServiceAccounts api e resourceLabels resourceAnnotations)
        (bindM (createOrApplyRBACResources api e resourceLabels resourceAnnotations trustNamespace) (\<lambda>resourceLabels.
         seqM (tm_createOrApplyServices api e resourceLabels resourceAnnotations)
        (seqM (createOrApplyIssuer api e resourceLabels resourceAnnotations)
        (seqM (createOrApplyCertificate api e resourceLabels resourceAnnotations)
        (seqM (createOrApplyDeployment api e resourceLabels resourceAnnotations caBundleHash)
        (seqM (createOrApplyValidatingWebhookConfiguration api e resourceLabels resourceAnnotations)
              (onErrM (clientErr ''failed to update status observed state'') (updateStatusObservedState api e))))))))))))"

section \<open>Reconcile\<close>

definition tm_conditionCallback :: "'c api \<Rightarrow> (string option \<times> 'c tm_world) status_fn" where
  "tm_conditionCallback api prependErr status pw = (case pw of (p, w) \<Rightarrow>
     (case tm_updateCondition api prependErr
             (w\<lparr>w_tm := (w_tm w)\<lparr>tm_Status := (tm_Status (w_tm w))\<lparr>tms_Conditional := status\<rparr>\<rparr>\<rparr>) of
        (Ok err, w') \<Rightarrow> (err, (p, w'))
      | (Err err, w') \<Rightarrow> (Some err, (p, w'))
      | (Panic m, w') \<Rightarrow> (None, (Some m, w'))))"

definition tm_handleResult :: "'c api \<Rightarrow> tm_env \<Rightarrow> goerror option \<Rightarrow> ('c tm_world, int) eff" where
  "tm_handleResult api e reconcileErr w =
     (case HandleReconcileResult (te_now e 1) (te_now e 2) (tms_Conditional (tm_Status (w_tm w))) reconcileErr
             (tm_conditionCallback api) tm_defaultRequeueTime (None, w) of
        ((requeueAfter, err), status, (panicked, w')) \<Rightarrow>
          (let w' = w'\<lparr>w_tm := (w_tm w')\<lparr>tm_Status := (tm_Status (w_tm w'))\<lparr>tms_Conditional := status\<rparr>\<rparr>\<rparr>
           in (case panicked of
                 Some m \<Rightarrow> Panic m
               | None \<Rightarrow> (case err of None \<Rightarrow> Ok requeueAfter | Some err \<Rightarrow> Err err), w')))"

definition tm_processReconcileRequest :: "'c api \<Rightarrow> tm_env \<Rightarrow> ('c tm_world, int) eff" where
  "tm_processReconcileRequest api e =
     bindM (attemptM (reconcileTrustManagerDeployment api e)) (\<lambda>r.
     tm_handleResult api e (case r of Err err \<Rightarrow> Some err | _ \<Rightarrow> None))"

definition tm_cleanUp :: "('c tm_world, bool) eff" where
  "tm_cleanUp = bindM getTM (\<lambda>t.
     seqM (Eventf ''Warning'' ''RemoveDeployment'' (tm_Name t @ '' trustmanager marked for deletion, remove all '' @
       ''resources created for trustmanager deployment manually''))
       (returnM False))"

definition tm_reqText :: "string \<Rightarrow> key \<Rightarrow> string \<Rightarrow> string" where
  "tm_reqText before req after = before @ quoted (show_key req) @ after"

definition tm_Reconcile :: "'c api \<Rightarrow> tm_env \<Rightarrow> key \<Rightarrow> ('c tm_world, int) eff" where
  "tm_Reconcile api e req =
     bindM (attemptM (onCluster (clGet api KTrustManager ('''', snd req)))) (\<lambda>r. case r of
       Err err \<Rightarrow>
         if IsNotFound (Some err) then returnM 0
         else failM (ErrWrap (tm_reqText ''failed to fetch trustmanager.openshift.operator.io '' req '' during reconciliation: '') err)
     | Panic p \<Rightarrow> panicM p
     | Ok x \<Rightarrow>
         bindM (liftM (the_trustmanager x)) (\<lambda>t. seqM (modifyTM (\<lambda>_. t))
         (if om_DeletionTimestamp (tm_Meta t) \<noteq> None then
            bindM (wrapM (tm_reqText ''clean up failed for '' req '' trustmanager.openshift.operator.io instance deletion: '') tm_cleanUp) (\<lambda>requeue.
            if requeue then returnM tm_defaultRequeueTime
            else seqM (tm_removeFinalizer api tm_finalizer) (returnM 0))
          else
            seqM (wrapM (tm_reqText ''failed to update '' req '' trustmanager.openshift.operator.io with finalizers: '') (tm_addFinalizer api))
            (tm_processReconcileRequest api e))))"

section \<open>Watches\<close>

definition tm_RequestEnqueueLabelValue :: string where
  "tm_RequestEnqueueLabelValue = ''cert-manager-trust-manager''"

definition tm_mapFunc :: "obj \<Rightarrow> key list" where
  "tm_mapFunc x = [('''', trustManagerObjectName)]"

definition isManagedResource :: "obj \<Rightarrow> bool" where
  "isManagedResource x \<longleftrightarrow> om_Labels (meta_of x) \<noteq> None \<and>
     mget (om_Labels (meta_of x)) ManagedResourceLabelKey = tm_RequestEnqueueLabelValue"

fun tm_controllerManagedResources :: event_filter where
  "tm_controllerManagedResources (CreateEvent x) = isManagedResource x"
| "tm_controllerManagedResources (UpdateEvent x y) \<longleftrightarrow> isManagedResource x \<or> isManagedResource y"
| "tm_controllerManagedResources (DeleteEvent x) = isManagedResource x"
| "tm_controllerManagedResources (GenericEvent x) = isManagedResource x"

fun LabelChangedPredicate :: event_filter where
  "LabelChangedPredicate (UpdateEvent x y) \<longleftrightarrow> \<not> maps_equal (om_Labels (meta_of y)) (om_Labels (meta_of x))"
| "LabelChangedPredicate _ = True"

fun AnnotationChangedPredicate :: event_filter where
  "AnnotationChangedPredicate (UpdateEvent x y) \<longleftrightarrow>
     \<not> maps_equal (om_Annotations (meta_of y)) (om_Annotations (meta_of x))"
| "AnnotationChangedPredicate _ = True"

definition OrPredicate :: "event_filter list \<Rightarrow> event_filter" where
  "OrPredicate ps ev = list_ex (\<lambda>p. p ev) ps"

definition injectedCABundleConfigMapPredicate :: event_filter where
  "injectedCABundleConfigMapPredicate = NewPredicateFuncs (\<lambda>x.
     om_Namespace (meta_of x) = OperatorNamespace \<and> om_Name (meta_of x) = TrustedCABundleConfigMapName)"

definition isClusterAPIServer :: "obj \<Rightarrow> bool" where
  "isClusterAPIServer x \<longleftrightarrow> om_Name (meta_of x) = APIServerClusterName"

fun clusterAPIServerWatchPredicate :: event_filter where
  "clusterAPIServerWatchPredicate (CreateEvent x) = isClusterAPIServer x"
| "clusterAPIServerWatchPredicate (DeleteEvent x) = isClusterAPIServer x"
| "clusterAPIServerWatchPredicate (GenericEvent x) = isClusterAPIServer x"
| "clusterAPIServerWatchPredicate (UpdateEvent x y) = (case x of
      OAPIServer _ oldObj \<Rightarrow>
        (case y of
           OAPIServer m newObj \<Rightarrow>
             om_Name m = APIServerClusterName \<and> ClusterAPIServerTLSConfigChanged (Some oldObj) (Some newObj)
         | _ \<Rightarrow> False)
    | _ \<Rightarrow> False)"

text \<open>\<open>SetupWithManager\<close>: the requests an event leads to.  Config maps have two watches.\<close>

definition tm_SetupWithManager :: "watch_event \<Rightarrow> key list" where
  "tm_SetupWithManager ev =
     (let controllerManagedResourcePredicates = WithPredicates [tm_controllerManagedResources];
          withIgnoreStatusUpdatePredicates = WithPredicates
            [OrPredicate [GenerationChangedPredicate, LabelChangedPredicate, AnnotationChangedPredicate],
             tm_controllerManagedResources]
      in case event_kind ev of
           KTrustManager \<Rightarrow> watched (WithPredicates [GenerationChangedPredicate]) EnqueueRequestForObject ev
         | KServiceAccount \<Rightarrow> watched controllerManagedResourcePredicates tm_mapFunc ev
         | KDeployment \<Rightarrow> watched withIgnoreStatusUpdatePredicates tm_mapFunc ev
         | KService \<Rightarrow> watched controllerManagedResourcePredicates tm_mapFunc ev
         | KConfigMap \<Rightarrow> watched controllerManagedResourcePredicates tm_mapFunc ev @
             watched (WithPredicates [injectedCABundleConfigMapPredicate]) tm_mapFunc ev
         | KClusterRole \<Rightarrow> watched controllerManagedResourcePredicates tm_mapFunc ev
         | KClusterRoleBinding \<Rightarrow> watched controllerManagedResourcePredicates tm_mapFunc ev
         | KRole \<Rightarrow> watched controllerManagedResourcePredicates tm_mapFunc ev
         | KRoleBinding \<Rightarrow> watched controllerManagedResourcePredicates tm_mapFunc ev
         | KCertificate \<Rightarrow> watched withIgnoreStatusUpdatePredicates tm_mapFunc ev
         | KIssuer \<Rightarrow> watched withIgnoreStatusUpdatePredicates tm_mapFunc ev
         | KValidatingWebhookConfiguration \<Rightarrow> watched controllerManagedResourcePredicates tm_mapFunc ev
         | KAPIServer \<Rightarrow> watched (WithPredicates [clusterAPIServerWatchPredicate]) tm_mapFunc ev
         | _ \<Rightarrow> [])"

end
