(* ===== verification/TM_Frames.thy ===== *)
theory TM_Frames
  imports TM_Controller
begin

text \<open>
  What the steps of the trust-manager installation write, object by object: a step leaves every object but its
  own alone, and when it succeeds its own object is stored as the comparison of the controller wants it.
\<close>

section \<open>Leaving and ensuring\<close>

definition leaves :: "('c \<Rightarrow> kind \<Rightarrow> key \<Rightarrow> obj option) \<Rightarrow> kind \<Rightarrow> key \<Rightarrow> ('c tm_world, 'a) eff \<Rightarrow> bool" where
  "leaves stored k key m \<longleftrightarrow> (\<forall>v. keepsM (\<lambda>w. stored (w_cluster w) k key = v) m)"

definition ensures ::
  "('c \<Rightarrow> kind \<Rightarrow> key \<Rightarrow> obj option) \<Rightarrow> TrustManager \<Rightarrow> kind \<Rightarrow> key \<Rightarrow> (obj \<Rightarrow> bool) \<Rightarrow> ('c tm_world, 'a) eff \<Rightarrow> bool" where
  "ensures stored t k key P m \<longleftrightarrow> (\<forall>w a w'. w_tm w = t \<longrightarrow> m w = (Ok a, w') \<longrightarrow>
     (\<exists>y. stored (w_cluster w') k key = Some y \<and> P y))"

definition reads :: "TrustManager \<Rightarrow> ('c tm_world, 'a) eff \<Rightarrow> bool" where
  "reads t m = keepsM (\<lambda>w. w_tm w = t) m"

named_theorems tm_intros \<open>closure of leaves and reads under the effect combinators\<close>

lemma leaves_basic [tm_intros]:
  "leaves stored k key (returnM a)" "leaves stored k key (failM e)" "leaves stored k key (liftM r)"
  "leaves stored k key (panicM p)" "leaves stored k key getTM" "leaves stored k key (Eventf x y z)"
  "leaves stored k key (modifyTM f)"
  by (simp_all add: leaves_def keeps_intro) (simp_all add: keepsM_def modifyTM_def)

lemma leaves_bind [tm_intros]:
  "leaves stored k key m \<Longrightarrow> (\<And>a. leaves stored k key (f a)) \<Longrightarrow> leaves stored k key (bindM m f)"
  by (simp add: leaves_def keepsM_bind)

lemma leaves_seq [tm_intros]: "leaves stored k key m \<Longrightarrow> leaves stored k key n \<Longrightarrow> leaves stored k key (seqM m n)"
  by (simp add: leaves_def keepsM_seq)

lemma leaves_onErr [tm_intros]: "leaves stored k key m \<Longrightarrow> leaves stored k key (onErrM f m)"
  by (simp add: leaves_def keepsM_onErr)

lemma leaves_wrap [tm_intros]: "leaves stored k key m \<Longrightarrow> leaves stored k key (wrapM p m)"
  by (simp add: leaves_def keepsM_wrap)

lemma leaves_attempt [tm_intros]: "leaves stored k key m \<Longrightarrow> leaves stored k key (attemptM m)"
  by (simp add: leaves_def keepsM_attempt)

lemma leaves_lifted:
  "(\<And>x. r = Ok x \<Longrightarrow> leaves stored k key (f x)) \<Longrightarrow> leaves stored k key (bindM (liftM r) f)"
  by (cases r) (simp_all add: leaves_def keepsM_def bindM_def liftM_def)

lemma leaves_onCluster:
  "(\<And>s. stored (snd (m s)) k key = stored s k key) \<Longrightarrow> leaves stored k key (onCluster m)"
  by (auto simp: leaves_def keepsM_def onCluster_def split: prod.splits) (metis snd_conv)+

lemma reads_basic [tm_intros]:
  "reads t (returnM a)" "reads t (failM e)" "reads t (liftM r)" "reads t (panicM p)" "reads t getTM"
  "reads t (Eventf x y z)" "reads t (onCluster c)"
  by (auto simp: reads_def keepsM_def eff_defs getTM_def Eventf_def onCluster_def split: prod.splits)

lemma reads_bind [tm_intros]: "reads t m \<Longrightarrow> (\<And>a. reads t (f a)) \<Longrightarrow> reads t (bindM m f)"
  by (simp add: reads_def keepsM_bind)

lemma reads_seq [tm_intros]: "reads t m \<Longrightarrow> reads t n \<Longrightarrow> reads t (seqM m n)"
  by (simp add: reads_def keepsM_seq)

lemma reads_onErr [tm_intros]: "reads t m \<Longrightarrow> reads t (onErrM f m)"
  by (simp add: reads_def keepsM_onErr)

lemma reads_wrap [tm_intros]: "reads t m \<Longrightarrow> reads t (wrapM p m)"
  by (simp add: reads_def keepsM_wrap)

lemma reads_attempt [tm_intros]: "reads t m \<Longrightarrow> reads t (attemptM m)"
  by (simp add: reads_def keepsM_attempt)

lemma ensures_here:
  assumes "ensures stored t k key P m" "\<And>a. leaves stored k key (f a)"
  shows "ensures stored t k key P (bindM m f)"
  unfolding ensures_def
proof (intro allI impI)
  fix w b w'' assume w: "w_tm w = t" "bindM m f w = (Ok b, w'')"
  then obtain a w' where m: "m w = (Ok a, w')" "f a w' = (Ok b, w'')" by (auto simp: bindM_eq_Ok_iff)
  from assms(1) w(1) m(1) obtain y where "stored (w_cluster w') k key = Some y" "P y"
    unfolding ensures_def by blast
  with assms(2) [of a] m(2) show "\<exists>y. stored (w_cluster w'') k key = Some y \<and> P y"
    unfolding leaves_def keepsM_def by (metis snd_conv)
qed

lemma ensures_later:
  assumes "reads t m" "\<And>a. ensures stored t k key P (f a)"
  shows "ensures stored t k key P (bindM m f)"
  unfolding ensures_def
proof (intro allI impI)
  fix w b w'' assume w: "w_tm w = t" "bindM m f w = (Ok b, w'')"
  then obtain a w' where m: "m w = (Ok a, w')" "f a w' = (Ok b, w'')" by (auto simp: bindM_eq_Ok_iff)
  with assms(1) w(1) have "w_tm w' = t" unfolding reads_def keepsM_def by (metis snd_conv)
  with assms(2) [of a] m(2) show "\<exists>y. stored (w_cluster w'') k key = Some y \<and> P y"
    unfolding ensures_def by blast
qed

lemma ensures_here_seq:
  "ensures stored t k key P m \<Longrightarrow> leaves stored k key n \<Longrightarrow> ensures stored t k key P (seqM m n)"
  unfolding seqM_def by (rule ensures_here)

lemma ensures_later_seq:
  "reads t m \<Longrightarrow> ensures stored t k key P n \<Longrightarrow> ensures stored t k key P (seqM m n)"
  unfolding seqM_def by (rule ensures_later)

lemma ensures_lifted:
  "(\<And>x. r = Ok x \<Longrightarrow> ensures stored t k key P (f x)) \<Longrightarrow> ensures stored t k key P (bindM (liftM r) f)"
  unfolding ensures_def by (auto simp: bindM_eq_Ok_iff)

lemma ensures_getTM: "ensures stored t k key P (f t) \<Longrightarrow> ensures stored t k key P (bindM getTM f)"
  unfolding ensures_def by (auto simp: bindM_eq_Ok_iff)

lemma ensures_weaken: "ensures stored t k key P m \<Longrightarrow> (\<And>y. P y \<Longrightarrow> Q y) \<Longrightarrow> ensures stored t k key Q m"
  unfolding ensures_def by blast

section \<open>The objects\<close>

text \<open>Kind and key of every object a getter builds; manifests of cluster-scoped kinds have no namespace.\<close>

definition cluster_scoped :: "tm_env \<Rightarrow> bool" where
  "cluster_scoped e \<longleftrightarrow> (\<forall>k file x. tm_manifest e k file = Ok x \<longrightarrow>
     k \<in> {KClusterRole, KClusterRoleBinding, KValidatingWebhookConfiguration} \<longrightarrow> om_Namespace (meta_of x) = '''')"

lemma updateResourceAnnotations_simps [simp]:
  "kind_of (updateResourceAnnotations a x) = kind_of x"
  "ObjectKeyFromObject (updateResourceAnnotations a x) = ObjectKeyFromObject x"
  "om_Labels (meta_of (updateResourceAnnotations a x)) = om_Labels (meta_of x)"
  by (simp_all add: updateResourceAnnotations_def ObjectKeyFromObject_def)

lemma placed_simps [simp]:
  "kind_of (tm_placed name ns l a x) = kind_of x" "ObjectKeyFromObject (tm_placed name ns l a x) = (ns, name)"
  "om_Labels (meta_of (tm_placed name ns l a x)) = l"
  "kind_of (tm_placedCluster name l a x) = kind_of x"
  "ObjectKeyFromObject (tm_placedCluster name l a x) = (om_Namespace (meta_of x), name)"
  "om_Labels (meta_of (tm_placedCluster name l a x)) = l"
  by (simp_all add: tm_placed_def tm_placedCluster_def UpdateResourceLabels_def UpdateNamespace_def UpdateName_def)
     (simp_all add: ObjectKeyFromObject_def)

lemma setters_simps [simp]:
  "kind_of (setWebhookCertificate x) = kind_of x" "meta_of (setWebhookCertificate x) = meta_of x"
  "kind_of (on_role f x) = kind_of x" "kind_of (on_binding g x) = kind_of x" "kind_of (on_webhookConfig h x) = kind_of x"
  by (cases x; simp)+

lemma meta_on_role: "(\<And>r. role_Meta (f r) = role_Meta r) \<Longrightarrow> meta_of (on_role f x) = meta_of x"
  by (cases x) simp_all

lemma meta_on_binding: "(\<And>b. rb_Meta (f b) = rb_Meta b) \<Longrightarrow> meta_of (on_binding f x) = meta_of x"
  by (cases x) simp_all

lemma meta_appendRules [simp]: "meta_of (on_role (appendSecretTargetRules st) x) = meta_of x"
  by (rule meta_on_role) (simp add: appendSecretTargetRules_def)

lemma meta_bindTo [simp]: "meta_of (on_binding (bindTo n) x) = meta_of x"
  by (rule meta_on_binding) (simp add: bindTo_def)

lemma key_setters [simp]:
  "ObjectKeyFromObject (setWebhookCertificate x) = ObjectKeyFromObject x"
  "ObjectKeyFromObject (on_role (appendSecretTargetRules st) x) = ObjectKeyFromObject x"
  "ObjectKeyFromObject (on_binding (bindTo n) x) = ObjectKeyFromObject x"
  by (simp_all add: ObjectKeyFromObject_def)

lemma tm_manifest_kind: "tm_manifest e k file = Ok x \<Longrightarrow> kind_of x = k"
  by (simp add: tm_manifest_def DecodeObjBytes_eq_Ok_iff)

lemma manifest_unscoped:
  "cluster_scoped e \<Longrightarrow> tm_manifest e k file = Ok x \<Longrightarrow>
   k \<in> {KClusterRole, KClusterRoleBinding, KValidatingWebhookConfiguration} \<Longrightarrow> om_Namespace (meta_of x) = ''''"
  unfolding cluster_scoped_def by blast

lemma key_webhook [simp]:
  "ObjectKeyFromObject (on_webhookConfig (updateWebhookAnnotations a \<circ> updateWebhookClientConfig) x) = ObjectKeyFromObject x"
  by (cases x) (simp_all add: ObjectKeyFromObject_def updateWebhookAnnotations_def updateWebhookClientConfig_def)

lemma object_keys:
  "tm_getServiceAccountObject e l a = Ok x \<Longrightarrow>
     kind_of x = KServiceAccount \<and> ObjectKeyFromObject x = (operandNamespace, trustManagerServiceAccountName)"
  "getWebhookServiceObject e l a = Ok x \<Longrightarrow>
     kind_of x = KService \<and> ObjectKeyFromObject x = (operandNamespace, trustManagerServiceName)"
  "tm_getMetricsServiceObject e l a = Ok x \<Longrightarrow>
     kind_of x = KService \<and> ObjectKeyFromObject x = (operandNamespace, trustManagerMetricsServiceName)"
  "getIssuerObject e l a = Ok x \<Longrightarrow>
     kind_of x = KIssuer \<and> ObjectKeyFromObject x = (operandNamespace, trustManagerIssuerName)"
  "tm_getCertificateObject e l a = Ok x \<Longrightarrow>
     kind_of x = KCertificate \<and> ObjectKeyFromObject x = (operandNamespace, trustManagerCertificateName)"
  "getTrustNamespaceRoleObject e l a ns = Ok x \<Longrightarrow>
     kind_of x = KRole \<and> ObjectKeyFromObject x = (ns, trustManagerRoleName)"
  "getTrustNamespaceRoleBindingObject e l a ns = Ok x \<Longrightarrow>
     kind_of x = KRoleBinding \<and> ObjectKeyFromObject x = (ns, trustManagerRoleBindingName)"
  "getLeaderElectionRoleObject e l a = Ok x \<Longrightarrow>
     kind_of x = KRole \<and> ObjectKeyFromObject x = (operandNamespace, trustManagerLeaderElectionRoleName)"
  "getLeaderElectionRoleBindingObject e l a = Ok x \<Longrightarrow>
     kind_of x = KRoleBinding \<and> ObjectKeyFromObject x = (operandNamespace, trustManagerLeaderElectionRoleBindingName)"
  by (auto simp: tm_getServiceAccountObject_def getWebhookServiceObject_def tm_getMetricsServiceObject_def getIssuerObject_def
      tm_getCertificateObject_def getTrustNamespaceRoleObject_def getTrustNamespaceRoleBindingObject_def
      getLeaderElectionRoleObject_def getLeaderElectionRoleBindingObject_def bindR_eq_Ok_iff dest: tm_manifest_kind)

lemma cluster_object_keys:
  assumes "cluster_scoped e"
  shows "tm_getClusterRoleObject e st l a = Ok x \<Longrightarrow>
      kind_of x = KClusterRole \<and> ObjectKeyFromObject x = ('''', trustManagerClusterRoleName)"
    and "tm_getClusterRoleBindingObject e l a = Ok x \<Longrightarrow>
      kind_of x = KClusterRoleBinding \<and> ObjectKeyFromObject x = ('''', trustManagerClusterRoleBindingName)"
    and "getValidatingWebhookConfigObject e l a = Ok x \<Longrightarrow>
      kind_of x = KValidatingWebhookConfiguration \<and> ObjectKeyFromObject x = ('''', trustManagerWebhookConfigName)"
    and "getClusterViewClusterRoleObject e l a = Ok (x, l') \<Longrightarrow>
      kind_of x = KClusterRole \<and> ObjectKeyFromObject x = ('''', trustManagerClusterRoleClusterViewName)"
  by (auto simp: tm_getClusterRoleObject_def tm_getClusterRoleBindingObject_def getValidatingWebhookConfigObject_def
      getClusterViewClusterRoleObject_def bindR_eq_Ok_iff Let_def UpdateResourceLabels_def UpdateName_def
      ObjectKeyFromObject_def [of "upd_meta _ _"]
      dest: tm_manifest_kind manifest_unscoped [OF assms])

lemma package_key:
  "kind_of (buildDefaultCAPackageConfigMap j l a) = KConfigMap"
  "ObjectKeyFromObject (buildDefaultCAPackageConfigMap j l a) = (operandNamespace, defaultCAPackageConfigMapName)"
  by (simp_all add: buildDefaultCAPackageConfigMap_def UpdateResourceLabels_def)
     (simp add: ObjectKeyFromObject_def)

section \<open>The steps\<close>

lemma reads_apply [tm_intros]: "reads t (applyObject api what label name modified x)"
  unfolding applyObject_def by (intro tm_intros) (auto split: option.splits intro!: tm_intros)

lemma reads_steps [tm_intros]:
  "reads t (readTrustedCABundle api)" "reads t (createOrApplyDefaultCAPackageConfigMap api l a)"
  "reads t (tm_createOrApplyServiceAccounts api e l a)" "reads t (tm_createOrApplyServices api e l a)"
  "reads t (createOrApplyIssuer api e l a)" "reads t (createOrApplyCertificate api e l a)"
  "reads t (createOrApplyValidatingWebhookConfiguration api e l a)" "reads t (createOrApplyClusterRole api e l a)"
  "reads t (createOrApplyClusterViewClusterRole api e l a)" "reads t (createOrApplyClusterRoleBinding api e l a)"
  "reads t (createOrApplyTrustNamespaceRole api e l a ns)" "reads t (createOrApplyTrustNamespaceRoleBinding api e l a ns)"
  "reads t (createOrApplyLeaderElectionRole api e l a)" "reads t (createOrApplyLeaderElectionRoleBinding api e l a)"
proof -
  show rd: "reads t (readTrustedCABundle api)"
    unfolding readTrustedCABundle_def by (intro tm_intros) (auto split: option.splits intro!: tm_intros)
  show "reads t (createOrApplyDefaultCAPackageConfigMap api l a)"
    unfolding createOrApplyDefaultCAPackageConfigMap_def Let_def
    by (intro tm_intros) (auto intro!: tm_intros rd split: prod.splits)
  show "reads t (createOrApplyClusterViewClusterRole api e l a)"
    unfolding createOrApplyClusterViewClusterRole_def by (intro tm_intros) (auto intro!: tm_intros split: prod.splits)
qed (unfold tm_createOrApplyServiceAccounts_def tm_createOrApplyServices_def tm_createOrApplyService_def
      createOrApplyIssuer_def createOrApplyCertificate_def createOrApplyValidatingWebhookConfiguration_def
      createOrApplyClusterRole_def createOrApplyClusterRoleBinding_def createOrApplyTrustNamespaceRole_def
      createOrApplyTrustNamespaceRoleBinding_def createOrApplyLeaderElectionRole_def
      createOrApplyLeaderElectionRoleBinding_def; intro tm_intros)+

lemma reads_rbac [tm_intros]: "reads t (createOrApplyRBACResources api e l a ns)"
  unfolding createOrApplyRBACResources_def by (intro tm_intros)

lemma reads_tls [tm_intros]: "reads t (applyClusterTLSProfile api d)"
  unfolding applyClusterTLSProfile_def by (intro tm_intros) (auto split: option.splits intro!: tm_intros)

lemma reads_deployment [tm_intros]: "reads t (createOrApplyDeployment api e l a h)"
  unfolding createOrApplyDeployment_def tm_getDeploymentObject_def setServiceAccountUIDAnnotation_def Let_def
  by (intro tm_intros)

lemma reads_namespace [tm_intros]: "reads t (validateTrustNamespace api ns)"
  unfolding validateTrustNamespace_def namespaceExists_def by (intro tm_intros) (auto intro: tm_intros)

context api_apply
begin

lemma leaves_apply:
  "(k, key) \<noteq> (kind_of x, ObjectKeyFromObject x) \<Longrightarrow> leaves stored k key (applyObject api what label name modified x)"
  unfolding leaves_def using applyObject_frame by blast

lemma leaves_get: "leaves stored k key (onCluster (clGet api k' key'))"
  by (rule leaves_onCluster) (auto simp: clGet_def wrapM_def onErrM_def get_keeps split: prod.splits res.splits
      dest: arg_cong [of _ _ snd] intro: fun_cong [OF fun_cong [OF get_keeps]])

lemma leaves_readBundle: "leaves stored k key (readTrustedCABundle api)"
  unfolding readTrustedCABundle_def
  by (intro tm_intros leaves_get) (auto split: option.splits intro!: tm_intros)

text \<open>The steps that build their object without the cluster.\<close>

lemma leaves_steps:
  "(k, key) \<noteq> (KConfigMap, operandNamespace, defaultCAPackageConfigMapName) \<Longrightarrow>
     leaves stored k key (createOrApplyDefaultCAPackageConfigMap api l a)"
  "(k, key) \<noteq> (KServiceAccount, operandNamespace, trustManagerServiceAccountName) \<Longrightarrow>
     leaves stored k key (tm_createOrApplyServiceAccounts api e l a)"
  "(k, key) \<noteq> (KService, operandNamespace, trustManagerServiceName) \<Longrightarrow>
   (k, key) \<noteq> (KService, operandNamespace, trustManagerMetricsServiceName) \<Longrightarrow>
     leaves stored k key (tm_createOrApplyServices api e l a)"
  "(k, key) \<noteq> (KIssuer, operandNamespace, trustManagerIssuerName) \<Longrightarrow> leaves stored k key (createOrApplyIssuer api e l a)"
  "(k, key) \<noteq> (KCertificate, operandNamespace, trustManagerCertificateName) \<Longrightarrow>
     leaves stored k key (createOrApplyCertificate api e l a)"
  "(k, key) \<noteq> (KRole, ns, trustManagerRoleName) \<Longrightarrow>
     leaves stored k key (createOrApplyTrustNamespaceRole api e l a ns)"
  "(k, key) \<noteq> (KRoleBinding, ns, trustManagerRoleBindingName) \<Longrightarrow>
     leaves stored k key (createOrApplyTrustNamespaceRoleBinding api e l a ns)"
  "(k, key) \<noteq> (KRole, operandNamespace, trustManagerLeaderElectionRoleName) \<Longrightarrow>
     leaves stored k key (createOrApplyLeaderElectionRole api e l a)"
  "(k, key) \<noteq> (KRoleBinding, operandNamespace, trustManagerLeaderElectionRoleBindingName) \<Longrightarrow>
     leaves stored k key (createOrApplyLeaderElectionRoleBinding api e l a)"
proof -
  show "leaves stored k key (createOrApplyDefaultCAPackageConfigMap api l a)"
    if "(k, key) \<noteq> (KConfigMap, operandNamespace, defaultCAPackageConfigMapName)"
    unfolding createOrApplyDefaultCAPackageConfigMap_def Let_def
    using that by (intro tm_intros)
      (auto intro!: tm_intros leaves_readBundle leaves_apply split: prod.splits
        simp: package_key)
  show "leaves stored k key (tm_createOrApplyServices api e l a)"
    if "(k, key) \<noteq> (KService, operandNamespace, trustManagerServiceName)"
      "(k, key) \<noteq> (KService, operandNamespace, trustManagerMetricsServiceName)"
    unfolding tm_createOrApplyServices_def tm_createOrApplyService_def
    using that by (intro leaves_lifted leaves_seq leaves_apply) (auto dest: object_keys)
qed (unfold tm_createOrApplyServiceAccounts_def createOrApplyIssuer_def createOrApplyCertificate_def
      createOrApplyTrustNamespaceRole_def createOrApplyTrustNamespaceRoleBinding_def createOrApplyLeaderElectionRole_def
      createOrApplyLeaderElectionRoleBinding_def; intro leaves_lifted leaves_apply; auto dest: object_keys)+

lemma leaves_cluster_steps:
  assumes "cluster_scoped e"
  shows "(k, key) \<noteq> (KClusterRole, '''', trustManagerClusterRoleName) \<Longrightarrow>
      leaves stored k key (createOrApplyClusterRole api e l a)"
    and "(k, key) \<noteq> (KClusterRole, '''', trustManagerClusterRoleClusterViewName) \<Longrightarrow>
      leaves stored k key (createOrApplyClusterViewClusterRole api e l a)"
    and "(k, key) \<noteq> (KClusterRoleBinding, '''', trustManagerClusterRoleBindingName) \<Longrightarrow>
      leaves stored k key (createOrApplyClusterRoleBinding api e l a)"
    and "(k, key) \<noteq> (KValidatingWebhookConfiguration, '''', trustManagerWebhookConfigName) \<Longrightarrow>
      leaves stored k key (createOrApplyValidatingWebhookConfiguration api e l a)"
  unfolding createOrApplyClusterRole_def createOrApplyClusterViewClusterRole_def createOrApplyClusterRoleBinding_def
    createOrApplyValidatingWebhookConfiguration_def
  by (auto intro!: tm_intros leaves_lifted leaves_apply split: prod.splits dest: cluster_object_keys [OF assms])

lemma leaves_tls: "leaves stored k key (applyClusterTLSProfile api d)"
  unfolding applyClusterTLSProfile_def
  by (intro tm_intros leaves_get) (auto split: option.splits intro!: tm_intros)

lemma leaves_namespace: "leaves stored k key (validateTrustNamespace api ns)"
  unfolding validateTrustNamespace_def namespaceExists_def
  by (intro tm_intros leaves_onCluster) (auto intro: tm_intros simp: exists_keeps)

end

section \<open>The desired deployment\<close>

text \<open>What later steps rely on of the deployment they build.\<close>

definition built :: "labels \<Rightarrow> TrustManager \<Rightarrow> Deployment \<Rightarrow> bool" where
  "built l t d \<longleftrightarrow> ObjectKeyFromObject (ODeployment d) = (operandNamespace, trustManagerDeploymentName) \<and>
     om_Labels (dep_Meta d) = l \<and> pt_Labels (dep_Template d) = l \<and>
     ps_ServiceAccountName (dep_Pod d) = trustManagerServiceAccountName \<and>
     (defaultCAPackageEnabled (DefaultCAPackage (tm_Config t)) \<longrightarrow> caPackageVolume \<in> set (elems (ps_Volumes (dep_Pod d))))"

lemma built_cong:
  "dep_Meta d' = dep_Meta d \<Longrightarrow> pt_Labels (dep_Template d') = pt_Labels (dep_Template d) \<Longrightarrow>
   ps_ServiceAccountName (dep_Pod d') = ps_ServiceAccountName (dep_Pod d) \<Longrightarrow>
   ps_Volumes (dep_Pod d') = ps_Volumes (dep_Pod d) \<Longrightarrow> built l t d \<Longrightarrow> built l t d'"
  by (simp add: built_def ObjectKeyFromObject_def)

lemma upd_pod_other [simp]:
  "pt_Labels (dep_Template (upd_pod f d)) = pt_Labels (dep_Template d)"
  "pt_Labels (dep_Template (upd_containers g d)) = pt_Labels (dep_Template d)"
  "ps_ServiceAccountName (dep_Pod (upd_containers g d)) = ps_ServiceAccountName (dep_Pod d)"
  "pt_Labels (dep_Template (upd_volumes h d)) = pt_Labels (dep_Template d)"
  "ps_ServiceAccountName (dep_Pod (upd_volumes h d)) = ps_ServiceAccountName (dep_Pod d)"
  by (simp_all add: upd_pod_def upd_containers_def upd_volumes_def)

lemma built_updates:
  "built l t d \<Longrightarrow> built l t (onOperandContainers f d)"
  "built l t d \<Longrightarrow> built l t (putTemplateAnnotation k v d)"
  "built l t d \<Longrightarrow> built l t (upd_pod (\<lambda>p. p\<lparr>ps_Affinity := af\<rparr>) d)"
  "built l t d \<Longrightarrow> built l t (upd_pod (\<lambda>p. p\<lparr>ps_Tolerations := ts\<rparr>) d)"
  "built l t d \<Longrightarrow> built l t (upd_pod (\<lambda>p. p\<lparr>ps_NodeSelector := g p\<rparr>) d)"
  by (erule built_cong [rotated 4]; simp add: onOperandContainers_def putTemplateAnnotation_def upd_pod_def)+

lemma checked_eq_Ok_iff [simp]: "checked err a = Ok b \<longleftrightarrow> err = None \<and> b = a"
  by (auto simp: checked_def split: option.splits)

lemma built_settings:
  "tm_updateImage e d = Ok d' \<Longrightarrow> built l t d \<Longrightarrow> built l t d'"
  "tm_updateResourceRequirements e t' d = Ok d' \<Longrightarrow> built l t d \<Longrightarrow> built l t d'"
  "tm_updateAffinityRules e t' d = Ok d' \<Longrightarrow> built l t d \<Longrightarrow> built l t d'"
  "tm_updatePodTolerations e t' d = Ok d' \<Longrightarrow> built l t d \<Longrightarrow> built l t d'"
  "tm_updateNodeSelector e t' d = Ok d' \<Longrightarrow> built l t d \<Longrightarrow> built l t d'"
  by (auto simp: tm_updateImage_def tm_updateResourceRequirements_def tm_updateAffinityRules_def
      tm_updatePodTolerations_def tm_updateNodeSelector_def Let_def built_updates split: if_splits)

lemma webhookTLS_keeps:
  assumes "applyTrustManagerWebhookTLSArgs spec d = Ok d'"
  shows "dep_Meta d' = dep_Meta d \<and> pt_Labels (dep_Template d') = pt_Labels (dep_Template d)"
  using assms by (auto simp: applyTrustManagerWebhookTLSArgs_def Let_def split: if_splits)

lemma clusterTLS_keeps:
  "applyClusterTLSProfile api d w = (Ok d', w') \<Longrightarrow>
   dep_Meta d' = dep_Meta d \<and> pt_Labels (dep_Template d') = pt_Labels (dep_Template d)"
  unfolding applyClusterTLSProfile_def
  by (auto simp: bindM_eq_Ok_iff split: option.splits dest: webhookTLS_keeps)

lemma built_volumes:
  assumes "ObjectKeyFromObject (ODeployment d) = (operandNamespace, trustManagerDeploymentName)"
    "om_Labels (dep_Meta d) = l" "pt_Labels (dep_Template d) = l"
  shows "built l t (updateDefaultCAPackageVolume (DefaultCAPackage (tm_Config t)) h
     (updateTLSSecretVolume (updateServiceAccountName d)))"
  using assms
  by (auto simp: built_def updateDefaultCAPackageVolume_def updateTLSSecretVolume_def updateServiceAccountName_def
      putTemplateAnnotation_def ObjectKeyFromObject_def)
     (simp_all add: upd_pod_def)

lemma getDeployment_built:
  assumes "tm_getDeploymentObject api e l a h w = (Ok d, w')"
  shows "built l (w_tm w) d"
proof -
  from assms obtain m d0 d1 w1 d2 d3 d4 d5 d6 w2 where
    d0: "tm_the_deployment (tm_placed trustManagerDeploymentName operandNamespace l a (ODeployment m)) = Ok d0"
    and tls: "applyClusterTLSProfile api (updateDeploymentArgs (w_tm w) (tm_updatePodTemplateLabels l d0)) w = (Ok d1, w1)"
    and d2: "tm_updateImage e (updateDefaultCAPackageVolume (DefaultCAPackage (tm_Config (w_tm w))) h
        (updateTLSSecretVolume (updateServiceAccountName d1))) = Ok d2"
    and d3: "tm_updateResourceRequirements e (w_tm w) d2 = Ok d3"
    and d4: "tm_updateAffinityRules e (w_tm w) d3 = Ok d4"
    and d5: "tm_updatePodTolerations e (w_tm w) d4 = Ok d5"
    and d6: "tm_updateNodeSelector e (w_tm w) d5 = Ok d6"
    and uid: "setServiceAccountUIDAnnotation api d6 w1 = (Ok d, w2)"
    by (auto simp: tm_getDeploymentObject_def Let_def bindM_eq_Ok_iff seqM_def)
  obtain m1 where m1: "tm_placed trustManagerDeploymentName operandNamespace l a (ODeployment m) = ODeployment m1"
    using d0 by (cases "tm_placed trustManagerDeploymentName operandNamespace l a (ODeployment m)") auto
  with d0 have "ObjectKeyFromObject (ODeployment d0) = (operandNamespace, trustManagerDeploymentName)"
    "om_Labels (dep_Meta d0) = l"
    using placed_simps(2,3) [of trustManagerDeploymentName operandNamespace l a "ODeployment m"] by auto
  with clusterTLS_keeps [OF tls] have "built l (w_tm w) (updateDefaultCAPackageVolume (DefaultCAPackage (tm_Config (w_tm w))) h
        (updateTLSSecretVolume (updateServiceAccountName d1)))"
    by (intro built_volumes)
       (auto simp: updateDeploymentArgs_def onOperandContainers_def tm_updatePodTemplateLabels_def ObjectKeyFromObject_def)
  from built_settings(1) [OF d2 this] have "built l (w_tm w) d6"
    using d3 d4 d5 d6 by (blast intro: built_settings)
  with uid show ?thesis
    by (auto simp: setServiceAccountUIDAnnotation_def Let_def bindM_eq_Ok_iff built_updates split: if_splits)
qed

lemma leaves_bind_result:
  assumes "leaves stored k key m" "\<And>w a w'. m w = (Ok a, w') \<Longrightarrow> leaves stored k key (f a)"
  shows "leaves stored k key (bindM m f)"
  unfolding leaves_def keepsM_def
proof (intro allI impI)
  fix v and w :: "'a tm_world" assume v: "stored (w_cluster w) k key = v"
  obtain r w' where r: "m w = (r, w')" by fastforce
  have w': "stored (w_cluster w') k key = v"
    using assms(1) v r unfolding leaves_def keepsM_def by (metis snd_conv)
  show "stored (w_cluster (snd (bindM m f w))) k key = v"
  proof (cases r)
    case (Ok a)
    with assms(2) r w' show ?thesis unfolding leaves_def keepsM_def by (simp add: bindM_def)
  qed (use r w' in \<open>simp_all add: bindM_def\<close>)
qed

context api_apply
begin

lemma leaves_deployment:
  assumes "(k, key) \<noteq> (KDeployment, operandNamespace, trustManagerDeploymentName)"
  shows "leaves stored k key (createOrApplyDeployment api e l a h)"
proof -
  have get: "leaves stored k key (tm_getDeploymentObject api e l a h)"
    unfolding tm_getDeploymentObject_def setServiceAccountUIDAnnotation_def Let_def
    by (intro tm_intros leaves_tls leaves_get)
  show ?thesis unfolding createOrApplyDeployment_def
    by (rule leaves_bind_result [OF get]) (use assms in \<open>auto intro!: leaves_apply dest: getDeployment_built simp: built_def\<close>)
qed

lemma leaves_observed: "k \<noteq> KTrustManager \<Longrightarrow> leaves stored k key (updateStatusObservedState api e)"
proof -
  assume k: "k \<noteq> KTrustManager"
  have once: "keepsM (\<lambda>s. stored s k key = v) (tm_updateStatusOnce api t)" for v t
    unfolding tm_updateStatusOnce_def clGet_def clStatusUpdate_def
    by (intro keeps_intro) (use k in \<open>auto simp: keepsM_def get_keeps status_other\<close>)
  have "leaves stored k key (tm_updateStatus api)"
    unfolding tm_updateStatus_def leaves_def
    by (intro allI keeps_intro keepsM_getTM keepsM_clusterTM [where I = "\<lambda>s. stored s k key = _"] keepsM_retry once)
  then show ?thesis unfolding updateStatusObservedState_def by (auto intro!: tm_intros)
qed

lemma leaves_rbac:
  assumes "cluster_scoped e" "k \<notin> {KClusterRole, KClusterRoleBinding, KRole, KRoleBinding}"
  shows "leaves stored k key (createOrApplyRBACResources api e l a ns)"
  unfolding createOrApplyRBACResources_def
  using assms(2) by (auto intro!: leaves_seq leaves_steps leaves_cluster_steps [OF assms(1)])

lemma ensures_apply:
  assumes "kind_of x = k" "ObjectKeyFromObject x = key"
    and "\<And>y. applied x y \<or> kind_of y = k \<and> \<not> modified x y \<Longrightarrow> P y"
  shows "ensures stored t k key P (applyObject api what label name modified x)"
  unfolding ensures_def
proof (intro allI impI)
  fix w r w' assume "applyObject api what label name modified x w = (Ok r, w')"
  from applyObject_establishes [OF this [unfolded unit_eq [of r]]] obtain y where
    "stored (w_cluster w') k key = Some y" "applied x y \<or> kind_of y = k \<and> \<not> modified x y"
    unfolding assms(1,2) by blast
  with assms(3) show "\<exists>y. stored (w_cluster w') k key = Some y \<and> P y" by blast
qed

lemma ensures_deployment:
  assumes "\<And>d y. built l t d \<Longrightarrow> applied (ODeployment d) (ODeployment y) \<or> \<not> deploymentModified d y \<Longrightarrow> P (ODeployment y)"
  shows "ensures stored t KDeployment (operandNamespace, trustManagerDeploymentName) P (createOrApplyDeployment api e l a h)"
  unfolding ensures_def
proof (intro allI impI)
  fix w r w' assume w: "w_tm w = t" "createOrApplyDeployment api e l a h w = (Ok r, w')"
  then obtain d w1 where d: "tm_getDeploymentObject api e l a h w = (Ok d, w1)"
    and ap: "applyObject api ''deployment'' ''deployment resource'' (fullName (ODeployment d))
       (\<lambda>_ x. case x of ODeployment existing \<Rightarrow> deploymentModified d existing | _ \<Rightarrow> True) (ODeployment d) w1 = (Ok (), w')"
    by (auto simp: createOrApplyDeployment_def bindM_eq_Ok_iff)
  from getDeployment_built [OF d] w(1) have b: "built l t d" by simp
  from applyObject_establishes [OF ap] obtain y where
    y: "stored (w_cluster w') KDeployment (operandNamespace, trustManagerDeploymentName) = Some y"
      "applied (ODeployment d) y \<or> kind_of y = KDeployment \<and>
        \<not> (case y of ODeployment existing \<Rightarrow> deploymentModified d existing | _ \<Rightarrow> True)"
    using b by (auto simp: built_def)
  from stored_kind [OF y(1)] obtain y' where "y = ODeployment y'" by (cases y) auto
  with y b assms show "\<exists>y. stored (w_cluster w') KDeployment (operandNamespace, trustManagerDeploymentName) = Some y \<and> P y"
    by auto
qed

end

end
