(* ===== verification/TM_Progress.thy ===== *)
theory TM_Progress
  imports TM_Frames
begin

text \<open>
  The trust-manager installation goes through on an API server whose calls do not fail: from manifests that decode,
  settings the validators accept and an existing trust namespace.
\<close>

section \<open>Runs that succeed\<close>

text \<open>No failing calls, the resource in memory, the given objects stored, and no cluster TLS settings.\<close>

definition holds :: "(kind \<times> key) set \<Rightarrow> TrustManager \<Rightarrow> store tm_world \<Rightarrow> bool" where
  "holds K t w \<longleftrightarrow> st_faults (w_cluster w) = [] \<and> w_tm w = t \<and>
     objs_in (w_cluster w) KAPIServer ('''', APIServerClusterName) = None \<and>
     (\<forall>(k, key) \<in> K. objs_in (w_cluster w) k key \<noteq> None)"

definition works :: "(kind \<times> key) set \<Rightarrow> TrustManager \<Rightarrow> (store tm_world, 'a) eff \<Rightarrow> bool" where
  "works K t m \<longleftrightarrow> (\<forall>w. holds K t w \<longrightarrow> (\<exists>a w'. m w = (Ok a, w') \<and> holds K t w'))"

named_theorems work_intros \<open>closure of succeeding runs under the effect combinators\<close>

lemma works_basic [work_intros]:
  "works K t (returnM a)" "works K t getTM" "works K t (Eventf x y z)"
  by (simp_all add: works_def getTM_def Eventf_def holds_def)

lemma works_lift: "is_ok r \<Longrightarrow> works K t (liftM r)"
  by (cases r) (simp_all add: works_def)

lemma works_bind [work_intros]: "works K t m \<Longrightarrow> (\<And>a. works K t (f a)) \<Longrightarrow> works K t (bindM m f)"
  unfolding works_def by (metis bindM_eq_Ok_iff)

lemma works_seq [work_intros]: "works K t m \<Longrightarrow> works K t n \<Longrightarrow> works K t (seqM m n)"
  unfolding seqM_def by (rule works_bind)

lemma works_onErr [work_intros]: "works K t m \<Longrightarrow> works K t (onErrM f m)"
  unfolding works_def by (metis onErrM_eq_Ok_iff)

lemma works_wrap [work_intros]: "works K t m \<Longrightarrow> works K t (wrapM p m)"
  unfolding works_def by (metis wrapM_eq_Ok_iff)

lemma works_lifted: "r = Ok x \<Longrightarrow> works K t (f x) \<Longrightarrow> works K t (bindM (liftM r) f)"
  by (simp add: works_def bindM_def liftM_def)

lemma works_getTM: "works K t (f t) \<Longrightarrow> works K t (bindM getTM f)"
  by (simp add: works_def bindM_def getTM_def holds_def)

section \<open>Calls\<close>

lemma put_faults [simp]: "st_faults (put_obj y s) = st_faults s"
  by (simp add: put_obj_def)

lemma patch_calm:
  assumes "st_faults s = []" "om_Name (meta_of x) \<noteq> ''''"
  shows "\<exists>y s'. api_Patch store_api x applyPatch s = (Ok y, s') \<and> st_faults s' = []"
  using assms by (simp add: store_api_def store_Patch_def served_calm Let_def)

lemma holds_insert: "holds (insert p K) t w \<longleftrightarrow> holds K t w \<and> objs_in (w_cluster w) (fst p) (snd p) \<noteq> None"
  by (auto simp: holds_def split: prod.splits)

lemma applyObject_calm:
  assumes "holds K t w" "om_Name (meta_of x) \<noteq> ''''" "kind_of x \<noteq> KAPIServer"
  shows "\<exists>w'. applyObject store_api what label name modified x w = (Ok (), w') \<and>
     holds (insert (kind_of x, ObjectKeyFromObject x) K) t w'"
proof -
  have calm: "st_faults (w_cluster w) = []" and t: "w_tm w = t" using assms(1) by (simp_all add: holds_def)
  note ex = exists_calm [OF calm, of "kind_of x" "ObjectKeyFromObject x"]
  obtain w' where w': "applyObject store_api what label name modified x w = (Ok (), w')" "st_faults (w_cluster w') = []"
  proof (cases "case objs_in (w_cluster w) (kind_of x) (ObjectKeyFromObject x) of Some y \<Rightarrow> \<not> modified x y | None \<Rightarrow> False")
    case True
    then have "applyObject store_api what label name modified x w = (Ok (), w)"
      using ex by (simp add: applyObject_def bindM_def onErrM_def onCluster_def returnM_def)
    from this calm show ?thesis by (rule that)
  next
    case False
    from patch_calm [OF calm assms(2)] obtain y s' where
      p: "api_Patch store_api x applyPatch (w_cluster w) = (Ok y, s')" "st_faults s' = []" by blast
    with False ex have "\<exists>evs. applyObject store_api what label name modified x w = (Ok (), w\<lparr>w_cluster := s', w_events := evs\<rparr>)"
      by (auto simp: applyObject_def bindM_def onErrM_def onCluster_def clPatch_def wrapM_def Eventf_def)
    with p(2) that show ?thesis by fastforce
  qed
  have other: "objs_in (w_cluster w') k key = objs_in (w_cluster w) k key"
    if "(k, key) \<noteq> (kind_of x, ObjectKeyFromObject x)" for k key
    using mem_apply.applyObject_frame [OF that] w'(1) unfolding keepsM_def by (metis snd_conv)
  have "objs_in (w_cluster w') k key \<noteq> None" if "(k, key) \<in> insert (kind_of x, ObjectKeyFromObject x) K" for k key
  proof (cases "(k, key) = (kind_of x, ObjectKeyFromObject x)")
    case True
    with mem_apply.applyObject_establishes [OF w'(1)] show ?thesis by auto
  next
    case False
    with other that assms(1) show ?thesis by (auto simp: holds_def)
  qed
  moreover have "objs_in (w_cluster w') KAPIServer ('''', APIServerClusterName) = None"
    using other [of KAPIServer] assms(1,3) by (simp add: holds_def)
  moreover have "w_tm w' = t" using reads_apply [of t] w'(1) t unfolding reads_def keepsM_def by (metis snd_conv)
  ultimately have "holds (insert (kind_of x, ObjectKeyFromObject x) K) t w'"
    unfolding holds_def using w'(2) by blast
  with w'(1) show ?thesis by blast
qed

lemma works_apply:
  "om_Name (meta_of x) \<noteq> '''' \<Longrightarrow> kind_of x \<noteq> KAPIServer \<Longrightarrow> works K t (applyObject store_api what label name modified x)"
  unfolding works_def using applyObject_calm holds_insert by meson

lemma works_get:
  assumes "(k, key) \<in> K" shows "works K t (onCluster (clGet store_api k key))"
  unfolding works_def
proof (intro allI impI)
  fix w assume h: "holds K t w"
  with assms obtain x where "st_faults (w_cluster w) = []" "objs_in (w_cluster w) k key = Some x"
    by (auto simp: holds_def)
  from get_calm [OF this] have "onCluster (clGet store_api k key) w = (Ok x, w)"
    by (simp add: onCluster_def clGet_def wrapM_def onErrM_def)
  with h show "\<exists>a w'. onCluster (clGet store_api k key) w = (Ok a, w') \<and> holds K t w'" by blast
qed

lemma works_exists: "works K t (onCluster (clExists store_api k key))"
  by (auto simp: works_def holds_def onCluster_def exists_calm)

section \<open>The status\<close>

lemma statusUpdate_calm:
  assumes "st_faults s = []" "objs_in s KTrustManager key = Some (OTrustManager c)"
  shows "\<exists>y s'. api_StatusUpdate store_api (OTrustManager (c\<lparr>tm_Status := st\<rparr>)) s = (Ok y, s') \<and> st_faults s' = []"
proof -
  have "ObjectKeyFromObject (OTrustManager c) = key" using stored_kind_key [OF assms(2)] by simp
  then have "ObjectKeyFromObject (OTrustManager (c\<lparr>tm_Status := st\<rparr>)) = key" by (simp add: ObjectKeyFromObject_def)
  with assms show ?thesis by (simp add: store_api_def store_StatusUpdate_def served_calm Let_def)
qed

lemma updateStatus_calm:
  assumes "st_faults (w_cluster w) = []" "objs_in (w_cluster w) KTrustManager (tm_key (w_tm w)) \<noteq> None"
  shows "\<exists>w'. tm_updateStatus store_api w = (Ok (), w')"
proof -
  from assms(2) obtain x where x: "objs_in (w_cluster w) KTrustManager (tm_key (w_tm w)) = Some x" by blast
  with stored_kind_key [OF x] obtain c where c: "x = OTrustManager c" by (cases x) auto
  from statusUpdate_calm [OF assms(1) x [unfolded c]] obtain y s' where
    st: "api_StatusUpdate store_api (OTrustManager (c\<lparr>tm_Status := tm_Status (w_tm w)\<rparr>)) (w_cluster w) = (Ok y, s')" by blast
  have "tm_updateStatusOnce store_api (w_tm w) (w_cluster w) = (Ok (), s')"
    using get_calm [OF assms(1) x] st c
    by (simp add: tm_updateStatusOnce_def clGet_def clStatusUpdate_def eff_defs)
  then show ?thesis
    by (simp add: tm_updateStatus_def bindM_def getTM_def onCluster_def DefaultRetry_def RetryOnConflict.simps
        numeral_eq_Suc)
qed

lemma observed_calm:
  assumes "holds K t w" "(KTrustManager, tm_key t) \<in> K"
  shows "\<exists>w'. updateStatusObservedState store_api e w = (Ok (), w')"
proof (cases "observedStatus e t = tm_Status t")
  case True
  with assms(1) show ?thesis
    by (simp add: updateStatusObservedState_def bindM_def getTM_def holds_def returnM_def)
next
  case False
  have "\<exists>w'. tm_updateStatus store_api (w\<lparr>w_tm := t\<lparr>tm_Status := observedStatus e t\<rparr>\<rparr>) = (Ok (), w')"
    by (rule updateStatus_calm) (use assms in \<open>auto simp: holds_def tm_key_def\<close>)
  with False assms(1) show ?thesis
    by (auto simp: updateStatusObservedState_def bindM_def getTM_def holds_def seqM_def modifyTM_def)
qed

section \<open>The installation\<close>

text \<open>
  Manifests of the right kinds, a deployment with the container and the volume the controller asks for,
  an image, and a valid configuration with default pod settings.
\<close>

definition deployable :: "tm_env \<Rightarrow> TrustManager \<Rightarrow> bool" where
  "deployable e t \<longleftrightarrow> te_getenv e trustManagerImageNameEnvVarName \<noteq> '''' \<and>
     elems (rr_Limits (tm_Resources (tm_Config t))) = [] \<and> elems (rr_Requests (tm_Resources (tm_Config t))) = [] \<and>
     tm_Affinity (tm_Config t) = None \<and> tm_Tolerations (tm_Config t) = None \<and> tm_NodeSelector (tm_Config t) = None \<and>
     (case tm_manifest e KDeployment ''deployment_trust-manager.yml'' of
        Ok (ODeployment d) \<Rightarrow> is_ok (validateDeploymentManifest d) | _ \<Rightarrow> False)"

definition tm_installable :: "tm_env \<Rightarrow> TrustManager \<Rightarrow> bool" where
  "tm_installable e t \<longleftrightarrow> is_ok (validateTrustManagerConfig e t) \<and> deployable e t \<and>
     \<not> defaultCAPackageEnabled (DefaultCAPackage (tm_Config t)) \<and>
     list_all (\<lambda>(k, file). is_ok (tm_manifest e k file))
       [(KServiceAccount, ''serviceaccount_trust-manager.yml''), (KService, ''service_trust-manager.yml''),
        (KService, ''service_trust-manager-metrics.yml''), (KIssuer, ''issuer_trust-manager.yml''),
        (KCertificate, ''certificate_trust-manager.yml''),
        (KValidatingWebhookConfiguration, ''validatingwebhookconfiguration_trust-manager.yml''),
        (KClusterRole, ''clusterrole_trust-manager.yml''), (KClusterRole, ''clusterrole_trust-manager-cluster-view.yml''),
        (KClusterRoleBinding, ''clusterrolebinding_trust-manager.yml''), (KRole, ''role_trust-manager.yml''),
        (KRoleBinding, ''rolebinding_trust-manager.yml''), (KRole, ''role_trust-manager:leaderelection.yml''),
        (KRoleBinding, ''rolebinding_trust-manager:leaderelection.yml'')]"

text \<open>Objects the getters build have a name.\<close>

lemma resource_names:
  "trustManagerServiceAccountName \<noteq> ''''" "trustManagerServiceName \<noteq> ''''" "trustManagerMetricsServiceName \<noteq> ''''"
  "trustManagerIssuerName \<noteq> ''''" "trustManagerCertificateName \<noteq> ''''" "trustManagerRoleName \<noteq> ''''"
  "trustManagerRoleBindingName \<noteq> ''''" "trustManagerLeaderElectionRoleName \<noteq> ''''"
  "trustManagerLeaderElectionRoleBindingName \<noteq> ''''" "trustManagerClusterRoleName \<noteq> ''''"
  "trustManagerClusterRoleBindingName \<noteq> ''''" "trustManagerClusterRoleClusterViewName \<noteq> ''''"
  "trustManagerWebhookConfigName \<noteq> ''''" "trustManagerDeploymentName \<noteq> ''''"
  by (simp_all add: trustManagerServiceAccountName_def trustManagerServiceName_def trustManagerMetricsServiceName_def
      trustManagerIssuerName_def trustManagerCertificateName_def trustManagerRoleName_def trustManagerRoleBindingName_def
      trustManagerLeaderElectionRoleName_def trustManagerLeaderElectionRoleBindingName_def trustManagerClusterRoleName_def
      trustManagerClusterRoleBindingName_def trustManagerClusterRoleClusterViewName_def trustManagerWebhookConfigName_def
      trustManagerDeploymentName_def trustManagerCommonResourceName_def)

lemma name_of_key: "ObjectKeyFromObject x = (ns, n) \<Longrightarrow> om_Name (meta_of x) = n"
  by (simp add: ObjectKeyFromObject_def)

text \<open>Building from a manifest that decodes succeeds, and applying the result does.\<close>

lemma works_built:
  assumes "is_ok r" "\<And>x. r = Ok x \<Longrightarrow> kind_of x \<noteq> KAPIServer \<and> (\<exists>ns n. n \<noteq> '''' \<and> ObjectKeyFromObject x = (ns, n))"
    and "\<And>x. om_Name (meta_of x) \<noteq> '''' \<Longrightarrow> kind_of x \<noteq> KAPIServer \<Longrightarrow> works K t (f x)"
  shows "works K t (bindM (liftM r) f)"
proof -
  obtain x where x: "r = Ok x" using assms(1) by (auto simp: is_ok_iff)
  with assms(2) [of x] name_of_key have "om_Name (meta_of x) \<noteq> ''''" "kind_of x \<noteq> KAPIServer" by fastforce+
  with x assms(3) show ?thesis by (simp add: works_lifted)
qed

lemma is_ok_bindR [simp]: "is_ok (bindR r (\<lambda>x. Ok (f x))) = is_ok r"
  by (cases r) simp_all

lemma works_steps:
  assumes "tm_installable e t" "cluster_scoped e"
  shows "works K t (tm_createOrApplyServiceAccounts store_api e l a)" "works K t (tm_createOrApplyServices store_api e l a)"
    "works K t (createOrApplyIssuer store_api e l a)" "works K t (createOrApplyCertificate store_api e l a)"
    "works K t (createOrApplyValidatingWebhookConfiguration store_api e l a)"
    "works K t (createOrApplyClusterRole store_api e l a)" "works K t (createOrApplyClusterRoleBinding store_api e l a)"
    "works K t (createOrApplyTrustNamespaceRole store_api e l a ns)"
    "works K t (createOrApplyTrustNamespaceRoleBinding store_api e l a ns)"
    "works K t (createOrApplyLeaderElectionRole store_api e l a)"
    "works K t (createOrApplyLeaderElectionRoleBinding store_api e l a)"
proof -
  note keys = object_keys cluster_object_keys [OF assms(2)]
  note getters = tm_getServiceAccountObject_def getWebhookServiceObject_def tm_getMetricsServiceObject_def getIssuerObject_def
    tm_getCertificateObject_def getValidatingWebhookConfigObject_def tm_getClusterRoleObject_def tm_getClusterRoleBindingObject_def
    getTrustNamespaceRoleObject_def getTrustNamespaceRoleBindingObject_def getLeaderElectionRoleObject_def
    getLeaderElectionRoleBindingObject_def
  have ok: "is_ok (tm_getServiceAccountObject e l a)" "is_ok (getWebhookServiceObject e l a)"
    "is_ok (tm_getMetricsServiceObject e l a)" "is_ok (getIssuerObject e l a)" "is_ok (tm_getCertificateObject e l a)"
    "is_ok (getValidatingWebhookConfigObject e l a)" "is_ok (tm_getClusterRoleObject e st l a)"
    "is_ok (tm_getClusterRoleBindingObject e l a)" "is_ok (getTrustNamespaceRoleObject e l a ns)"
    "is_ok (getTrustNamespaceRoleBindingObject e l a ns)" "is_ok (getLeaderElectionRoleObject e l a)"
    "is_ok (getLeaderElectionRoleBindingObject e l a)" for st
    using assms(1) by (simp_all add: getters tm_installable_def)
  note unfold = tm_createOrApplyServiceAccounts_def tm_createOrApplyServices_def tm_createOrApplyService_def createOrApplyIssuer_def
    createOrApplyCertificate_def createOrApplyValidatingWebhookConfiguration_def createOrApplyClusterRole_def
    createOrApplyClusterRoleBinding_def createOrApplyTrustNamespaceRole_def createOrApplyTrustNamespaceRoleBinding_def
    createOrApplyLeaderElectionRole_def createOrApplyLeaderElectionRoleBinding_def
  show "works K t (tm_createOrApplyServiceAccounts store_api e l a)" "works K t (tm_createOrApplyServices store_api e l a)"
    "works K t (createOrApplyIssuer store_api e l a)" "works K t (createOrApplyCertificate store_api e l a)"
    "works K t (createOrApplyValidatingWebhookConfiguration store_api e l a)"
    "works K t (createOrApplyClusterRole store_api e l a)" "works K t (createOrApplyClusterRoleBinding store_api e l a)"
    "works K t (createOrApplyTrustNamespaceRole store_api e l a ns)"
    "works K t (createOrApplyTrustNamespaceRoleBinding store_api e l a ns)"
    "works K t (createOrApplyLeaderElectionRole store_api e l a)"
    "works K t (createOrApplyLeaderElectionRoleBinding store_api e l a)"
    by (unfold unfold; intro works_getTM works_built ok works_seq works_apply; use resource_names in \<open>auto dest: keys\<close>)+
qed

lemma works_view:
  assumes "tm_installable e t" "cluster_scoped e"
  shows "works K t (createOrApplyClusterViewClusterRole store_api e l a)"
proof -
  have "is_ok (getClusterViewClusterRoleObject e l a)"
    using assms(1) by (simp add: getClusterViewClusterRoleObject_def tm_installable_def Let_def)
  then obtain x l' where x: "getClusterViewClusterRoleObject e l a = Ok (x, l')" by (auto simp: is_ok_iff)
  from cluster_object_keys(4) [OF assms(2) x] name_of_key resource_names have
    "om_Name (meta_of x) \<noteq> ''''" "kind_of x \<noteq> KAPIServer" by fastforce+
  then show ?thesis unfolding createOrApplyClusterViewClusterRole_def x
    by (intro works_lifted [OF refl]) (auto intro!: work_intros works_apply)
qed

lemma works_rbac:
  assumes "tm_installable e t" "cluster_scoped e"
  shows "works K t (createOrApplyRBACResources store_api e l a ns)"
  unfolding createOrApplyRBACResources_def by (intro works_seq works_steps [OF assms] works_view [OF assms])

lemma serviceAccount_calm:
  assumes "tm_installable e t" "holds K t w"
  shows "\<exists>w'. tm_createOrApplyServiceAccounts store_api e l a w = (Ok (), w') \<and>
     holds (insert (KServiceAccount, operandNamespace, trustManagerServiceAccountName) K) t w'"
proof -
  have "is_ok (tm_getServiceAccountObject e l a)"
    using assms(1) by (simp add: tm_getServiceAccountObject_def tm_installable_def)
  then obtain x where x: "tm_getServiceAccountObject e l a = Ok x" by (auto simp: is_ok_iff)
  from object_keys(1) [OF x] name_of_key resource_names(1) have
    "om_Name (meta_of x) \<noteq> ''''" "kind_of x = KServiceAccount"
    "ObjectKeyFromObject x = (operandNamespace, trustManagerServiceAccountName)" by auto
  with applyObject_calm [OF assms(2), of x] x show ?thesis
    by (auto simp: tm_createOrApplyServiceAccounts_def bindM_def liftM_def)
qed

lemma works_tls: "works K t (applyClusterTLSProfile store_api d)"
  unfolding works_def
proof (intro allI impI)
  fix w assume h: "holds K t w"
  then have "api_Get store_api KAPIServer ('''', APIServerClusterName) (w_cluster w) = (Err errNotFound, w_cluster w)"
    by (simp add: holds_def store_api_def store_Get_def served_calm)
  then have "applyClusterTLSProfile store_api d w = (Ok d, w)"
    by (simp add: applyClusterTLSProfile_def clGet_def onCluster_def eff_defs NewClientReaderAPIServerFetch_def
        ResolveHonoredTLSProfile_def errNotFound_def IsNotFound_def has_reason_def reasonAndCodeForError_def knownReasons_def)
  with h show "\<exists>a w'. applyClusterTLSProfile store_api d w = (Ok a, w') \<and> holds K t w'" by blast
qed

lemma works_getDeployment:
  assumes "deployable e t" "(KServiceAccount, operandNamespace, trustManagerServiceAccountName) \<in> K"
  shows "works K t (tm_getDeploymentObject store_api e l a h)"
proof -
  from assms(1) obtain m where m: "tm_manifest e KDeployment ''deployment_trust-manager.yml'' = Ok (ODeployment m)"
    "is_ok (validateDeploymentManifest m)"
    by (auto simp: deployable_def split: res.splits obj.splits)
  have ok: "is_ok (tm_the_deployment (tm_placed n ns l a (ODeployment m)))" for n ns
    using placed_simps(1) [of n ns l a "ODeployment m"] by (cases "tm_placed n ns l a (ODeployment m)") auto
  have set: "tm_updateResourceRequirements e t d = Ok d" "tm_updateAffinityRules e t d = Ok d"
    "tm_updatePodTolerations e t d = Ok d" "tm_updateNodeSelector e t d = Ok d" "is_ok (tm_updateImage e d)" for d
    using assms(1) by (simp_all add: deployable_def tm_updateResourceRequirements_def tm_updateAffinityRules_def
        tm_updatePodTolerations_def tm_updateNodeSelector_def tm_updateImage_def Let_def)
  show ?thesis
    unfolding tm_getDeploymentObject_def setServiceAccountUIDAnnotation_def Let_def
    by (rule works_getTM, rule works_lifted [where x = m], simp add: m(1))
       (intro work_intros works_lift works_tls works_get m(2) ok; simp add: set assms(2) m(2))
qed

lemma works_deployment:
  assumes "tm_installable e t" "(KServiceAccount, operandNamespace, trustManagerServiceAccountName) \<in> K"
  shows "works K t (createOrApplyDeployment store_api e l a h)"
proof -
  have "works K t (tm_getDeploymentObject store_api e l a h)"
    using works_getDeployment assms by (simp add: tm_installable_def)
  moreover have "\<exists>w''. applyObject store_api what label name md (ODeployment d) w' = (Ok (), w'') \<and> holds K t w''"
    if "tm_getDeploymentObject store_api e l a h w = (Ok d, w')" "holds K t w'" for what label name md d w w'
  proof -
    from getDeployment_built [OF that(1)] name_of_key resource_names have "om_Name (meta_of (ODeployment d)) \<noteq> ''''"
      by (fastforce simp: built_def)
    from applyObject_calm [OF that(2) this] holds_insert show ?thesis by (metis kind.distinct(33) kind_of.simps(1) kind.simps)
  qed
  ultimately show ?thesis
    unfolding works_def createOrApplyDeployment_def bindM_eq_Ok_iff by meson
qed

lemma installation_succeeds:
  assumes "tm_installable e t" "cluster_scoped e"
    and "holds {(KNamespace, '''', getTrustNamespace t), (KTrustManager, tm_key t)} t w"
  shows "\<exists>w'. reconcileTrustManagerDeployment store_api e w = (Ok (), w')"
proof -
  let ?K = "{(KNamespace, '''', getTrustNamespace t), (KTrustManager, tm_key t)}"
  let ?L = "insert (KServiceAccount, operandNamespace, trustManagerServiceAccountName) ?K"
  let ?l = "getResourceLabels e t" and ?a = "getResourceAnnotations t" and ?ns = "getTrustNamespace t"
  have tail: "works ?L t (seqM (tm_createOrApplyServices store_api e l ?a) (seqM (createOrApplyIssuer store_api e l ?a)
      (seqM (createOrApplyCertificate store_api e l ?a) (seqM (createOrApplyDeployment store_api e l ?a h)
        (createOrApplyValidatingWebhookConfiguration store_api e l ?a)))))" for l h
    by (intro works_seq works_steps [OF assms(1,2)] works_deployment [OF assms(1)]) simp
  obtain w1 where w1: "tm_createOrApplyServiceAccounts store_api e ?l ?a w = (Ok (), w1)" "holds ?L t w1"
    using serviceAccount_calm [OF assms(1,3)] by blast
  obtain l2 w2 where w2: "createOrApplyRBACResources store_api e ?l ?a ?ns w1 = (Ok l2, w2)" "holds ?L t w2"
    using works_rbac [OF assms(1,2)] w1(2) unfolding works_def by blast
  obtain w3 where w3: "seqM (tm_createOrApplyServices store_api e l2 ?a) (seqM (createOrApplyIssuer store_api e l2 ?a)
      (seqM (createOrApplyCertificate store_api e l2 ?a) (seqM (createOrApplyDeployment store_api e l2 ?a '''')
        (createOrApplyValidatingWebhookConfiguration store_api e l2 ?a)))) w2 = (Ok (), w3)" "holds ?L t w3"
    using tail [of l2 "''''"] w2(2) unfolding works_def by auto
  obtain w4 where w4: "updateStatusObservedState store_api e w3 = (Ok (), w4)"
    using observed_calm [OF w3(2)] by blast
  have wt: "w_tm w = t" and "objs_in (w_cluster w) KNamespace ('''', ?ns) \<noteq> None" "st_faults (w_cluster w) = []"
    using assms(3) by (auto simp: holds_def)
  then have pre: "validateTrustNamespace store_api ?ns w = (Ok (), w)"
    by (auto simp: validateTrustNamespace_def namespaceExists_def onCluster_def exists_calm eff_defs)
  have ca: "createOrApplyDefaultCAPackageConfigMap store_api ?l ?a w = (Ok '''', w)"
    using assms(1) wt by (simp add: createOrApplyDefaultCAPackageConfigMap_def tm_installable_def bindM_def returnM_def getTM_def)
  have valid: "validateTrustManagerConfig e t = Ok ()" using assms(1) by (auto simp: tm_installable_def is_ok_iff)
  show ?thesis
    using w1(1) w2(1) w3(1) w4 pre ca valid wt
    by (simp add: reconcileTrustManagerDeployment_def Let_def seqM_def bindM_eq_Ok_iff) (metis (no_types))
qed

end
