(* ===== verification/TM_Properties.thy ===== *)
theory TM_Properties
  imports TM_Progress
begin

text \<open>
  Properties of the trust-manager controller: the objects of an installation refer to each other
  correctly, the operand may write only the secrets it is authorised for, and two faults of the comparison with
  the live objects.
\<close>

section \<open>What the stored objects look like\<close>

definition bound_to :: "string \<Rightarrow> RbacBinding \<Rightarrow> bool" where
  "bound_to roleName b \<longleftrightarrow> ref_Name (rb_RoleRef b) = roleName \<and>
     (\<forall>s \<in> set (elems (rb_Subjects b)). sub_Kind s = tm_roleBindingSubjectKind \<longrightarrow>
        sub_Name s = trustManagerServiceAccountName \<and> sub_Namespace s = operandNamespace)"

text \<open>The manifests of bindings name subjects, those of roles have rules.\<close>

definition complete_manifests :: "tm_env \<Rightarrow> bool" where
  "complete_manifests e \<longleftrightarrow> cluster_scoped e \<and> (\<forall>k file x. tm_manifest e k file = Ok x \<longrightarrow>
     (\<forall>b. x = OClusterRoleBinding b \<or> x = ORoleBinding b \<longrightarrow> rb_Subjects b \<noteq> None) \<and>
     (\<forall>r. x = OClusterRole r \<longrightarrow> role_Rules r \<noteq> None))"

lemma bound_to_bindTo: "bound_to n (bindTo n b)"
  by (cases "rb_Subjects b") (auto simp: bound_to_def bindTo_def updateBindingSubjects_def)

lemma bound_to_cong: "rb_RoleRef c = rb_RoleRef b \<Longrightarrow> rb_Subjects c = rb_Subjects b \<Longrightarrow> bound_to n b \<Longrightarrow> bound_to n c"
  by (simp add: bound_to_def)

lemma upd_meta_binding:
  "upd_meta f (OClusterRoleBinding b) = OClusterRoleBinding (b\<lparr>rb_Meta := f (rb_Meta b)\<rparr>)"
  "upd_meta f (ORoleBinding b) = ORoleBinding (b\<lparr>rb_Meta := f (rb_Meta b)\<rparr>)"
  by simp_all

lemma placed_binding:
  "\<exists>m. tm_placed n ns l a (ORoleBinding b) = ORoleBinding (b\<lparr>rb_Meta := m\<rparr>)"
  "\<exists>m. tm_placedCluster n l a (OClusterRoleBinding b) = OClusterRoleBinding (b\<lparr>rb_Meta := m\<rparr>)"
  by (auto simp: tm_placed_def tm_placedCluster_def updateResourceAnnotations_def UpdateResourceLabels_def
      UpdateNamespace_def UpdateName_def)

lemma placed_role:
  "\<exists>m. tm_placedCluster n l a (OClusterRole r) = OClusterRole (r\<lparr>role_Meta := m\<rparr>)"
  by (auto simp: tm_placedCluster_def updateResourceAnnotations_def UpdateResourceLabels_def UpdateName_def)

lemma cluster_binding_stored:
  assumes "complete_manifests e" "tm_getClusterRoleBindingObject e l a = Ok x"
    and "applied x y \<or> kind_of y = KClusterRoleBinding \<and> \<not> tm_modified x y"
  shows "\<exists>c. y = OClusterRoleBinding c \<and> bound_to trustManagerClusterRoleName c"
proof -
  from assms(2) obtain m where m: "tm_manifest e KClusterRoleBinding ''clusterrolebinding_trust-manager.yml'' = Ok m"
    and x: "x = on_binding (bindTo trustManagerClusterRoleName) (tm_placedCluster trustManagerClusterRoleBindingName l a m)"
    by (auto simp: tm_getClusterRoleBindingObject_def bindR_eq_Ok_iff)
  from tm_manifest_kind [OF m] obtain b where b: "m = OClusterRoleBinding b" by (cases m) auto
  with assms(1) m have sub: "rb_Subjects b \<noteq> None" by (auto simp: complete_manifests_def)
  from placed_binding(2) [of trustManagerClusterRoleBindingName l a b] b x obtain mt where
    x': "x = OClusterRoleBinding (bindTo trustManagerClusterRoleName (b\<lparr>rb_Meta := mt\<rparr>))" by auto
  from assms(3) x' obtain c where c: "y = OClusterRoleBinding c" by (cases y) (auto simp: applied_def)
  from assms(3) x' c sub have
    "rb_RoleRef c = rb_RoleRef (bindTo trustManagerClusterRoleName (b\<lparr>rb_Meta := mt\<rparr>))"
    "rb_Subjects c = rb_Subjects (bindTo trustManagerClusterRoleName (b\<lparr>rb_Meta := mt\<rparr>))"
    by (auto simp: applied_def applied_spec_def set_as_def tm_modified_def clusterRoleBindingModified_def bindTo_def)
  then have "bound_to trustManagerClusterRoleName c" by (rule bound_to_cong) (rule bound_to_bindTo)
  with c show ?thesis by blast
qed

lemma role_binding_stored:
  assumes "complete_manifests e" "tm_manifest e KRoleBinding file = Ok m"
    and "x = on_binding (bindTo n) (tm_placed name ns l a m)"
    and "applied x y \<or> kind_of y = KRoleBinding \<and> \<not> tm_modified x y"
  shows "\<exists>c. y = ORoleBinding c \<and> bound_to n c"
proof -
  from tm_manifest_kind [OF assms(2)] obtain b where b: "m = ORoleBinding b" by (cases m) auto
  with assms(1,2) have sub: "rb_Subjects b \<noteq> None" by (auto simp: complete_manifests_def)
  from placed_binding(1) [of name ns l a b] b assms(3) obtain mt where
    x': "x = ORoleBinding (bindTo n (b\<lparr>rb_Meta := mt\<rparr>))" by auto
  from assms(4) x' obtain c where c: "y = ORoleBinding c" by (cases y) (auto simp: applied_def)
  from assms(4) x' c sub have
    "rb_RoleRef c = rb_RoleRef (bindTo n (b\<lparr>rb_Meta := mt\<rparr>))" "rb_Subjects c = rb_Subjects (bindTo n (b\<lparr>rb_Meta := mt\<rparr>))"
    by (auto simp: applied_def applied_spec_def set_as_def tm_modified_def roleBindingModified_def bindTo_def)
  then have "bound_to n c" by (rule bound_to_cong) (rule bound_to_bindTo)
  with c show ?thesis by blast
qed

lemma role_bindings_stored:
  assumes "complete_manifests e" and "applied x y \<or> kind_of y = KRoleBinding \<and> \<not> tm_modified x y"
  shows "getTrustNamespaceRoleBindingObject e l a ns = Ok x \<Longrightarrow> \<exists>c. y = ORoleBinding c \<and> bound_to trustManagerRoleName c"
    and "getLeaderElectionRoleBindingObject e l a = Ok x \<Longrightarrow>
      \<exists>c. y = ORoleBinding c \<and> bound_to trustManagerLeaderElectionRoleName c"
  by (auto simp: getTrustNamespaceRoleBindingObject_def getLeaderElectionRoleBindingObject_def bindR_eq_Ok_iff
      elim: role_binding_stored [OF assms(1) _ sym assms(2)])

definition webhook_certificate :: "Certificate \<Rightarrow> bool" where
  "webhook_certificate c \<longleftrightarrow> ir_Name (cs_IssuerRef (cert_Spec c)) = trustManagerIssuerName \<and>
     cs_SecretName (cert_Spec c) = trustManagerTLSSecretName \<and> elems (cs_DNSNames (cert_Spec c)) = [tm_dnsName]"

lemma names_not_empty:
  "trustManagerIssuerName \<noteq> ''''" "trustManagerTLSSecretName \<noteq> ''''" "trustManagerServiceAccountName \<noteq> ''''"
  by (simp_all add: trustManagerIssuerName_def trustManagerTLSSecretName_def trustManagerServiceAccountName_def
      trustManagerCommonResourceName_def)

lemma certificate_stored:
  assumes "tm_getCertificateObject e l a = Ok x"
    and "applied x y \<or> kind_of y = KCertificate \<and> \<not> tm_modified x y"
  shows "\<exists>c. y = OCertificate c \<and> webhook_certificate c"
proof -
  from assms(1) obtain m where m: "tm_manifest e KCertificate ''certificate_trust-manager.yml'' = Ok m"
    and x: "x = setWebhookCertificate (tm_placed trustManagerCertificateName operandNamespace l a m)"
    by (auto simp: tm_getCertificateObject_def bindR_eq_Ok_iff)
  have "kind_of (tm_placed trustManagerCertificateName operandNamespace l a m) = KCertificate"
    using tm_manifest_kind [OF m] by simp
  then obtain b where "tm_placed trustManagerCertificateName operandNamespace l a m = OCertificate b"
    by (cases "tm_placed trustManagerCertificateName operandNamespace l a m") auto
  with x obtain d where d: "x = OCertificate d"
    "cs_SecretName (cert_Spec d) = trustManagerTLSSecretName" "cs_DNSNames (cert_Spec d) = Some [tm_dnsName]"
    "ir_Name (cs_IssuerRef (cert_Spec d)) = trustManagerIssuerName" by simp
  from assms(2) d(1) obtain c where c: "y = OCertificate c" by (cases y) (auto simp: applied_def)
  with assms(2) d show ?thesis
    by (auto simp: webhook_certificate_def applied_def applied_spec_def applied_certificate_def set_as_def set_string_def
        tm_modified_def certificateModified_def Let_def names_not_empty split: if_splits)
qed

section \<open>What an installation leaves in the cluster\<close>

definition some_obj :: "obj \<Rightarrow> bool" where "some_obj y = True"

lemma key_names_distinct:
  "trustManagerServiceName \<noteq> trustManagerMetricsServiceName"
  "trustManagerClusterRoleName \<noteq> trustManagerClusterRoleClusterViewName"
  "trustManagerRoleName \<noteq> trustManagerLeaderElectionRoleName"
  "trustManagerRoleBindingName \<noteq> trustManagerLeaderElectionRoleBindingName"
  by (simp_all add: trustManagerServiceName_def trustManagerMetricsServiceName_def trustManagerClusterRoleName_def
      trustManagerClusterRoleClusterViewName_def trustManagerRoleName_def trustManagerLeaderElectionRoleName_def
      trustManagerRoleBindingName_def trustManagerLeaderElectionRoleBindingName_def trustManagerCommonResourceName_def)

context api_apply
begin

lemmas step_leaves = leaves_steps leaves_deployment leaves_observed leaves_namespace

lemma ensures_steps:
  shows "ensures stored t KServiceAccount (operandNamespace, trustManagerServiceAccountName) some_obj
      (tm_createOrApplyServiceAccounts api e l a)"
    and "ensures stored t KIssuer (operandNamespace, trustManagerIssuerName) some_obj (createOrApplyIssuer api e l a)"
    and "ensures stored t KCertificate (operandNamespace, trustManagerCertificateName)
      (\<lambda>y. \<exists>c. y = OCertificate c \<and> webhook_certificate c) (createOrApplyCertificate api e l a)"
    and "ensures stored t KRole (ns, trustManagerRoleName) some_obj (createOrApplyTrustNamespaceRole api e l a ns)"
    and "ensures stored t KRole (operandNamespace, trustManagerLeaderElectionRoleName) some_obj
      (createOrApplyLeaderElectionRole api e l a)"
  unfolding tm_createOrApplyServiceAccounts_def createOrApplyIssuer_def createOrApplyCertificate_def
    createOrApplyTrustNamespaceRole_def createOrApplyLeaderElectionRole_def
  by (intro ensures_lifted ensures_apply; auto simp: some_obj_def dest: object_keys certificate_stored)+

lemma ensures_services:
  "ensures stored t KService (operandNamespace, trustManagerServiceName) (\<lambda>y. mget (om_Labels (meta_of y)) k = mget l k \<or> mlookup l k = None)
     (tm_createOrApplyServices api e l a)"
proof -
  have lab: "mget (om_Labels (meta_of y)) k = mget l k \<or> mlookup l k = None"
    if x: "getWebhookServiceObject e l a = Ok x" and y: "applied x y \<or> kind_of y = KService \<and> \<not> tm_modified x y" for x y
  proof -
    from x have l: "om_Labels (meta_of x) = l" by (auto simp: getWebhookServiceObject_def bindR_eq_Ok_iff)
    have "\<not> entriesModified l (om_Labels (meta_of y))"
    proof (cases "applied x y")
      case True
      from managedMetadata_applied [OF this] l show ?thesis
        by (simp add: managedMetadataModified_def managedLabelsModified_def)
    next
      case False
      with y object_keys(2) [OF x] l show ?thesis
        by (cases x; cases y)
           (auto simp: tm_modified_def serviceModified_def managedMetadataModified_def managedLabelsModified_def)
    qed
    moreover have "k \<in> fst ` set (elems l)" if "mlookup l k \<noteq> None"
      using that by (metis domIff dom_map_of_conv_image_fst mlookup_def)
    ultimately show ?thesis by (auto simp: entriesModified_def list_ex_iff)
  qed
  show ?thesis
    unfolding tm_createOrApplyServices_def tm_createOrApplyService_def
    by (intro ensures_lifted ensures_here_seq ensures_apply leaves_lifted leaves_apply)
       (auto dest: object_keys lab simp: key_names_distinct)
qed

lemma ensures_bindings:
  assumes "complete_manifests e"
  shows "ensures stored t KClusterRoleBinding ('''', trustManagerClusterRoleBindingName)
      (\<lambda>y. \<exists>b. y = OClusterRoleBinding b \<and> bound_to trustManagerClusterRoleName b) (createOrApplyClusterRoleBinding api e l a)"
    and "ensures stored t KRoleBinding (ns, trustManagerRoleBindingName)
      (\<lambda>y. \<exists>b. y = ORoleBinding b \<and> bound_to trustManagerRoleName b) (createOrApplyTrustNamespaceRoleBinding api e l a ns)"
    and "ensures stored t KRoleBinding (operandNamespace, trustManagerLeaderElectionRoleBindingName)
      (\<lambda>y. \<exists>b. y = ORoleBinding b \<and> bound_to trustManagerLeaderElectionRoleName b)
      (createOrApplyLeaderElectionRoleBinding api e l a)"
proof -
  have cs: "cluster_scoped e" using assms by (simp add: complete_manifests_def)
  show "ensures stored t KClusterRoleBinding ('''', trustManagerClusterRoleBindingName)
      (\<lambda>y. \<exists>b. y = OClusterRoleBinding b \<and> bound_to trustManagerClusterRoleName b) (createOrApplyClusterRoleBinding api e l a)"
    unfolding createOrApplyClusterRoleBinding_def
    by (intro ensures_lifted ensures_apply)
       (auto dest: cluster_object_keys [OF cs] cluster_binding_stored [OF assms])
  show "ensures stored t KRoleBinding (ns, trustManagerRoleBindingName)
      (\<lambda>y. \<exists>b. y = ORoleBinding b \<and> bound_to trustManagerRoleName b) (createOrApplyTrustNamespaceRoleBinding api e l a ns)"
    unfolding createOrApplyTrustNamespaceRoleBinding_def
    by (intro ensures_lifted ensures_apply)
       (auto dest: object_keys intro: role_bindings_stored(1) [OF assms])
  show "ensures stored t KRoleBinding (operandNamespace, trustManagerLeaderElectionRoleBindingName)
      (\<lambda>y. \<exists>b. y = ORoleBinding b \<and> bound_to trustManagerLeaderElectionRoleName b)
      (createOrApplyLeaderElectionRoleBinding api e l a)"
    unfolding createOrApplyLeaderElectionRoleBinding_def
    by (intro ensures_lifted ensures_apply)
       (auto dest: object_keys intro: role_bindings_stored(2) [OF assms])
qed

text \<open>An object written before, by or after the RBAC step is there at the end of the installation.\<close>

lemma reconcile_rbac:
  assumes "cluster_scoped e" "k \<in> {KClusterRole, KClusterRoleBinding, KRole, KRoleBinding}"
    and "\<And>l a. ensures stored t k key P (createOrApplyRBACResources api e l a (getTrustNamespace t))"
  shows "ensures stored t k key P (reconcileTrustManagerDeployment api e)"
  unfolding reconcileTrustManagerDeployment_def Let_def
  apply (rule ensures_getTM, rule ensures_later_seq, (intro tm_intros)[1], rule ensures_later_seq, (intro tm_intros)[1])
  apply (rule ensures_later, (intro tm_intros)[1], rule ensures_later_seq, (intro tm_intros)[1])
  apply (rule ensures_here, rule assms(3))
  using assms(2) by (auto intro!: leaves_seq leaves_onErr step_leaves leaves_cluster_steps [OF assms(1)])

lemma reconcile_serviceaccount:
  "cluster_scoped e \<Longrightarrow> ensures stored t KServiceAccount (operandNamespace, trustManagerServiceAccountName) some_obj
     (reconcileTrustManagerDeployment api e)"
  unfolding reconcileTrustManagerDeployment_def Let_def
  apply (rule ensures_getTM, rule ensures_later_seq, (intro tm_intros)[1], rule ensures_later_seq, (intro tm_intros)[1])
  apply (rule ensures_later, (intro tm_intros)[1], rule ensures_here_seq, rule ensures_steps)
  by (auto intro!: leaves_seq leaves_bind leaves_onErr step_leaves leaves_rbac leaves_cluster_steps)

lemma reconcile_after_rbac:
  assumes "\<And>l a h. ensures stored t k key P
    (seqM (tm_createOrApplyServices api e l a)
    (seqM (createOrApplyIssuer api e l a)
    (seqM (createOrApplyCertificate api e l a)
    (seqM (createOrApplyDeployment api e l a h)
    (seqM (createOrApplyValidatingWebhookConfiguration api e l a)
          (onErrM (clientErr ''failed to update status observed state'') (updateStatusObservedState api e)))))))"
  shows "ensures stored t k key P (reconcileTrustManagerDeployment api e)"
  unfolding reconcileTrustManagerDeployment_def Let_def
  apply (rule ensures_getTM, rule ensures_later_seq, (intro tm_intros)[1], rule ensures_later_seq, (intro tm_intros)[1])
  apply (rule ensures_later, (intro tm_intros)[1], rule ensures_later_seq, (intro tm_intros)[1])
  by (rule ensures_later, (intro tm_intros)[1], rule assms)

lemma reconcile_issuer_certificate:
  assumes "cluster_scoped e"
  shows "ensures stored t KIssuer (operandNamespace, trustManagerIssuerName) some_obj (reconcileTrustManagerDeployment api e)"
    and "ensures stored t KCertificate (operandNamespace, trustManagerCertificateName)
      (\<lambda>y. \<exists>c. y = OCertificate c \<and> webhook_certificate c) (reconcileTrustManagerDeployment api e)"
  subgoal
    by (rule reconcile_after_rbac, rule ensures_later_seq, (intro tm_intros)[1], rule ensures_here_seq, rule ensures_steps)
       (auto intro!: leaves_seq leaves_onErr step_leaves leaves_cluster_steps [OF assms])
  subgoal
    by (rule reconcile_after_rbac, rule ensures_later_seq, (intro tm_intros)[1], rule ensures_later_seq, (intro tm_intros)[1],
        rule ensures_here_seq, rule ensures_steps)
       (auto intro!: leaves_seq leaves_onErr step_leaves leaves_cluster_steps [OF assms])
  done

lemma reconcile_service:
  assumes "cluster_scoped e"
  shows "ensures stored t KService (operandNamespace, trustManagerServiceName) some_obj (reconcileTrustManagerDeployment api e)"
  by (rule reconcile_after_rbac, rule ensures_here_seq, rule ensures_weaken, rule ensures_services [where k = "''''"])
     (auto simp: some_obj_def intro!: leaves_seq leaves_onErr step_leaves leaves_cluster_steps [OF assms])

lemma reconcile_deployment:
  assumes "cluster_scoped e"
  shows "ensures stored t KDeployment (operandNamespace, trustManagerDeploymentName)
      (\<lambda>y. \<exists>d. y = ODeployment d \<and> ps_ServiceAccountName (dep_Pod d) = trustManagerServiceAccountName)
      (reconcileTrustManagerDeployment api e)"
proof (rule reconcile_after_rbac)
  fix l a h
  have "ensures stored t KDeployment (operandNamespace, trustManagerDeploymentName)
      (\<lambda>y. \<exists>d. y = ODeployment d \<and> ps_ServiceAccountName (dep_Pod d) = trustManagerServiceAccountName)
      (createOrApplyDeployment api e l a h)"
    by (rule ensures_deployment)
       (auto simp: built_def applied_def applied_spec_def applied_deployment_def set_string_def deploymentModified_def
          names_not_empty)
  then show "ensures stored t KDeployment (operandNamespace, trustManagerDeploymentName)
      (\<lambda>y. \<exists>d. y = ODeployment d \<and> ps_ServiceAccountName (dep_Pod d) = trustManagerServiceAccountName)
    (seqM (tm_createOrApplyServices api e l a)
    (seqM (createOrApplyIssuer api e l a)
    (seqM (createOrApplyCertificate api e l a)
    (seqM (createOrApplyDeployment api e l a h)
    (seqM (createOrApplyValidatingWebhookConfiguration api e l a)
          (onErrM (clientErr ''failed to update status observed state'') (updateStatusObservedState api e)))))))"
    by (intro ensures_later_seq [OF reads_steps(4)] ensures_later_seq [OF reads_steps(5)] ensures_later_seq [OF reads_steps(6)]
        ensures_here_seq)
       (auto intro!: leaves_seq leaves_onErr step_leaves leaves_cluster_steps [OF assms])
qed

end

section \<open>Roles\<close>

text \<open>
  What a rule allows on objects of the core API group, as the RBAC authoriser reads it: an asterisk stands for
  everything, no resource names for all names.
\<close>

definition names :: "string slice \<Rightarrow> string \<Rightarrow> bool" where
  "names xs x \<longleftrightarrow> x \<in> set (elems xs) \<or> ''*'' \<in> set (elems xs)"

definition rule_allows :: "PolicyRule \<Rightarrow> string \<Rightarrow> string \<Rightarrow> string \<Rightarrow> bool" where
  "rule_allows rule verb resource name \<longleftrightarrow> names (rule_Verbs rule) verb \<and> names (rule_APIGroups rule) '''' \<and>
     names (rule_Resources rule) resource \<and>
     (elems (rule_ResourceNames rule) = [] \<or> name \<in> set (elems (rule_ResourceNames rule)))"

definition role_allows :: "RbacRole \<Rightarrow> string \<Rightarrow> string \<Rightarrow> string \<Rightarrow> bool" where
  "role_allows r verb resource name \<longleftrightarrow> (\<exists>rule \<in> set (elems (role_Rules r)). rule_allows rule verb resource name)"

definition read_verbs :: "string set" where "read_verbs = {''get'', ''list'', ''watch''}"

definition write_verbs :: "string set" where "write_verbs = {''create'', ''update'', ''patch'', ''delete''}"

lemma secret_rules_allow:
  "rule_allows secretReadRule verb ''secrets'' name \<longleftrightarrow> verb \<in> read_verbs"
  "ss \<noteq> [] \<Longrightarrow> rule_allows (secretWriteRule ss) verb ''secrets'' name \<longleftrightarrow> verb \<in> write_verbs \<and> name \<in> set ss"
  by (simp_all add: rule_allows_def names_def secretReadRule_def secretWriteRule_def read_verbs_def write_verbs_def)

lemma appendSecretTargetRules_allows:
  "role_allows (appendSecretTargetRules st r) verb ''secrets'' name \<longleftrightarrow>
     role_allows r verb ''secrets'' name \<or>
     secretTargetsEnabled st \<and> (verb \<in> read_verbs \<or> verb \<in> write_verbs \<and> name \<in> set (elems (AuthorizedSecrets st)))"
proof (cases "secretTargetsEnabled st")
  case True
  then have "elems (AuthorizedSecrets st) \<noteq> []" by (auto simp: secretTargetsEnabled_def)
  then have "sort (elems (AuthorizedSecrets st)) \<noteq> []" by (metis set_empty set_sort)
  from secret_rules_allow(2) [OF this, of verb name] True show ?thesis
    by (auto simp: appendSecretTargetRules_def role_allows_def bex_Un secret_rules_allow(1))
qed (simp add: appendSecretTargetRules_def)

lemma cluster_role_stored:
  assumes "complete_manifests e" "tm_getClusterRoleObject e st l a = Ok x"
    and "tm_manifest e KClusterRole ''clusterrole_trust-manager.yml'' = Ok (OClusterRole m)"
    and "applied x y \<or> kind_of y = KClusterRole \<and> \<not> tm_modified x y"
  shows "\<exists>r. y = OClusterRole r \<and> role_Rules r = role_Rules (appendSecretTargetRules st m)"
proof -
  from assms(1,3) have some: "role_Rules m \<noteq> None" by (auto simp: complete_manifests_def)
  from placed_role [of trustManagerClusterRoleName l a m] assms(2,3) obtain mt where
    x: "x = OClusterRole (appendSecretTargetRules st (m\<lparr>role_Meta := mt\<rparr>))"
    by (auto simp: tm_getClusterRoleObject_def bindR_eq_Ok_iff)
  from assms(4) x obtain r where r: "y = OClusterRole r" by (cases y) (auto simp: applied_def)
  have "role_Rules (appendSecretTargetRules st (m\<lparr>role_Meta := mt\<rparr>)) = role_Rules (appendSecretTargetRules st m)"
    "role_Rules (appendSecretTargetRules st m) \<noteq> None"
    using some by (simp_all add: appendSecretTargetRules_def)
  with assms(4) x r show ?thesis
    by (auto simp: applied_def applied_spec_def set_as_def tm_modified_def clusterRoleModified_def)
qed

context api_apply
begin

lemma rbac_ensures:
  assumes "complete_manifests e"
  shows "tm_manifest e KClusterRole ''clusterrole_trust-manager.yml'' = Ok (OClusterRole m) \<Longrightarrow>
      ensures stored t KClusterRole ('''', trustManagerClusterRoleName)
        (\<lambda>y. \<exists>r. y = OClusterRole r \<and> role_Rules r = role_Rules (appendSecretTargetRules (SecretTargets (tm_Config t)) m))
        (createOrApplyRBACResources api e l a ns)"
    and "ensures stored t KClusterRoleBinding ('''', trustManagerClusterRoleBindingName)
      (\<lambda>y. \<exists>b. y = OClusterRoleBinding b \<and> bound_to trustManagerClusterRoleName b) (createOrApplyRBACResources api e l a ns)"
    and "ensures stored t KRole (ns, trustManagerRoleName) some_obj (createOrApplyRBACResources api e l a ns)"
    and "ensures stored t KRoleBinding (ns, trustManagerRoleBindingName)
      (\<lambda>y. \<exists>b. y = ORoleBinding b \<and> bound_to trustManagerRoleName b) (createOrApplyRBACResources api e l a ns)"
    and "ensures stored t KRole (operandNamespace, trustManagerLeaderElectionRoleName) some_obj
      (createOrApplyRBACResources api e l a ns)"
    and "ensures stored t KRoleBinding (operandNamespace, trustManagerLeaderElectionRoleBindingName)
      (\<lambda>y. \<exists>b. y = ORoleBinding b \<and> bound_to trustManagerLeaderElectionRoleName b)
      (createOrApplyRBACResources api e l a ns)"
proof -
  have cs: "cluster_scoped e" using assms by (simp add: complete_manifests_def)
  note leave = leaves_seq leaves_steps leaves_cluster_steps [OF cs]
  note later = ensures_later_seq [OF reads_steps(8)] ensures_later_seq [OF reads_steps(10)]
    ensures_later_seq [OF reads_steps(11)] ensures_later_seq [OF reads_steps(12)] ensures_later_seq [OF reads_steps(13)]
  show "ensures stored t KClusterRole ('''', trustManagerClusterRoleName)
        (\<lambda>y. \<exists>r. y = OClusterRole r \<and> role_Rules r = role_Rules (appendSecretTargetRules (SecretTargets (tm_Config t)) m))
        (createOrApplyRBACResources api e l a ns)"
    if m: "tm_manifest e KClusterRole ''clusterrole_trust-manager.yml'' = Ok (OClusterRole m)"
  proof -
    have "ensures stored t KClusterRole ('''', trustManagerClusterRoleName)
        (\<lambda>y. \<exists>r. y = OClusterRole r \<and> role_Rules r = role_Rules (appendSecretTargetRules (SecretTargets (tm_Config t)) m))
        (createOrApplyClusterRole api e l a)"
      unfolding createOrApplyClusterRole_def
      by (intro ensures_getTM ensures_lifted ensures_apply)
         (auto dest: cluster_object_keys [OF cs] intro: cluster_role_stored [OF assms _ m])
    then show ?thesis
      unfolding createOrApplyRBACResources_def
      by (rule ensures_here_seq) (auto intro!: leave simp: key_names_distinct)
  qed
  show "ensures stored t KClusterRoleBinding ('''', trustManagerClusterRoleBindingName)
      (\<lambda>y. \<exists>b. y = OClusterRoleBinding b \<and> bound_to trustManagerClusterRoleName b) (createOrApplyRBACResources api e l a ns)"
    unfolding createOrApplyRBACResources_def
    by (rule later, rule ensures_here_seq, rule ensures_bindings [OF assms]) (auto intro!: leave)
  show "ensures stored t KRole (ns, trustManagerRoleName) some_obj (createOrApplyRBACResources api e l a ns)"
    unfolding createOrApplyRBACResources_def
    by (rule later, rule later, rule ensures_here_seq, rule ensures_steps) (auto intro!: leave simp: key_names_distinct)
  show "ensures stored t KRoleBinding (ns, trustManagerRoleBindingName)
      (\<lambda>y. \<exists>b. y = ORoleBinding b \<and> bound_to trustManagerRoleName b) (createOrApplyRBACResources api e l a ns)"
    unfolding createOrApplyRBACResources_def
    by (rule later, rule later, rule later, rule ensures_here_seq, rule ensures_bindings [OF assms])
       (auto intro!: leave simp: key_names_distinct)
  show "ensures stored t KRole (operandNamespace, trustManagerLeaderElectionRoleName) some_obj
      (createOrApplyRBACResources api e l a ns)"
    unfolding createOrApplyRBACResources_def
    by (rule later, rule later, rule later, rule later, rule ensures_here_seq, rule ensures_steps) (auto intro!: leave)
  show "ensures stored t KRoleBinding (operandNamespace, trustManagerLeaderElectionRoleBindingName)
      (\<lambda>y. \<exists>b. y = ORoleBinding b \<and> bound_to trustManagerLeaderElectionRoleName b)
      (createOrApplyRBACResources api e l a ns)"
    unfolding createOrApplyRBACResources_def
    by (rule later, rule later, rule later, rule later, rule later, rule ensures_here_seq, rule ensures_bindings [OF assms])
       (auto intro!: leave)
qed

lemma rbac_cluster_role:
  assumes "complete_manifests e"
  shows "ensures stored t KClusterRole ('''', trustManagerClusterRoleName) some_obj (createOrApplyRBACResources api e l a ns)"
proof (cases "\<exists>m. tm_manifest e KClusterRole ''clusterrole_trust-manager.yml'' = Ok (OClusterRole m)")
  case True
  then obtain m where m: "tm_manifest e KClusterRole ''clusterrole_trust-manager.yml'' = Ok (OClusterRole m)" by blast
  show ?thesis by (rule ensures_weaken [OF rbac_ensures(1) [OF assms m]]) (simp add: some_obj_def)
next
  case False
  then have "tm_manifest e KClusterRole ''clusterrole_trust-manager.yml'' \<noteq> Ok x" for x
    using tm_manifest_kind [of e KClusterRole _ x] by (cases x) auto
  then show ?thesis
    by (auto simp: ensures_def createOrApplyRBACResources_def createOrApplyClusterRole_def tm_getClusterRoleObject_def
        seqM_def bindM_eq_Ok_iff bindR_eq_Ok_iff)
qed

lemma reconcile_cluster_role:
  assumes "complete_manifests e" "tm_manifest e KClusterRole ''clusterrole_trust-manager.yml'' = Ok (OClusterRole m)"
  shows "ensures stored t KClusterRole ('''', trustManagerClusterRoleName)
        (\<lambda>y. \<exists>r. y = OClusterRole r \<and> role_Rules r = role_Rules (appendSecretTargetRules (SecretTargets (tm_Config t)) m))
        (reconcileTrustManagerDeployment api e)"
proof -
  have "cluster_scoped e" using assms by (simp add: complete_manifests_def)
  then show ?thesis by (rule reconcile_rbac [OF _ _ rbac_ensures(1) [OF assms]]) simp
qed

end

section \<open>An installation on the in-memory server\<close>

definition tm_demo_meta :: "string \<Rightarrow> ObjectMeta" where
  "tm_demo_meta n = empty_meta\<lparr>om_Name := n\<rparr>"

definition tm_demo_rule :: PolicyRule where
  "tm_demo_rule = \<lparr>rule_Verbs = Some [''get''], rule_APIGroups = Some [''''], rule_Resources = Some [''namespaces''],
     rule_ResourceNames = None, rule_NonResourceURLs = None\<rparr>"

definition tm_demo_role :: RbacRole where
  "tm_demo_role = \<lparr>role_Meta = tm_demo_meta ''r'', role_Rules = Some [tm_demo_rule], role_rest = ''''\<rparr>"

definition tm_demo_binding :: RbacBinding where
  "tm_demo_binding = \<lparr>rb_Meta = tm_demo_meta ''b'', rb_RoleRef = \<lparr>ref_APIGroup = '''', ref_Kind = '''', ref_Name = ''''\<rparr>,
     rb_Subjects = Some [\<lparr>sub_Kind = ''ServiceAccount'', sub_APIGroup = '''', sub_Name = '''', sub_Namespace = ''''\<rparr>]\<rparr>"

definition tm_demo_container :: Container where
  "tm_demo_container = \<lparr>ct_Name = ''trust-manager'', ct_Image = '''', ct_ImagePullPolicy = '''', ct_Args = None, ct_Env = None,
     ct_Ports = None, ct_Resources = zero_Resources, ct_VolumeMounts = None, ct_ReadinessProbe = None,
     ct_SecurityContext = None, ct_rest = ''''\<rparr>"

definition tm_demo_deployment :: Deployment where
  "tm_demo_deployment = \<lparr>dep_Meta = tm_demo_meta ''d'', dep_Replicas = Some 1, dep_Selector = None,
     dep_Template = \<lparr>pt_Labels = None, pt_Annotations = None, pt_Spec =
       \<lparr>ps_Volumes = Some [\<lparr>vol_Name = ''tls'', vol_Source = SecretVolume ''s'' None (Some 420)\<rparr>],
        ps_Containers = Some [tm_demo_container], ps_ServiceAccountName = '''', ps_NodeSelector = None, ps_Affinity = None,
        ps_Tolerations = None, ps_rest = ''''\<rparr>\<rparr>, dep_rest = ''''\<rparr>"

definition tm_demo_service :: Service where
  "tm_demo_service = \<lparr>svc_Meta = tm_demo_meta ''s'', svc_Type = '''', svc_Ports = None, svc_Selector = None, svc_rest = ''''\<rparr>"

definition tm_demo_certificate :: Certificate where
  "tm_demo_certificate = \<lparr>cert_Meta = tm_demo_meta ''c'', cert_Spec = \<lparr>cs_CommonName = '''', cs_Duration = None,
     cs_RenewBefore = None, cs_DNSNames = None, cs_URIs = None, cs_SecretName = '''', cs_IssuerRef = zero_IssuerReference,
     cs_PrivateKey = None, cs_RevisionHistoryLimit = Some 1, cs_SecretTemplate = None, cs_rest = ''''\<rparr>\<rparr>"

text \<open>The manifests, told apart by the file's name.\<close>

definition tm_demo_decode :: "string \<Rightarrow> obj res" where
  "tm_demo_decode asset = (let f = drop 24 asset; c = f ! 0 in
     if c = CHR ''d'' then Ok (ODeployment tm_demo_deployment)
     else if c = CHR ''i'' then Ok (OIssuer \<lparr>iss_Meta = tm_demo_meta ''i'', iss_ACME = None, iss_CA = None, iss_rest = ''selfSigned''\<rparr>)
     else if c = CHR ''v'' then Ok (OValidatingWebhookConfiguration \<lparr>vwc_Meta = tm_demo_meta ''v'', vwc_Webhooks = None\<rparr>)
     else if c = CHR ''r'' then
       if f ! 4 = CHR ''_'' then Ok (ORole tm_demo_role) else Ok (ORoleBinding tm_demo_binding)
     else if c = CHR ''s'' then
       if f ! 7 = CHR ''_'' then Ok (OService tm_demo_service)
       else Ok (OServiceAccount \<lparr>sa_Meta = tm_demo_meta ''a'', sa_Automount = Some True, sa_rest = ''''\<rparr>)
     else if f ! 1 = CHR ''e'' then Ok (OCertificate tm_demo_certificate)
     else if f ! 11 = CHR ''_'' then Ok (OClusterRole tm_demo_role) else Ok (OClusterRoleBinding tm_demo_binding))"

definition tm_demo_env :: tm_env where
  "tm_demo_env = \<lparr>te_decode = tm_demo_decode, te_getenv = \<lambda>_. ''img'', te_validators = permissive, te_now = \<lambda>_. 0\<rparr>"

definition tm_demo_cr :: TrustManager where
  "tm_demo_cr = \<lparr>tm_Meta = tm_demo_meta ''cluster'',
     tm_Spec = \<lparr>TrustManagerConfig = zero_TrustManagerConfig\<lparr>tm_LogLevel := 1,
        SecretTargets := \<lparr>st_Policy = ''Custom'', AuthorizedSecrets = Some [''bundle'']\<rparr>\<rparr>,
        ControllerConfig = \<lparr>cc_Labels = None, cc_Annotations = None\<rparr>\<rparr>,
     tm_Status = \<lparr>tms_Conditional = \<lparr>Conditions = []\<rparr>, TrustManagerImage = '''', tms_TrustNamespace = '''',
        SecretTargetsPolicy = '''', DefaultCAPackagePolicy = '''', FilterExpiredCertificatesPolicy = ''''\<rparr>\<rparr>"

definition tm_demo_world :: "store tm_world" where
  "tm_demo_world = \<lparr>w_cluster = put_obj (ONamespace (tm_demo_meta ''cert-manager''))
     (put_obj (OTrustManager tm_demo_cr) empty_store), w_events = [], w_tm = tm_demo_cr\<rparr>"

lemma tm_demo_manifests: "complete_manifests tm_demo_env"
proof -
  have "x \<in> {ODeployment tm_demo_deployment, OIssuer \<lparr>iss_Meta = tm_demo_meta ''i'', iss_ACME = None, iss_CA = None, iss_rest = ''selfSigned''\<rparr>,
      OValidatingWebhookConfiguration \<lparr>vwc_Meta = tm_demo_meta ''v'', vwc_Webhooks = None\<rparr>, ORole tm_demo_role,
      ORoleBinding tm_demo_binding, OService tm_demo_service, OCertificate tm_demo_certificate, OClusterRole tm_demo_role,
      OServiceAccount \<lparr>sa_Meta = tm_demo_meta ''a'', sa_Automount = Some True, sa_rest = ''''\<rparr>,
      OClusterRoleBinding tm_demo_binding}"
    if "tm_manifest tm_demo_env k asset = Ok x" for k asset x
    using that by (auto simp: tm_manifest_def DecodeObjBytes_eq_Ok_iff tm_demo_env_def tm_demo_decode_def Let_def split: if_splits)
  then show ?thesis
    unfolding complete_manifests_def cluster_scoped_def
    by (fastforce simp: tm_demo_role_def tm_demo_binding_def tm_demo_meta_def empty_meta_def
        tm_demo_deployment_def tm_demo_service_def tm_demo_certificate_def)
qed

lemma tm_demo_installable: "tm_installable tm_demo_env tm_demo_cr"
  by code_simp

lemma tm_demo_holds:
  "holds {(KNamespace, '''', getTrustNamespace tm_demo_cr), (KTrustManager, tm_key tm_demo_cr)} tm_demo_cr tm_demo_world"
  unfolding holds_def by code_simp

lemma tm_demo_run: "\<exists>w'. reconcileTrustManagerDeployment store_api tm_demo_env tm_demo_world = (Ok (), w')"
  by (rule installation_succeeds [OF tm_demo_installable _ tm_demo_holds])
     (use tm_demo_manifests in \<open>simp add: complete_manifests_def\<close>)

section \<open>Properties\<close>

definition references_resolve :: "(kind \<Rightarrow> key \<Rightarrow> obj option) \<Rightarrow> string \<Rightarrow> bool" where
  "references_resolve objects ns \<longleftrightarrow>
     (\<exists>x. objects KServiceAccount (operandNamespace, trustManagerServiceAccountName) = Some x \<and> some_obj x) \<and>
     (\<exists>x. objects KClusterRole ('''', trustManagerClusterRoleName) = Some x \<and> some_obj x) \<and>
     (\<exists>x. objects KClusterRoleBinding ('''', trustManagerClusterRoleBindingName) = Some x \<and>
        (\<exists>b. x = OClusterRoleBinding b \<and> bound_to trustManagerClusterRoleName b)) \<and>
     (\<exists>x. objects KRole (ns, trustManagerRoleName) = Some x \<and> some_obj x) \<and>
     (\<exists>x. objects KRoleBinding (ns, trustManagerRoleBindingName) = Some x \<and>
        (\<exists>b. x = ORoleBinding b \<and> bound_to trustManagerRoleName b)) \<and>
     (\<exists>x. objects KRole (operandNamespace, trustManagerLeaderElectionRoleName) = Some x \<and> some_obj x) \<and>
     (\<exists>x. objects KRoleBinding (operandNamespace, trustManagerLeaderElectionRoleBindingName) = Some x \<and>
        (\<exists>b. x = ORoleBinding b \<and> bound_to trustManagerLeaderElectionRoleName b)) \<and>
     (\<exists>x. objects KIssuer (operandNamespace, trustManagerIssuerName) = Some x \<and> some_obj x) \<and>
     (\<exists>x. objects KCertificate (operandNamespace, trustManagerCertificateName) = Some x \<and>
        (\<exists>c. x = OCertificate c \<and> webhook_certificate c)) \<and>
     (\<exists>x. objects KService (operandNamespace, trustManagerServiceName) = Some x \<and> some_obj x) \<and>
     (\<exists>x. objects KDeployment (operandNamespace, trustManagerDeploymentName) = Some x \<and>
        (\<exists>d. x = ODeployment d \<and> ps_ServiceAccountName (dep_Pod d) = trustManagerServiceAccountName))"

text \<open>
  C38.  After a successful installation of trust-manager every reference between its objects resolves: the
  cluster role binding, the role binding in the trust namespace and the one for leader election name a role that is
  stored where they look for it and, as service account, the stored one; the certificate names the stored
  issuer, the webhook's host and the secret; the deployment runs under that service account, and the webhook's
  service exists.
\<close>

theorem installed_references_resolve:
  assumes "api_apply api stored" and "complete_manifests e"
    and "reconcileTrustManagerDeployment api e w = (Ok (), w')"
  shows "references_resolve (stored (w_cluster w')) (getTrustNamespace (w_tm w))"
proof -
  have cs: "cluster_scoped e" using assms(2) by (simp add: complete_manifests_def)
  have found: "\<exists>y. stored (w_cluster w') k key = Some y \<and> P y"
    if "ensures stored (w_tm w) k key P (reconcileTrustManagerDeployment api e)" for k key P
    using that assms(3) unfolding ensures_def by blast
  note rbac = api_apply.rbac_ensures [OF assms(1,2)]
  note reconcile = api_apply.reconcile_rbac [OF assms(1) cs]
  show ?thesis
    unfolding references_resolve_def
    by (intro conjI found api_apply.reconcile_serviceaccount [OF assms(1) cs]
          api_apply.reconcile_issuer_certificate [OF assms(1) cs] api_apply.reconcile_service [OF assms(1) cs]
          api_apply.reconcile_deployment [OF assms(1) cs]; rule reconcile; (rule rbac api_apply.rbac_cluster_role [OF assms(1,2)])?; simp?)
qed

theorem installed_references_resolve_witness:
  "\<exists>w'. reconcileTrustManagerDeployment store_api tm_demo_env tm_demo_world = (Ok (), w') \<and>
     references_resolve (objs_in (w_cluster w')) ''cert-manager''"
proof -
  obtain w' where r: "reconcileTrustManagerDeployment store_api tm_demo_env tm_demo_world = (Ok (), w')"
    using tm_demo_run by blast
  have "getTrustNamespace (w_tm tm_demo_world) = ''cert-manager''" by code_simp
  with r installed_references_resolve [OF mem_apply.api_apply_axioms tm_demo_manifests r] show ?thesis by auto
qed

text \<open>
  C39.  After a successful installation the operand's cluster role lets it read secrets exactly when secret targets
  are enabled, and create, update, patch or delete exactly the secrets on the authorised list; beyond that
  it allows on secrets what its manifest allows.
\<close>

theorem cluster_role_restricts_secrets:
  assumes "api_apply api stored" and "complete_manifests e"
    and "tm_manifest e KClusterRole ''clusterrole_trust-manager.yml'' = Ok (OClusterRole m)"
    and "reconcileTrustManagerDeployment api e w = (Ok (), w')"
  shows "\<exists>r. stored (w_cluster w') KClusterRole ('''', trustManagerClusterRoleName) = Some (OClusterRole r) \<and>
     (\<forall>verb name. role_allows r verb ''secrets'' name \<longleftrightarrow>
        role_allows m verb ''secrets'' name \<or>
        secretTargetsEnabled (SecretTargets (tm_Config (w_tm w))) \<and>
        (verb \<in> read_verbs \<or>
         verb \<in> write_verbs \<and> name \<in> set (elems (AuthorizedSecrets (SecretTargets (tm_Config (w_tm w)))))))"
proof -
  let ?st = "SecretTargets (tm_Config (w_tm w))"
  from api_apply.reconcile_cluster_role [OF assms(1-3), of "w_tm w"] assms(4) obtain r where
    "stored (w_cluster w') KClusterRole ('''', trustManagerClusterRoleName) = Some (OClusterRole r)"
    and rules: "role_Rules r = role_Rules (appendSecretTargetRules ?st m)"
    unfolding ensures_def by blast
  moreover have "role_allows r = role_allows (appendSecretTargetRules ?st m)"
    using rules by (simp add: role_allows_def fun_eq_iff)
  ultimately show ?thesis using appendSecretTargetRules_allows [of ?st m] by auto
qed

theorem cluster_role_restricts_secrets_witness:
  "\<exists>w' r. reconcileTrustManagerDeployment store_api tm_demo_env tm_demo_world = (Ok (), w') \<and>
     objs_in (w_cluster w') KClusterRole ('''', trustManagerClusterRoleName) = Some (OClusterRole r) \<and>
     role_allows r ''update'' ''secrets'' ''bundle'' \<and> \<not> role_allows r ''update'' ''secrets'' ''other''"
proof -
  obtain w' where r: "reconcileTrustManagerDeployment store_api tm_demo_env tm_demo_world = (Ok (), w')"
    using tm_demo_run by blast
  have m: "tm_manifest tm_demo_env KClusterRole ''clusterrole_trust-manager.yml'' = Ok (OClusterRole tm_demo_role)"
    by code_simp
  have role: "\<not> role_allows tm_demo_role verb ''secrets'' name" for verb name
    by (simp add: role_allows_def tm_demo_role_def tm_demo_rule_def rule_allows_def names_def)
  have st: "SecretTargets (tm_Config (w_tm tm_demo_world)) = \<lparr>st_Policy = ''Custom'', AuthorizedSecrets = Some [''bundle'']\<rparr>"
    by (simp add: tm_demo_world_def tm_demo_cr_def)
  have "''update'' \<in> write_verbs" "''update'' \<notin> read_verbs" by (simp_all add: write_verbs_def read_verbs_def)
  with cluster_role_restricts_secrets [OF mem_apply.api_apply_axioms tm_demo_manifests m r] r role show ?thesis
    unfolding st by (auto simp: secretTargetsEnabled_def)
qed

section \<open>Defaults taken for drift\<close>

text \<open>
  The API server's defaults for volumes (\<open>SetDefaults_ConfigMapVolumeSource\<close> and
  \<open>SetDefaults_SecretVolumeSource\<close> of \<open>k8s.io/kubernetes\<close>): a mode of 0644 where none is given.
\<close>

fun SetDefaults_VolumeSource :: "VolumeSource \<Rightarrow> VolumeSource" where
  "SetDefaults_VolumeSource (ConfigMapVolume n items mode) =
     ConfigMapVolume n items (Some (case mode of None \<Rightarrow> 420 | Some m \<Rightarrow> m))"
| "SetDefaults_VolumeSource (SecretVolume n items mode) =
     SecretVolume n items (Some (case mode of None \<Rightarrow> 420 | Some m \<Rightarrow> m))"
| "SetDefaults_VolumeSource v = v"

definition SetDefaults_Deployment :: "Deployment \<Rightarrow> Deployment" where
  "SetDefaults_Deployment = upd_pod (\<lambda>p. p\<lparr>ps_Volumes :=
     map_option (map (\<lambda>v. v\<lparr>vol_Source := SetDefaults_VolumeSource (vol_Source v)\<rparr>)) (ps_Volumes p)\<rparr>)"

text \<open>A server that stores defaulted deployments returns such deployments.\<close>

definition serves_defaulted :: "'c api \<Rightarrow> bool" where
  "serves_defaulted api \<longleftrightarrow> (\<forall>key s d s'. api_Get api KDeployment key s = (Ok (ODeployment d), s') \<longrightarrow>
     (\<exists>d0. d = SetDefaults_Deployment d0))"

lemma defaulted_not_package:
  "caPackageVolume \<notin> set (elems (ps_Volumes (dep_Pod (SetDefaults_Deployment d))))"
proof -
  have "SetDefaults_VolumeSource v \<noteq> ConfigMapVolume n None None" for v n by (cases v) simp_all
  then have "vol_Source caPackageVolume \<noteq> vol_Source (v\<lparr>vol_Source := SetDefaults_VolumeSource (vol_Source v)\<rparr>)" for v
    by (simp add: caPackageVolume_def) metis
  then have "caPackageVolume \<noteq> v\<lparr>vol_Source := SetDefaults_VolumeSource (vol_Source v)\<rparr>" for v by metis
  then show ?thesis
    by (cases "ps_Volumes (dep_Pod d)") (auto simp: SetDefaults_Deployment_def upd_pod_def)
qed

lemma package_always_modified:
  assumes "caPackageVolume \<in> set (elems (ps_Volumes (dep_Pod d)))"
  shows "deploymentModified d (SetDefaults_Deployment d0)"
proof -
  have "ps_Volumes (dep_Pod d) \<noteq> ps_Volumes (dep_Pod (SetDefaults_Deployment d0))"
    using assms defaulted_not_package [of d0] by metis
  then show ?thesis by (simp add: deploymentModified_def)
qed

lemma applyObject_patches:
  assumes "applyObject api what label name modified x w = (Ok (), w')"
    and "\<And>y s s'. api_Get api (kind_of x) (ObjectKeyFromObject x) s = (Ok y, s') \<Longrightarrow> modified x y"
  shows "\<exists>y s. api_Patch api x applyPatch s = (Ok y, w_cluster w')"
proof -
  from assms(1) obtain found c where
    ex: "clExists api (kind_of x) (ObjectKeyFromObject x) (w_cluster w) = (Ok found, c)"
    by (auto simp: applyObject_def bindM_eq_Ok_iff onCluster_eq_iff)
  have "modified x y" if "found = Some y" for y
    using ex that assms(2)
    by (auto simp: clExists_def bindM_eq_Ok_iff attemptM_def split: prod.splits res.splits if_splits)
  with assms(1) ex obtain y where "api_Patch api x applyPatch c = (Ok y, w_cluster w')"
    by (cases found) (auto simp: applyObject_def bindM_eq_Ok_iff onCluster_eq_iff clPatch_def Eventf_def)
  then show ?thesis by blast
qed

text \<open>
  C40.  With the default CA package enabled the deployment never counts as being in its desired state: the volume the
  controller adds has no mode, the server fills one in, and the comparison sees a difference.  Every
  successful pass writes the deployment again and reports it as reconciled, however often it was
  applied before.
\<close>

theorem default_ca_package_reapplied:
  assumes "serves_defaulted api" and "defaultCAPackageEnabled (DefaultCAPackage (tm_Config (w_tm w)))"
    and "createOrApplyDeployment api e l a caBundleHash w = (Ok (), w')"
  shows "\<exists>d y s. api_Patch api (ODeployment d) applyPatch s = (Ok y, w_cluster w') \<and>
     (\<forall>d0. deploymentModified d (SetDefaults_Deployment d0))"
proof -
  from assms(3) obtain d w1 where d: "tm_getDeploymentObject api e l a caBundleHash w = (Ok d, w1)"
    and ap: "applyObject api ''deployment'' ''deployment resource'' (fullName (ODeployment d))
       (\<lambda>_ x. case x of ODeployment existing \<Rightarrow> deploymentModified d existing | _ \<Rightarrow> True) (ODeployment d) w1 = (Ok (), w')"
    by (auto simp: createOrApplyDeployment_def bindM_eq_Ok_iff)
  from getDeployment_built [OF d] assms(2) have vol: "caPackageVolume \<in> set (elems (ps_Volumes (dep_Pod d)))"
    by (simp add: built_def)
  have "\<exists>y s. api_Patch api (ODeployment d) applyPatch s = (Ok y, w_cluster w')"
  proof (rule applyObject_patches [OF ap])
    fix x s s' assume got: "api_Get api (kind_of (ODeployment d)) (ObjectKeyFromObject (ODeployment d)) s = (Ok x, s')"
    show "case x of ODeployment existing \<Rightarrow> deploymentModified d existing | _ \<Rightarrow> True"
    proof (cases x)
      case (ODeployment d')
      with got assms(1) obtain d0 where "d' = SetDefaults_Deployment d0"
        unfolding serves_defaulted_def kind_of.simps by blast
      with ODeployment package_always_modified [OF vol] show ?thesis by simp
    qed simp_all
  qed
  with package_always_modified [OF vol] show ?thesis by blast
qed

text \<open>The in-memory server with defaulted deployments, holding the service account.\<close>

fun default_object :: "obj \<Rightarrow> obj" where
  "default_object (ODeployment d) = ODeployment (SetDefaults_Deployment d)"
| "default_object x = x"

definition defaulting_api :: "store api" where
  "defaulting_api = store_api\<lparr>api_Get := \<lambda>k key s. case store_Get k key s of
     (Ok x, s') \<Rightarrow> (Ok (default_object x), s') | r \<Rightarrow> r\<rparr>"

definition tm_package_world :: "store tm_world" where
  "tm_package_world = \<lparr>w_cluster =
     put_obj (OServiceAccount \<lparr>sa_Meta = empty_meta\<lparr>om_Name := ''trust-manager'', om_Namespace := ''cert-manager'', om_UID := ''u''\<rparr>,
        sa_Automount = None, sa_rest = ''''\<rparr>) empty_store,
     w_events = [], w_tm = tm_demo_cr\<lparr>tm_Spec := (tm_Spec tm_demo_cr)\<lparr>TrustManagerConfig :=
       (tm_Config tm_demo_cr)\<lparr>DefaultCAPackage := \<lparr>ca_Policy = ''Enabled''\<rparr>\<rparr>\<rparr>\<rparr>\<rparr>"

lemma defaulting_serves: "serves_defaulted defaulting_api"
proof -
  have "\<exists>d0. d = SetDefaults_Deployment d0" if "default_object x = ODeployment d" for x d
    using that by (cases x) auto
  then show ?thesis
    by (auto simp: serves_defaulted_def defaulting_api_def split: prod.splits res.splits)
qed

lemma defaulting_get: "k \<noteq> KDeployment \<Longrightarrow> api_Get defaulting_api k key s = api_Get store_api k key s"
proof -
  assume k: "k \<noteq> KDeployment"
  have "default_object x = x" if "store_Get k key s = (Ok x, s')" for x s'
    using stored_kind_key [OF store_Get_Ok [OF that]] k by (cases x) auto
  then show ?thesis
    by (auto simp: defaulting_api_def store_api_def split: prod.splits res.splits)
qed

lemma defaulting_build: "tm_getDeploymentObject defaulting_api e l a h = tm_getDeploymentObject store_api e l a h"
proof -
  have "clGet defaulting_api k key = clGet store_api k key" if "k \<noteq> KDeployment" for k key
    using defaulting_get [OF that] by (simp add: clGet_def wrapM_def onErrM_def fun_eq_iff)
  then show ?thesis
    by (simp add: tm_getDeploymentObject_def applyClusterTLSProfile_def setServiceAccountUIDAnnotation_def)
qed

lemma defaulting_apply:
  assumes "st_faults (w_cluster w) = []" "objs_in (w_cluster w) KDeployment (ObjectKeyFromObject (ODeployment d)) = None"
    and "om_Name (dep_Meta d) \<noteq> ''''"
  shows "\<exists>w'. applyObject defaulting_api what label name modified (ODeployment d) w = (Ok (), w')"
proof -
  have "clExists defaulting_api KDeployment (ObjectKeyFromObject (ODeployment d)) (w_cluster w) = (Ok None, w_cluster w)"
    using assms(1,2)
    by (simp add: clExists_def defaulting_api_def store_Get_def served_calm eff_defs errNotFound_def IsNotFound_def
        has_reason_def reasonAndCodeForError_def knownReasons_def)
  moreover obtain y s' where "api_Patch defaulting_api (ODeployment d) applyPatch (w_cluster w) = (Ok y, s')"
    using patch_calm [OF assms(1), of "ODeployment d"] assms(3) by (auto simp: defaulting_api_def)
  ultimately show ?thesis
    by (simp add: applyObject_def bindM_def onErrM_def onCluster_def clPatch_def wrapM_def Eventf_def)
qed

lemma tm_package_ok: "\<exists>w'. createOrApplyDeployment defaulting_api tm_demo_env l a h tm_package_world = (Ok (), w')"
proof -
  let ?K = "{(KServiceAccount, operandNamespace, trustManagerServiceAccountName)}"
  have "holds ?K (w_tm tm_package_world) tm_package_world" unfolding holds_def by code_simp
  moreover have "deployable tm_demo_env (w_tm tm_package_world)" by code_simp
  ultimately obtain d w1 where d: "tm_getDeploymentObject store_api tm_demo_env l a h tm_package_world = (Ok d, w1)"
    and w1: "holds ?K (w_tm tm_package_world) w1"
    using works_getDeployment [of tm_demo_env "w_tm tm_package_world" ?K] unfolding works_def by blast
  from getDeployment_built [OF d] have key: "ObjectKeyFromObject (ODeployment d) = (operandNamespace, trustManagerDeploymentName)"
    by (simp add: built_def)
  have "leaves objs_in KDeployment key (tm_getDeploymentObject store_api tm_demo_env l a h)" for key
    unfolding tm_getDeploymentObject_def setServiceAccountUIDAnnotation_def Let_def
    by (intro tm_intros mem_apply.leaves_tls mem_apply.leaves_get)
  with d have "objs_in (w_cluster w1) KDeployment key = objs_in (w_cluster tm_package_world) KDeployment key" for key
    unfolding leaves_def keepsM_def by (metis snd_conv)
  moreover have "objs_in (w_cluster tm_package_world) KDeployment (operandNamespace, trustManagerDeploymentName) = None"
    by code_simp
  ultimately have "objs_in (w_cluster w1) KDeployment (ObjectKeyFromObject (ODeployment d)) = None" using key by simp
  moreover have "st_faults (w_cluster w1) = []" using w1 by (simp add: holds_def)
  moreover have "om_Name (dep_Meta d) \<noteq> ''''" using name_of_key [OF key] resource_names by simp
  ultimately show ?thesis
    using defaulting_apply d by (simp add: createOrApplyDeployment_def defaulting_build bindM_def)
qed

theorem default_ca_package_reapplied_witness:
  "\<exists>w' d y s. createOrApplyDeployment defaulting_api tm_demo_env (Some []) (Some []) ''hash'' tm_package_world = (Ok (), w') \<and>
     api_Patch defaulting_api (ODeployment d) applyPatch s = (Ok y, w_cluster w')"
proof -
  obtain w' where r: "createOrApplyDeployment defaulting_api tm_demo_env (Some []) (Some []) ''hash'' tm_package_world = (Ok (), w')"
    using tm_package_ok by blast
  have "defaultCAPackageEnabled (DefaultCAPackage (tm_Config (w_tm tm_package_world)))" by code_simp
  from default_ca_package_reapplied [OF defaulting_serves this r] r show ?thesis by blast
qed

section \<open>Further faults\<close>

text \<open>
  The same holds for a webhook whose manifest names no port of its service, or no scope of a rule: the server fills
  in port 443 and scope \<open>*\<close>.
\<close>

definition webhook_defaulted :: "ValidatingWebhook \<Rightarrow> bool" where
  "webhook_defaulted w \<longleftrightarrow> (\<forall>s. wh_Service w = Some s \<longrightarrow> sr_Port s \<noteq> None) \<and>
     (\<forall>r \<in> set (elems (wh_Rules w)). wr_Scope r \<noteq> None)"

lemma webhook_reapplied:
  assumes "w \<in> set (elems (vwc_Webhooks desired))" "\<not> webhook_defaulted w"
    and "\<forall>v \<in> set (elems (vwc_Webhooks existing)). webhook_defaulted v"
  shows "webhookConfigModified desired existing"
proof (cases "length (elems (vwc_Webhooks desired)) = length (elems (vwc_Webhooks existing))")
  case True
  from assms(1) obtain i where i: "i < length (elems (vwc_Webhooks desired))" "elems (vwc_Webhooks desired) ! i = w"
    by (auto simp: in_set_conv_nth)
  let ?v = "elems (vwc_Webhooks existing) ! i"
  have "webhook_defaulted ?v" using assms(3) i True by simp
  with assms(2) have "wh_Service w \<noteq> wh_Service ?v \<or> wh_Rules w \<noteq> wh_Rules ?v"
    unfolding webhook_defaulted_def by metis
  then have "validatingWebhookModified w ?v" by (auto simp: validatingWebhookModified_def)
  moreover have "(w, ?v) \<in> set (zip (elems (vwc_Webhooks desired)) (elems (vwc_Webhooks existing)))"
    using i True by (auto simp: in_set_zip)
  ultimately show ?thesis by (auto simp: webhookConfigModified_def list_ex_iff)
qed (simp add: webhookConfigModified_def)

text \<open>
  The label meant for the cluster-view role is written into the label map all objects share: after the
  installation the webhook's service has it too.
\<close>

lemma view_labels_leak:
  "createOrApplyRBACResources api e l a ns w = (Ok l', w') \<Longrightarrow> l \<noteq> None \<Longrightarrow>
   mlookup l' clusterReaderAggregateLabel = Some ''true''"
  by (auto simp: createOrApplyRBACResources_def createOrApplyClusterViewClusterRole_def getClusterViewClusterRoleObject_def
      seqM_def bindM_eq_Ok_iff bindR_eq_Ok_iff Let_def)

lemma ensures_result:
  assumes "reads t m" "\<And>w a w'. m w = (Ok a, w') \<Longrightarrow> ensures stored t k key P (f a)"
  shows "ensures stored t k key P (bindM m f)"
  unfolding ensures_def
proof (intro allI impI)
  fix w b w'' assume w: "w_tm w = t" "bindM m f w = (Ok b, w'')"
  then obtain a w' where m: "m w = (Ok a, w')" "f a w' = (Ok b, w'')" by (auto simp: bindM_eq_Ok_iff)
  with assms(1) w(1) have "w_tm w' = t" unfolding reads_def keepsM_def by (metis snd_conv)
  with assms(2) [OF m(1)] m(2) show "\<exists>y. stored (w_cluster w'') k key = Some y \<and> P y"
    unfolding ensures_def by blast
qed

lemma getResourceLabels_not_None [simp]: "getResourceLabels e t \<noteq> None"
  by (simp add: getResourceLabels_def Let_def)

context api_apply
begin

lemma reconcile_service_label:
  assumes "cluster_scoped e"
  shows "ensures stored t KService (operandNamespace, trustManagerServiceName)
     (\<lambda>y. mget (om_Labels (meta_of y)) clusterReaderAggregateLabel = ''true'') (reconcileTrustManagerDeployment api e)"
  unfolding reconcileTrustManagerDeployment_def Let_def
  apply (rule ensures_getTM, rule ensures_later_seq, (intro tm_intros)[1], rule ensures_later_seq, (intro tm_intros)[1])
  apply (rule ensures_later, (intro tm_intros)[1], rule ensures_later_seq, (intro tm_intros)[1])
  apply (rule ensures_result, (intro tm_intros)[1], rule ensures_here_seq)
   apply (rule ensures_weaken, rule ensures_services [where k = clusterReaderAggregateLabel])
   apply (drule view_labels_leak, simp, force simp: mget_def)
  by (auto intro!: leaves_seq leaves_onErr step_leaves leaves_cluster_steps [OF assms])

end

lemma aggregate_label_leaks:
  assumes "api_apply api stored" and "complete_manifests e" and "reconcileTrustManagerDeployment api e w = (Ok (), w')"
  shows "\<exists>y. stored (w_cluster w') KService (operandNamespace, trustManagerServiceName) = Some y \<and>
     mget (om_Labels (meta_of y)) clusterReaderAggregateLabel = ''true''"
proof -
  have "cluster_scoped e" using assms(2) by (simp add: complete_manifests_def)
  from api_apply.reconcile_service_label [OF assms(1) this] assms(3) show ?thesis unfolding ensures_def by blast
qed

end
