(* ===== verification/Resource_Apply.thy ===== *)
theory Resource_Apply
  imports IC_Objects
begin

text \<open>
  \<open>ApplyNetworkPolicy\<close> of the vendored library-go (\<open>resourceapply/networking.go\<close>) with the merging of metadata it
  relies on (\<open>resourcemerge/object_merger.go\<close>), over the API server of theory Client.

  The resource cache of the library identifies an object by the kind in its \<open>TypeMeta\<close>.  The policies the
  operator builds carry none and are no core objects, so \<open>getResourceMetadata\<close> fails for them: the cache is never
  filled and never skips a call, and has no part in the model.  Owner references are no part of the
  model's metadata; the policies have none.  The loop over a map takes its entries in the order of the
  list; the operator's maps have one entry.
\<close>

section \<open>Metadata\<close>

definition removalKey :: "string \<Rightarrow> bool" where
  "removalKey k \<longleftrightarrow> k \<noteq> '''' \<and> last k = CHR ''-''"

definition trimRightDash :: "string \<Rightarrow> string" where
  "trimRightDash k = rev (dropWhile (\<lambda>c. c = CHR ''-'') (rev k))"

definition mdelete :: "string \<Rightarrow> labels \<Rightarrow> labels" where
  "mdelete k m = map_option (AList.delete k) m"

fun mergeEntry :: "string \<times> string \<Rightarrow> bool \<times> labels \<Rightarrow> bool \<times> labels" where
  "mergeEntry (k, v) (modified, existing) =
     (if removalKey k
      then (if mlookup existing (trimRightDash k) = None then (modified, existing)
            else (True, mdelete (trimRightDash k) existing))
      else if mlookup existing k = Some v then (modified, existing)
      else (True, mput k v existing))"

definition MergeMap :: "bool \<Rightarrow> labels \<Rightarrow> labels \<Rightarrow> bool \<times> labels" where
  "MergeMap modified existing required = fold mergeEntry (elems required) (modified, Some (elems existing))"

definition SetStringIfSet :: "bool \<Rightarrow> string \<Rightarrow> string \<Rightarrow> bool \<times> string" where
  "SetStringIfSet modified existing required =
     (if required = '''' \<or> required = existing then (modified, existing) else (True, required))"

definition EnsureObjectMeta :: "bool \<Rightarrow> ObjectMeta \<Rightarrow> ObjectMeta \<Rightarrow> bool \<times> ObjectMeta" where
  "EnsureObjectMeta modified existing required =
     (let (modified, ns) = SetStringIfSet modified (om_Namespace existing) (om_Namespace required);
          (modified, name) = SetStringIfSet modified (om_Name existing) (om_Name required);
          (modified, ls) = MergeMap modified (om_Labels existing) (om_Labels required);
          (modified, as) = MergeMap modified (om_Annotations existing) (om_Annotations required)
      in (modified, existing\<lparr>om_Namespace := ns, om_Name := name, om_Labels := ls, om_Annotations := as\<rparr>))"

definition cleanRemovalKeys :: "labels \<Rightarrow> labels" where
  "cleanRemovalKeys = map_option (filter (\<lambda>(k, v). \<not> removalKey k))"

definition WithCleanLabelsAndAnnotations :: "obj \<Rightarrow> obj" where
  "WithCleanLabelsAndAnnotations = upd_meta (\<lambda>m. m\<lparr>om_Annotations := cleanRemovalKeys (om_Annotations m),
     om_Labels := cleanRemovalKeys (om_Labels m)\<rparr>)"

section \<open>Network policies\<close>

text \<open>\<open>equality.Semantic.DeepEqual\<close> on the specification: nil and empty are the same at every level.\<close>

definition requirement_equal :: "LabelSelectorRequirement \<Rightarrow> LabelSelectorRequirement \<Rightarrow> bool" where
  "requirement_equal a b \<longleftrightarrow> lsr_Key a = lsr_Key b \<and> lsr_Operator a = lsr_Operator b \<and>
     elems (lsr_Values a) = elems (lsr_Values b)"

definition networkPolicySpecEqual :: "NetworkPolicy \<Rightarrow> NetworkPolicy \<Rightarrow> bool" where
  "networkPolicySpecEqual a b \<longleftrightarrow>
     maps_equal (ls_MatchLabels (np_PodSelector a)) (ls_MatchLabels (np_PodSelector b)) \<and>
     list_all2 requirement_equal (elems (ls_MatchExpressions (np_PodSelector a)))
       (elems (ls_MatchExpressions (np_PodSelector b))) \<and>
     elems (np_Ingress a) = elems (np_Ingress b) \<and> elems (np_Egress a) = elems (np_Egress b) \<and>
     elems (np_PolicyTypes a) = elems (np_PolicyTypes b)"

definition FormatResourceForCLIWithNamespace :: "NetworkPolicy \<Rightarrow> string" where
  "FormatResourceForCLIWithNamespace x = ''NetworkPolicy.networking.k8s.io/'' @ om_Name (np_Meta x) @
     (if om_Namespace (np_Meta x) = '''' then '''' else '' -n '' @ om_Namespace (np_Meta x))"

definition ReportCreateEvent :: "NetworkPolicy \<Rightarrow> 'a res \<Rightarrow> (('c, 'x) world_scheme, unit) eff" where
  "ReportCreateEvent x r = (case r of
      Err e \<Rightarrow> Eventf ''Warning'' ''NetworkPolicyCreateFailed''
        (''Failed to create '' @ FormatResourceForCLIWithNamespace x @ '': '' @ error_text e)
    | _ \<Rightarrow> Eventf ''Normal'' ''NetworkPolicyCreated''
        (''Created '' @ FormatResourceForCLIWithNamespace x @ '' because it was missing''))"

definition ReportUpdateEvent :: "NetworkPolicy \<Rightarrow> 'a res \<Rightarrow> (('c, 'x) world_scheme, unit) eff" where
  "ReportUpdateEvent x r = (case r of
      Err e \<Rightarrow> Eventf ''Warning'' ''NetworkPolicyUpdateFailed''
        (''Failed to update '' @ FormatResourceForCLIWithNamespace x @ '': '' @ error_text e)
    | _ \<Rightarrow> Eventf ''Normal'' ''NetworkPolicyUpdated''
        (''Updated '' @ FormatResourceForCLIWithNamespace x @ '' because it changed''))"

definition the_networkpolicy :: "obj \<Rightarrow> NetworkPolicy res" where
  "the_networkpolicy x = (case x of ONetworkPolicy p \<Rightarrow> Ok p | _ \<Rightarrow> Panic ''unexpected object type'')"

text \<open>The result says whether the cluster was changed.\<close>

definition ApplyNetworkPolicy :: "'c api \<Rightarrow> NetworkPolicy \<Rightarrow> (('c, 'x) world_scheme, bool) eff" where
  "ApplyNetworkPolicy api required =
     bindM (attemptM (onCluster (api_Get api KNetworkPolicy (ObjectKeyFromObject (ONetworkPolicy required))))) (\<lambda>r. case r of
       Panic p \<Rightarrow> panicM p
     | Err err \<Rightarrow>
         if IsNotFound (Some err) then
           bindM (attemptM (onCluster (api_Create api (WithCleanLabelsAndAnnotations (ONetworkPolicy required))))) (\<lambda>actual.
           seqM (ReportCreateEvent required actual)
             (bindM (liftM actual) (\<lambda>_. returnM True)))
         else failM err
     | Ok x \<Rightarrow>
         bindM (liftM (the_networkpolicy x)) (\<lambda>existing.
         let (modified, m) = EnsureObjectMeta False (np_Meta existing) (np_Meta required)
         in if networkPolicySpecEqual existing required \<and> \<not> modified then returnM False
            else bindM (attemptM (onCluster (api_Update api (ONetworkPolicy (existing\<lparr>np_Meta := m,
                      np_PodSelector := np_PodSelector required, np_Ingress := np_Ingress required,
                      np_Egress := np_Egress required, np_PolicyTypes := np_PolicyTypes required\<rparr>))))) (\<lambda>actual.
                 seqM (ReportUpdateEvent required actual)
                   (bindM (liftM actual) (\<lambda>_. returnM True)))))"

section \<open>Loops over objects\<close>

text \<open>
  A loop whose steps each write one place of a map, all different: afterwards every place holds what its step
  wrote, and no other place has changed.
\<close>

lemma forM_each:
  fixes obs :: "'s \<Rightarrow> 'k \<Rightarrow> 'o option"
  assumes "forM ps f w = (Ok (), w')" "distinct (map place ps)"
    and "\<And>p y. p \<in> set ps \<Longrightarrow> obs w (place p) = Some y \<Longrightarrow> L y"
    and step: "\<And>p v v'. p \<in> set ps \<Longrightarrow> f p v = (Ok (), v') \<Longrightarrow> (\<And>y. obs v (place p) = Some y \<Longrightarrow> L y) \<Longrightarrow>
      \<exists>y. P p y \<and> obs v' = (obs v)(place p \<mapsto> y)"
  shows "(\<forall>p \<in> set ps. \<exists>y. obs w' (place p) = Some y \<and> P p y) \<and> (\<forall>a. a \<notin> place ` set ps \<longrightarrow> obs w' a = obs w a)"
  using assms
proof (induction ps arbitrary: w)
  case (Cons p ps)
  from Cons.prems(1) obtain v where v: "f p w = (Ok (), v)" "forM ps f v = (Ok (), w')" by (auto simp: bindM_eq_Ok_iff)
  from Cons.prems(4) [OF _ v(1)] Cons.prems(3) obtain y where y: "P p y" "obs v = (obs w)(place p \<mapsto> y)" by force
  have "p \<notin> set ps" "place p \<notin> place ` set ps" using Cons.prems(2) by auto
  then have "obs v (place q) = obs w (place q)" if "q \<in> set ps" for q
    using y(2) that by (metis fun_upd_other imageI)
  with Cons.IH [OF v(2)] Cons.prems(2-4) have
    IH: "\<forall>q \<in> set ps. \<exists>y. obs w' (place q) = Some y \<and> P q y" "\<forall>a. a \<notin> place ` set ps \<longrightarrow> obs w' a = obs v a" by auto
  with y \<open>place p \<notin> place ` set ps\<close> show ?case by auto
qed simp

section \<open>What merging gives\<close>

definition plain_keys :: "labels \<Rightarrow> bool" where
  "plain_keys m \<longleftrightarrow> distinct (map fst (elems m)) \<and> list_all (\<lambda>(k, v). \<not> removalKey k) (elems m)"

lemma fold_mergeEntry:
  assumes "fold mergeEntry es (b, m) = (b', m')"
    and "distinct (map fst es)" "list_all (\<lambda>(k, v). \<not> removalKey k) es"
  shows "mlookup m' = mlookup m ++ map_of es \<and> (\<not> b' \<longrightarrow> \<not> b \<and> mlookup m' = mlookup m)"
  using assms
proof (induction es arbitrary: b m)
  case (Cons e es)
  obtain l v where e: "e = (l, v)" by fastforce
  obtain c n where cn: "mergeEntry (l, v) (b, m) = (c, n)" by fastforce
  have l: "\<not> removalKey l" "l \<notin> fst ` set es" using Cons.prems e by auto
  then have n: "mlookup n = (mlookup m)(l \<mapsto> v)" and c: "\<not> c \<Longrightarrow> \<not> b \<and> n = m"
    using cn by (auto simp: fun_eq_iff split: if_splits)
  from Cons.IH [of c n] Cons.prems cn e have
    IH: "mlookup m' = mlookup n ++ map_of es" "\<not> b' \<longrightarrow> \<not> c \<and> mlookup m' = mlookup n" by auto
  have "(mlookup m)(l \<mapsto> v) ++ map_of es = mlookup m ++ map_of (e # es)"
    using l(2) by (simp add: e map_add_upd_left dom_map_of_conv_image_fst)
  with IH n c show ?case by metis
qed simp

lemma MergeMap_lookup:
  assumes "MergeMap b existing required = (b', m)" "plain_keys required"
  shows "mlookup m = mlookup existing ++ mlookup required" and "\<not> b' \<Longrightarrow> \<not> b \<and> mlookup m = mlookup existing"
proof -
  have "mlookup (Some (elems existing)) = mlookup existing" "map_of (elems required) = mlookup required"
    by (simp_all add: mlookup_def fun_eq_iff)
  with fold_mergeEntry [of "elems required" b "Some (elems existing)" b' m] assms
  show "mlookup m = mlookup existing ++ mlookup required" "\<not> b' \<Longrightarrow> \<not> b \<and> mlookup m = mlookup existing"
    by (auto simp: plain_keys_def MergeMap_def)
qed

definition labelled_as :: "ObjectMeta \<Rightarrow> ObjectMeta \<Rightarrow> bool" where
  "labelled_as required m \<longleftrightarrow>
     (\<forall>k v. mlookup (om_Labels required) k = Some v \<longrightarrow> mlookup (om_Labels m) k = Some v)"

lemma EnsureObjectMeta_result:
  assumes "plain_keys (om_Labels required)" "plain_keys (om_Annotations required)"
    and "om_Namespace existing = om_Namespace required" "om_Name existing = om_Name required"
    and "EnsureObjectMeta False existing required = (b, m)"
  shows "labelled_as required m" and "\<not> b \<Longrightarrow> labelled_as required existing"
    and "om_Namespace m = om_Namespace required" "om_Name m = om_Name required"
    and "om_DeletionTimestamp m = om_DeletionTimestamp existing" "om_Finalizers m = om_Finalizers existing"
proof -
  from assms(3-) obtain b1 ls as where
    ls: "MergeMap False (om_Labels existing) (om_Labels required) = (b1, ls)"
    and as: "MergeMap b1 (om_Annotations existing) (om_Annotations required) = (b, as)"
    and m: "m = existing\<lparr>om_Namespace := om_Namespace required, om_Name := om_Name required, om_Labels := ls, om_Annotations := as\<rparr>"
    by (auto simp: EnsureObjectMeta_def SetStringIfSet_def Let_def split: prod.splits if_splits)
  show "labelled_as required m" by (simp add: labelled_as_def m MergeMap_lookup(1) [OF ls assms(1)])
  show "labelled_as required existing" if "\<not> b"
  proof -
    from MergeMap_lookup(2) [OF as assms(2) that] MergeMap_lookup(2) [OF ls assms(1)]
    have "mlookup ls = mlookup (om_Labels existing)" by blast
    then have "mlookup (om_Labels existing) = mlookup (om_Labels existing) ++ mlookup (om_Labels required)"
      using MergeMap_lookup(1) [OF ls assms(1)] by simp
    then show ?thesis by (metis labelled_as_def map_add_find_right)
  qed
  show "om_Namespace m = om_Namespace required" "om_Name m = om_Name required"
    "om_DeletionTimestamp m = om_DeletionTimestamp existing" "om_Finalizers m = om_Finalizers existing"
    by (simp_all add: m)
qed

lemma clean_plain: "plain_keys m \<Longrightarrow> cleanRemovalKeys m = m"
  by (cases m) (auto simp: cleanRemovalKeys_def plain_keys_def list_all_iff intro: filter_True)

lemma WithClean_plain:
  "plain_keys (om_Labels (meta_of x)) \<Longrightarrow> plain_keys (om_Annotations (meta_of x)) \<Longrightarrow> WithCleanLabelsAndAnnotations x = x"
  by (cases x) (simp_all add: WithCleanLabelsAndAnnotations_def clean_plain)

lemma networkPolicySpecEqual_refl [simp]: "networkPolicySpecEqual x x"
  by (simp add: networkPolicySpecEqual_def maps_equal_iff requirement_equal_def list.rel_refl)

definition policy_as :: "NetworkPolicy \<Rightarrow> obj \<Rightarrow> bool" where
  "policy_as required x \<longleftrightarrow> (\<exists>z. x = ONetworkPolicy z \<and> networkPolicySpecEqual z required \<and>
     labelled_as (np_Meta required) (np_Meta z))"

lemma kind_networkpolicy: "kind_of x = KNetworkPolicy \<Longrightarrow> \<exists>z. x = ONetworkPolicy z"
  by (cases x) simp_all

lemma same_content_policy:
  assumes "same_content (ONetworkPolicy a) y"
  shows "\<exists>z. y = ONetworkPolicy z \<and> networkPolicySpecEqual z a \<and> om_Labels (np_Meta z) = om_Labels (np_Meta a)"
proof -
  from same_content_kind [OF assms] kind_networkpolicy obtain z where z: "y = ONetworkPolicy z" by fastforce
  with assms have "a\<lparr>np_Meta := plain_meta (np_Meta a)\<rparr> = z\<lparr>np_Meta := plain_meta (np_Meta z)\<rparr>"
    by (simp add: same_content_def)
  from same_networkpolicy [OF this] z same_content_labels [OF assms] show ?thesis
    by (auto simp: networkPolicySpecEqual_def maps_equal_iff requirement_equal_def list.rel_refl)
qed

text \<open>How a successful call can have gone: nothing to do, an update, or a creation.\<close>

definition policyUpdate :: "NetworkPolicy \<Rightarrow> ObjectMeta \<Rightarrow> NetworkPolicy \<Rightarrow> NetworkPolicy" where
  "policyUpdate existing m required = existing\<lparr>np_Meta := m, np_PodSelector := np_PodSelector required,
     np_Ingress := np_Ingress required, np_Egress := np_Egress required, np_PolicyTypes := np_PolicyTypes required\<rparr>"

lemma policyUpdate_simps [simp]:
  "np_Meta (policyUpdate z m x) = m" "networkPolicySpecEqual (policyUpdate z m x) x"
  "networkPolicySpecEqual a (policyUpdate z m x) = networkPolicySpecEqual a x"
  by (simp_all add: policyUpdate_def networkPolicySpecEqual_def maps_equal_iff requirement_equal_def list.rel_refl)

lemma ApplyNetworkPolicy_cases:
  assumes "ApplyNetworkPolicy api x w = (Ok b, w')"
    and "api_Get api KNetworkPolicy (ObjectKeyFromObject (ONetworkPolicy x)) (w_cluster w) = (g, c)"
  obtains (unchanged) z m where "g = Ok (ONetworkPolicy z)" "EnsureObjectMeta False (np_Meta z) (np_Meta x) = (False, m)"
      "networkPolicySpecEqual z x" "w_cluster w' = c"
    | (updated) z modified m y where "g = Ok (ONetworkPolicy z)" "EnsureObjectMeta False (np_Meta z) (np_Meta x) = (modified, m)"
      "api_Update api (ONetworkPolicy (policyUpdate z m x)) c = (Ok y, w_cluster w')"
    | (created) err y where "g = Err err" "api_Create api (WithCleanLabelsAndAnnotations (ONetworkPolicy x)) c = (Ok y, w_cluster w')"
proof (cases g)
  case (Ok e)
  with assms obtain z where z: "e = ONetworkPolicy z"
    by (cases e) (auto simp: ApplyNetworkPolicy_def eff_defs onCluster_def the_networkpolicy_def)
  obtain modified m where m: "EnsureObjectMeta False (np_Meta z) (np_Meta x) = (modified, m)" by fastforce
  show ?thesis
  proof (cases "networkPolicySpecEqual z x \<and> \<not> modified")
    case True
    with assms Ok z m have "w_cluster w' = c"
      by (auto simp: ApplyNetworkPolicy_def eff_defs onCluster_def the_networkpolicy_def)
    then show ?thesis using True unchanged [of z m] Ok z m by simp
  next
    case False
    with assms Ok z m obtain y where "api_Update api (ONetworkPolicy (policyUpdate z m x)) c = (Ok y, w_cluster w')"
      by (auto simp: ApplyNetworkPolicy_def policyUpdate_def eff_defs onCluster_def the_networkpolicy_def
          ReportUpdateEvent_def Eventf_def split: prod.splits res.splits)
    then show ?thesis using updated [of z modified m y] Ok z m by simp
  qed
next
  case (Err err)
  with assms obtain y where "api_Create api (WithCleanLabelsAndAnnotations (ONetworkPolicy x)) c = (Ok y, w_cluster w')"
    by (auto simp: ApplyNetworkPolicy_def eff_defs onCluster_def ReportCreateEvent_def Eventf_def
        split: prod.splits res.splits if_splits)
  then show ?thesis using created [of err y] Err by simp
qed (use assms in \<open>simp add: ApplyNetworkPolicy_def eff_defs onCluster_def\<close>)

context api_server
begin

lemma stored_again: "stored s k key = Some x \<Longrightarrow> stored s = (stored s)(k := (stored s k)(key \<mapsto> x))"
  by (simp add: fun_upd_idem)

lemma create_named:
  assumes "api_Create api x s = (Ok y, s')" "om_Name (meta_of x) \<noteq> ''''"
  shows "same_content x y \<and> stored s' = (stored s)(kind_of x := (stored s (kind_of x))(ObjectKeyFromObject x \<mapsto> y))"
  using create_Ok [OF assms(1)] assms(2) by (simp del: fun_upd_apply)

lemma update_live:
  assumes "api_Update api x s = (Ok y, s')" "\<not> released x" "\<And>old. keep_status old x = x"
  shows "same_content x y \<and> stored s' = (stored s)(kind_of x := (stored s (kind_of x))(ObjectKeyFromObject x \<mapsto> y))"
  using update_result [OF assms(1)] assms(2,3) by (auto simp del: fun_upd_apply)

lemma ApplyNetworkPolicy_establishes:
  assumes "ApplyNetworkPolicy api x w = (Ok b, w')"
    and plain: "plain_keys (om_Labels (np_Meta x))" "plain_keys (om_Annotations (np_Meta x))" "om_Name (np_Meta x) \<noteq> ''''"
    and live: "\<And>y. stored (w_cluster w) KNetworkPolicy (ObjectKeyFromObject (ONetworkPolicy x)) = Some y \<Longrightarrow> \<not> released y"
  shows "\<exists>y. policy_as x y \<and> stored (w_cluster w') = (stored (w_cluster w))(KNetworkPolicy :=
     (stored (w_cluster w) KNetworkPolicy)(ObjectKeyFromObject (ONetworkPolicy x) \<mapsto> y))"
proof -
  let ?key = "ObjectKeyFromObject (ONetworkPolicy x)"
  obtain g c where g: "api_Get api KNetworkPolicy ?key (w_cluster w) = (g, c)" by fastforce
  have c: "stored c = stored (w_cluster w)" using get_keeps [of KNetworkPolicy ?key "w_cluster w"] g by simp
  have found: "stored (w_cluster w) KNetworkPolicy ?key = Some (ONetworkPolicy z)" "om_Namespace (np_Meta z) = om_Namespace (np_Meta x)"
    "om_Name (np_Meta z) = om_Name (np_Meta x)" if "g = Ok (ONetworkPolicy z)" for z
    using get_Ok [OF g [unfolded that]] stored_kind by (fastforce simp: ObjectKeyFromObject_def)+
  from assms(1) g show ?thesis
  proof (cases rule: ApplyNetworkPolicy_cases)
    case (unchanged z m)
    note f = found [OF unchanged(1)]
    have "policy_as x (ONetworkPolicy z)"
      using EnsureObjectMeta_result(2) [OF plain(1,2) f(2,3) unchanged(2)] unchanged(3) by (simp add: policy_as_def)
    with stored_again [OF f(1)] unchanged(4) c show ?thesis by metis
  next
    case (updated z modified m y)
    note f = found [OF updated(1)]
    note meta = EnsureObjectMeta_result [OF plain(1,2) f(2,3) updated(2)]
    have key: "ObjectKeyFromObject (ONetworkPolicy (policyUpdate z m x)) = ?key" using meta(3,4) by (simp add: ObjectKeyFromObject_def)
    have "\<not> released (ONetworkPolicy (policyUpdate z m x))" using live [OF f(1)] meta(5,6) by (simp add: released_def)
    moreover have "keep_status old (ONetworkPolicy p) = ONetworkPolicy p" for old p by (cases old) simp_all
    ultimately have same: "same_content (ONetworkPolicy (policyUpdate z m x)) y"
      and st: "stored (w_cluster w') = (stored c)(KNetworkPolicy := (stored c KNetworkPolicy)(?key \<mapsto> y))"
      using update_live [OF updated(3)] key by simp_all
    from same_content_policy [OF same] meta(1) have "policy_as x y" by (auto simp: policy_as_def labelled_as_def)
    with st c show ?thesis by metis
  next
    case (created err y)
    from created(2) WithClean_plain [of "ONetworkPolicy x"] plain have "api_Create api (ONetworkPolicy x) c = (Ok y, w_cluster w')" by simp
    from create_named [OF this] plain(3) have same: "same_content (ONetworkPolicy x) y"
      and st: "stored (w_cluster w') = (stored c)(KNetworkPolicy := (stored c KNetworkPolicy)(?key \<mapsto> y))" by simp_all
    from same_content_policy [OF same] have "policy_as x y" by (auto simp: policy_as_def labelled_as_def)
    with st c show ?thesis by metis
  qed
qed

end

end
