(* ===== verification/CM_Controllers.thy ===== *)
theory CM_Controllers
  imports Resource_Apply CM_Pipeline
begin

text \<open>
  The small controllers of \<open>pkg/controller/certmanager\<close>: network policies
  (\<open>cert_manager_networkpolicy.go\<close>) and console samples (\<open>console_resources.go\<close>).  What the informer's
  lister answers when the function runs is the argument \<open>cached\<close>.
\<close>

section \<open>cert_manager_networkpolicy.go\<close>

definition CAInjector :: string where "CAInjector = ''CAInjector''"
definition CoreController :: string where "CoreController = ''CoreController''"
definition Webhook :: string where "Webhook = ''Webhook''"

definition certManagerNamespace :: string where "certManagerNamespace = ''cert-manager''"
definition networkPolicyOwnerLabel :: string where
  "networkPolicyOwnerLabel = ''cert-manager.operator.openshift.io/owned-by''"

definition certManagerNetworkPolicyAssetFiles :: "string list" where
  "certManagerNetworkPolicyAssetFiles =
     [''networkpolicies/cert-manager-deny-all-networkpolicy.yaml'',
      ''networkpolicies/cert-manager-allow-egress-to-api-server-networkpolicy.yaml'',
      ''networkpolicies/cert-manager-allow-ingress-to-metrics-networkpolicy.yaml'',
      ''networkpolicies/cert-manager-allow-ingress-to-webhook-networkpolicy.yaml'',
      ''networkpolicies/cert-manager-allow-egress-to-dns-networkpolicy.yaml'']"

definition shouldApplyNetworkPolicies :: "CertManager res \<Rightarrow> bool" where
  "shouldApplyNetworkPolicies cached = (case cached of
      Ok certManager \<Rightarrow> DefaultNetworkPolicy (cm_Spec certManager) = ''true''
    | _ \<Rightarrow> False)"

text \<open>
  The manifests the static-resources controller applies: none unconditionally, the default policies under
  the condition; there is no condition for deleting them.
\<close>

definition staticNetworkPolicyFiles :: "CertManager res \<Rightarrow> string list" where
  "staticNetworkPolicyFiles cached = [] @ (if shouldApplyNetworkPolicies cached then certManagerNetworkPolicyAssetFiles else [])"

definition validateComponentName :: "string \<Rightarrow> unit res" where
  "validateComponentName componentName =
     (if componentName = CoreController \<or> componentName = CAInjector \<or> componentName = Webhook then Ok ()
      else Err (ErrNew (''unsupported component name: '' @ componentName)))"

fun validatePolicies :: "nat \<Rightarrow> UserNetworkPolicy list \<Rightarrow> unit res" where
  "validatePolicies i [] = Ok ()"
| "validatePolicies i (policy # ps) =
     (if unp_Name policy = '''' then Err (ErrNew (''network policy at index '' @ show_nat i @ '': name cannot be empty''))
      else bindR (wrapR (''network policy at index '' @ show_nat i @ '': invalid component name: '')
                   (validateComponentName (unp_ComponentName policy))) (\<lambda>_. validatePolicies (Suc i) ps))"

definition validateNetworkPolicyConfig :: "CertManager \<Rightarrow> unit res" where
  "validateNetworkPolicyConfig certManager = validatePolicies 0 (elems (NetworkPolicies (cm_Spec certManager)))"

definition appSelector :: "string \<Rightarrow> string \<Rightarrow> LabelSelector" where
  "appSelector k v = \<lparr>ls_MatchLabels = Some [(k, v)], ls_MatchExpressions = None\<rparr>"

definition getPodSelectorForComponent :: "string \<Rightarrow> LabelSelector" where
  "getPodSelectorForComponent component =
     (if component = CoreController then appSelector ''app'' ''cert-manager''
      else if component = CAInjector then appSelector ''app'' ''cainjector''
      else if component = Webhook then appSelector ''app'' ''webhook''
      else appSelector ''app.kubernetes.io/name'' ''cert-manager'')"

definition createUserNetworkPolicy :: "UserNetworkPolicy \<Rightarrow> NetworkPolicy" where
  "createUserNetworkPolicy userPolicy =
     \<lparr>np_Meta = empty_meta\<lparr>om_Name := ''cert-manager-user-'' @ unp_Name userPolicy, om_Namespace := certManagerNamespace,
        om_Labels := Some [(networkPolicyOwnerLabel, ''cert-manager'')]\<rparr>,
      np_PodSelector = getPodSelectorForComponent (unp_ComponentName userPolicy),
      np_Ingress = None, np_Egress = unp_Egress userPolicy, np_PolicyTypes = Some [''Egress'']\<rparr>"

definition cm_createOrUpdateNetworkPolicy :: "'c api \<Rightarrow> NetworkPolicy \<Rightarrow> (('c, 'x) world_scheme, unit) eff" where
  "cm_createOrUpdateNetworkPolicy api policy =
     bindM (wrapM ''failed to apply network policy: '' (ApplyNetworkPolicy api policy)) (\<lambda>_. returnM ())"

definition reconcileUserNetworkPolicies :: "'c api \<Rightarrow> CertManager \<Rightarrow> (('c, 'x) world_scheme, unit) eff" where
  "reconcileUserNetworkPolicies api certManager =
     forM (elems (NetworkPolicies (cm_Spec certManager))) (\<lambda>userPolicy.
       let policy = createUserNetworkPolicy userPolicy
       in wrapM (''failed to create/update user network policy '' @ om_Name (np_Meta policy) @ '': '')
            (cm_createOrUpdateNetworkPolicy api policy))"

text \<open>An error is recorded as an event before it is returned.\<close>

definition warnM :: "string \<Rightarrow> string \<Rightarrow> string \<Rightarrow> (('c, 'x) world_scheme, unit) eff \<Rightarrow> (('c, 'x) world_scheme, unit) eff" where
  "warnM reason message prefix m = bindM (attemptM m) (\<lambda>r. case r of
      Err err \<Rightarrow> seqM (Eventf ''Warning'' reason (message @ error_text err)) (failM (ErrWrap prefix err))
    | r \<Rightarrow> liftM r)"

definition networkPolicy_sync :: "'c api \<Rightarrow> CertManager res \<Rightarrow> (('c, 'x) world_scheme, unit) eff" where
  "networkPolicy_sync api cached = (case cached of
      Panic p \<Rightarrow> panicM p
    | Err err \<Rightarrow>
        if IsNotFound (Some err) then returnM () else failM (ErrWrap ''failed to get CertManager: '' err)
    | Ok certManager \<Rightarrow>
        if DefaultNetworkPolicy (cm_Spec certManager) \<noteq> ''true'' then returnM ()
        else
          seqM (warnM ''NetworkPolicyValidationFailed'' ''Network policy configuration validation failed: ''
                 ''network policy configuration validation failed: ''
                 (liftM (validateNetworkPolicyConfig certManager)))
            (warnM ''UserNetworkPolicyReconcileFailed'' ''Failed to reconcile user network policies: ''
               ''failed to reconcile user network policies: '' (reconcileUserNetworkPolicies api certManager)))"

section \<open>console_resources.go\<close>

definition yamlSampleAssetFiles :: "string list" where
  "yamlSampleAssetFiles = [''console/cert-manager-acme-issuer-sample.yaml'',
     ''console/cert-manager-certificate-sample.yaml'', ''console/cert-manager-issuer-sample.yaml'']"

definition quickStartAssetFiles :: "string list" where
  "quickStartAssetFiles = [''console/cert-manager-example-quickstart.yaml'']"

text \<open>\<open>loadAssets\<close> stops the process at the first manifest that is missing or does not decode.\<close>

fun loadAssets :: "(string \<Rightarrow> string res) \<Rightarrow> (string \<Rightarrow> obj res) \<Rightarrow> string list \<Rightarrow> obj list res" where
  "loadAssets asset unmarshalStrict [] = Ok []"
| "loadAssets asset unmarshalStrict (name # names) = (case asset name of
      Ok data \<Rightarrow> (case unmarshalStrict data of
          Ok x \<Rightarrow> bindR (loadAssets asset unmarshalStrict names) (\<lambda>xs. Ok (x # xs))
        | Err err \<Rightarrow> Panic (''failed to decode console asset '' @ name @ '': '' @ error_text err)
        | Panic p \<Rightarrow> Panic p)
    | Err err \<Rightarrow> Panic (''failed to read console asset '' @ name @ '': '' @ error_text err)
    | Panic p \<Rightarrow> Panic p)"

definition consoleSpec :: "obj \<Rightarrow> opaque" where
  "consoleSpec x = (case x of OConsoleYAMLSample m s \<Rightarrow> s | OConsoleQuickStart m s \<Rightarrow> s | _ \<Rightarrow> '''')"

definition withDesiredSpec :: "obj \<Rightarrow> obj \<Rightarrow> obj" where
  "withDesiredSpec existing desired = (case existing of
      OConsoleYAMLSample m s \<Rightarrow> OConsoleYAMLSample m (consoleSpec desired)
    | OConsoleQuickStart m s \<Rightarrow> OConsoleQuickStart m (consoleSpec desired)
    | _ \<Rightarrow> existing)"

definition applyConsoleResource :: "'c api \<Rightarrow> string \<Rightarrow> obj \<Rightarrow> (('c, 'x) world_scheme, unit) eff" where
  "applyConsoleResource api kind desired =
     (let name = om_Name (meta_of desired)
      in bindM (attemptM (onCluster (api_Get api (kind_of desired) ('''', name)))) (\<lambda>r. case r of
           Panic p \<Rightarrow> panicM p
         | Err err \<Rightarrow>
             if IsNotFound (Some err) then
               bindM (onCluster (api_Create api desired)) (\<lambda>_.
               Eventf ''Normal'' (kind @ ''Created'') (''Created '' @ kind @ '' '' @ quoted name))
             else failM err
         | Ok existing \<Rightarrow>
             if consoleSpec existing = consoleSpec desired then returnM ()
             else bindM (onCluster (api_Update api (withDesiredSpec existing desired))) (\<lambda>_.
                  Eventf ''Normal'' (kind @ ''Updated'') (''Updated '' @ kind @ '' '' @ quoted name))))"

text \<open>The loop goes on after an error and collects the errors.\<close>

fun collectM :: "('a \<Rightarrow> ('s, unit) eff) \<Rightarrow> 'a list \<Rightarrow> ('s, goerror list) eff" where
  "collectM f [] = returnM []"
| "collectM f (x # xs) = bindM (attemptM (f x)) (\<lambda>r.
     bindM (collectM f xs) (\<lambda>errs. returnM ((case r of Err e \<Rightarrow> [e] | _ \<Rightarrow> []) @ errs)))"

definition applyConsoleResources :: "'c api \<Rightarrow> string \<Rightarrow> obj list \<Rightarrow> (('c, 'x) world_scheme, goerror list) eff" where
  "applyConsoleResources api kind = collectM (\<lambda>desired.
     wrapM (''failed to apply '' @ kind @ ''/'' @ om_Name (meta_of desired) @ '': '') (applyConsoleResource api kind desired))"

text \<open>\<open>errors.Join\<close>: the result is the list of the joined errors, and nil when it is empty.\<close>

definition console_sync :: "'c api \<Rightarrow> obj list \<Rightarrow> obj list \<Rightarrow> (('c, 'x) world_scheme, goerror list) eff" where
  "console_sync api yamlSamples quickStarts =
     bindM (applyConsoleResources api ''ConsoleYAMLSample'' yamlSamples) (\<lambda>errs.
     bindM (applyConsoleResources api ''ConsoleQuickStart'' quickStarts) (\<lambda>errs'. returnM (errs @ errs')))"

section \<open>User-defined network policies\<close>

definition userPolicyPlace :: "UserNetworkPolicy \<Rightarrow> kind \<times> key" where
  "userPolicyPlace p = (KNetworkPolicy, certManagerNamespace, ''cert-manager-user-'' @ unp_Name p)"

lemma userPolicyPlace_key: "userPolicyPlace p = (KNetworkPolicy, ObjectKeyFromObject (ONetworkPolicy (createUserNetworkPolicy p)))"
  by (simp add: userPolicyPlace_def createUserNetworkPolicy_def ObjectKeyFromObject_def)

lemma userPolicy_plain:
  "plain_keys (om_Labels (np_Meta (createUserNetworkPolicy p)))" "plain_keys (om_Annotations (np_Meta (createUserNetworkPolicy p)))"
  "om_Name (np_Meta (createUserNetworkPolicy p)) \<noteq> ''''"
  by (simp_all add: createUserNetworkPolicy_def plain_keys_def removalKey_def networkPolicyOwnerLabel_def empty_meta_def)

text \<open>
  The API allows policy names of up to 253 characters; the name of the object is longer by the prefix,
  and so can exceed the limit the API server sets for the names of network policies.
\<close>

lemma userPolicy_name_length: "length (om_Name (np_Meta (createUserNetworkPolicy p))) = 18 + length (unp_Name p)"
  by (simp add: createUserNetworkPolicy_def)

lemma validatePolicies_Ok:
  "validatePolicies i ps = Ok () \<longleftrightarrow>
     (\<forall>p \<in> set ps. unp_Name p \<noteq> '''' \<and> unp_ComponentName p \<in> {CoreController, CAInjector, Webhook})"
  by (induction ps arbitrary: i) (auto simp: validateComponentName_def bindR_eq_Ok_iff split: if_splits)

lemma warnM_eq_Ok_iff [simp]: "warnM a b c m w = (Ok (), w') \<longleftrightarrow> m w = (Ok (), w')"
  by (auto simp: warnM_def eff_defs Eventf_def split: prod.splits res.splits)

abbreviation (input) objects_at :: "('c \<Rightarrow> kind \<Rightarrow> key \<Rightarrow> obj option) \<Rightarrow> ('c, 'x) world_scheme \<Rightarrow> kind \<times> key \<Rightarrow> obj option" where
  "objects_at stored w place \<equiv> stored (w_cluster w) (fst place) (snd place)"

context api_server
begin

lemma user_policies_loop:
  assumes "reconcileUserNetworkPolicies api cm w = (Ok (), w')"
    and "distinct (map unp_Name (elems (NetworkPolicies (cm_Spec cm))))"
    and "\<And>p y. p \<in> set (elems (NetworkPolicies (cm_Spec cm))) \<Longrightarrow> objects_at stored w (userPolicyPlace p) = Some y \<Longrightarrow> \<not> released y"
  shows "(\<forall>p \<in> set (elems (NetworkPolicies (cm_Spec cm))). \<exists>y. objects_at stored w' (userPolicyPlace p) = Some y \<and>
       policy_as (createUserNetworkPolicy p) y) \<and>
     (\<forall>a. a \<notin> userPolicyPlace ` set (elems (NetworkPolicies (cm_Spec cm))) \<longrightarrow> objects_at stored w' a = objects_at stored w a)"
proof (rule forM_each [where obs = "objects_at stored", OF assms(1) [unfolded reconcileUserNetworkPolicies_def Let_def]])
  show "distinct (map userPolicyPlace (elems (NetworkPolicies (cm_Spec cm))))"
    using assms(2) by (simp add: distinct_map inj_on_def userPolicyPlace_def)
  show "\<not> released y" if "p \<in> set (elems (NetworkPolicies (cm_Spec cm)))" "objects_at stored w (userPolicyPlace p) = Some y" for p y
    using assms(3) that .
  fix p v v'
  assume "wrapM (''failed to create/update user network policy '' @ om_Name (np_Meta (createUserNetworkPolicy p)) @ '': '')
       (cm_createOrUpdateNetworkPolicy api (createUserNetworkPolicy p)) v = (Ok (), v')"
  then obtain b where b: "ApplyNetworkPolicy api (createUserNetworkPolicy p) v = (Ok b, v')"
    by (auto simp: cm_createOrUpdateNetworkPolicy_def bindM_eq_Ok_iff)
  assume live: "\<And>y. objects_at stored v (userPolicyPlace p) = Some y \<Longrightarrow> \<not> released y"
  from ApplyNetworkPolicy_establishes [OF b userPolicy_plain] live obtain y where
    y: "policy_as (createUserNetworkPolicy p) y" "stored (w_cluster v') = (stored (w_cluster v))(KNetworkPolicy :=
      (stored (w_cluster v) KNetworkPolicy)(snd (userPolicyPlace p) \<mapsto> y))"
    unfolding userPolicyPlace_key fst_conv snd_conv by blast
  then have "objects_at stored v' = (objects_at stored v)(userPolicyPlace p \<mapsto> y)"
    by (auto simp: fun_eq_iff userPolicyPlace_key)
  with y(1) show "\<exists>y. policy_as (createUserNetworkPolicy p) y \<and> objects_at stored v' = (objects_at stored v)(userPolicyPlace p \<mapsto> y)"
    by blast
qed

end

text \<open>Pods a selector without expressions picks.\<close>

definition selects :: "LabelSelector \<Rightarrow> labels \<Rightarrow> bool" where
  "selects s podLabels \<longleftrightarrow> elems (ls_MatchExpressions s) = [] \<and>
     (\<forall>k v. mlookup (ls_MatchLabels s) k = Some v \<longrightarrow> mlookup podLabels k = Some v)"

definition component_app :: "string \<rightharpoonup> string" where
  "component_app = map_of [(CoreController, ''cert-manager''), (CAInjector, ''cainjector''), (Webhook, ''webhook'')]"

definition restricts_egress :: "UserNetworkPolicy \<Rightarrow> NetworkPolicy \<Rightarrow> bool" where
  "restricts_egress p z \<longleftrightarrow> elems (np_Egress z) = elems (unp_Egress p) \<and> elems (np_Ingress z) = [] \<and>
     elems (np_PolicyTypes z) = [''Egress''] \<and>
     (\<exists>app. component_app (unp_ComponentName p) = Some app \<and>
        (\<forall>podLabels. selects (np_PodSelector z) podLabels \<longleftrightarrow> mlookup podLabels ''app'' = Some app)) \<and>
     mlookup (om_Labels (np_Meta z)) networkPolicyOwnerLabel = Some ''cert-manager''"

lemma policy_restricts:
  assumes "policy_as (createUserNetworkPolicy p) y" "unp_ComponentName p \<in> {CoreController, CAInjector, Webhook}"
  shows "\<exists>z. y = ONetworkPolicy z \<and> restricts_egress p z"
proof -
  from assms(1) obtain z where z: "y = ONetworkPolicy z" "networkPolicySpecEqual z (createUserNetworkPolicy p)"
    "labelled_as (np_Meta (createUserNetworkPolicy p)) (np_Meta z)" by (auto simp: policy_as_def)
  from assms(2) obtain app where
    app: "component_app (unp_ComponentName p) = Some app" "getPodSelectorForComponent (unp_ComponentName p) = appSelector ''app'' app"
    by (auto simp: component_app_def getPodSelectorForComponent_def CoreController_def CAInjector_def Webhook_def)
  have "selects (np_PodSelector z) l \<longleftrightarrow> mlookup l ''app'' = Some app" for l
    using z(2) app(2)
    by (auto simp: selects_def networkPolicySpecEqual_def createUserNetworkPolicy_def appSelector_def maps_equal_iff mlookup_def)
  with z app(1) show ?thesis
    by (auto simp: restricts_egress_def networkPolicySpecEqual_def createUserNetworkPolicy_def labelled_as_def mlookup_def)
qed

text \<open>With the policies off, or with a policy it rejects, the controller leaves the cluster alone.\<close>

lemma networkPolicy_sync_off:
  "DefaultNetworkPolicy (cm_Spec cm) \<noteq> ''true'' \<Longrightarrow> networkPolicy_sync api (Ok cm) w = (Ok (), w)"
  by (simp add: networkPolicy_sync_def)

lemma networkPolicy_sync_invalid:
  assumes "validateNetworkPolicyConfig cm = Err e" "networkPolicy_sync api (Ok cm) w = (r, w')"
  shows "w_cluster w' = w_cluster w"
  using assms by (auto simp: networkPolicy_sync_def warnM_def eff_defs Eventf_def split: if_splits)

text \<open>
  C3.  When the controller for user-defined network policies succeeds with the policies switched on, each configured
  policy is stored under its own name in the operand namespace: it restricts egress to exactly the configured
  rules, leaves ingress alone and applies to the pods of the named component and no others; no other object
  of the cluster has changed.
\<close>

theorem user_network_policies_enforced:
  assumes "api_server api stored" and "networkPolicy_sync api (Ok cm) w = (Ok (), w')"
    and "DefaultNetworkPolicy (cm_Spec cm) = ''true''"
    and "distinct (map unp_Name (elems (NetworkPolicies (cm_Spec cm))))"
    and "\<forall>key x. stored (w_cluster w) KNetworkPolicy key = Some x \<longrightarrow> \<not> released x"
  shows "(\<forall>p \<in> set (elems (NetworkPolicies (cm_Spec cm))). \<exists>z.
        stored (w_cluster w') KNetworkPolicy (certManagerNamespace, ''cert-manager-user-'' @ unp_Name p) = Some (ONetworkPolicy z) \<and>
        restricts_egress p z) \<and>
     (\<forall>k key. (k, key) \<notin> (\<lambda>p. (KNetworkPolicy, certManagerNamespace, ''cert-manager-user-'' @ unp_Name p)) `
          set (elems (NetworkPolicies (cm_Spec cm))) \<longrightarrow>
        stored (w_cluster w') k key = stored (w_cluster w) k key)"
proof -
  from assms(2,3) have valid: "validateNetworkPolicyConfig cm = Ok ()"
    and run: "reconcileUserNetworkPolicies api cm w = (Ok (), w')"
    by (auto simp: networkPolicy_sync_def seqM_def bindM_eq_Ok_iff)
  from api_server.user_policies_loop [OF assms(1) run assms(4)] assms(5) have
    loop: "\<forall>p \<in> set (elems (NetworkPolicies (cm_Spec cm))). \<exists>y. objects_at stored w' (userPolicyPlace p) = Some y \<and>
       policy_as (createUserNetworkPolicy p) y"
    "\<forall>a. a \<notin> userPolicyPlace ` set (elems (NetworkPolicies (cm_Spec cm))) \<longrightarrow> objects_at stored w' a = objects_at stored w a"
    by (auto simp: userPolicyPlace_def)
  have "unp_ComponentName p \<in> {CoreController, CAInjector, Webhook}" if "p \<in> set (elems (NetworkPolicies (cm_Spec cm)))" for p
    using valid that unfolding validateNetworkPolicyConfig_def validatePolicies_Ok by blast
  with loop(1) policy_restricts have "\<forall>p \<in> set (elems (NetworkPolicies (cm_Spec cm))). \<exists>z.
      objects_at stored w' (userPolicyPlace p) = Some (ONetworkPolicy z) \<and> restricts_egress p z" by metis
  with loop(2) show ?thesis
    by (simp add: userPolicyPlace_def)
qed

text \<open>A policy that was edited by hand, and one that is missing.\<close>

definition demo_policies_cm :: CertManager where
  "demo_policies_cm = \<lparr>cm_Meta = empty_meta\<lparr>om_Name := ''cluster''\<rparr>,
     cm_Spec = CertManagerSpec.make
       \<lparr>os_ManagementState = ''Managed'', os_LogLevel = '''', os_UnsupportedConfigOverrides = '''', os_rest = ''''\<rparr>
       None None None ''true''
       (Some [\<lparr>unp_Name = ''dns'', unp_ComponentName = ''CoreController'', unp_Egress = Some [''53'']\<rparr>,
         \<lparr>unp_Name = ''deny'', unp_ComponentName = ''Webhook'', unp_Egress = None\<rparr>]),
     cm_Status = ''''\<rparr>"

definition demo_policies_world :: "store world" where
  "demo_policies_world = \<lparr>w_cluster = put_obj (ONetworkPolicy ((createUserNetworkPolicy
       \<lparr>unp_Name = ''dns'', unp_ComponentName = ''CoreController'', unp_Egress = Some [''any'']\<rparr>)\<lparr>np_Ingress := Some [''any'']\<rparr>)) empty_store,
     w_events = []\<rparr>"

lemma demo_policies_ok: "is_ok (fst (networkPolicy_sync store_api (Ok demo_policies_cm) demo_policies_world))"
  by code_simp

theorem user_network_policies_enforced_witness:
  "\<exists>w' z. networkPolicy_sync store_api (Ok demo_policies_cm) demo_policies_world = (Ok (), w') \<and>
     objs_in (w_cluster w') KNetworkPolicy (''cert-manager'', ''cert-manager-user-dns'') = Some (ONetworkPolicy z) \<and>
     elems (np_Egress z) = [''53''] \<and> elems (np_Ingress z) = []"
proof -
  obtain w' where r: "networkPolicy_sync store_api (Ok demo_policies_cm) demo_policies_world = (Ok (), w')"
    using demo_policies_ok by (metis fst_conv is_ok_iff old.unit.exhaust surj_pair)
  have live: "\<forall>key x. objs_in (w_cluster demo_policies_world) KNetworkPolicy key = Some x \<longrightarrow> \<not> released x"
    by (auto simp: demo_policies_world_def stored_put_obj objs_in_def empty_store_def released_def createUserNetworkPolicy_def
        empty_meta_def split: if_splits)
  have "DefaultNetworkPolicy (cm_Spec demo_policies_cm) = ''true''"
    "distinct (map unp_Name (elems (NetworkPolicies (cm_Spec demo_policies_cm))))"
    by (simp_all add: demo_policies_cm_def CertManagerSpec.make_def)
  from user_network_policies_enforced [OF mem.api_server_axioms r this live] r show ?thesis
    by (auto simp: demo_policies_cm_def CertManagerSpec.make_def restricts_egress_def certManagerNamespace_def)
qed

section \<open>Console resources\<close>

definition console_resource :: "obj \<Rightarrow> bool" where
  "console_resource x \<longleftrightarrow> (kind_of x = KConsoleYAMLSample \<or> kind_of x = KConsoleQuickStart) \<and>
     om_Namespace (meta_of x) = '''' \<and> om_Name (meta_of x) \<noteq> ''''"

definition console_as :: "obj \<Rightarrow> obj \<Rightarrow> bool" where
  "console_as x y \<longleftrightarrow> kind_of y = kind_of x \<and> consoleSpec y = consoleSpec x"

lemma console_cases:
  assumes "kind_of x = KConsoleYAMLSample \<or> kind_of x = KConsoleQuickStart"
  obtains m s where "x = OConsoleYAMLSample m s" | m s where "x = OConsoleQuickStart m s"
  using assms by (cases x) auto

lemma same_content_console:
  assumes "same_content x y" "kind_of x = KConsoleYAMLSample \<or> kind_of x = KConsoleQuickStart"
  shows "console_as x y"
proof -
  have k: "kind_of y = kind_of x" using same_content_kind [OF assms(1)] by simp
  show ?thesis
    using assms(2) by (rule console_cases; use k assms in \<open>cases y\<close>)
      (simp_all add: same_content_def console_as_def consoleSpec_def)
qed

lemma withDesiredSpec_simps:
  assumes "kind_of e = kind_of x" "kind_of x = KConsoleYAMLSample \<or> kind_of x = KConsoleQuickStart"
  shows "kind_of (withDesiredSpec e x) = kind_of x" "meta_of (withDesiredSpec e x) = meta_of e"
    "consoleSpec (withDesiredSpec e x) = consoleSpec x" "keep_status old (withDesiredSpec e x) = withDesiredSpec e x"
proof -
  have "kind_of e = KConsoleYAMLSample \<or> kind_of e = KConsoleQuickStart" using assms by simp
  then obtain m s where "withDesiredSpec e x = OConsoleYAMLSample m (consoleSpec x) \<and> e = OConsoleYAMLSample m s \<or>
      withDesiredSpec e x = OConsoleQuickStart m (consoleSpec x) \<and> e = OConsoleQuickStart m s"
    by (rule console_cases) (auto simp: withDesiredSpec_def)
  with assms(1) show "kind_of (withDesiredSpec e x) = kind_of x" "meta_of (withDesiredSpec e x) = meta_of e"
    "consoleSpec (withDesiredSpec e x) = consoleSpec x" "keep_status old (withDesiredSpec e x) = withDesiredSpec e x"
    by (cases old; auto simp: consoleSpec_def)+
qed

definition consolePlace :: "obj \<Rightarrow> kind \<times> key" where
  "consolePlace x = (kind_of x, '''', om_Name (meta_of x))"

lemma collectM_nil: "collectM f xs w = (Ok [], w') \<Longrightarrow> forM xs f w = (Ok (), w')"
proof (induction xs arbitrary: w)
  case (Cons x xs)
  then obtain r v errs where r: "attemptM (f x) w = (Ok r, v)" "collectM f xs v = (Ok errs, w')"
    "(case r of Err e \<Rightarrow> [e] | _ \<Rightarrow> []) @ errs = []" by (auto simp: bindM_eq_Ok_iff)
  then have "collectM f xs v = (Ok [], w')" by simp
  note IH = Cons.IH [OF this]
  have "f x w = (Ok (), v)" using r(1,3) by (auto simp: attemptM_def split: prod.splits res.splits)
  with IH show ?case by (simp add: bindM_def)
qed simp

text \<open>One failing resource does not keep the controller from the others: the loop always runs to its end.\<close>

lemma collectM_total:
  assumes "\<And>x v p. x \<in> set xs \<Longrightarrow> fst (f x v) \<noteq> Panic p"
  shows "\<exists>errs w'. collectM f xs w = (Ok errs, w') \<and> length errs \<le> length xs"
  using assms
proof (induction xs arbitrary: w)
  case (Cons x xs)
  obtain r v where r: "f x w = (r, v)" by fastforce
  have np: "r \<noteq> Panic p" for p using Cons.prems [of x w p] r by auto
  from Cons.IH [of v] Cons.prems obtain errs w' where "collectM f xs v = (Ok errs, w')" "length errs \<le> length xs" by auto
  with r np show ?case by (cases r) (auto simp: bindM_def attemptM_def)
qed simp

context api_server
begin

lemma applyConsoleResource_establishes:
  fixes w w' :: "('c, 'x) world_scheme"
  assumes "applyConsoleResource api k x w = (Ok (), w')" "console_resource x"
    and live: "\<And>y. objects_at stored w (consolePlace x) = Some y \<Longrightarrow> \<not> released y"
  shows "\<exists>y. console_as x y \<and> objects_at stored w' = (objects_at stored w)(consolePlace x \<mapsto> y)"
proof -
  let ?key = "('''', om_Name (meta_of x))"
  have x: "kind_of x = KConsoleYAMLSample \<or> kind_of x = KConsoleQuickStart" "om_Name (meta_of x) \<noteq> ''''"
    "ObjectKeyFromObject x = ?key" using assms(2) by (auto simp: console_resource_def ObjectKeyFromObject_def)
  have place: "objects_at stored v' = (objects_at stored v)(consolePlace x \<mapsto> y)"
    if "stored (w_cluster v') = (stored (w_cluster v))(kind_of x := (stored (w_cluster v) (kind_of x))(?key \<mapsto> y))"
    for v v' :: "('c, 'x) world_scheme" and y
    unfolding that by (auto simp: fun_eq_iff consolePlace_def)
  obtain g c where g: "api_Get api (kind_of x) ?key (w_cluster w) = (g, c)" by fastforce
  have c: "stored c = stored (w_cluster w)" using get_keeps [of "kind_of x" ?key "w_cluster w"] g by simp
  show ?thesis
  proof (cases g)
    case (Ok e)
    from get_Ok [OF g [unfolded Ok]] have e: "stored (w_cluster w) (kind_of x) ?key = Some e" .
    from stored_kind [OF e] have ek: "kind_of e = kind_of x" "ObjectKeyFromObject e = ?key" by auto
    note spec = withDesiredSpec_simps [OF ek(1) x(1)]
    show ?thesis
    proof (cases "consoleSpec e = consoleSpec x")
      case True
      with assms(1) g Ok have w': "w_cluster w' = c" by (auto simp: applyConsoleResource_def Let_def eff_defs onCluster_def)
      have "console_as x e" using True ek by (simp add: console_as_def)
      with place [OF stored_again [OF e, folded c, folded w', unfolded c]] w' c show ?thesis by auto
    next
      case False
      with assms(1) g Ok obtain y d where y: "api_Update api (withDesiredSpec e x) c = (Ok y, d)" "w_cluster w' = d"
        by (auto simp: applyConsoleResource_def Let_def eff_defs onCluster_def Eventf_def split: prod.splits res.splits)
      have "\<not> released (withDesiredSpec e x)"
        using live [of e] e spec(2) by (simp add: consolePlace_def released_def)
      with update_live [OF y(1)] c spec ek have same: "same_content (withDesiredSpec e x) y"
        and st: "stored (w_cluster w') = (stored (w_cluster w))(kind_of x := (stored (w_cluster w) (kind_of x))(?key \<mapsto> y))"
        by (simp_all add: ObjectKeyFromObject_def y(2))
      from same_content_console [OF same] spec x(1) have "console_as x y" by (simp add: console_as_def)
      with place [OF st] show ?thesis by blast
    qed
  next
    case (Err err)
    with assms(1) g obtain y d where y: "api_Create api x c = (Ok y, d)" "w_cluster w' = d"
      by (auto simp: applyConsoleResource_def Let_def eff_defs onCluster_def Eventf_def split: prod.splits res.splits if_splits)
    from create_Ok [OF y(1)] x c have same: "same_content x y"
      and st: "stored (w_cluster w') = (stored (w_cluster w))(kind_of x := (stored (w_cluster w) (kind_of x))(?key \<mapsto> y))"
      by (auto simp: y(2))
    from same_content_console [OF same x(1)] place [OF st] show ?thesis by blast
  next
    case (Panic p)
    with assms(1) g show ?thesis by (simp add: applyConsoleResource_def Let_def eff_defs onCluster_def)
  qed
qed

text \<open>Without errors every sample and quick start is stored as shipped.\<close>

lemma applyConsoleResources_establish:
  assumes "applyConsoleResources api k xs w = (Ok [], w')" "\<And>x. x \<in> set xs \<Longrightarrow> console_resource x"
    and "distinct (map consolePlace xs)"
    and "\<And>x y. x \<in> set xs \<Longrightarrow> objects_at stored w (consolePlace x) = Some y \<Longrightarrow> \<not> released y"
  shows "(\<forall>x \<in> set xs. \<exists>y. objects_at stored w' (consolePlace x) = Some y \<and> console_as x y) \<and>
     (\<forall>a. a \<notin> consolePlace ` set xs \<longrightarrow> objects_at stored w' a = objects_at stored w a)"
proof (rule forM_each [where obs = "objects_at stored", OF collectM_nil [OF assms(1) [unfolded applyConsoleResources_def]] assms(3)])
  fix x v v'
  assume x: "x \<in> set xs" "\<And>y. objects_at stored v (consolePlace x) = Some y \<Longrightarrow> \<not> released y"
    and "wrapM (''failed to apply '' @ k @ ''/'' @ om_Name (meta_of x) @ '': '') (applyConsoleResource api k x) v = (Ok (), v')"
  then have "applyConsoleResource api k x v = (Ok (), v')" by simp
  from applyConsoleResource_establishes [OF this assms(2) [OF x(1)] x(2)]
  show "\<exists>y. console_as x y \<and> objects_at stored v' = (objects_at stored v)(consolePlace x \<mapsto> y)" .
qed (rule assms(4))

end

end
