(* ===== verification/CM_Controller_Set.thy ===== *)
theory CM_Controller_Set
  imports CM_Controllers
begin

text \<open>
  The controllers of the cert-manager operand and what each manages: \<open>cert_manager_controller_set.go\<close> with the
  constructors in \<open>cert_manager_controller_deployment.go\<close>, \<open>cert_manager_webhook_deployment.go\<close>,
  \<open>cert_manager_cainjector_deployment.go\<close>, \<open>cert_manager_networkpolicy.go\<close> and \<open>console_resources.go\<close>.  A
  controller is described by its name and its manifests; clients, informers and recorders are left out.
  The deployment a deployment controller applies is that of theory CM_Pipeline.
\<close>

section \<open>Names and manifests\<close>

definition operatorName :: string where "operatorName = ''cert-manager''"

definition certManagerControllerStaticResourcesControllerName :: string where
  "certManagerControllerStaticResourcesControllerName = operatorName @ ''-controller-static-resources-''"
definition certManagerControllerDeploymentControllerName :: string where
  "certManagerControllerDeploymentControllerName = operatorName @ ''-controller-deployment''"
definition certManagerControllerDeploymentFile :: string where
  "certManagerControllerDeploymentFile = ''cert-manager-deployment/controller/cert-manager-deployment.yaml''"

definition certManagerControllerAssetFiles :: "string list" where
  "certManagerControllerAssetFiles =
     [''cert-manager-deployment/cert-manager-namespace.yaml'',
      ''cert-manager-deployment/controller/cert-manager-cluster-view-cr.yaml'',
      ''cert-manager-deployment/controller/cert-manager-controller-certificates-cr.yaml'',
      ''cert-manager-deployment/controller/cert-manager-controller-certificates-crb.yaml'',
      ''cert-manager-deployment/controller/cert-manager-controller-challenges-cr.yaml'',
      ''cert-manager-deployment/controller/cert-manager-controller-challenges-crb.yaml'',
      ''cert-manager-deployment/controller/cert-manager-controller-clusterissuers-cr.yaml'',
      ''cert-manager-deployment/controller/cert-manager-controller-clusterissuers-crb.yaml'',
      ''cert-manager-deployment/controller/cert-manager-controller-ingress-shim-cr.yaml'',
      ''cert-manager-deployment/controller/cert-manager-controller-ingress-shim-crb.yaml'',
      ''cert-manager-deployment/controller/cert-manager-controller-issuers-cr.yaml'',
      ''cert-manager-deployment/controller/cert-manager-controller-issuers-crb.yaml'',
      ''cert-manager-deployment/controller/cert-manager-controller-orders-cr.yaml'',
      ''cert-manager-deployment/controller/cert-manager-controller-orders-crb.yaml'',
      ''cert-manager-deployment/controller/cert-manager-edit-cr.yaml'',
      ''cert-manager-deployment/controller/cert-manager-leaderelection-rb.yaml'',
      ''cert-manager-deployment/controller/cert-manager-leaderelection-role.yaml'',
      ''cert-manager-deployment/controller/cert-manager-sa.yaml'',
      ''cert-manager-deployment/controller/cert-manager-svc.yaml'',
      ''cert-manager-deployment/controller/cert-manager-view-cr.yaml'',
      ''cert-manager-deployment/metrics-dynamic-serving/cert-manager-metrics-dynamic-serving-role.yaml'',
      ''cert-manager-deployment/metrics-dynamic-serving/cert-manager-metrics-dynamic-serving-rb.yaml'',
      ''cert-manager-deployment/cert-manager/cert-manager-controller-approve-cert-manager-io-cr.yaml'',
      ''cert-manager-deployment/cert-manager/cert-manager-controller-approve-cert-manager-io-crb.yaml'',
      ''cert-manager-deployment/cert-manager/cert-manager-controller-certificatesigningrequests-cr.yaml'',
      ''cert-manager-deployment/cert-manager/cert-manager-controller-certificatesigningrequests-crb.yaml'']"

definition certManagerWebhookStaticResourcesControllerName :: string where
  "certManagerWebhookStaticResourcesControllerName = operatorName @ ''-webhook-static-resources-''"
definition certManagerWebhookDeploymentControllerName :: string where
  "certManagerWebhookDeploymentControllerName = operatorName @ ''-webhook-deployment''"
definition certManagerWebhookDeploymentFile :: string where
  "certManagerWebhookDeploymentFile = ''cert-manager-deployment/webhook/cert-manager-webhook-deployment.yaml''"

definition certManagerWebhookAssetFiles :: "string list" where
  "certManagerWebhookAssetFiles =
     [''cert-manager-deployment/webhook/cert-manager-webhook-mutatingwebhookconfiguration.yaml'',
      ''cert-manager-deployment/webhook/cert-manager-webhook-validatingwebhookconfiguration.yaml'',
      ''cert-manager-deployment/webhook/cert-manager-webhook-dynamic-serving-rb.yaml'',
      ''cert-manager-deployment/webhook/cert-manager-webhook-dynamic-serving-role.yaml'',
      ''cert-manager-deployment/webhook/cert-manager-webhook-sa.yaml'',
      ''cert-manager-deployment/webhook/cert-manager-webhook-subjectaccessreviews-cr.yaml'',
      ''cert-manager-deployment/webhook/cert-manager-webhook-subjectaccessreviews-crb.yaml'',
      ''cert-manager-deployment/webhook/cert-manager-webhook-svc.yaml'']"

definition certManagerCAInjectorStaticResourcesControllerName :: string where
  "certManagerCAInjectorStaticResourcesControllerName = operatorName @ ''-cainjector-static-resources-''"
definition certManagerCAInjectorDeploymentControllerName :: string where
  "certManagerCAInjectorDeploymentControllerName = operatorName @ ''-cainjector-deployment''"
definition certManagerCAInjectorDeploymentFile :: string where
  "certManagerCAInjectorDeploymentFile = ''cert-manager-deployment/cainjector/cert-manager-cainjector-deployment.yaml''"

definition certManagerCAInjectorAssetFiles :: "string list" where
  "certManagerCAInjectorAssetFiles =
     [''cert-manager-deployment/cainjector/cert-manager-cainjector-cr.yaml'',
      ''cert-manager-deployment/cainjector/cert-manager-cainjector-crb.yaml'',
      ''cert-manager-deployment/cainjector/cert-manager-cainjector-leaderelection-rb.yaml'',
      ''cert-manager-deployment/cainjector/cert-manager-cainjector-leaderelection-role.yaml'',
      ''cert-manager-deployment/cainjector/cert-manager-cainjector-sa.yaml'',
      ''cert-manager-deployment/cainjector/cert-manager-cainjector-svc.yaml'']"

definition certManagerNetworkPolicyStaticResourcesControllerName :: string where
  "certManagerNetworkPolicyStaticResourcesControllerName = operatorName @ ''-networkpolicy-static-resources-''"
definition certManagerNetworkPolicyUserDefinedControllerName :: string where
  "certManagerNetworkPolicyUserDefinedControllerName = operatorName @ ''-networkpolicy-user-defined''"
definition consoleResourcesControllerName :: string where
  "consoleResourcesControllerName = operatorName @ ''-console-resources''"

section \<open>Constructors\<close>

datatype controller =
    StaticResources string "CertManager res \<Rightarrow> string list"
  | DeploymentController string string
  | SyncController string

fun controller_name :: "controller \<Rightarrow> string" where
  "controller_name (StaticResources n fs) = n"
| "controller_name (DeploymentController n f) = n"
| "controller_name (SyncController n) = n"

text \<open>The manifests a controller applies in the state the lister shows.\<close>

fun manifests :: "CertManager res \<Rightarrow> controller \<Rightarrow> string list" where
  "manifests cached (StaticResources n fs) = fs cached"
| "manifests cached (DeploymentController n f) = [f]"
| "manifests cached (SyncController n) = []"

definition NewCertManagerControllerStaticResourcesController :: controller where
  "NewCertManagerControllerStaticResourcesController =
     StaticResources certManagerControllerStaticResourcesControllerName (\<lambda>_. certManagerControllerAssetFiles)"

definition NewCertManagerControllerDeploymentController :: controller where
  "NewCertManagerControllerDeploymentController =
     DeploymentController certManagerControllerDeploymentControllerName certManagerControllerDeploymentFile"

definition NewCertManagerWebhookStaticResourcesController :: controller where
  "NewCertManagerWebhookStaticResourcesController =
     StaticResources certManagerWebhookStaticResourcesControllerName (\<lambda>_. certManagerWebhookAssetFiles)"

definition NewCertManagerWebhookDeploymentController :: controller where
  "NewCertManagerWebhookDeploymentController =
     DeploymentController certManagerWebhookDeploymentControllerName certManagerWebhookDeploymentFile"

definition NewCertManagerCAInjectorStaticResourcesController :: controller where
  "NewCertManagerCAInjectorStaticResourcesController =
     StaticResources certManagerCAInjectorStaticResourcesControllerName (\<lambda>_. certManagerCAInjectorAssetFiles)"

definition NewCertManagerCAInjectorDeploymentController :: controller where
  "NewCertManagerCAInjectorDeploymentController =
     DeploymentController certManagerCAInjectorDeploymentControllerName certManagerCAInjectorDeploymentFile"

definition NewCertManagerNetworkPolicyStaticResourcesController :: controller where
  "NewCertManagerNetworkPolicyStaticResourcesController =
     StaticResources certManagerNetworkPolicyStaticResourcesControllerName staticNetworkPolicyFiles"

definition NewCertManagerNetworkPolicyUserDefinedController :: controller where
  "NewCertManagerNetworkPolicyUserDefinedController = SyncController certManagerNetworkPolicyUserDefinedControllerName"

definition NewConsoleResourcesController :: controller where
  "NewConsoleResourcesController = SyncController consoleResourcesControllerName"

section \<open>cert_manager_controller_set.go\<close>

record CertManagerControllerSet =
  certManagerControllerStaticResourcesController :: controller
  certManagerControllerDeploymentController :: controller
  certManagerWebhookStaticResourcesController :: controller
  certManagerWebhookDeploymentController :: controller
  certManagerCAInjectorStaticResourcesController :: controller
  certManagerCAInjectorDeploymentController :: controller
  certManagerNetworkPolicyStaticResourcesController :: controller
  certManagerNetworkPolicyUserDefinedController :: controller
  consoleResourcesController :: "controller option"

definition ToArray :: "CertManagerControllerSet \<Rightarrow> controller list" where
  "ToArray c =
     [certManagerControllerStaticResourcesController c,
      certManagerControllerDeploymentController c,
      certManagerWebhookStaticResourcesController c,
      certManagerWebhookDeploymentController c,
      certManagerCAInjectorStaticResourcesController c,
      certManagerCAInjectorDeploymentController c,
      certManagerNetworkPolicyStaticResourcesController c,
      certManagerNetworkPolicyUserDefinedController c]
     @ (case consoleResourcesController c of None \<Rightarrow> [] | Some x \<Rightarrow> [x])"

text \<open>The console client is absent on clusters without a console.\<close>

definition NewCertManagerControllerSet :: "bool \<Rightarrow> CertManagerControllerSet" where
  "NewCertManagerControllerSet hasConsoleClient =
     \<lparr>certManagerControllerStaticResourcesController = NewCertManagerControllerStaticResourcesController,
      certManagerControllerDeploymentController = NewCertManagerControllerDeploymentController,
      certManagerWebhookStaticResourcesController = NewCertManagerWebhookStaticResourcesController,
      certManagerWebhookDeploymentController = NewCertManagerWebhookDeploymentController,
      certManagerCAInjectorStaticResourcesController = NewCertManagerCAInjectorStaticResourcesController,
      certManagerCAInjectorDeploymentController = NewCertManagerCAInjectorDeploymentController,
      certManagerNetworkPolicyStaticResourcesController = NewCertManagerNetworkPolicyStaticResourcesController,
      certManagerNetworkPolicyUserDefinedController = NewCertManagerNetworkPolicyUserDefinedController,
      consoleResourcesController = (if hasConsoleClient then Some NewConsoleResourcesController else None)\<rparr>"

section \<open>Separation of the controllers\<close>

text \<open>
  Each controller reports under a name of its own, so that no two of them overwrite each other's conditions;
  the default network policies are applied only when they are switched on.
\<close>

lemma controller_names_distinct: "distinct (map controller_name (ToArray (NewCertManagerControllerSet console)))"
proof -
  have "distinct (map controller_name (ToArray (NewCertManagerControllerSet True)))"
    "distinct (map controller_name (ToArray (NewCertManagerControllerSet False)))" by code_simp+
  then show ?thesis by (cases console) simp_all
qed

lemma static_files_off:
  "\<not> shouldApplyNetworkPolicies cached \<Longrightarrow> manifests cached NewCertManagerNetworkPolicyStaticResourcesController = []"
  by (simp add: NewCertManagerNetworkPolicyStaticResourcesController_def staticNetworkPolicyFiles_def)

end
