(* ===== verification/Operator_Client.thy ===== *)
theory Operator_Client
  imports CM_Controller_Set "HOL-Library.List_Lexorder" "HOL-Library.Char_ord"
begin

text \<open>
  The operator client behind library-go's controllers (\<open>pkg/operator/operatorclient/operatorclient.go\<close>) and the
  controller that creates the default \<open>CertManager\<close> (\<open>default_cert_manager_controller.go\<close>).  Reads that go to the
  informer's cache take its answer as the argument \<open>cached\<close>; writes go to the API server.  The apply of a
  status, the extraction of the fields a manager owns and the JSON round trip are generated code and
  parameters.
\<close>

section \<open>Reads\<close>

definition clusterKey :: key where "clusterKey = ('''', ''cluster'')"

definition the_certmanager :: "obj \<Rightarrow> CertManager res" where
  "the_certmanager x = (case x of OCertManager c \<Rightarrow> Ok c | _ \<Rightarrow> Panic ''unexpected object type'')"

definition operatorState :: "CertManager \<Rightarrow> OperatorSpec \<times> opaque \<times> string" where
  "operatorState i = (cms_OperatorSpec (cm_Spec i), cm_Status i, om_ResourceVersion (cm_Meta i))"

definition GetObjectMeta :: "CertManager res \<Rightarrow> ObjectMeta res" where
  "GetObjectMeta cached = bindR cached (\<lambda>i. Ok (cm_Meta i))"

definition GetOperatorState :: "CertManager res \<Rightarrow> (OperatorSpec \<times> opaque \<times> string) res" where
  "GetOperatorState cached = bindR cached (\<lambda>i. Ok (operatorState i))"

definition GetOperatorStateWithQuorum :: "'c api \<Rightarrow> ('c, OperatorSpec \<times> opaque \<times> string) eff" where
  "GetOperatorStateWithQuorum api =
     bindM (api_Get api KCertManager clusterKey) (\<lambda>x. bindM (liftM (the_certmanager x)) (\<lambda>i. returnM (operatorState i)))"

definition GetUnsupportedConfigOverrides ::
  "(string \<Rightarrow> UnsupportedConfigOverrides res) \<Rightarrow> OperatorSpec \<Rightarrow> UnsupportedConfigOverrides option res" where
  "GetUnsupportedConfigOverrides unmarshal operatorSpec =
     (if length (os_UnsupportedConfigOverrides operatorSpec) \<noteq> 0
      then bindR (unmarshal (os_UnsupportedConfigOverrides operatorSpec)) (\<lambda>out. Ok (Some out))
      else Ok None)"

section \<open>Updates\<close>

definition UpdateOperatorSpec ::
  "'c api \<Rightarrow> CertManager res \<Rightarrow> string \<Rightarrow> OperatorSpec \<Rightarrow> ('c, OperatorSpec \<times> string) eff" where
  "UpdateOperatorSpec api cached resourceVersion spec =
     bindM (liftM cached) (\<lambda>original.
     bindM (api_Update api (OCertManager (original\<lparr>cm_Meta := (cm_Meta original)\<lparr>om_ResourceVersion := resourceVersion\<rparr>,
              cm_Spec := (cm_Spec original)\<lparr>cms_OperatorSpec := spec\<rparr>\<rparr>))) (\<lambda>x.
     bindM (liftM (the_certmanager x)) (\<lambda>ret.
     returnM (cms_OperatorSpec (cm_Spec ret), om_ResourceVersion (cm_Meta ret)))))"

definition UpdateOperatorStatus :: "'c api \<Rightarrow> CertManager res \<Rightarrow> string \<Rightarrow> opaque \<Rightarrow> ('c, opaque) eff" where
  "UpdateOperatorStatus api cached resourceVersion status =
     bindM (liftM cached) (\<lambda>original.
     bindM (api_StatusUpdate api (OCertManager (original\<lparr>cm_Meta := (cm_Meta original)\<lparr>om_ResourceVersion := resourceVersion\<rparr>,
              cm_Status := status\<rparr>))) (\<lambda>x.
     bindM (liftM (the_certmanager x)) (\<lambda>ret. returnM (cm_Status ret))))"

definition saveFinalizers :: "'c api \<Rightarrow> CertManager \<Rightarrow> string list \<Rightarrow> ('c, unit) eff" where
  "saveFinalizers api instance fs =
     bindM (api_Update api (OCertManager (instance\<lparr>cm_Meta := (cm_Meta instance)\<lparr>om_Finalizers := fs\<rparr>\<rparr>))) (\<lambda>_. returnM ())"

definition EnsureFinalizer :: "'c api \<Rightarrow> CertManager res \<Rightarrow> string \<Rightarrow> ('c, unit) eff" where
  "EnsureFinalizer api cached finalizer =
     bindM (liftM cached) (\<lambda>i.
       let fs = om_Finalizers (cm_Meta i)
       in if List.member fs finalizer then returnM () else saveFinalizers api i (fs @ [finalizer]))"

definition oc_RemoveFinalizer :: "'c api \<Rightarrow> CertManager res \<Rightarrow> string \<Rightarrow> ('c, unit) eff" where
  "oc_RemoveFinalizer api cached finalizer =
     bindM (liftM cached) (\<lambda>i.
       let fs = om_Finalizers (cm_Meta i); newFinalizers = filter (\<lambda>f. f \<noteq> finalizer) fs
       in if \<not> List.member fs finalizer then returnM () else saveFinalizers api i newFinalizers)"

section \<open>Applying a status\<close>

record OperatorConditionApply =
  oc_Type :: "string option"
  oc_Status :: "string option"
  oc_LastTransitionTime :: "int option"
  oc_Reason :: "string option"
  oc_Message :: "string option"

record GenerationStatusApply =
  gs_Group :: "string option"
  gs_Resource :: "string option"
  gs_Namespace :: "string option"
  gs_Name :: "string option"
  gs_rest :: opaque

record OperatorStatusApply =
  oa_Conditions :: "OperatorConditionApply slice"
  oa_Generations :: "GenerationStatusApply slice"
  oa_rest :: opaque

record 'c operator_env =
  oe_Now :: int
  oe_ExtractStatus :: "CertManager \<Rightarrow> string \<Rightarrow> OperatorStatusApply option res"
  oe_Marshal :: "OperatorStatusApply \<Rightarrow> string res"
  oe_Unmarshal :: "string \<Rightarrow> OperatorStatusApply res"
  oe_ApplyStatus :: "string \<Rightarrow> OperatorStatusApply \<Rightarrow> ('c, unit) eff"

definition Deref :: "string option \<Rightarrow> string" where
  "Deref p = (case p of None \<Rightarrow> '''' | Some s \<Rightarrow> s)"

definition FindApplyCondition :: "OperatorConditionApply list \<Rightarrow> string option \<Rightarrow> OperatorConditionApply option" where
  "FindApplyCondition haystack conditionType = List.find (\<lambda>c. oc_Type c = conditionType) haystack"

definition transitionTime :: "int \<Rightarrow> OperatorConditionApply list \<Rightarrow> OperatorConditionApply \<Rightarrow> OperatorConditionApply" where
  "transitionTime now oldConditions newCondition =
     (let c = (case FindApplyCondition oldConditions (oc_Type newCondition) of
                 Some existing \<Rightarrow> if oc_Status existing = oc_Status newCondition
                   then newCondition\<lparr>oc_LastTransitionTime := oc_LastTransitionTime existing\<rparr> else newCondition
               | None \<Rightarrow> newCondition)
      in if oc_LastTransitionTime c = None then c\<lparr>oc_LastTransitionTime := Some now\<rparr> else c)"

definition SetApplyConditionsLastTransitionTime ::
  "int \<Rightarrow> OperatorConditionApply slice \<Rightarrow> OperatorConditionApply list \<Rightarrow> OperatorConditionApply slice" where
  "SetApplyConditionsLastTransitionTime now newConditions oldConditions =
     map_option (map (transitionTime now oldConditions)) newConditions"

definition generationKeys :: "GenerationStatusApply \<Rightarrow> string list" where
  "generationKeys g = [Deref (gs_Group g), Deref (gs_Resource g), Deref (gs_Namespace g), Deref (gs_Name g)]"

definition CanonicalizeOperatorStatus :: "OperatorStatusApply \<Rightarrow> OperatorStatusApply" where
  "CanonicalizeOperatorStatus s = s\<lparr>oa_Conditions := map_option (sort_key (\<lambda>c. Deref (oc_Type c))) (oa_Conditions s),
     oa_Generations := map_option (sort_key generationKeys) (oa_Generations s)\<rparr>"

text \<open>\<open>equality.Semantic.DeepEqual\<close>: a nil slice equals an empty one.\<close>

definition statusEqual :: "OperatorStatusApply \<Rightarrow> OperatorStatusApply \<Rightarrow> bool" where
  "statusEqual a b \<longleftrightarrow> elems (oa_Conditions a) = elems (oa_Conditions b) \<and>
     elems (oa_Generations a) = elems (oa_Generations b) \<and> oa_rest a = oa_rest b"

definition emptyStatus :: OperatorStatusApply where
  "emptyStatus = \<lparr>oa_Conditions = None, oa_Generations = None, oa_rest = ''''\<rparr>"

definition sendStatus :: "'c operator_env \<Rightarrow> string \<Rightarrow> OperatorStatusApply \<Rightarrow> ('c, unit) eff" where
  "sendStatus e fieldManager desired =
     wrapM (''unable to Apply for operator using fieldManager '' @ quoted fieldManager @ '': '') (oe_ApplyStatus e fieldManager desired)"

definition previousStatus :: "'c operator_env \<Rightarrow> string \<Rightarrow> CertManager \<Rightarrow> OperatorStatusApply res" where
  "previousStatus e fieldManager i =
     bindR (wrapR ''unable to extract operator configuration: '' (oe_ExtractStatus e i fieldManager)) (\<lambda>previous.
     case previous of
       None \<Rightarrow> Ok emptyStatus
     | Some s \<Rightarrow>
         bindR (wrapR ''unable to serialize operator configuration: '' (oe_Marshal e s)) (\<lambda>jsonBytes.
         wrapR ''unable to deserialize operator configuration: '' (oe_Unmarshal e jsonBytes)))"

text \<open>What is sent given the status the manager owns now.\<close>

definition desiredStatus :: "int \<Rightarrow> OperatorStatusApply \<Rightarrow> OperatorStatusApply \<Rightarrow> OperatorStatusApply" where
  "desiredStatus now operatorStatus d =
     CanonicalizeOperatorStatus (if oa_Conditions d \<noteq> None
       then d\<lparr>oa_Conditions := SetApplyConditionsLastTransitionTime now (oa_Conditions d) (elems (oa_Conditions operatorStatus))\<rparr>
       else d)"

definition ApplyOperatorStatus ::
  "'c api \<Rightarrow> 'c operator_env \<Rightarrow> string \<Rightarrow> OperatorStatusApply option \<Rightarrow> ('c, unit) eff" where
  "ApplyOperatorStatus api e fieldManager desiredConfiguration = (case desiredConfiguration of
      None \<Rightarrow> failM (ErrNew ''applyConfiguration must have a value'')
    | Some d \<Rightarrow>
        bindM (attemptM (api_Get api KCertManager clusterKey)) (\<lambda>r. case r of
          Panic p \<Rightarrow> panicM p
        | Err err \<Rightarrow>
            if IsNotFound (Some err) then
              sendStatus e fieldManager (d\<lparr>oa_Conditions := SetApplyConditionsLastTransitionTime (oe_Now e) (oa_Conditions d) []\<rparr>)
            else failM (ErrWrap ''unable to get operator configuration: '' err)
        | Ok x \<Rightarrow>
            bindM (liftM (the_certmanager x)) (\<lambda>i.
            bindM (liftM (previousStatus e fieldManager i)) (\<lambda>operatorStatus.
              let desired = desiredStatus (oe_Now e) operatorStatus d
              in if statusEqual (CanonicalizeOperatorStatus operatorStatus) desired then returnM ()
                 else sendStatus e fieldManager desired))))"

section \<open>default_cert_manager_controller.go\<close>

definition createDefaultCertManager :: "'c api \<Rightarrow> ('c, CertManager) eff" where
  "createDefaultCertManager api =
     bindM (api_Create api (OCertManager \<lparr>cm_Meta = empty_meta\<lparr>om_Name := ''cluster''\<rparr>,
        cm_Spec = CertManagerSpec.make \<lparr>os_ManagementState = ''Managed'', os_LogLevel = '''', os_UnsupportedConfigOverrides = '''', os_rest = ''''\<rparr>
          None None None '''' None,
        cm_Status = ''''\<rparr>)) (\<lambda>x. liftM (the_certmanager x))"

definition defaultCertManager_sync :: "'c api \<Rightarrow> CertManager res \<Rightarrow> (('c, 'x) world_scheme, unit) eff" where
  "defaultCertManager_sync api cached = (case GetOperatorState cached of
      Ok _ \<Rightarrow> returnM ()
    | Panic p \<Rightarrow> panicM p
    | Err err \<Rightarrow>
        if IsNotFound (Some err) then
          seqM (Eventf ''Normal'' ''StatusNotFound'' (''Creating '' @ quoted ''cluster'' @ '' certmanager''))
            (bindM (onCluster (createDefaultCertManager api)) (\<lambda>_. returnM ()))
        else failM err)"

text \<open>Two operations of the interface do nothing.\<close>

definition ApplyOperatorSpec :: "string \<Rightarrow> opaque \<Rightarrow> ('c, unit) eff" where
  "ApplyOperatorSpec fieldManager applyConfiguration = returnM ()"

definition PatchOperatorStatus :: "opaque \<Rightarrow> ('c, unit) eff" where
  "PatchOperatorStatus jsonPatch = returnM ()"

section \<open>Status writes settle\<close>

lemma transitionTime_keeps [simp]:
  "oc_Type (transitionTime now old c) = oc_Type c" "oc_Status (transitionTime now old c) = oc_Status c"
  "oc_LastTransitionTime (transitionTime now old c) \<noteq> None"
  by (auto simp: transitionTime_def Let_def split: option.splits)

text \<open>The time moves exactly when the status changes.\<close>

lemma transitionTime_same_status:
  "FindApplyCondition old (oc_Type c) = Some x \<Longrightarrow> oc_Status x = oc_Status c \<Longrightarrow> oc_LastTransitionTime x = Some t \<Longrightarrow>
   oc_LastTransitionTime (transitionTime now old c) = Some t"
  by (simp add: transitionTime_def)

lemma transitionTime_new_status:
  "FindApplyCondition old (oc_Type c) = Some x \<Longrightarrow> oc_Status x \<noteq> oc_Status c \<Longrightarrow> oc_LastTransitionTime c = None \<Longrightarrow>
   oc_LastTransitionTime (transitionTime now old c) = Some now"
  by (simp add: transitionTime_def)

lemma FindApplyCondition_mem:
  assumes "distinct (map oc_Type cs)" "x \<in> set cs"
  shows "FindApplyCondition cs (oc_Type x) = Some x"
  using assms by (induction cs) (auto simp: FindApplyCondition_def image_iff)

lemma transitionTime_known:
  "FindApplyCondition cs (oc_Type c) = Some x \<Longrightarrow> oc_Status x = oc_Status c \<Longrightarrow> oc_LastTransitionTime x \<noteq> None \<Longrightarrow>
   transitionTime now cs c = c\<lparr>oc_LastTransitionTime := oc_LastTransitionTime x\<rparr>"
  by (auto simp: transitionTime_def)

lemma transitionTime_settled:
  assumes "distinct (map oc_Type cs)" "transitionTime now old c \<in> set cs"
  shows "transitionTime now' cs c = transitionTime now old c"
proof -
  let ?x = "transitionTime now old c"
  have "FindApplyCondition cs (oc_Type c) = Some ?x" using FindApplyCondition_mem [OF assms] by simp
  then have "transitionTime now' cs c = c\<lparr>oc_LastTransitionTime := oc_LastTransitionTime ?x\<rparr>"
    by (rule transitionTime_known) simp_all
  also have "\<dots> = ?x" by (auto simp: transitionTime_def Let_def split: option.splits)
  finally show ?thesis .
qed

lemma sort_key_twice: "sort_key f (sort_key f xs) = sort_key f xs"
  by (simp add: sort_key_id_if_sorted)

lemma distinct_sorted_types: "distinct (map f xs) \<Longrightarrow> distinct (map f (sort_key g xs))"
  by (simp add: distinct_map)

lemma Canonicalize_idem [simp]: "CanonicalizeOperatorStatus (CanonicalizeOperatorStatus s) = CanonicalizeOperatorStatus s"
  by (simp add: CanonicalizeOperatorStatus_def option.map_comp comp_def sort_key_twice)

lemma desiredStatus_settled:
  assumes "distinct (map oc_Type (elems (oa_Conditions d)))"
  shows "desiredStatus now' (desiredStatus now old d) d = desiredStatus now old d"
proof (cases "oa_Conditions d")
  case (Some cs)
  let ?f = "transitionTime now (elems (oa_Conditions old))"
  let ?cs = "sort_key (\<lambda>c. Deref (oc_Type c)) (map ?f cs)"
  have e: "oa_Conditions (desiredStatus now old d) = Some ?cs"
    using Some by (simp add: desiredStatus_def CanonicalizeOperatorStatus_def SetApplyConditionsLastTransitionTime_def)
  have "distinct (map oc_Type (map ?f cs))" using assms Some by (simp add: comp_def)
  then have "distinct (map oc_Type ?cs)" by (rule distinct_sorted_types)
  then have "transitionTime now' ?cs c = ?f c" if "c \<in> set cs" for c
    using that by (intro transitionTime_settled) auto
  then have settled: "map (transitionTime now' ?cs) cs = map ?f cs" by simp
  have "desiredStatus now' (desiredStatus now old d) d = CanonicalizeOperatorStatus
      (d\<lparr>oa_Conditions := Some (map (transitionTime now' (elems (oa_Conditions (desiredStatus now old d)))) cs)\<rparr>)"
    using Some by (simp add: desiredStatus_def [of now'] SetApplyConditionsLastTransitionTime_def)
  also have "\<dots> = CanonicalizeOperatorStatus (d\<lparr>oa_Conditions := Some (map ?f cs)\<rparr>)"
    unfolding e by (simp add: settled del: map_eq_conv)
  also have "\<dots> = desiredStatus now old d"
    using Some by (simp add: desiredStatus_def SetApplyConditionsLastTransitionTime_def)
  finally show ?thesis .
qed (simp add: desiredStatus_def)

text \<open>
  Once the status has been applied, and the server shows the manager what it applied, the same status is not
  sent again however much time has passed: the controllers do not keep the API server busy.
\<close>

lemma ApplyOperatorStatus_settled:
  assumes "distinct (map oc_Type (elems (oa_Conditions d)))"
    and "api_Get api KCertManager clusterKey s = (Ok (OCertManager i), s')"
    and "previousStatus e fieldManager i = Ok (desiredStatus now old d)"
  shows "ApplyOperatorStatus api e fieldManager (Some d) s = (Ok (), s')"
proof -
  have "CanonicalizeOperatorStatus (desiredStatus now old d) = desiredStatus now old d" by (simp add: desiredStatus_def)
  with assms desiredStatus_settled [OF assms(1)] show ?thesis
    by (simp add: ApplyOperatorStatus_def eff_defs the_certmanager_def statusEqual_def Let_def)
qed

section \<open>Finalizers\<close>

lemma kind_certmanager: "kind_of x = KCertManager \<Longrightarrow> \<exists>i. x = OCertManager i"
  by (cases x) simp_all

lemma same_content_finalizers: "same_content x y \<Longrightarrow> om_Finalizers (meta_of x) = om_Finalizers (meta_of y)"
proof -
  assume "same_content x y"
  then have "om_Finalizers (meta_of (upd_meta plain_meta x)) = om_Finalizers (meta_of (upd_meta plain_meta y))"
    by (simp only: same_content_def)
  then show ?thesis by (simp add: plain_meta_def)
qed

context api_server
begin

lemma saveFinalizers_result:
  assumes "saveFinalizers api i fs s = (Ok (), s')"
  shows "if om_DeletionTimestamp (cm_Meta i) \<noteq> None \<and> fs = [] then stored s' KCertManager (ObjectKeyFromObject (OCertManager i)) = None
     else \<exists>i'. stored s' KCertManager (ObjectKeyFromObject (OCertManager i)) = Some (OCertManager i') \<and> om_Finalizers (cm_Meta i') = fs"
proof -
  let ?x = "OCertManager (i\<lparr>cm_Meta := (cm_Meta i)\<lparr>om_Finalizers := fs\<rparr>\<rparr>)"
  from assms obtain y where y: "api_Update api ?x s = (Ok y, s')" by (auto simp: saveFinalizers_def bindM_eq_Ok_iff)
  from update_result [OF y] obtain old where
    same: "same_content (keep_status old ?x) y" and old: "stored s KCertManager (ObjectKeyFromObject ?x) = Some old"
    and st: "stored s' KCertManager (ObjectKeyFromObject ?x) = (if released ?x then None else Some y)" by auto
  from stored_kind [OF old] kind_certmanager obtain o' where o': "old = OCertManager o'" by blast
  from same_content_kind [OF same] kind_certmanager obtain i' where i': "y = OCertManager i'" by (force simp: o')
  with same_content_finalizers [OF same] have "om_Finalizers (cm_Meta i') = fs" by (simp add: o')
  with st i' show ?thesis by (auto simp: released_def ObjectKeyFromObject_def)
qed

text \<open>
  With a cache that shows the stored object: afterwards the finalizer is there; removal takes every copy
  of it, keeps the others in order, and lets an object marked for deletion go with its last one.
\<close>

lemma EnsureFinalizer_result:
  assumes "EnsureFinalizer api (Ok i) finalizer s = (Ok (), s')" "stored s KCertManager (ObjectKeyFromObject (OCertManager i)) = Some (OCertManager i)"
  shows "\<exists>i'. stored s' KCertManager (ObjectKeyFromObject (OCertManager i)) = Some (OCertManager i') \<and>
     om_Finalizers (cm_Meta i') = (if finalizer \<in> set (om_Finalizers (cm_Meta i)) then om_Finalizers (cm_Meta i)
        else om_Finalizers (cm_Meta i) @ [finalizer])"
proof (cases "finalizer \<in> set (om_Finalizers (cm_Meta i))")
  case False
  with assms(1) have "saveFinalizers api i (om_Finalizers (cm_Meta i) @ [finalizer]) s = (Ok (), s')"
    by (simp add: EnsureFinalizer_def eff_defs Let_def)
  from saveFinalizers_result [OF this] False show ?thesis by simp
qed (use assms in \<open>auto simp: EnsureFinalizer_def eff_defs Let_def\<close>)

lemma RemoveFinalizer_result:
  assumes "oc_RemoveFinalizer api (Ok i) finalizer s = (Ok (), s')" "finalizer \<in> set (om_Finalizers (cm_Meta i))"
  shows "if om_DeletionTimestamp (cm_Meta i) \<noteq> None \<and> set (om_Finalizers (cm_Meta i)) \<subseteq> {finalizer}
     then stored s' KCertManager (ObjectKeyFromObject (OCertManager i)) = None
     else \<exists>i'. stored s' KCertManager (ObjectKeyFromObject (OCertManager i)) = Some (OCertManager i') \<and>
       om_Finalizers (cm_Meta i') = filter (\<lambda>f. f \<noteq> finalizer) (om_Finalizers (cm_Meta i))"
proof -
  from assms have save: "saveFinalizers api i (filter (\<lambda>f. f \<noteq> finalizer) (om_Finalizers (cm_Meta i))) s = (Ok (), s')"
    by (simp add: oc_RemoveFinalizer_def eff_defs Let_def)
  have "filter (\<lambda>f. f \<noteq> finalizer) (om_Finalizers (cm_Meta i)) = [] \<longleftrightarrow> set (om_Finalizers (cm_Meta i)) \<subseteq> {finalizer}"
    by (auto simp: filter_empty_conv)
  with saveFinalizers_result [OF save] show ?thesis by (simp only: )
qed

text \<open>The default resource appears when there is none, and an existing one is never touched.\<close>

lemma defaultCertManager_created:
  assumes "defaultCertManager_sync api (Err err) w = (Ok (), w')"
  shows "IsNotFound (Some err) \<and> (\<exists>i. stored (w_cluster w') KCertManager clusterKey = Some (OCertManager i) \<and>
     os_ManagementState (cms_OperatorSpec (cm_Spec i)) = ''Managed'') \<and> stored (w_cluster w) KCertManager clusterKey = None"
proof -
  let ?m = "empty_meta\<lparr>om_Name := ''cluster''\<rparr>"
  let ?sp = "CertManagerSpec.make \<lparr>os_ManagementState = ''Managed'', os_LogLevel = '''', os_UnsupportedConfigOverrides = '''', os_rest = ''''\<rparr>
          None None None '''' None"
  from assms obtain y c where nf: "IsNotFound (Some err)"
    and y: "api_Create api (OCertManager \<lparr>cm_Meta = ?m, cm_Spec = ?sp, cm_Status = ''''\<rparr>) (w_cluster w) = (Ok y, c)" "w_cluster w' = c"
    by (auto simp: defaultCertManager_sync_def GetOperatorState_def createDefaultCertManager_def eff_defs onCluster_def
        Eventf_def split: prod.splits res.splits if_splits)
  from create_Ok [OF y(1)] have same: "same_content (OCertManager \<lparr>cm_Meta = ?m, cm_Spec = ?sp, cm_Status = ''''\<rparr>) y"
    and key: "ObjectKeyFromObject y = clusterKey" and st: "stored c KCertManager clusterKey = Some y"
    "stored (w_cluster w) KCertManager clusterKey = None"
    by (auto simp: ObjectKeyFromObject_def clusterKey_def empty_meta_def)
  from same_content_kind [OF same] kind_certmanager obtain i where i: "y = OCertManager i" by force
  with same have "cm_Spec i = ?sp" by (cases i) (simp add: same_content_def)
  with st i y(2) nf show ?thesis by (auto simp: CertManagerSpec.make_def)
qed

lemma defaultCertManager_present: "defaultCertManager_sync api (Ok i) w = (Ok (), w)"
  by (simp add: defaultCertManager_sync_def GetOperatorState_def)

end

end
