(* ===== verification/Spec2Isabelle.thy ===== *)
theory Spec2Isabelle
  imports TLS_Profile Conditions CM_Properties Operator_Startup IC_Liveness TM_Properties Operator_Client
begin

text \<open>
  \<^bold>\<open>cert-manager-operator\<close>: a shallow embedding of the operator's own Go code with the theorems that make it correct.
  Paths below are relative to \<open>src/\<close>.

  \<^bold>\<open>The program.\<close>  The operator installs three operands on an OpenShift cluster and keeps them as configured.
  cert-manager itself is driven by a set of library-go controllers under \<open>pkg/controller/certmanager\<close>: a deployment
  controller reads a manifest and passes it through a pipeline of hooks that merge in the overrides of the
  \<open>CertManager\<close> resource, validate them, and add images, log level, proxy, trusted CA, credentials and TLS
  settings; smaller controllers apply network policies, console samples and the default resource.  istio-csr and
  trust-manager are driven by controller-runtime reconcilers under \<open>pkg/controller/istiocsr\<close> and
  \<open>pkg/controller/trustmanager\<close>: \<open>Reconcile\<close> fetches the custom resource, keeps its finalizer, runs an installation
  sequence that creates or updates each object of the operand, and records the outcome in conditions.
  Both share \<open>pkg/controller/common\<close> (client, errors, validation, arguments, result handling) and \<open>pkg/tlsprofile\<close>.
  \<open>pkg/operator\<close> starts all of it, with feature gates and API discovery.

  \<^bold>\<open>How Go is modelled\<close> (theories Prelude, Effects).  Slices and maps that may be nil are options of lists and of
  association lists, so that nil and empty stay apart where \<open>reflect.DeepEqual\<close> tells them apart; structures of other
  libraries of which the code reads nothing are strings.  Errors are the datatype \<open>goerror\<close> with its wrapping
  (Recon_Errors); a function returns \<open>Ok\<close>, \<open>Err\<close> or \<open>Panic\<close>.  A function with effects maps the state
  before it to its result and the state after it, which stays changed when it fails; the state is the cluster
  behind the client, the recorded events and the custom resource the reconciler holds in memory.  Iteration
  over a map is shown not to depend on the order where the code's result could.  Log output is left out.

  \<^bold>\<open>Parameters.\<close>  What is not in the repository, or is generated, is an argument with the laws the code relies on
  as hypotheses: the API server (locale \<open>api_server\<close> with \<open>api_listing\<close> for lists and \<open>api_apply\<close> for server-side
  apply, all interpreted on the in-memory server of theory Client with resource versions, conflicts, generated
  names, finalizers, a status subresource and a schedule of faults), manifest decoding, environment
  variables, PEM and X.509 parsing, the validators of k8s.io/kubernetes, and the clock.

  \<^bold>\<open>Theories and sources.\<close>
  \<^item> Args: \<open>common/container_args.go\<close>.  Recon_Errors: \<open>common/errors.go\<close>.  Conditions: \<open>api/.../conditions.go\<close>,
    \<open>meta.go\<close>, \<open>common/reconcile_result.go\<close>.  Validation: \<open>common/validation.go\<close>,
    \<open>core_validation_helpers.go\<close>.  TLS_Profile: \<open>pkg/tlsprofile\<close>.  Go_Strconv, Go_Encoding: the number parsers, JSON
    strings and SHA-256 of Go's library the code calls.
  \<^item> K8s_Objects, K8s_Resources: the API types, \<open>istiocsr_types.go\<close>, \<open>trustmanager_types.go\<close>, \<open>common/utils.go\<close>;
    Client: \<open>common/client.go\<close>; Watches: the predicates and handlers of controller-runtime.
  \<^item> CM_Overrides, CM_Validation, CM_Pipeline: every deployment hook and their composition
    (\<open>deployment_*.go\<close>, \<open>credentials_request.go\<close>, \<open>related_images.go\<close>, \<open>generic_deployment_controller.go\<close>).
    Resource_Apply, CM_Controllers: network policies and console resources; CM_Controller_Set: the set of controllers;
    Operator_Client: \<open>pkg/operator/operatorclient\<close> and the default resource.
  \<^item> Operator_Startup: \<open>features.go\<close>, \<open>starter.go\<close>, \<open>setup_manager.go\<close>, \<open>utils/apidiscovery.go\<close>.
  \<^item> IC_Objects, IC_Certificates, IC_Status, IC_Deployment, IC_Resources, IC_Controller: the files of
    \<open>pkg/controller/istiocsr\<close>; IC_Frames has what each step leaves alone.
  \<^item> TM_Objects, TM_Resources, TM_Deployment, TM_Controller: the files of \<open>pkg/controller/trustmanager\<close>;
    TM_Frames has what each step establishes and leaves alone, TM_Progress that each step succeeds.

  \<^bold>\<open>What is shown.\<close>
  \<^item> Arguments and overrides: merging is sorted, has one argument per key, prefers the override and does not depend on
    map order (C1, C2; locale \<open>override_merge\<close>, interpreted for arguments, variables, labels and plain maps);
    the same for variables, scheduling and resources (C16--C18).
  \<^item> Pipeline: the precedence of every source of an argument (C13), nothing unsupported is applied (C14), the
    deployment keeps its identity (C15); locales \<open>preserving_hook\<close> and \<open>arg_hook\<close>, interpreted for every hook.  Argument
    validation is exact, with one hole (C19, C20).
  \<^item> Errors and conditions: which API errors are retried (C4, C5), what each outcome writes and how it
    is retried (C6--C8).  TLS: every profile resolves, changes are noticed, client settings are safe
    (C9--C11).  Affinity rules are checked to the leaves (C12).
  \<^item> Network policies: each configured policy is enforced for its component and nothing else changes (C3).
  \<^item> Start-up: gate set-up ends after at most three attempts with the documented result (C21); the cache
    filters are exact (C22).
  \<^item> Client and generic reconcile: a retried update ends after at most five attempts (C23) and reaches the desired
    state (C24).
  \<^item> istio-csr: certificate parameters (C25), CA bundles are validated before use (C26), RBAC names are
    stable (C28), events lead back to their resource (C29--C31), one instance per cluster (C32, C33), deletion
    completes (C34), invalid configuration is not retried (C35), a new instance becomes ready (C36), with its
    network policies in place (C37).
  \<^item> trust-manager: references between its objects resolve (C38), its cluster role grants no more than configured
    on secrets (C39).
  \<^item> Faults of the code, as theorems: C20, C27, C31, C40 and the lemmas \<open>webhook_reapplied\<close>, \<open>aggregate_label_leaks\<close> and
    \<open>userPolicy_name_length\<close>.
  \<^item> Beyond the numbered properties: an applied operator status is not sent again (\<open>ApplyOperatorStatus_settled\<close>),
    finalizers of the \<open>CertManager\<close> resource, console samples end up as shipped, controllers have distinct names.

  \<^bold>\<open>Bounds.\<close>  Loops are structural recursions over lists.  \<open>RetryOnConflict\<close> has the five steps of
  \<open>retry.DefaultRetry\<close>, the set-up of the feature gates the three attempts of the code.  SHA-256 works on 32-bit words; durations,
  sizes and timestamps, which the code copies, compares and prints, are integers; parsing of 64-bit numbers writes its
  range out.

  \<^bold>\<open>Assumptions of the model.\<close>  A reconciler is the only writer while it runs, up to conflicts the server reports.
  Objects returned by the client share no memory with each other; where the code's own objects do
  (the label map of trust-manager) the model threads the shared map.

  \<^bold>\<open>Not modelled\<close>, and why.  Generated code (deep copies, clientsets, informers, listers, apply configurations, embedded
  manifests): typed access to what the model takes as parameters.  Construction of clients, informers and
  the manager, goroutines and leader election: glue around library-go and controller-runtime.  The sync loops of
  library-go that apply the result of the hooks and of the static manifests: third-party.
  \<open>certmanager_controller.go\<close> has an empty body; no controller reads the approver-policy types.  Fakes, tests and tools are
  not part of the running program.
\<close>

end
